(* ===== verification/Prelude.thy ===== *)
theory Prelude
  imports Main "HOL-Library.Word"
begin

text \<open>
  Shared vocabulary of the development: the machine integers of \<^verbatim>\<open>src/Types.h\<close>, the C++
  exceptions as values, the state-and-exception monad in which the emulator's member functions
  are written, and the proof rules every component uses.

  A member function that may throw and may change the object is a function
  \<open>'s \<Rightarrow> (exn + 'a) \<times> 's\<close>: the exception (\<open>Inl\<close>) or the returned value (\<open>Inr\<close>)
  \<^emph>\<open>together with\<close> the state reached, because a C++ exception does not roll back what was
  written before the throw. A \<^verbatim>\<open>const\<close> function is a plain function, with result
  \<open>exn + 'a\<close> when it may throw.
\<close>

section \<open>Machine integers\<close>

type_synonym u8 = "8 word"
type_synonym u16 = "16 word"
type_synonym u32 = "32 word"
type_synonym u64 = "64 word"
type_synonym regidx = "4 word"

section \<open>Exceptions as values\<close>

text \<open>
  One constructor of \<open>emu_error\<close> per kind of \<^verbatim>\<open>throw EmulatorError(...)\<close> of the sources;
  the payload is what the message prints. \<open>exn\<close> also has the guest's exit, the
  \<^verbatim>\<open>std::out_of_range\<close> of \<^verbatim>\<open>vector::at\<close>, and two markers that no C++ exception stands for:
  \<open>UndefinedBehaviour\<close>, where the C++ standard gives the executed expression no meaning (the
  model stops there), and \<open>Diverges\<close>, where a loop of the source does not end. Theorems show
  where the last three cannot happen.
\<close>

datatype emu_error =
    ZeroSizeMapping
  | MappingOverflow
  | MappingOverlap u64 u64
  | CopyExceedsRegion
  | RegionSizeMismatch
  | UnmappedMemory u64
  | PermissionFault u64
  | UnterminatedString u64
  | Unsupported string
  | DivideByZero u64
  | DivideOverflow u64
  | InvalidSignalFrame u64
  | BadELF string
  | FileError string
  | UnimplementedSyscall u64 string

datatype exn =
    EmulatorError emu_error
  | GuestExit int
  | OutOfRange
  | UndefinedBehaviour
  | Diverges

section \<open>The monad\<close>

type_synonym ('s, 'a) smon = "'s \<Rightarrow> (exn + 'a) \<times> 's"

definition return :: "'a \<Rightarrow> ('s, 'a) smon" where
  "return x = (\<lambda>s. (Inr x, s))"

definition throw :: "exn \<Rightarrow> ('s, 'a) smon" where
  "throw e = (\<lambda>s. (Inl e, s))"

definition bind :: "('s, 'a) smon \<Rightarrow> ('a \<Rightarrow> ('s, 'b) smon) \<Rightarrow> ('s, 'b) smon" where
  "bind m f = (\<lambda>s. case m s of (Inl e, t) \<Rightarrow> (Inl e, t) | (Inr x, t) \<Rightarrow> f x t)"

definition seq :: "('s, 'a) smon \<Rightarrow> ('s, 'b) smon \<Rightarrow> ('s, 'b) smon" where
  "seq m n = bind m (\<lambda>_. n)"

definition gets :: "('s \<Rightarrow> 'a) \<Rightarrow> ('s, 'a) smon" where
  "gets f = (\<lambda>s. (Inr (f s), s))"

definition modify :: "('s \<Rightarrow> 's) \<Rightarrow> ('s, unit) smon" where
  "modify f = (\<lambda>s. (Inr (), f s))"

definition lift_sum :: "('s \<Rightarrow> exn + 'a) \<Rightarrow> ('s, 'a) smon" where
  "lift_sum f = (\<lambda>s. (f s, s))"

definition when_do :: "bool \<Rightarrow> ('s, unit) smon \<Rightarrow> ('s, unit) smon" where
  "when_do b m = (if b then m else return ())"

text \<open>\<^verbatim>\<open>try { m } catch (const EmulatorError&) { h }\<close>: the state of the throw is kept.\<close>

definition catch_emulator_error :: "('s, 'a) smon \<Rightarrow> ('s, 'a) smon \<Rightarrow> ('s, 'a) smon" where
  "catch_emulator_error m h = (\<lambda>s. case m s of
       (Inl (EmulatorError _), t) \<Rightarrow> h t | r \<Rightarrow> r)"

text \<open>Counted loops: \<^verbatim>\<open>for (i = 0; i < n; ++i) body(i)\<close>.\<close>

fun for_loop :: "nat \<Rightarrow> nat \<Rightarrow> (nat \<Rightarrow> ('s, unit) smon) \<Rightarrow> ('s, unit) smon" where
  "for_loop i 0 body = return ()"
| "for_loop i (Suc n) body = seq (body i) (for_loop (Suc i) n body)"

definition sbind :: "'e + 'a \<Rightarrow> ('a \<Rightarrow> 'e + 'b) \<Rightarrow> 'e + 'b" where
  "sbind m f = (case m of Inl e \<Rightarrow> Inl e | Inr x \<Rightarrow> f x)"

subsection \<open>Evaluation rules\<close>

named_theorems monad_defs \<open>definitions of the monad's operations, for evaluating a run\<close>

declare return_def [monad_defs] throw_def [monad_defs] bind_def [monad_defs]
  seq_def [monad_defs] gets_def [monad_defs] modify_def [monad_defs]
  lift_sum_def [monad_defs] when_do_def [monad_defs] catch_emulator_error_def [monad_defs]

lemma bind_return [simp]: "bind (return x) f = f x"
  by (simp add: bind_def return_def)

lemma bind_throw [simp]: "bind (throw e) f = throw e"
  by (simp add: bind_def throw_def)

lemma bind_assoc: "bind (bind m f) g = bind m (\<lambda>x. bind (f x) g)"
  by (rule ext) (simp add: bind_def split: prod.splits sum.splits)

lemma bind_Inr: "m s = (Inr x, t) \<Longrightarrow> bind m f s = f x t"
  by (simp add: bind_def)

lemma bind_Inl: "m s = (Inl e, t) \<Longrightarrow> bind m f s = (Inl e, t)"
  by (simp add: bind_def)

lemma bind_InrE:
  assumes "bind m f s = (Inr y, u)"
  obtains x t where "m s = (Inr x, t)" and "f x t = (Inr y, u)"
  using assms by (auto simp: bind_def split: prod.splits sum.splits)

lemma seq_InrE:
  assumes "seq m n s = (Inr y, u)"
  obtains x t where "m s = (Inr x, t)" and "n t = (Inr y, u)"
  using assms by (auto simp: seq_def elim: bind_InrE)

lemma sbind_Inr [simp]: "sbind (Inr x) f = f x"
  by (simp add: sbind_def)

lemma sbind_Inl [simp]: "sbind (Inl e) f = Inl e"
  by (simp add: sbind_def)

lemma sbind_eq_Inr: "sbind m f = Inr y \<longleftrightarrow> (\<exists>x. m = Inr x \<and> f x = Inr y)"
  by (cases m) auto

section \<open>Invariants of monadic programs\<close>

text \<open>
  \<open>preserves I m\<close>: whatever \<open>m\<close> does, a state that satisfied \<open>I\<close> satisfies it afterwards,
  also when \<open>m\<close> throws. The rules below take a program apart construct by construct; a
  component adds its own operations to the collection \<open>pres\<close>.
\<close>

definition preserves :: "('s \<Rightarrow> bool) \<Rightarrow> ('s, 'a) smon \<Rightarrow> bool" where
  "preserves I m \<longleftrightarrow> (\<forall>s. I s \<longrightarrow> I (snd (m s)))"

named_theorems pres \<open>preservation rules, one per program construct or operation\<close>

lemma preservesI: "(\<And>s. I s \<Longrightarrow> I (snd (m s))) \<Longrightarrow> preserves I m"
  by (simp add: preserves_def)

lemma preservesD: "preserves I m \<Longrightarrow> I s \<Longrightarrow> I (snd (m s))"
  by (simp add: preserves_def)

lemma preserves_return [pres]: "preserves I (return x)"
  by (simp add: preserves_def return_def)

lemma preserves_throw [pres]: "preserves I (throw e)"
  by (simp add: preserves_def throw_def)

lemma preserves_gets [pres]: "preserves I (gets f)"
  by (simp add: preserves_def gets_def)

lemma preserves_lift_sum [pres]: "preserves I (lift_sum f)"
  by (simp add: preserves_def lift_sum_def)

lemma preserves_modify: "(\<And>s. I s \<Longrightarrow> I (f s)) \<Longrightarrow> preserves I (modify f)"
  by (simp add: preserves_def modify_def)

lemma preserves_bind [pres]:
  "preserves I m \<Longrightarrow> (\<And>x. preserves I (f x)) \<Longrightarrow> preserves I (bind m f)"
  unfolding preserves_def bind_def
  by (clarsimp split: prod.splits sum.splits) (metis snd_conv)

lemma preserves_seq [pres]: "preserves I m \<Longrightarrow> preserves I n \<Longrightarrow> preserves I (seq m n)"
  unfolding seq_def by (rule preserves_bind)

lemma preserves_when [pres]: "(b \<Longrightarrow> preserves I m) \<Longrightarrow> preserves I (when_do b m)"
  by (simp add: when_do_def preserves_return)

lemma preserves_if [pres]:
  "(b \<Longrightarrow> preserves I m) \<Longrightarrow> (\<not> b \<Longrightarrow> preserves I n) \<Longrightarrow> preserves I (if b then m else n)"
  by simp

lemma preserves_let [pres]: "(\<And>x. preserves I (f x)) \<Longrightarrow> preserves I (let x = e in f x)"
  by simp

lemma preserves_case_option [pres]:
  "preserves I n \<Longrightarrow> (\<And>x. preserves I (f x)) \<Longrightarrow>
     preserves I (case y of None \<Rightarrow> n | Some x \<Rightarrow> f x)"
  by (cases y) auto

lemma preserves_case_prod [pres]:
  "(\<And>a b. preserves I (f a b)) \<Longrightarrow> preserves I (case p of (a, b) \<Rightarrow> f a b)"
  by (cases p) auto

lemma preserves_catch [pres]:
  "preserves I m \<Longrightarrow> preserves I h \<Longrightarrow> preserves I (catch_emulator_error m h)"
proof (rule preservesI)
  fix s assume m: "preserves I m" and h: "preserves I h" and "I s"
  then have "I (snd (m s))" by (auto dest: preservesD)
  with h show "I (snd (catch_emulator_error m h s))"
    by (cases "m s") (auto simp: catch_emulator_error_def preserves_def split: sum.splits exn.splits)
qed

lemma preserves_for_loop [pres]:
  "(\<And>i. preserves I (body i)) \<Longrightarrow> preserves I (for_loop i n body)"
  by (induction n arbitrary: i) (auto intro: pres)

lemma preserves_conj:
  "preserves I m \<Longrightarrow> preserves J m \<Longrightarrow> preserves (\<lambda>s. I s \<and> J s) m"
  by (simp add: preserves_def)

section \<open>Lists kept in key order\<close>

text \<open>
  Sorting a list does not change what holds between every two of its elements, when that
  relation is symmetric: used for the region list, which the code re-sorts after each change.
\<close>

lemma sorted_wrt_insort_sym:
  assumes "symp R"
  shows "sorted_wrt R (insort_key f x xs) \<longleftrightarrow> (\<forall>y \<in> set xs. R x y) \<and> sorted_wrt R xs"
  using assms by (induction xs) (auto simp: set_insort_key dest: sympD)

lemma sorted_wrt_sort_sym:
  assumes "symp R"
  shows "sorted_wrt R (sort_key f xs) \<longleftrightarrow> sorted_wrt R xs"
  using assms by (induction xs) (auto simp: sorted_wrt_insort_sym)

lemma sorted_wrt_filter_keep: "sorted_wrt R xs \<Longrightarrow> sorted_wrt R (filter P xs)"
  by (rule sorted_wrt_filter)

end
