(* ===== verification/Types.thy ===== *)
theory Types
  imports Prelude
begin

text \<open>
  \<^verbatim>\<open>src/Types.h\<close>: page arithmetic on 64-bit addresses, with the wrap-around of
  \<^verbatim>\<open>value + page_size - 1\<close> kept, and little-endian assembly of machine words from bytes
  (\<^verbatim>\<open>read_unaligned\<close>/\<^verbatim>\<open>write_unaligned\<close>, a \<^verbatim>\<open>memcpy\<close> on the little-endian host).
\<close>

unbundle bit_operations_syntax

definition page_size :: u64 where
  "page_size = 4096"

definition page_align_down :: "u64 \<Rightarrow> u64" where
  "page_align_down v = v AND NOT (page_size - 1)"

definition page_align_up :: "u64 \<Rightarrow> u64" where
  "page_align_up v = (v + page_size - 1) AND NOT (page_size - 1)"

definition page_aligned :: "u64 \<Rightarrow> bool" where
  "page_aligned a \<longleftrightarrow> a AND (page_size - 1) = 0"

text \<open>The bytes of a word, least significant first, and back.\<close>

definition le_bytes :: "nat \<Rightarrow> 'a::len word \<Rightarrow> u8 list" where
  "le_bytes n w = map (\<lambda>i. ucast (drop_bit (8 * i) w)) [0..<n]"

fun le_word :: "u8 list \<Rightarrow> 'a::len word" where
  "le_word [] = 0"
| "le_word (b # bs) = ucast b OR push_bit 8 (le_word bs)"

text \<open>\<^verbatim>\<open>hex(value, width)\<close>: lower-case digits after 0x, padded with zeros.\<close>

definition hex_digit :: "nat \<Rightarrow> char" where
  "hex_digit d = ''0123456789abcdef'' ! d"

fun hex_digits :: "nat \<Rightarrow> string" where
  "hex_digits n =
     (if n < 16 then [hex_digit n] else hex_digits (n div 16) @ [hex_digit (n mod 16)])"

declare hex_digits.simps [simp del]

definition hex_text :: "nat \<Rightarrow> u64 \<Rightarrow> string" where
  "hex_text width v =
     (let digits = hex_digits (unat v) in ''0x'' @ replicate (width - length digits) CHR ''0'' @ digits)"

section \<open>Words as natural numbers\<close>

lemma u64_bound: "unat (x::u64) < 18446744073709551616"
  using unsigned_less [of x] by simp

lemma unat_add_u64:
  "unat (x + y :: u64) =
     (if unat x + unat y < 18446744073709551616 then unat x + unat y
      else unat x + unat y - 18446744073709551616)"
  using unat_plus_if' [of x y] by auto

lemma unat_sub_u64: "y \<le> x \<Longrightarrow> unat (x - y :: u64) = unat x - unat y"
  by (simp add: unat_sub word_le_nat_alt)

lemma unat_sub_wrap: "x < y \<Longrightarrow> unat (x - y :: u64) = unat x + 18446744073709551616 - unat y"
  using unat_sub_if' [of x y] by (simp add: word_le_nat_alt word_less_nat_alt)

lemmas u64_order = word_le_nat_alt word_less_nat_alt

lemma of_nat_unat_u64: "n < 18446744073709551616 \<Longrightarrow> unat (of_nat n :: u64) = n"
  by (simp add: unat_of_nat)

section \<open>Page arithmetic over the natural numbers\<close>

lemma unat_push_drop_page:
  "unat (push_bit 12 (drop_bit 12 x) :: u64) = unat x div 4096 * 4096"
proof -
  have "unat x div 4096 * 4096 < 18446744073709551616"
    by (rule le_less_trans [OF _ u64_bound [of x]]) simp
  then show ?thesis
    by (subst unsigned_push_bit_eq, subst unsigned_drop_bit_eq)
       (simp add: drop_bit_eq_div push_bit_eq_mult take_bit_eq_mod)
qed

lemma page_mask: "page_size - 1 = mask 12"
  by (simp add: page_size_def mask_eq_exp_minus_1)

lemma unat_page_align_down: "unat (page_align_down v) = unat v div 4096 * 4096"
proof -
  have "page_align_down v = push_bit 12 (drop_bit 12 v)"
    unfolding page_align_down_def page_mask by (rule bit_eqI) (auto simp: bit_simps)
  then show ?thesis by (simp only: unat_push_drop_page)
qed

lemma page_align_up_down: "page_align_up v = page_align_down (v + 4095)"
  by (simp add: page_align_up_def page_align_down_def page_size_def add.commute)

lemma unat_page_align_up:
  "unat (page_align_up v) =
     (if unat v + 4095 < 18446744073709551616 then (unat v + 4095) div 4096 * 4096 else 0)"
  using u64_bound [of v] by (simp add: page_align_up_down unat_page_align_down unat_add_u64)

lemma page_aligned_iff: "page_aligned a \<longleftrightarrow> unat a mod 4096 = 0"
proof -
  have "unat (a AND mask 12) = unat a mod 4096"
    by (simp add: take_bit_eq_mask [symmetric] unsigned_take_bit_eq) (simp add: take_bit_eq_mod)
  then show ?thesis
    unfolding page_aligned_def page_mask by (metis unat_eq_zero)
qed

lemma page_aligned_down [simp]: "page_aligned (page_align_down v)"
  by (simp add: page_aligned_iff unat_page_align_down)

lemma page_aligned_up [simp]: "page_aligned (page_align_up v)"
  by (simp add: page_align_up_down)

lemma page_align_down_le: "page_align_down v \<le> v"
  by (simp add: u64_order unat_page_align_down)

lemma page_align_down_aligned: "page_aligned v \<Longrightarrow> page_align_down v = v"
  by (rule word_unat_eq_iff [THEN iffD2]) (auto simp: unat_page_align_down page_aligned_iff)

lemma page_multiple_up:
  "n mod 4096 = 0 \<Longrightarrow> n < 18446744073709551616 \<Longrightarrow>
     n + 4095 < 18446744073709551616 \<and> (n + 4095) div 4096 * 4096 = (n::nat)"
proof -
  assume "n mod 4096 = 0" and lt: "n < 18446744073709551616"
  then obtain k where k: "n = 4096 * k" by (metis dvd_def mod_0_imp_dvd)
  with lt have "k < 4503599627370496" by simp
  then have "k \<le> 4503599627370495" by simp
  with k show ?thesis by simp
qed

lemma page_align_up_aligned: "page_aligned v \<Longrightarrow> page_align_up v = v"
  using page_multiple_up [of "unat v"] u64_bound [of v]
  by (simp add: word_unat_eq_iff unat_page_align_up page_aligned_iff)

lemma page_align_up_ge: "unat v + 4095 < 18446744073709551616 \<Longrightarrow> v \<le> page_align_up v"
  by (simp add: u64_order unat_page_align_up)

lemma page_aligned_add: "page_aligned a \<Longrightarrow> page_aligned b \<Longrightarrow> page_aligned (a + b)"
  by (auto simp: page_aligned_iff unat_add_u64)

lemma page_aligned_diff:
  "page_aligned a \<Longrightarrow> page_aligned b \<Longrightarrow> b \<le> a \<Longrightarrow> page_aligned (a - b)"
  by (auto simp: page_aligned_iff unat_sub_u64)

lemma page_aligned_page_size [simp]: "page_aligned page_size"
  by (simp add: page_aligned_iff page_size_def)

lemma page_aligned_zero [simp]: "page_aligned 0"
  by (simp add: page_aligned_iff)

text \<open>
  Rounding to pages: both roundings give a page boundary, down never exceeds the value, and
  up is the least boundary at or above it, except that an address in the last page of the
  address space (above its start) wraps round to 0.
\<close>

lemma page_rounding_spec:
  "page_aligned (page_align_down v) \<and> page_aligned (page_align_up v) \<and>
   unat (page_align_down v) = 4096 * (unat v div 4096) \<and>
   unat (page_align_up v) =
     (if v \<le> 0xFFFFFFFFFFFFF000 then 4096 * ((unat v + 4095) div 4096) else 0)"
proof -
  have "v \<le> 0xFFFFFFFFFFFFF000 \<longleftrightarrow> unat v + 4095 < 18446744073709551616"
    by (simp add: u64_order) arith
  then show ?thesis by (simp add: unat_page_align_down unat_page_align_up mult.commute)
qed

section \<open>Little-endian words\<close>

lemma length_le_bytes [simp]: "length (le_bytes n w) = n"
  by (simp add: le_bytes_def)

lemma nth_le_bytes: "i < n \<Longrightarrow> le_bytes n w ! i = ucast (drop_bit (8 * i) w)"
  by (simp add: le_bytes_def)

lemma le_bytes_Suc: "le_bytes (Suc n) w = ucast w # le_bytes n (drop_bit 8 w)"
proof -
  have "[0..<Suc n] = 0 # map Suc [0..<n]"
    by (simp add: map_Suc_upt upt_conv_Cons del: upt_Suc)
  then show ?thesis by (simp add: le_bytes_def add.commute del: upt_Suc)
qed

lemma bit_le_word_cons:
  "bit (le_word (b # bs) :: 'a::len word) i \<longleftrightarrow>
     i < LENGTH('a) \<and> (if i < 8 then bit b i else bit (le_word bs :: 'a word) (i - 8))"
  by (auto simp: bit_simps dest: bit_imp_le_length)

lemma le_word_le_bytes: "le_word (le_bytes n w) = take_bit (8 * n) (w :: 'a::len word)"
proof (induction n arbitrary: w)
  case 0
  show ?case by (simp add: le_bytes_def)
next
  case (Suc n)
  show ?case
    unfolding le_bytes_Suc
    by (rule bit_eqI) (auto simp: bit_le_word_cons Suc.IH bit_simps)
qed

lemma le_bytes_le_word:
  "8 * length bs \<le> LENGTH('a::len) \<Longrightarrow> le_bytes (length bs) (le_word bs :: 'a word) = bs"
proof (induction bs)
  case Nil
  show ?case by (simp add: le_bytes_def)
next
  case (Cons b bs)
  have hd: "ucast (le_word (b # bs) :: 'a word) = b"
    using Cons.prems by (intro bit_eqI) (auto simp: bit_simps bit_le_word_cons simp del: le_word.simps)
  have "drop_bit 8 (le_word (b # bs)) = (take_bit (LENGTH('a) - 8) (le_word bs) :: 'a word)"
    using Cons.prems
    by (intro bit_eqI) (auto simp: bit_simps bit_le_word_cons simp del: le_word.simps)
  moreover have "le_bytes (length bs) (take_bit (LENGTH('a) - 8) w) = le_bytes (length bs) w"
    for w :: "'a word"
    using Cons.prems
    by (intro nth_equalityI) (auto simp: nth_le_bytes intro!: bit_eqI simp: bit_simps)
  ultimately show ?case
    using Cons hd by (simp add: le_bytes_Suc del: le_word.simps)
qed

end
