(* ===== verification/Shadow.thy ===== *)
theory Shadow
  imports Types
begin

text \<open>
  \<^verbatim>\<open>src/ValueWithShadow.h\<close>: a value together with its initialisation shadow, with the
  convention that shadow 0 means initialised and any set bit uninitialised, and the taint
  helpers that combine the shadows of an instruction's sources.
\<close>

record 'w value_with_shadow =
  vs_value :: 'w
  vs_shadow :: 'w

definition vs_initialized :: "'a::len word \<Rightarrow> 'a word value_with_shadow" where
  "vs_initialized v = \<lparr>vs_value = v, vs_shadow = 0\<rparr>"

definition vs_uninitialized :: "'a::len word \<Rightarrow> 'a word value_with_shadow" where
  "vs_uninitialized v = \<lparr>vs_value = v, vs_shadow = NOT 0\<rparr>"

definition is_initialized :: "'a::len word value_with_shadow \<Rightarrow> bool" where
  "is_initialized v \<longleftrightarrow> vs_shadow v = 0"

definition is_uninitialized :: "'a::len word value_with_shadow \<Rightarrow> bool" where
  "is_uninitialized v \<longleftrightarrow> vs_shadow v \<noteq> 0"

definition shadow_wrap_with_taint :: "'a::len word \<Rightarrow> bool \<Rightarrow> 'a word value_with_shadow" where
  "shadow_wrap_with_taint v tainted = (if tainted then vs_uninitialized v else vs_initialized v)"

definition shadow_wrap_with_taint_from2 ::
  "'t::len word \<Rightarrow> 'a::len word value_with_shadow \<Rightarrow> 'b::len word value_with_shadow \<Rightarrow>
   't word value_with_shadow" where
  "shadow_wrap_with_taint_from2 v a b =
     shadow_wrap_with_taint v (is_uninitialized a \<or> is_uninitialized b)"

lemma vs_initialized_simps [simp]:
  "vs_value (vs_initialized v) = v" "vs_shadow (vs_initialized v) = 0"
  "is_initialized (vs_initialized v)" "\<not> is_uninitialized (vs_initialized v)"
  by (simp_all add: vs_initialized_def is_initialized_def is_uninitialized_def)

lemma vs_uninitialized_simps [simp]:
  "vs_value (vs_uninitialized v) = v"
  "\<not> is_initialized (vs_uninitialized v)" "is_uninitialized (vs_uninitialized v)"
  by (simp_all add: vs_uninitialized_def is_initialized_def is_uninitialized_def)

lemma is_uninitialized_iff: "is_uninitialized v \<longleftrightarrow> \<not> is_initialized v"
  by (simp add: is_initialized_def is_uninitialized_def)

end
