(* ===== verification/SoftMMU.thy ===== *)
theory SoftMMU
  imports Shadow
begin

text \<open>
  \<^verbatim>\<open>src/SoftMMU.h\<close> and \<^verbatim>\<open>src/SoftMMU.cpp\<close>: the guest address space as a list of regions.
  A region is a \<open>region\<close> record; the two C++ subclasses, whose byte accessors are the same
  code, are told apart by \<open>r_kind\<close>. A C++ reference into \<^verbatim>\<open>m_regions\<close> is the first region
  that contains the address. The accesses that call an observer are in theory
  \<^verbatim>\<open>GuestMemory\<close>; everything else of the class is here.
\<close>

section \<open>Regions\<close>

definition ProtRead :: u32 where "ProtRead = 1"

definition ProtWrite :: u32 where "ProtWrite = 2"

definition ProtExecute :: u32 where "ProtExecute = 4"

datatype region_kind =
    SimpleRegion
  | MmapRegion "string option" u64

record region =
  r_base :: u64
  r_size :: u64
  r_prot :: u32
  r_name :: string
  r_kind :: region_kind
  r_bytes :: "u8 list"
  r_init :: "bool list"

definition region_end :: "region \<Rightarrow> u64" where
  "region_end r = r_base r + r_size r"

definition region_contains :: "region \<Rightarrow> u64 \<Rightarrow> bool" where
  "region_contains r address \<longleftrightarrow> r_base r \<le> address \<and> address < region_end r"

definition readable :: "region \<Rightarrow> bool" where
  "readable r \<longleftrightarrow> r_prot r AND ProtRead \<noteq> 0"

definition writable :: "region \<Rightarrow> bool" where
  "writable r \<longleftrightarrow> r_prot r AND ProtWrite \<noteq> 0"

definition executable :: "region \<Rightarrow> bool" where
  "executable r \<longleftrightarrow> r_prot r AND ProtExecute \<noteq> 0"

definition new_simple_region :: "u64 \<Rightarrow> u64 \<Rightarrow> u32 \<Rightarrow> string \<Rightarrow> region" where
  "new_simple_region base sz prot name =
     \<lparr>r_base = base, r_size = sz, r_prot = prot, r_name = name, r_kind = SimpleRegion,
      r_bytes = replicate (unat sz) 0, r_init = replicate (unat sz) True\<rparr>"

definition new_simple_region_bytes ::
  "u64 \<Rightarrow> u64 \<Rightarrow> u32 \<Rightarrow> string \<Rightarrow> u8 list \<Rightarrow> exn + region" where
  "new_simple_region_bytes base sz prot name bytes =
     (if length bytes \<noteq> unat sz then Inl (EmulatorError RegionSizeMismatch)
      else Inr \<lparr>r_base = base, r_size = sz, r_prot = prot, r_name = name, r_kind = SimpleRegion,
                r_bytes = bytes, r_init = replicate (unat sz) True\<rparr>)"

definition new_mmap_region ::
  "u64 \<Rightarrow> u64 \<Rightarrow> u32 \<Rightarrow> string \<Rightarrow> string option \<Rightarrow> u64 \<Rightarrow> region" where
  "new_mmap_region base sz prot name path file_offset =
     \<lparr>r_base = base, r_size = sz, r_prot = prot, r_name = name,
      r_kind = MmapRegion path file_offset,
      r_bytes = replicate (unat sz) 0, r_init = replicate (unat sz) True\<rparr>"

definition new_mmap_region_bytes ::
  "u64 \<Rightarrow> u64 \<Rightarrow> u32 \<Rightarrow> string \<Rightarrow> string option \<Rightarrow> u64 \<Rightarrow> u8 list \<Rightarrow> exn + region" where
  "new_mmap_region_bytes base sz prot name path file_offset bytes =
     (if length bytes \<noteq> unat sz then Inl (EmulatorError RegionSizeMismatch)
      else Inr \<lparr>r_base = base, r_size = sz, r_prot = prot, r_name = name,
                r_kind = MmapRegion path file_offset,
                r_bytes = bytes, r_init = replicate (unat sz) True\<rparr>)"

text \<open>The byte accessors; \<^verbatim>\<open>vector::at\<close> throws \<open>OutOfRange\<close>.\<close>

definition read_offset :: "region \<Rightarrow> u64 \<Rightarrow> exn + u8" where
  "read_offset r offset =
     (if unat offset < length (r_bytes r) then Inr (r_bytes r ! unat offset) else Inl OutOfRange)"

definition is_offset_initialized :: "region \<Rightarrow> u64 \<Rightarrow> exn + bool" where
  "is_offset_initialized r offset =
     (if unat offset < length (r_init r) then Inr (r_init r ! unat offset) else Inl OutOfRange)"

definition read_offset_with_shadow :: "region \<Rightarrow> u64 \<Rightarrow> exn + u8 value_with_shadow" where
  "read_offset_with_shadow r offset =
     sbind (read_offset r offset) (\<lambda>v.
     sbind (is_offset_initialized r offset) (\<lambda>i.
     Inr (if i then vs_initialized v else vs_uninitialized v)))"

definition set_offset_initialized :: "u64 \<Rightarrow> bool \<Rightarrow> (region, unit) smon" where
  "set_offset_initialized offset initialized = (\<lambda>r.
     if unat offset < length (r_init r)
     then (Inr (), r\<lparr>r_init := (r_init r)[unat offset := initialized]\<rparr>)
     else (Inl OutOfRange, r))"

definition write_offset :: "u64 \<Rightarrow> u8 \<Rightarrow> bool \<Rightarrow> (region, unit) smon" where
  "write_offset offset v initialized = (\<lambda>r.
     if unat offset < length (r_bytes r)
     then set_offset_initialized offset initialized (r\<lparr>r_bytes := (r_bytes r)[unat offset := v]\<rparr>)
     else (Inl OutOfRange, r))"

text \<open>
  \<^verbatim>\<open>clone_slice\<close> builds the new buffer from two iterators; iterators outside the old
  buffer are undefined behaviour. The copy loop of the shadow vector is the slice itself.
\<close>

definition slice :: "u64 \<Rightarrow> u64 \<Rightarrow> 'a list \<Rightarrow> 'a list" where
  "slice offset new_size xs = take (unat new_size) (drop (unat offset) xs)"

definition simple_clone_slice :: "region \<Rightarrow> u64 \<Rightarrow> u64 \<Rightarrow> u64 \<Rightarrow> exn + region" where
  "simple_clone_slice r new_base offset new_size =
     (if unat offset + unat new_size > length (r_bytes r)
         \<or> unat offset + unat new_size > length (r_init r) then Inl UndefinedBehaviour
      else sbind (new_simple_region_bytes new_base new_size (r_prot r) (r_name r)
                    (slice offset new_size (r_bytes r)))
             (\<lambda>clone. Inr (clone\<lparr>r_init := slice offset new_size (r_init r)\<rparr>)))"

definition mmap_clone_slice ::
  "region \<Rightarrow> string option \<Rightarrow> u64 \<Rightarrow> u64 \<Rightarrow> u64 \<Rightarrow> u64 \<Rightarrow> exn + region" where
  "mmap_clone_slice r path file_offset new_base offset new_size =
     (if unat offset + unat new_size > length (r_bytes r)
         \<or> unat offset + unat new_size > length (r_init r) then Inl UndefinedBehaviour
      else sbind (new_mmap_region_bytes new_base new_size (r_prot r) (r_name r) path
                    (file_offset + offset) (slice offset new_size (r_bytes r)))
             (\<lambda>clone. Inr (clone\<lparr>r_init := slice offset new_size (r_init r)\<rparr>)))"

definition clone_slice :: "region \<Rightarrow> u64 \<Rightarrow> u64 \<Rightarrow> u64 \<Rightarrow> exn + region" where
  "clone_slice r new_base offset new_size =
     (case r_kind r of
        SimpleRegion \<Rightarrow> simple_clone_slice r new_base offset new_size
      | MmapRegion path file_offset \<Rightarrow>
          mmap_clone_slice r path file_offset new_base offset new_size)"

section \<open>The address space\<close>

record mmu =
  m_regions :: "region list"
  m_next_allocation :: u64

definition initial_mmu :: mmu where
  "initial_mmu = \<lparr>m_regions = [], m_next_allocation = 0x700000000000\<rparr>"

text \<open>
  \<^verbatim>\<open>std::sort\<close> by base; the result is determined when the bases differ, which holds for the
  non-empty regions of a well-formed address space.
\<close>

definition sort_regions :: "region list \<Rightarrow> region list" where
  "sort_regions rs = sort_key r_base rs"

definition ranges_overlap :: "u64 \<Rightarrow> u64 \<Rightarrow> region \<Rightarrow> bool" where
  "ranges_overlap base stop r \<longleftrightarrow> base < region_end r \<and> stop > r_base r"

definition ensure_no_overlap :: "region list \<Rightarrow> u64 \<Rightarrow> u64 \<Rightarrow> exn + unit" where
  "ensure_no_overlap rs base sz =
     (if sz = 0 then Inl (EmulatorError ZeroSizeMapping)
      else let stop = base + sz in
        if stop < base then Inl (EmulatorError MappingOverflow)
        else case find (ranges_overlap base stop) rs of
               Some r \<Rightarrow> Inl (EmulatorError (MappingOverlap base (r_base r)))
             | None \<Rightarrow> Inr ())"

definition insert_region :: "region \<Rightarrow> mmu \<Rightarrow> mmu" where
  "insert_region r m = m\<lparr>m_regions := sort_regions (m_regions m @ [r])\<rparr>"

definition map_zeroed :: "u64 \<Rightarrow> u64 \<Rightarrow> u32 \<Rightarrow> string \<Rightarrow> (mmu, unit) smon" where
  "map_zeroed base0 size0 prot name =
     (let base = page_align_down base0; sz = page_align_up size0 in
      bind (lift_sum (\<lambda>m. ensure_no_overlap (m_regions m) base sz)) (\<lambda>_.
      modify (insert_region (new_simple_region base sz prot name))))"

definition map_bytes ::
  "u64 \<Rightarrow> u64 \<Rightarrow> u32 \<Rightarrow> u8 list \<Rightarrow> u64 \<Rightarrow> string \<Rightarrow> (mmu, unit) smon" where
  "map_bytes base0 size0 prot source destination_offset name =
     (let base = page_align_down base0; sz = page_align_up size0 in
      bind (lift_sum (\<lambda>m. ensure_no_overlap (m_regions m) base sz)) (\<lambda>_.
      if destination_offset > sz \<or> length source > unat (sz - destination_offset)
      then throw (EmulatorError CopyExceedsRegion)
      else let bytes = replicate (unat destination_offset) 0 @ source
                 @ replicate (unat sz - unat destination_offset - length source) 0 in
        bind (lift_sum (\<lambda>m. new_simple_region_bytes base sz prot name bytes)) (\<lambda>r.
        modify (insert_region r))))"

definition map_mmap ::
  "u64 \<Rightarrow> u64 \<Rightarrow> u32 \<Rightarrow> string \<Rightarrow> string option \<Rightarrow> u64 \<Rightarrow> (mmu, unit) smon" where
  "map_mmap base0 size0 prot name path file_offset =
     (let base = page_align_down base0; sz = page_align_up size0 in
      bind (lift_sum (\<lambda>m. ensure_no_overlap (m_regions m) base sz)) (\<lambda>_.
      modify (insert_region (new_mmap_region base sz prot name path file_offset))))"

text \<open>
  The search of \<^verbatim>\<open>allocate\<close> and \<^verbatim>\<open>allocate_mmap\<close>: a collision moves
  \<^verbatim>\<open>m_next_allocation\<close> past the colliding region and tries again. \<open>None\<close> is a search
  that does not end; the result is the candidate and the \<^verbatim>\<open>m_next_allocation\<close> reached.
\<close>

definition allocation_candidate :: "u64 \<Rightarrow> u64 \<Rightarrow> u64" where
  "allocation_candidate next alignment = (next + alignment - 1) AND NOT (alignment - 1)"

definition allocation_collides :: "u64 \<Rightarrow> u64 \<Rightarrow> region \<Rightarrow> bool" where
  "allocation_collides candidate sz r \<longleftrightarrow> candidate < region_end r \<and> candidate + sz > r_base r"

partial_function (option) find_slot ::
  "region list \<Rightarrow> u64 \<Rightarrow> u64 \<Rightarrow> u64 \<Rightarrow> (u64 \<times> u64) option" where
  "find_slot rs sz alignment next =
     (let candidate = allocation_candidate next alignment in
      case find (allocation_collides candidate sz) rs of
        Some r \<Rightarrow> find_slot rs sz alignment (page_align_up (region_end r))
      | None \<Rightarrow> Some (candidate, next))"

declare find_slot.simps [code]

definition allocate :: "u64 \<Rightarrow> u64 \<Rightarrow> u32 \<Rightarrow> string \<Rightarrow> (mmu, u64) smon" where
  "allocate size0 alignment0 prot name = (\<lambda>m.
     let sz = page_align_up size0; alignment = max page_size alignment0 in
     case find_slot (m_regions m) sz alignment (m_next_allocation m) of
       None \<Rightarrow> (Inl Diverges, m)
     | Some (candidate, next) \<Rightarrow>
         seq (modify (\<lambda>m. m\<lparr>m_next_allocation := next\<rparr>))
        (seq (map_zeroed candidate sz prot name)
        (seq (modify (\<lambda>m. m\<lparr>m_next_allocation := candidate + sz\<rparr>))
        (return candidate))) m)"

definition allocate_mmap ::
  "u64 \<Rightarrow> u64 \<Rightarrow> u32 \<Rightarrow> string \<Rightarrow> string option \<Rightarrow> u64 \<Rightarrow> (mmu, u64) smon" where
  "allocate_mmap size0 alignment0 prot name path file_offset = (\<lambda>m.
     let sz = page_align_up size0; alignment = max page_size alignment0 in
     case find_slot (m_regions m) sz alignment (m_next_allocation m) of
       None \<Rightarrow> (Inl Diverges, m)
     | Some (candidate, next) \<Rightarrow>
         seq (modify (\<lambda>m. m\<lparr>m_next_allocation := next\<rparr>))
        (seq (map_mmap candidate sz prot name path file_offset)
        (seq (modify (\<lambda>m. m\<lparr>m_next_allocation := candidate + sz\<rparr>))
        (return candidate))) m)"

text \<open>The three pieces a region that meets the range is cut into.\<close>

definition split_region :: "u64 \<Rightarrow> u64 \<Rightarrow> region \<Rightarrow> exn + region list" where
  "split_region base stop r =
     (if stop \<le> r_base r \<or> base \<ge> region_end r then Inr [r]
      else
        sbind (if base > r_base r
               then sbind (clone_slice r (r_base r) 0 (base - r_base r)) (\<lambda>p. Inr [p])
               else Inr []) (\<lambda>before.
        let overlap_start = max base (r_base r); overlap_end = min stop (region_end r) in
        sbind (clone_slice r overlap_start (overlap_start - r_base r)
                 (overlap_end - overlap_start)) (\<lambda>overlap.
        sbind (if stop < region_end r
               then sbind (clone_slice r stop (stop - r_base r) (region_end r - stop)) (\<lambda>p. Inr [p])
               else Inr []) (\<lambda>after.
        Inr (before @ [overlap] @ after)))))"

fun split_regions :: "u64 \<Rightarrow> u64 \<Rightarrow> region list \<Rightarrow> exn + region list" where
  "split_regions base stop [] = Inr []"
| "split_regions base stop (r # rs) =
     sbind (split_region base stop r) (\<lambda>ps.
     sbind (split_regions base stop rs) (\<lambda>qs. Inr (ps @ qs)))"

definition split_around :: "u64 \<Rightarrow> u64 \<Rightarrow> (mmu, unit) smon" where
  "split_around base sz =
     bind (lift_sum (\<lambda>m. split_regions base (base + sz) (m_regions m))) (\<lambda>rebuilt.
     modify (\<lambda>m. m\<lparr>m_regions := sort_regions rebuilt\<rparr>))"

definition covered :: "u64 \<Rightarrow> u64 \<Rightarrow> region \<Rightarrow> bool" where
  "covered base stop r \<longleftrightarrow> r_base r \<ge> base \<and> region_end r \<le> stop"

definition unmap :: "u64 \<Rightarrow> u64 \<Rightarrow> (mmu, unit) smon" where
  "unmap base0 size0 =
     (if size0 = 0 then return ()
      else let base = page_align_down base0; sz = page_align_up size0 in
        seq (split_around base sz)
            (modify (\<lambda>m. m\<lparr>m_regions := filter (\<lambda>r. \<not> covered base (base + sz) r) (m_regions m)\<rparr>)))"

definition protect :: "u64 \<Rightarrow> u64 \<Rightarrow> u32 \<Rightarrow> (mmu, unit) smon" where
  "protect base0 size0 prot =
     (if size0 = 0 then return ()
      else let base = page_align_down base0; sz = page_align_up size0 in
        seq (split_around base sz)
            (modify (\<lambda>m. m\<lparr>m_regions :=
               map (\<lambda>r. if covered base (base + sz) r then r\<lparr>r_prot := prot\<rparr> else r)
                 (m_regions m)\<rparr>)))"

section \<open>Lookup and unobserved access\<close>

definition find_region :: "mmu \<Rightarrow> u64 \<Rightarrow> region option" where
  "find_region m address = find (\<lambda>r. region_contains r address) (m_regions m)"

definition is_mapped :: "mmu \<Rightarrow> u64 \<Rightarrow> nat \<Rightarrow> bool" where
  "is_mapped m address n =
     list_all (\<lambda>i. find_region m (address + of_nat i) \<noteq> None) [0..<n]"

definition region_for :: "mmu \<Rightarrow> u64 \<Rightarrow> u32 \<Rightarrow> exn + region" where
  "region_for m address required_prot =
     (case find_region m address of
        None \<Rightarrow> Inl (EmulatorError (UnmappedMemory address))
      | Some r \<Rightarrow>
          if r_prot r AND required_prot \<noteq> required_prot
          then Inl (EmulatorError (PermissionFault address)) else Inr r)"

fun replace_first :: "('r \<Rightarrow> bool) \<Rightarrow> 'r \<Rightarrow> 'r list \<Rightarrow> 'r list" where
  "replace_first p r' [] = []"
| "replace_first p r' (r # rs) = (if p r then r' # rs else r # replace_first p r' rs)"

text \<open>A member function called on the \<^verbatim>\<open>Region&\<close> that \<^verbatim>\<open>region_for\<close> returns.\<close>

definition with_region :: "u64 \<Rightarrow> u32 \<Rightarrow> (region \<Rightarrow> (region, 'a) smon) \<Rightarrow> (mmu, 'a) smon" where
  "with_region address required_prot f = (\<lambda>m.
     case region_for m address required_prot of
       Inl e \<Rightarrow> (Inl e, m)
     | Inr r \<Rightarrow> (case f r r of (x, r') \<Rightarrow>
         (x, m\<lparr>m_regions := replace_first (\<lambda>r. region_contains r address) r' (m_regions m)\<rparr>)))"

definition read8 :: "mmu \<Rightarrow> u64 \<Rightarrow> exn + u8" where
  "read8 m address =
     sbind (region_for m address ProtRead) (\<lambda>r. read_offset r (address - r_base r))"

text \<open>The access of \<^verbatim>\<open>write8_with_shadow\<close> after its observer has run.\<close>

definition store8 :: "u64 \<Rightarrow> u8 \<Rightarrow> bool \<Rightarrow> (mmu, unit) smon" where
  "store8 address v initialized =
     with_region address ProtWrite (\<lambda>r. write_offset (address - r_base r) v initialized)"

text \<open>\<^verbatim>\<open>value |= static_cast<T>(read8(address + i)) << (i * 8)\<close> for i, i+1, ...: the loop of
  the plain multi-byte reads.\<close>

fun read_loop :: "mmu \<Rightarrow> u64 \<Rightarrow> nat \<Rightarrow> nat \<Rightarrow> 'a::len word \<Rightarrow> exn + 'a word" where
  "read_loop m address i 0 v = Inr v"
| "read_loop m address i (Suc n) v =
     sbind (read8 m (address + of_nat i)) (\<lambda>b.
     read_loop m address (Suc i) n (v OR push_bit (i * 8) (ucast b)))"

definition read16 :: "mmu \<Rightarrow> u64 \<Rightarrow> exn + u16" where
  "read16 m address = read_loop m address 0 2 0"

definition read32 :: "mmu \<Rightarrow> u64 \<Rightarrow> exn + u32" where
  "read32 m address = read_loop m address 0 4 0"

definition read64 :: "mmu \<Rightarrow> u64 \<Rightarrow> exn + u64" where
  "read64 m address = read_loop m address 0 8 0"

definition mark_initialized :: "u64 \<Rightarrow> nat \<Rightarrow> bool \<Rightarrow> (mmu, unit) smon" where
  "mark_initialized address n initialized =
     for_loop 0 n (\<lambda>i. with_region (address + of_nat i) ProtRead
       (\<lambda>r. set_offset_initialized (address + of_nat i - r_base r) initialized))"

fun copy_from_guest :: "mmu \<Rightarrow> u64 \<Rightarrow> nat \<Rightarrow> exn + u8 list" where
  "copy_from_guest m source 0 = Inr []"
| "copy_from_guest m source (Suc n) =
     sbind (read8 m source) (\<lambda>b.
     sbind (copy_from_guest m (source + 1) n) (\<lambda>bs. Inr (b # bs)))"

fun read_c_string_loop :: "mmu \<Rightarrow> u64 \<Rightarrow> u64 \<Rightarrow> nat \<Rightarrow> exn + u8 list" where
  "read_c_string_loop m start address 0 = Inl (EmulatorError (UnterminatedString start))"
| "read_c_string_loop m start address (Suc n) =
     sbind (read8 m address) (\<lambda>ch.
     if ch = 0 then Inr []
     else sbind (read_c_string_loop m start (address + 1) n) (\<lambda>rest. Inr (ch # rest)))"

definition read_c_string :: "mmu \<Rightarrow> u64 \<Rightarrow> nat \<Rightarrow> exn + u8 list" where
  "read_c_string m address limit = read_c_string_loop m address address limit"

end
