(* ===== verification/Host.thy ===== *)
theory Host
  imports Prelude
begin

text \<open>
  The host operating system, which is not part of the sources: the libc functions and raw system
  calls that \<^verbatim>\<open>src/LinuxSyscalls.cpp\<close> and \<^verbatim>\<open>src/Emulator.cpp\<close> make. A request is the
  function's name with the arguments the code passes; the host is a function from the requests
  made so far and the present one to an answer. The whole development is parametric in it.

  An argument is an integer, the bytes of an object the host reads, the length of a buffer of
  zeros the host fills, the bytes of a buffer it reads and overwrites, the fields of a structure
  passed by address, or a null pointer. An answer has the return value, \<^verbatim>\<open>errno\<close>, the
  bytes written to each buffer and the integers written to objects passed by address, in the order
  of the parameters.
\<close>

type_synonym cstring = "u8 list"

datatype host_arg =
    HInt int
  | HIn "u8 list"
  | HOut nat
  | HInOut "u8 list"
  | HFields "int list"
  | HNull

datatype host_call = HostCall string "host_arg list"

record host_answer =
  ans_rc :: int
  ans_errno :: int
  ans_bufs :: "u8 list list"
  ans_ints :: "int list"

type_synonym host = "host_call list \<Rightarrow> host_call \<Rightarrow> host_answer"

section \<open>What the host leaves in the caller's objects\<close>

text \<open>A buffer keeps its length; the host overwrites its front.\<close>

definition overlay :: "u8 list \<Rightarrow> u8 list \<Rightarrow> u8 list" where
  "overlay old new = take (length old) (new @ drop (length new) old)"

definition out_buffer :: "host_answer \<Rightarrow> nat \<Rightarrow> u8 list \<Rightarrow> u8 list" where
  "out_buffer a i old = (if i < length (ans_bufs a) then overlay old (ans_bufs a ! i) else old)"

definition out_int :: "host_answer \<Rightarrow> nat \<Rightarrow> int \<Rightarrow> int" where
  "out_int a i old = (if i < length (ans_ints a) then ans_ints a ! i else old)"

abbreviation zeros :: "nat \<Rightarrow> u8 list" where
  "zeros n \<equiv> replicate n 0"

lemma length_overlay [simp]: "length (overlay old new) = length old"
  by (simp add: overlay_def)

lemma length_out_buffer [simp]: "length (out_buffer a i old) = length old"
  by (simp add: out_buffer_def)

text \<open>C strings and the decimal digits of \<^verbatim>\<open>snprintf\<close>'s \<^verbatim>\<open>%d\<close>.\<close>

definition c_string :: "u8 list \<Rightarrow> u8 list" where
  "c_string bytes = takeWhile (\<lambda>b. b \<noteq> 0) bytes"

definition string_of_bytes :: "u8 list \<Rightarrow> string" where
  "string_of_bytes bytes = map (\<lambda>b. char_of (unat b)) bytes"

definition bytes_of_string :: "string \<Rightarrow> u8 list" where
  "bytes_of_string str = map (\<lambda>c. of_nat (of_char c)) str"

fun decimal_nat :: "nat \<Rightarrow> string" where
  "decimal_nat n = (if n < 10 then [char_of (48 + n)]
     else decimal_nat (n div 10) @ [char_of (48 + n mod 10)])"

declare decimal_nat.simps [simp del]

definition decimal :: "int \<Rightarrow> string" where
  "decimal i = (if i < 0 then CHR ''-'' # decimal_nat (nat (- i)) else decimal_nat (nat i))"

lemma string_of_bytes_of_string [simp]: "string_of_bytes (bytes_of_string str) = str"
proof -
  have "unat (of_nat (of_char c) :: u8) = of_char c" for c :: char
    by (simp add: unat_of_nat take_bit_nat_eq_self)
  then show ?thesis by (simp add: string_of_bytes_def bytes_of_string_def comp_def)
qed

end
