(* ===== verification/Machine.thy ===== *)
theory Machine
  imports SoftMMU Host "HOL-Library.Numeral_Type"
begin

text \<open>
  The state of the whole emulator: the data members of \<^verbatim>\<open>SoftCPU64\<close>, \<^verbatim>\<open>MallocTracer\<close> and
  \<^verbatim>\<open>Emulator\<close> (\<^verbatim>\<open>src/SoftCPU64.h\<close>, \<^verbatim>\<open>src/MallocTracer.h\<close>, \<^verbatim>\<open>src/Emulator.h\<close>) as records,
  nested in one \<open>machine\<close> record because the three objects call each other. What the program
  prints to \<^verbatim>\<open>std::cerr\<close> is the list \<open>s_stderr\<close> of messages, oldest first, and the host's
  clock is the sequence \<open>s_clock\<close> of its successive readings; \<open>s_host_pending\<close> is the static
  array \<^verbatim>\<open>s_host_signal_pending\<close> that the host's signal handler fills. \<open>s_host_log\<close> is the list of
  requests made to the host, oldest first. An x87 register is the 80-bit pattern of the host's
  \<^verbatim>\<open>long double\<close>; the index of the top of the stack, always reduced by \<^verbatim>\<open>& 7\<close>, is a 3-bit word.
\<close>

section \<open>Records\<close>

record cpu =
  c_gpr :: "regidx \<Rightarrow> u64"
  c_gpr_shadow :: "regidx \<Rightarrow> u64"
  c_xmm :: "regidx \<Rightarrow> u8 list"
  c_mxcsr :: u32
  c_rip :: u64
  c_rflags :: u64
  c_fs_base :: u64
  c_gs_base :: u64
  c_instruction_start :: u64
  c_decode_pc :: u64
  c_call_stack :: "u64 list"
  c_current_taint :: bool
  c_flags_tainted :: bool
  c_reported_uninit_reads :: "u64 set"
  c_reported_uninit_pointers :: "u64 set"
  c_reported_uninit_branches :: "u64 set"
  c_fpu_st :: "3 word \<Rightarrow> 80 word"
  c_fpu_empty :: "3 word \<Rightarrow> bool"
  c_fpu_top :: "3 word"
  c_fpu_status :: u16
  c_fpu_control :: u16

definition initial_cpu :: cpu where
  "initial_cpu = \<lparr>c_gpr = (\<lambda>_. 0), c_gpr_shadow = (\<lambda>_. 0), c_xmm = (\<lambda>_. replicate 16 0),
     c_mxcsr = 0x1f80, c_rip = 0, c_rflags = 0x202, c_fs_base = 0, c_gs_base = 0,
     c_instruction_start = 0, c_decode_pc = 0, c_call_stack = [],
     c_current_taint = False, c_flags_tainted = False,
     c_reported_uninit_reads = {}, c_reported_uninit_pointers = {},
     c_reported_uninit_branches = {}, c_fpu_st = (\<lambda>_. 0), c_fpu_empty = (\<lambda>_. False),
     c_fpu_top = 0, c_fpu_status = 0, c_fpu_control = 0x037f\<rparr>"

text \<open>The registers in the order of \<^verbatim>\<open>enum Register\<close>.\<close>

definition RAX :: regidx where "RAX = 0"
definition RCX :: regidx where "RCX = 1"
definition RDX :: regidx where "RDX = 2"
definition RBX :: regidx where "RBX = 3"
definition RSP :: regidx where "RSP = 4"
definition RBP :: regidx where "RBP = 5"
definition RSI :: regidx where "RSI = 6"
definition RDI :: regidx where "RDI = 7"
definition R8 :: regidx where "R8 = 8"
definition R9 :: regidx where "R9 = 9"
definition R10 :: regidx where "R10 = 10"
definition R11 :: regidx where "R11 = 11"

lemmas register_defs = RAX_def RCX_def RDX_def RBX_def RSP_def RBP_def RSI_def RDI_def
  R8_def R9_def R10_def R11_def

datatype alloc_function = FnNone | FnMalloc | FnFree | FnRealloc | FnCalloc

record allocation_record =
  ar_ptr :: u64
  ar_size :: u64
  ar_backtrace :: "u64 list"
  ar_freed :: bool
  ar_initialized :: "bool list"

text \<open>The two \<^verbatim>\<open>std::map\<close>s are association lists in increasing key order.\<close>

type_synonym alloc_map = "(u64 \<times> allocation_record) list"

text \<open>The strings by which the tracer remembers what it has reported.\<close>

datatype report_key =
    KeyOverflow u64
  | KeyUseAfterFree u64
  | KeyUseAfterFreeRead u64
  | KeyUninitializedRead u64

record tracer =
  t_enabled :: bool
  t_active_function :: alloc_function
  t_entry_arg0 :: u64
  t_entry_arg1 :: u64
  t_pending_free_ptr :: u64
  t_entry_backtrace :: "u64 list"
  t_allocations :: alloc_map
  t_freed :: alloc_map
  t_reported :: "report_key set"

definition initial_tracer :: tracer where
  "initial_tracer = \<lparr>t_enabled = False, t_active_function = FnNone, t_entry_arg0 = 0,
     t_entry_arg1 = 0, t_pending_free_ptr = 0, t_entry_backtrace = [], t_allocations = [],
     t_freed = [], t_reported = {}\<rparr>"

record emulator_options =
  opt_trace :: bool
  opt_trace_syscalls :: bool
  opt_backtrace_on_exit :: bool
  opt_malloc_trace :: bool

record symbol_range =
  sr_start :: u64
  sr_end :: u64
  sr_name :: string

definition symbol_contains :: "symbol_range \<Rightarrow> u64 \<Rightarrow> bool" where
  "symbol_contains r address \<longleftrightarrow> address \<ge> sr_start r \<and> address < sr_end r"

definition no_symbol :: symbol_range where
  "no_symbol = \<lparr>sr_start = 0, sr_end = 0, sr_name = []\<rparr>"

record loaded_image =
  li_path :: string
  li_name :: string
  li_kind :: string
  li_base :: u64
  li_end :: u64
  li_executable_ranges :: "(u64 \<times> u64) list"
  li_symbols :: "symbol_range list"

definition image_contains :: "loaded_image \<Rightarrow> u64 \<Rightarrow> bool" where
  "image_contains i address \<longleftrightarrow> address \<ge> li_base i \<and> address < li_end i"

record signal_action =
  sa_handler :: u64
  sa_flags :: u64
  sa_restorer :: u64
  sa_mask :: u64

record emulator =
  e_options :: emulator_options
  e_stack_base :: u64
  e_stack_size :: u64
  e_stack_top :: u64
  e_brk_start :: u64
  e_brk :: u64
  e_brk_region_end :: u64
  e_fd_paths :: "int \<Rightarrow> string option"
  e_loaded_images :: "loaded_image list"
  e_last_syscall_backtrace :: "u64 list"
  e_signal_trampoline :: u64
  e_pending_signals :: u64
  e_signal_mask :: u64
  e_signal_actions :: "nat \<Rightarrow> signal_action"
  e_restored_context :: bool
  e_malloc_symbol :: symbol_range
  e_realloc_symbol :: symbol_range
  e_calloc_symbol :: symbol_range
  e_free_symbol :: symbol_range
  e_malloc_usable_size_symbol :: symbol_range

definition initial_emulator :: "emulator_options \<Rightarrow> emulator" where
  "initial_emulator options = \<lparr>e_options = options, e_stack_base = 0x7fffff000000,
     e_stack_size = 0x800000, e_stack_top = 0, e_brk_start = 0, e_brk = 0, e_brk_region_end = 0,
     e_fd_paths = (\<lambda>_. None), e_loaded_images = [], e_last_syscall_backtrace = [], e_signal_trampoline = 0,
     e_pending_signals = 0, e_signal_mask = 0,
     e_signal_actions = (\<lambda>_. \<lparr>sa_handler = 0, sa_flags = 0, sa_restorer = 0, sa_mask = 0\<rparr>),
     e_restored_context = False, e_malloc_symbol = no_symbol, e_realloc_symbol = no_symbol,
     e_calloc_symbol = no_symbol, e_free_symbol = no_symbol,
     e_malloc_usable_size_symbol = no_symbol\<rparr>"

text \<open>The messages; each carries what it prints, the addresses not yet symbolised. \<open>PrintText\<close> is
  a line given in full.\<close>

datatype message =
    WarnUninitializedRead u64 u64
  | WarnUninitializedPointer u64 u64
  | WarnUninitializedBranch u64
  | TraceMalloc u64 u64
  | TraceFree u64
  | TraceRealloc u64 u64 u64
  | TraceCalloc u64 u64 u64
  | ReportDoubleFree u64 u64 "u64 list" "u64 list"
  | ReportInvalidFree u64 "u64 list"
  | ReportReallocFreed u64 u64 "u64 list" "u64 list"
  | ReportReallocUnknown u64 "u64 list"
  | ReportHeapOverflow u64 u64 u64 "u64 list"
  | ReportUseAfterFree u64 u64 u64 "u64 list"
  | ReportUseAfterFreeRead u64 u64 u64 "u64 list"
  | ReportUninitializedRead u64 u64 u64 u64 "u64 list"
  | ReportAccessBacktrace "u64 list"
  | ReportNoLeaks
  | ReportLeakSummary nat u64 nat nat
  | ReportLeak u64 u64 bool "u64 list"
  | EventLogCounts nat nat
  | EventLogBytes u64
  | TraceSyscall string u64 u64 u64 u64 u64 u64 u64
  | ReportEmulatorError emu_error
  | PrintText string

record machine =
  s_mmu :: mmu
  s_cpu :: cpu
  s_tracer :: tracer
  s_emu :: emulator
  s_stderr :: "message list"
  s_clock :: "nat \<Rightarrow> u64"
  s_clock_reads :: nat
  s_host_pending :: "nat \<Rightarrow> bool"
  s_host_log :: "host_call list"

text \<open>The constructor of \<^verbatim>\<open>Emulator\<close>: the tracer is enabled by the option.\<close>

definition initial_machine :: "emulator_options \<Rightarrow> (nat \<Rightarrow> u64) \<Rightarrow> machine" where
  "initial_machine options clock = \<lparr>s_mmu = initial_mmu, s_cpu = initial_cpu,
     s_tracer = initial_tracer\<lparr>t_enabled := opt_malloc_trace options\<rparr>,
     s_emu = initial_emulator options, s_stderr = [], s_clock = clock, s_clock_reads = 0,
     s_host_pending = (\<lambda>_. False), s_host_log = []\<rparr>"

section \<open>Running a part's operation in the machine\<close>

definition on_mmu :: "(mmu, 'a) smon \<Rightarrow> (machine, 'a) smon" where
  "on_mmu f = (\<lambda>s. case f (s_mmu s) of (r, m) \<Rightarrow> (r, s\<lparr>s_mmu := m\<rparr>))"

definition on_cpu :: "(cpu, 'a) smon \<Rightarrow> (machine, 'a) smon" where
  "on_cpu f = (\<lambda>s. case f (s_cpu s) of (r, c) \<Rightarrow> (r, s\<lparr>s_cpu := c\<rparr>))"

definition read_mmu :: "(mmu \<Rightarrow> exn + 'a) \<Rightarrow> (machine, 'a) smon" where
  "read_mmu f = lift_sum (\<lambda>s. f (s_mmu s))"

definition upd_cpu :: "(cpu \<Rightarrow> cpu) \<Rightarrow> (machine, unit) smon" where
  "upd_cpu f = modify (\<lambda>s. s\<lparr>s_cpu := f (s_cpu s)\<rparr>)"

definition get_cpu :: "(cpu \<Rightarrow> 'a) \<Rightarrow> (machine, 'a) smon" where
  "get_cpu f = gets (\<lambda>s. f (s_cpu s))"

definition upd_tracer :: "(tracer \<Rightarrow> tracer) \<Rightarrow> (machine, unit) smon" where
  "upd_tracer f = modify (\<lambda>s. s\<lparr>s_tracer := f (s_tracer s)\<rparr>)"

definition get_tracer :: "(tracer \<Rightarrow> 'a) \<Rightarrow> (machine, 'a) smon" where
  "get_tracer f = gets (\<lambda>s. f (s_tracer s))"

definition upd_emu :: "(emulator \<Rightarrow> emulator) \<Rightarrow> (machine, unit) smon" where
  "upd_emu f = modify (\<lambda>s. s\<lparr>s_emu := f (s_emu s)\<rparr>)"

definition get_emu :: "(emulator \<Rightarrow> 'a) \<Rightarrow> (machine, 'a) smon" where
  "get_emu f = gets (\<lambda>s. f (s_emu s))"

definition print_err :: "message \<Rightarrow> (machine, unit) smon" where
  "print_err msg = modify (\<lambda>s. s\<lparr>s_stderr := s_stderr s @ [msg]\<rparr>)"

text \<open>A request to the host \<open>h\<close>.\<close>

definition ask_host :: "host \<Rightarrow> string \<Rightarrow> host_arg list \<Rightarrow> (machine, host_answer) smon" where
  "ask_host h name args = (\<lambda>s. let call = HostCall name args in
     (Inr (h (s_host_log s) call), s\<lparr>s_host_log := s_host_log s @ [call]\<rparr>))"

declare on_mmu_def [monad_defs] on_cpu_def [monad_defs] read_mmu_def [monad_defs]
  upd_cpu_def [monad_defs] get_cpu_def [monad_defs] upd_tracer_def [monad_defs]
  get_tracer_def [monad_defs] upd_emu_def [monad_defs] get_emu_def [monad_defs]
  print_err_def [monad_defs] ask_host_def [monad_defs]

section \<open>Images and backtraces\<close>

definition image_containing :: "emulator \<Rightarrow> u64 \<Rightarrow> loaded_image option" where
  "image_containing e address = find (\<lambda>i. image_contains i address) (e_loaded_images e)"

definition contains_code :: "loaded_image \<Rightarrow> u64 \<Rightarrow> bool" where
  "contains_code i address \<longleftrightarrow>
     list_ex (\<lambda>(first, second). address \<ge> first \<and> address < second) (li_executable_ranges i)"

text \<open>The innermost symbol: the last strict improvement of the start address wins.\<close>

definition symbol_containing :: "loaded_image \<Rightarrow> u64 \<Rightarrow> symbol_range option" where
  "symbol_containing i address =
     fold (\<lambda>symbol best.
       if \<not> symbol_contains symbol address then best
       else case best of
         None \<Rightarrow> Some symbol
       | Some b \<Rightarrow> if sr_start symbol > sr_start b then Some symbol else best)
       (li_symbols i) None"

definition address_in_range :: "u64 \<Rightarrow> symbol_range \<Rightarrow> bool" where
  "address_in_range address r \<longleftrightarrow> sr_start r \<noteq> 0 \<and> symbol_contains r address"

definition is_kind :: "emulator \<Rightarrow> string \<Rightarrow> u64 \<Rightarrow> bool" where
  "is_kind e kind address =
     (case image_containing e address of None \<Rightarrow> False | Some i \<Rightarrow> li_kind i = kind)"

definition is_in_loader :: "emulator \<Rightarrow> u64 \<Rightarrow> bool" where
  "is_in_loader e address = is_kind e ''loader'' address"

definition is_in_libc :: "emulator \<Rightarrow> u64 \<Rightarrow> bool" where
  "is_in_libc e address = is_kind e ''libc'' address"

definition is_in_libsystem :: "machine \<Rightarrow> bool" where
  "is_in_libsystem s = is_kind (s_emu s) ''libsystem'' (c_rip (s_cpu s))"

definition is_in_loader_code :: "machine \<Rightarrow> bool" where
  "is_in_loader_code s =
     (case image_containing (s_emu s) (c_rip (s_cpu s)) of None \<Rightarrow> False
      | Some i \<Rightarrow> li_kind i = ''loader'' \<and> contains_code i (c_rip (s_cpu s)))"

definition is_in_malloc_or_free :: "machine \<Rightarrow> bool" where
  "is_in_malloc_or_free s =
     (let e = s_emu s; rip = c_rip (s_cpu s) in
      address_in_range rip (e_malloc_symbol e) \<or> address_in_range rip (e_realloc_symbol e)
      \<or> address_in_range rip (e_calloc_symbol e) \<or> address_in_range rip (e_free_symbol e)
      \<or> address_in_range rip (e_malloc_usable_size_symbol e))"

text \<open>
  \<^verbatim>\<open>raw_backtrace\<close>: the current instruction, the synthetic call stack from its top (until
  128 entries), then at most 127 links of the frame-pointer chain.
\<close>

definition append_address :: "u64 list \<Rightarrow> u64 \<Rightarrow> u64 list" where
  "append_address bt address =
     (if address \<noteq> 0 \<and> address \<notin> set bt then bt @ [address] else bt)"

fun walk_call_stack :: "u64 list \<Rightarrow> u64 list \<Rightarrow> u64 list" where
  "walk_call_stack bt [] = bt"
| "walk_call_stack bt (a # as) =
     (if length bt < 128 then walk_call_stack (append_address bt a) as else bt)"

fun walk_frames :: "mmu \<Rightarrow> nat \<Rightarrow> u64 list \<Rightarrow> u64 \<Rightarrow> exn + u64 list" where
  "walk_frames m 0 bt frame = Inr bt"
| "walk_frames m (Suc n) bt frame =
     (if frame = 0 \<or> \<not> is_mapped m frame 16 then Inr bt
      else
        sbind (read64 m frame) (\<lambda>next_frame.
        sbind (read64 m (frame + 8)) (\<lambda>return_address.
        if return_address = 0 then Inr bt
        else let bt' = append_address bt return_address in
          if next_frame \<le> frame then Inr bt' else walk_frames m n bt' next_frame)))"

definition raw_backtrace :: "machine \<Rightarrow> exn + u64 list" where
  "raw_backtrace s =
     walk_frames (s_mmu s) 127
       (walk_call_stack [c_rip (s_cpu s)] (rev (c_call_stack (s_cpu s))))
       (c_gpr (s_cpu s) RBP)"

end
