(* ===== verification/Tracer.thy ===== *)
theory Tracer
  imports Machine
begin

text \<open>
  \<^verbatim>\<open>src/MallocTracer.cpp\<close>: the allocation tracer. It watches the guest enter and leave the
  allocator, keeps the live and the freed blocks, audits every observed byte access against
  them, and at exit separates the blocks still reachable from the lost ones. A report prints its
  message after computing the backtrace it ends with.
\<close>

section \<open>The ordered maps\<close>

fun amap_insert :: "u64 \<Rightarrow> allocation_record \<Rightarrow> alloc_map \<Rightarrow> alloc_map" where
  "amap_insert k r [] = [(k, r)]"
| "amap_insert k r ((l, q) # m) =
     (if k < l then (k, r) # (l, q) # m
      else if k = l then (k, r) # m
      else (l, q) # amap_insert k r m)"

definition amap_erase :: "u64 \<Rightarrow> alloc_map \<Rightarrow> alloc_map" where
  "amap_erase k m = filter (\<lambda>(l, _). l \<noteq> k) m"

definition amap_adjust :: "u64 \<Rightarrow> (allocation_record \<Rightarrow> allocation_record) \<Rightarrow> alloc_map \<Rightarrow> alloc_map" where
  "amap_adjust k f m = map (\<lambda>(l, r). (l, if l = k then f r else r)) m"

text \<open>\<^verbatim>\<open>upper_bound(address)\<close> stepped back once: the last entry whose key is at most the address.\<close>

definition floor_entry :: "alloc_map \<Rightarrow> u64 \<Rightarrow> (u64 \<times> allocation_record) option" where
  "floor_entry m address = find (\<lambda>(l, _). l \<le> address) (rev m)"

definition allocation_containing :: "alloc_map \<Rightarrow> u64 \<Rightarrow> (u64 \<times> allocation_record) option" where
  "allocation_containing m address =
     (case floor_entry m address of
        None \<Rightarrow> None
      | Some (l, r) \<Rightarrow>
          if address \<ge> l \<and> address < l + ar_size r then Some (l, r) else None)"

definition live_allocation_containing :: "tracer \<Rightarrow> u64 \<Rightarrow> (u64 \<times> allocation_record) option" where
  "live_allocation_containing t address = allocation_containing (t_allocations t) address"

definition freed_allocation_containing :: "tracer \<Rightarrow> u64 \<Rightarrow> (u64 \<times> allocation_record) option" where
  "freed_allocation_containing t address = allocation_containing (t_freed t) address"

definition mark_byte_initialized :: "u64 \<Rightarrow> allocation_record \<Rightarrow> allocation_record" where
  "mark_byte_initialized address r =
     (if ar_initialized r = [] then r
      else let offset = unat (address - ar_ptr r) in
        if offset < length (ar_initialized r)
        then r\<lparr>ar_initialized := (ar_initialized r)[offset := True]\<rparr> else r)"

section \<open>Where the guest is\<close>

definition detect_allocation_function_entry :: "emulator \<Rightarrow> u64 \<Rightarrow> alloc_function" where
  "detect_allocation_function_entry e address =
     (if sr_start (e_malloc_symbol e) \<noteq> 0 \<and> address = sr_start (e_malloc_symbol e) then FnMalloc
      else if sr_start (e_free_symbol e) \<noteq> 0 \<and> address = sr_start (e_free_symbol e) then FnFree
      else if sr_start (e_realloc_symbol e) \<noteq> 0 \<and> address = sr_start (e_realloc_symbol e)
        then FnRealloc
      else if sr_start (e_calloc_symbol e) \<noteq> 0 \<and> address = sr_start (e_calloc_symbol e)
        then FnCalloc
      else FnNone)"

definition is_internal :: "emulator \<Rightarrow> u64 \<Rightarrow> bool" where
  "is_internal e address \<longleftrightarrow> is_in_libc e address \<or> is_in_loader e address"

definition caller_is_internal :: "machine \<Rightarrow> exn + bool" where
  "caller_is_internal s =
     (case read64 (s_mmu s) (c_gpr (s_cpu s) RSP) of
        Inl (EmulatorError _) \<Rightarrow> Inr False
      | Inl e \<Rightarrow> Inl e
      | Inr return_address \<Rightarrow> Inr (is_internal (s_emu s) return_address))"

section \<open>Reports\<close>

text \<open>
  The common body of the four reports of an access: what is known of the block is printed before the
  backtrace of the access is taken, which may throw.
\<close>

definition report_once :: "report_key \<Rightarrow> message \<Rightarrow> (machine, unit) smon" where
  "report_once key msg =
     bind (get_tracer t_reported) (\<lambda>reported.
     if key \<in> reported then return ()
     else seq (upd_tracer (\<lambda>t. t\<lparr>t_reported := insert key (t_reported t)\<rparr>))
        (seq (print_err msg)
             (bind (lift_sum raw_backtrace) (\<lambda>bt. print_err (ReportAccessBacktrace bt)))))"

definition report_heap_overflow :: "u64 \<Rightarrow> u64 \<Rightarrow> allocation_record \<Rightarrow> (machine, unit) smon" where
  "report_heap_overflow address ptr r =
     report_once (KeyOverflow address)
       (ReportHeapOverflow address ptr (ar_size r) (ar_backtrace r))"

definition report_use_after_free :: "u64 \<Rightarrow> u64 \<Rightarrow> allocation_record \<Rightarrow> (machine, unit) smon" where
  "report_use_after_free address ptr r =
     report_once (KeyUseAfterFree address)
       (ReportUseAfterFree address ptr (ar_size r) (ar_backtrace r))"

definition report_use_after_free_read :: "u64 \<Rightarrow> u64 \<Rightarrow> allocation_record \<Rightarrow> (machine, unit) smon" where
  "report_use_after_free_read address ptr r =
     bind (get_cpu c_rip) (\<lambda>rip.
     report_once (KeyUseAfterFreeRead rip)
       (ReportUseAfterFreeRead address ptr (ar_size r) (ar_backtrace r)))"

definition report_uninitialized_read :: "u64 \<Rightarrow> u64 \<Rightarrow> allocation_record \<Rightarrow> (machine, unit) smon" where
  "report_uninitialized_read address ptr r =
     bind (get_cpu c_rip) (\<lambda>rip.
     report_once (KeyUninitializedRead rip)
       (ReportUninitializedRead address ptr (ar_size r) (address - ptr) (ar_backtrace r)))"

definition report_double_free :: "u64 \<Rightarrow> allocation_record \<Rightarrow> (machine, unit) smon" where
  "report_double_free ptr r =
     bind (get_tracer t_entry_backtrace) (\<lambda>bt.
     print_err (ReportDoubleFree ptr (ar_size r) (ar_backtrace r) bt))"

definition report_invalid_free :: "u64 \<Rightarrow> (machine, unit) smon" where
  "report_invalid_free ptr =
     bind (get_tracer t_entry_backtrace) (\<lambda>bt. print_err (ReportInvalidFree ptr bt))"

definition report_realloc_error :: "u64 \<Rightarrow> allocation_record option \<Rightarrow> (machine, unit) smon" where
  "report_realloc_error ptr rec_opt =
     bind (get_tracer t_entry_backtrace) (\<lambda>bt.
     print_err (case rec_opt of
         Some r \<Rightarrow> ReportReallocFreed ptr (ar_size r) (ar_backtrace r) bt
       | None \<Rightarrow> ReportReallocUnknown ptr bt))"

section \<open>The observers of guest data accesses\<close>

definition in_redzone :: "u64 \<Rightarrow> u64 \<times> allocation_record \<Rightarrow> bool" where
  "in_redzone address = (\<lambda>(ptr, r).
     address \<ge> ptr + ar_size r \<and> address < ptr + ar_size r + 16)"

definition audited :: "machine \<Rightarrow> bool" where
  "audited s \<longleftrightarrow> \<not> (t_active_function (s_tracer s) \<noteq> FnNone
                   \<or> is_internal (s_emu s) (c_rip (s_cpu s)))"

definition on_memory_write :: "u64 \<Rightarrow> (machine, unit) smon" where
  "on_memory_write address =
     bind (get_tracer t_enabled) (\<lambda>enabled.
     if \<not> enabled then return ()
     else
       bind (get_tracer (\<lambda>t. live_allocation_containing t address)) (\<lambda>live.
       seq (case live of
              None \<Rightarrow> return ()
            | Some (ptr, _) \<Rightarrow> upd_tracer (\<lambda>t. t\<lparr>t_allocations :=
                amap_adjust ptr (mark_byte_initialized address) (t_allocations t)\<rparr>))
       (bind (gets audited) (\<lambda>audit.
       if \<not> audit then return ()
       else
         bind (gets s_tracer) (\<lambda>t.
         case freed_allocation_containing t address of
           Some (_, freed) \<Rightarrow> report_use_after_free address (ar_ptr freed) freed
         | None \<Rightarrow>
             (case find (in_redzone address) (t_allocations t) of
                Some (ptr, r) \<Rightarrow> report_heap_overflow address ptr r
              | None \<Rightarrow> return ()))))))"

definition on_memory_read :: "u64 \<Rightarrow> (machine, unit) smon" where
  "on_memory_read address =
     bind (get_tracer t_enabled) (\<lambda>enabled.
     bind (gets audited) (\<lambda>audit.
     if \<not> enabled \<or> \<not> audit then return ()
     else
       bind (gets s_tracer) (\<lambda>t.
       case freed_allocation_containing t address of
         Some (_, freed) \<Rightarrow> report_use_after_free_read address (ar_ptr freed) freed
       | None \<Rightarrow>
           (case live_allocation_containing t address of
              None \<Rightarrow> return ()
            | Some (_, r) \<Rightarrow>
                when_do (ar_initialized r \<noteq> []
                    \<and> unat (address - ar_ptr r) < length (ar_initialized r)
                    \<and> \<not> ar_initialized r ! unat (address - ar_ptr r))
                  (report_uninitialized_read address (ar_ptr r) r)))))"

section \<open>Entering and leaving the allocator\<close>

definition max_tracked_init_bytes :: u64 where
  "max_tracked_init_bytes = 0x100000"

definition trace_message :: "message \<Rightarrow> (machine, unit) smon" where
  "trace_message msg =
     bind (get_emu e_options) (\<lambda>options. when_do (opt_trace_syscalls options) (print_err msg))"

definition record_allocation :: "u64 \<Rightarrow> u64 \<Rightarrow> bool \<Rightarrow> (machine, unit) smon" where
  "record_allocation ptr sz initialized =
     seq (upd_tracer (\<lambda>t. t\<lparr>
            t_allocations := amap_insert ptr
              \<lparr>ar_ptr = ptr, ar_size = sz, ar_backtrace = t_entry_backtrace t, ar_freed = False,
               ar_initialized = (if sz \<le> max_tracked_init_bytes
                                 then replicate (unat sz) initialized else [])\<rparr>
              (t_allocations t),
            t_freed := amap_erase ptr (t_freed t)\<rparr>))
         (catch_emulator_error (on_mmu (mark_initialized ptr (unat sz) True)) (return ()))"

definition move_to_freed :: "u64 \<Rightarrow> (machine, unit) smon" where
  "move_to_freed ptr =
     bind (get_tracer (\<lambda>t. map_of (t_allocations t) ptr)) (\<lambda>found.
     case found of
       None \<Rightarrow> return ()
     | Some r \<Rightarrow>
         seq (upd_tracer (\<lambda>t. t\<lparr>
                t_allocations := amap_erase ptr (t_allocations t),
                t_freed := amap_insert ptr (r\<lparr>ar_freed := True\<rparr>) (t_freed t)\<rparr>))
             (trace_message (TraceFree ptr)))"

definition on_malloc_leave :: "u64 \<Rightarrow> (machine, unit) smon" where
  "on_malloc_leave result =
     (if result = 0 then return ()
      else bind (get_tracer t_entry_arg0) (\<lambda>sz.
        seq (record_allocation result sz False) (trace_message (TraceMalloc sz result))))"

definition on_free_enter :: "u64 \<Rightarrow> (machine, unit) smon" where
  "on_free_enter ptr =
     seq (upd_tracer (\<lambda>t. t\<lparr>t_pending_free_ptr := 0\<rparr>))
     (if ptr = 0 then return ()
      else bind (gets s_tracer) (\<lambda>t.
        case map_of (t_freed t) ptr of
          Some freed \<Rightarrow> report_double_free ptr freed
        | None \<Rightarrow>
            (case map_of (t_allocations t) ptr of
               None \<Rightarrow> report_invalid_free ptr
             | Some _ \<Rightarrow> upd_tracer (\<lambda>t. t\<lparr>t_pending_free_ptr := ptr\<rparr>))))"

definition on_free_leave :: "(machine, unit) smon" where
  "on_free_leave =
     bind (get_tracer t_pending_free_ptr) (\<lambda>pending.
     if pending = 0 then return ()
     else seq (move_to_freed pending) (upd_tracer (\<lambda>t. t\<lparr>t_pending_free_ptr := 0\<rparr>)))"

text \<open>\<open>for (i = 0; i < preserved; ++i) mark_byte_initialized(*record, result + i)\<close>\<close>

definition mark_preserved :: "u64 \<Rightarrow> nat \<Rightarrow> allocation_record \<Rightarrow> allocation_record" where
  "mark_preserved result preserved r =
     fold (\<lambda>i. mark_byte_initialized (result + of_nat i)) [0..<preserved] r"

definition on_realloc_leave :: "u64 \<Rightarrow> (machine, unit) smon" where
  "on_realloc_leave result =
     bind (gets s_tracer) (\<lambda>t0.
     let old_ptr = t_entry_arg0 t0; new_size = t_entry_arg1 t0 in
     if old_ptr = 0 then when_do (result \<noteq> 0) (record_allocation result new_size False)
     else if new_size = 0
     then when_do (map_of (t_allocations t0) old_ptr \<noteq> None) (move_to_freed old_ptr)
     else
       bind (case map_of (t_allocations t0) old_ptr of
               Some r \<Rightarrow> seq (move_to_freed old_ptr) (return (ar_size r))
             | None \<Rightarrow> seq (report_realloc_error old_ptr (map_of (t_freed t0) old_ptr)) (return 0))
         (\<lambda>old_size.
       seq (when_do (result \<noteq> 0)
             (seq (record_allocation result new_size False)
             (bind (get_tracer (\<lambda>t. live_allocation_containing t result)) (\<lambda>live.
              case live of
                None \<Rightarrow> return ()
              | Some (ptr, _) \<Rightarrow> upd_tracer (\<lambda>t. t\<lparr>t_allocations :=
                  amap_adjust ptr (mark_preserved result (unat (min old_size new_size)))
                    (t_allocations t)\<rparr>)))))
       (trace_message (TraceRealloc old_ptr new_size result))))"

definition on_calloc_leave :: "u64 \<Rightarrow> (machine, unit) smon" where
  "on_calloc_leave result =
     (if result = 0 then return ()
      else bind (gets s_tracer) (\<lambda>t.
        let nmemb = t_entry_arg0 t; elem_size = t_entry_arg1 t in
        seq (record_allocation result (nmemb * elem_size) True)
            (trace_message (TraceCalloc nmemb elem_size result))))"

definition on_function_enter :: "alloc_function \<Rightarrow> (machine, unit) smon" where
  "on_function_enter f =
     bind (lift_sum raw_backtrace) (\<lambda>bt.
     bind (gets s_cpu) (\<lambda>c.
     seq (upd_tracer (\<lambda>t. t\<lparr>t_entry_backtrace := bt, t_entry_arg0 := c_gpr c RDI,
                            t_entry_arg1 := c_gpr c RSI\<rparr>))
         (when_do (f = FnFree) (on_free_enter (c_gpr c RDI)))))"

definition on_function_leave :: "(machine, unit) smon" where
  "on_function_leave =
     bind (get_cpu (\<lambda>c. c_gpr c RAX)) (\<lambda>result.
     bind (get_tracer t_active_function) (\<lambda>f.
     case f of
       FnMalloc \<Rightarrow> on_malloc_leave result
     | FnFree \<Rightarrow> on_free_leave
     | FnRealloc \<Rightarrow> on_realloc_leave result
     | FnCalloc \<Rightarrow> on_calloc_leave result
     | FnNone \<Rightarrow> return ()))"

definition tracer_step :: "(machine, unit) smon" where
  "tracer_step =
     bind (get_tracer t_enabled) (\<lambda>enabled.
     if \<not> enabled then return ()
     else
       bind (gets (\<lambda>s. detect_allocation_function_entry (s_emu s) (c_rip (s_cpu s)))) (\<lambda>current.
       bind (get_tracer t_active_function) (\<lambda>active.
       if active = FnNone
       then if current = FnNone then return ()
         else bind (lift_sum caller_is_internal) (\<lambda>internal.
           if internal then return ()
           else seq (upd_tracer (\<lambda>t. t\<lparr>t_active_function := current\<rparr>))
                    (on_function_enter current))
       else
         bind (gets (\<lambda>s. is_internal (s_emu s) (c_rip (s_cpu s)))) (\<lambda>internal.
         when_do (\<not> internal \<and> current = FnNone)
           (seq on_function_leave (upd_tracer (\<lambda>t. t\<lparr>t_active_function := FnNone\<rparr>)))))))"

section \<open>Reachability and the leak report\<close>

definition allocation_base :: "alloc_map \<Rightarrow> u64 \<Rightarrow> u64" where
  "allocation_base m v = (case allocation_containing m v of None \<Rightarrow> 0 | Some (l, _) \<Rightarrow> l)"

text \<open>The worklist is kept with its back at the head of the list.\<close>

definition consider_value :: "alloc_map \<Rightarrow> u64 \<Rightarrow> u64 set \<times> u64 list \<Rightarrow> u64 set \<times> u64 list" where
  "consider_value m v = (\<lambda>(reachable, worklist).
     let base = allocation_base m v in
     if base \<noteq> 0 \<and> base \<notin> reachable then (insert base reachable, base # worklist)
     else (reachable, worklist))"

definition region_word :: "region \<Rightarrow> nat \<Rightarrow> exn + u64" where
  "region_word r offset =
     fold (\<lambda>b acc. sbind acc (\<lambda>v. sbind (read_offset r (of_nat (offset + b))) (\<lambda>byte.
         Inr (v OR push_bit (b * 8) (ucast byte))))) [0..<8] (Inr 0)"

fun scan_region_words ::
  "alloc_map \<Rightarrow> region \<Rightarrow> nat list \<Rightarrow> u64 set \<times> u64 list \<Rightarrow> exn + u64 set \<times> u64 list" where
  "scan_region_words m r [] acc = Inr acc"
| "scan_region_words m r (offset # offsets) acc =
     (if allocation_base m (r_base r + of_nat offset) \<noteq> 0 then scan_region_words m r offsets acc
      else sbind (region_word r offset) (\<lambda>v. scan_region_words m r offsets (consider_value m v acc)))"

definition word_offsets :: "u64 \<Rightarrow> nat list" where
  "word_offsets sz = map (\<lambda>i. 8 * i) [0..<unat sz div 8]"

fun scan_regions ::
  "alloc_map \<Rightarrow> region list \<Rightarrow> u64 set \<times> u64 list \<Rightarrow> exn + u64 set \<times> u64 list" where
  "scan_regions m [] acc = Inr acc"
| "scan_regions m (r # rs) acc =
     (if \<not> writable r \<or> r_size r < 8 then scan_regions m rs acc
      else sbind (scan_region_words m r (word_offsets (r_size r)) acc) (scan_regions m rs))"

fun scan_block ::
  "alloc_map \<Rightarrow> mmu \<Rightarrow> u64 \<Rightarrow> nat list \<Rightarrow> u64 set \<times> u64 list \<Rightarrow> exn + u64 set \<times> u64 list" where
  "scan_block m mem base [] acc = Inr acc"
| "scan_block m mem base (offset # offsets) acc =
     sbind (read64 mem (base + of_nat offset)) (\<lambda>v.
     scan_block m mem base offsets (consider_value m v acc))"


text \<open>What \<^verbatim>\<open>consider\<close> adds: fresh bases of live allocations.\<close>

definition grows :: "alloc_map \<Rightarrow> u64 set \<times> u64 list \<Rightarrow> u64 set \<times> u64 list \<Rightarrow> bool" where
  "grows m acc acc' \<longleftrightarrow> (\<exists>new. snd acc' = new @ snd acc \<and> fst acc' = fst acc \<union> set new \<and>
     set new \<inter> fst acc = {} \<and> set new \<subseteq> fst ` set m)"

lemma grows_refl [simp]: "grows m acc acc"
  by (simp add: grows_def)

lemma grows_trans: "grows m a b \<Longrightarrow> grows m b c \<Longrightarrow> grows m a c"
  unfolding grows_def by (elim exE conjE, rule_tac x = "newa @ new" in exI) auto

lemma allocation_containing_mem:
  "allocation_containing m v = Some (l, r) \<Longrightarrow> (l, r) \<in> set m \<and> l \<le> v \<and> v < l + ar_size r"
  by (auto simp: allocation_containing_def floor_entry_def find_Some_iff in_set_conv_nth rev_nth
      split: option.splits if_splits)
    (metis diff_Suc_less less_nat_zero_code linorder_neqE_nat)

lemma allocation_base_mem: "allocation_base m v \<noteq> 0 \<Longrightarrow> allocation_base m v \<in> fst ` set m"
  using allocation_containing_mem [of m v]
  by (force simp: allocation_base_def split: option.splits)

lemma grows_consider: "grows m acc (consider_value m v acc)"
  using allocation_base_mem [of m v]
  by (cases acc) (auto simp: grows_def consider_value_def Let_def)

lemma grows_scan_block: "scan_block m mem base offs acc = Inr acc' \<Longrightarrow> grows m acc acc'"
  by (induction m mem base offs acc rule: scan_block.induct)
     (auto simp: sbind_eq_Inr intro: grows_trans grows_consider)

lemma grows_measure:
  assumes "grows m (reachable, worklist) acc"
  shows "(acc, reachable, base # worklist) \<in>
     inv_image (less_than <*lex*> less_than)
       (\<lambda>(reachable, worklist). (card (fst ` set m - reachable), length worklist))"
proof -
  from assms obtain new where new: "acc = (reachable \<union> set new, new @ worklist)"
    "set new \<inter> reachable = {}" "set new \<subseteq> fst ` set m"
    by (cases acc) (auto simp: grows_def)
  show ?thesis
  proof (cases new)
    case (Cons b bs)
    then have "fst ` set m - (reachable \<union> set new) \<subset> fst ` set m - reachable"
      using new by auto
    then have "card (fst ` set m - (reachable \<union> set new)) < card (fst ` set m - reachable)"
      by (intro psubset_card_mono) auto
    with new show ?thesis by simp
  qed (use new in simp)
qed

function reach_loop :: "alloc_map \<Rightarrow> mmu \<Rightarrow> u64 set \<times> u64 list \<Rightarrow> exn + u64 set" where
  "reach_loop m mem (reachable, []) = Inr reachable"
| "reach_loop m mem (reachable, base # worklist) =
     (case map_of m base of
        None \<Rightarrow> reach_loop m mem (reachable, worklist)
      | Some r \<Rightarrow>
          (case scan_block m mem base (word_offsets (ar_size r)) (reachable, worklist) of
             Inl e \<Rightarrow> Inl e
           | Inr acc \<Rightarrow> reach_loop m mem acc))"
  by pat_completeness auto
termination
proof (relation "inv_image (less_than <*lex*> less_than)
    (\<lambda>(m, mem, reachable, worklist). (card (fst ` set m - reachable), length worklist))", goal_cases)
  case (3 m mem reachable base worklist r acc)
  then show ?case using grows_measure [OF grows_scan_block, of m mem base _ reachable worklist acc base]
    by auto
qed auto

definition gpr_values :: "cpu \<Rightarrow> u64 list" where
  "gpr_values c = map (\<lambda>i. c_gpr c (of_nat i)) [0..<16]"

definition compute_reachable_allocations :: "machine \<Rightarrow> exn + u64 set" where
  "compute_reachable_allocations s =
     (let m = t_allocations (s_tracer s) in
      if m = [] then Inr {}
      else
        sbind (scan_regions m (m_regions (s_mmu s))
                 (fold (consider_value m) (gpr_values (s_cpu s)) ({}, []))) (\<lambda>acc.
        reach_loop m (s_mmu s) acc))"

definition dump_leak_report :: "(machine, unit) smon" where
  "dump_leak_report =
     bind (gets s_tracer) (\<lambda>t.
     if \<not> t_enabled t then return ()
     else if t_allocations t = [] then print_err ReportNoLeaks
     else
       bind (lift_sum compute_reachable_allocations) (\<lambda>reachable.
       let blocks = t_allocations t;
           total_leaked = sum_list (map (\<lambda>(ptr, r). ar_size r) blocks);
           lost_count = length (filter (\<lambda>(ptr, r). ptr \<notin> reachable) blocks) in
       seq (print_err (ReportLeakSummary (length blocks) total_leaked lost_count
                         (length blocks - lost_count)))
           (for_loop 0 (length blocks) (\<lambda>i. case blocks ! i of (ptr, r) \<Rightarrow>
              print_err (ReportLeak (ar_size r) ptr (ptr \<in> reachable) (ar_backtrace r))))))"

definition dump_event_log :: "(machine, unit) smon" where
  "dump_event_log =
     bind (gets s_tracer) (\<lambda>t.
     if \<not> t_enabled t then return ()
     else
       seq (print_err (EventLogCounts (length (t_allocations t)) (length (t_freed t))))
           (print_err (EventLogBytes (sum_list (map (\<lambda>(ptr, r). ar_size r) (t_allocations t))))))"

end
