(* ===== verification/GuestMemory.thy ===== *)
theory GuestMemory
  imports Tracer
begin

text \<open>
  The accessors of \<^verbatim>\<open>SoftMMU\<close> that call an observer: the reads that return the
  initialisation shadow, and all writes. The observers are installed when the option
  \<^verbatim>\<open>malloc_trace\<close> is on; they change the tracer but not the memory, so the region resolved
  before the call is the one accessed after it.
\<close>

definition observe :: "(machine, unit) smon \<Rightarrow> (machine, unit) smon" where
  "observe observer =
     bind (get_emu e_options) (\<lambda>options. when_do (opt_malloc_trace options) observer)"

section \<open>Plain reads\<close>

definition mem_read8 :: "u64 \<Rightarrow> (machine, u8) smon" where
  "mem_read8 address = read_mmu (\<lambda>m. read8 m address)"

definition mem_read16 :: "u64 \<Rightarrow> (machine, u16) smon" where
  "mem_read16 address = read_mmu (\<lambda>m. read16 m address)"

definition mem_read32 :: "u64 \<Rightarrow> (machine, u32) smon" where
  "mem_read32 address = read_mmu (\<lambda>m. read32 m address)"

definition mem_read64 :: "u64 \<Rightarrow> (machine, u64) smon" where
  "mem_read64 address = read_mmu (\<lambda>m. read64 m address)"

section \<open>Reads with shadow\<close>

definition read8_with_shadow :: "u64 \<Rightarrow> (machine, u8 value_with_shadow) smon" where
  "read8_with_shadow address =
     bind (read_mmu (\<lambda>m. region_for m address ProtRead)) (\<lambda>r.
     seq (observe (on_memory_read address))
         (lift_sum (\<lambda>_. read_offset_with_shadow r (address - r_base r))))"

fun read_shadow_loop ::
  "u64 \<Rightarrow> nat \<Rightarrow> nat \<Rightarrow> 'a::len word \<Rightarrow> 'a word \<Rightarrow> (machine, 'a word value_with_shadow) smon" where
  "read_shadow_loop address i 0 v sh = return \<lparr>vs_value = v, vs_shadow = sh\<rparr>"
| "read_shadow_loop address i (Suc n) v sh =
     bind (read8_with_shadow (address + of_nat i)) (\<lambda>byte.
     read_shadow_loop address (Suc i) n
       (v OR push_bit (i * 8) (ucast (vs_value byte)))
       (if is_uninitialized byte then sh OR push_bit (i * 8) 0xff else sh))"

definition read16_with_shadow :: "u64 \<Rightarrow> (machine, u16 value_with_shadow) smon" where
  "read16_with_shadow address = read_shadow_loop address 0 2 0 0"

definition read32_with_shadow :: "u64 \<Rightarrow> (machine, u32 value_with_shadow) smon" where
  "read32_with_shadow address = read_shadow_loop address 0 4 0 0"

definition read64_with_shadow :: "u64 \<Rightarrow> (machine, u64 value_with_shadow) smon" where
  "read64_with_shadow address = read_shadow_loop address 0 8 0 0"

section \<open>Writes\<close>

definition write8_with_shadow :: "u64 \<Rightarrow> u8 value_with_shadow \<Rightarrow> (machine, unit) smon" where
  "write8_with_shadow address v =
     bind (read_mmu (\<lambda>m. region_for m address ProtWrite)) (\<lambda>_.
     seq (observe (on_memory_write address))
         (on_mmu (store8 address (vs_value v) (is_initialized v))))"

definition write_shadow_loop ::
  "nat \<Rightarrow> u64 \<Rightarrow> 'a::len word value_with_shadow \<Rightarrow> (machine, unit) smon" where
  "write_shadow_loop n address v =
     for_loop 0 n (\<lambda>i. write8_with_shadow (address + of_nat i)
       \<lparr>vs_value = ucast (drop_bit (i * 8) (vs_value v)),
        vs_shadow = ucast (drop_bit (i * 8) (vs_shadow v))\<rparr>)"

definition write16_with_shadow :: "u64 \<Rightarrow> u16 value_with_shadow \<Rightarrow> (machine, unit) smon" where
  "write16_with_shadow address v = write_shadow_loop 2 address v"

definition write32_with_shadow :: "u64 \<Rightarrow> u32 value_with_shadow \<Rightarrow> (machine, unit) smon" where
  "write32_with_shadow address v = write_shadow_loop 4 address v"

definition write64_with_shadow :: "u64 \<Rightarrow> u64 value_with_shadow \<Rightarrow> (machine, unit) smon" where
  "write64_with_shadow address v = write_shadow_loop 8 address v"

definition write8 :: "u64 \<Rightarrow> u8 \<Rightarrow> (machine, unit) smon" where
  "write8 address v = write8_with_shadow address (vs_initialized v)"

definition write16 :: "u64 \<Rightarrow> u16 \<Rightarrow> (machine, unit) smon" where
  "write16 address v = for_loop 0 2 (\<lambda>i. write8 (address + of_nat i) (ucast (drop_bit (i * 8) v)))"

definition write32 :: "u64 \<Rightarrow> u32 \<Rightarrow> (machine, unit) smon" where
  "write32 address v = for_loop 0 4 (\<lambda>i. write8 (address + of_nat i) (ucast (drop_bit (i * 8) v)))"

definition write64 :: "u64 \<Rightarrow> u64 \<Rightarrow> (machine, unit) smon" where
  "write64 address v = for_loop 0 8 (\<lambda>i. write8 (address + of_nat i) (ucast (drop_bit (i * 8) v)))"

definition copy_to_guest :: "u64 \<Rightarrow> u8 list \<Rightarrow> (machine, unit) smon" where
  "copy_to_guest destination bytes =
     for_loop 0 (length bytes) (\<lambda>i. write8 (destination + of_nat i) (bytes ! i))"

end
