(* ===== verification/CPU_Core.thy ===== *)
theory CPU_Core
  imports GuestMemory
begin

text \<open>
  \<^verbatim>\<open>src/SoftCPU64.cpp\<close>, the parts every instruction uses: fetching and decoding, registers
  with their taint, operands, the stack, the flags and the arithmetic that sets them. Functions
  that touch only the CPU are functions on the \<open>cpu\<close> record (those that also return a value give
  the pair of value and new state); the ones that reach memory run in the machine.

  A register number is a natural number of which the code uses the low four bits
  (\<^verbatim>\<open>reg & 15\<close>), a width is a number of bits, and a signed displacement is its two's
  complement in 64 bits.
\<close>

section \<open>Flags\<close>

definition CF :: u64 where "CF = 0x1"
definition PF :: u64 where "PF = 0x4"
definition AF :: u64 where "AF = 0x10"
definition ZF :: u64 where "ZF = 0x40"
definition SF :: u64 where "SF = 0x80"
definition DF :: u64 where "DF = 0x400"
definition OF :: u64 where "OF = 0x800"

lemmas flag_defs = CF_def PF_def AF_def ZF_def SF_def DF_def OF_def

definition parity_even :: "u8 \<Rightarrow> bool" where
  "parity_even v0 =
     (let v1 = v0 XOR drop_bit 4 v0; v = v1 AND 0xf in
      drop_bit (unat v) (0x6996 :: u32) AND 1 \<noteq> 0)"

definition set_flag :: "u64 \<Rightarrow> bool \<Rightarrow> cpu \<Rightarrow> cpu" where
  "set_flag f v c =
     (if v then c\<lparr>c_rflags := c_rflags c OR f\<rparr> else c\<lparr>c_rflags := c_rflags c AND NOT f\<rparr>)"

definition flag :: "u64 \<Rightarrow> cpu \<Rightarrow> bool" where
  "flag f c \<longleftrightarrow> c_rflags c AND f \<noteq> 0"

section \<open>Widths\<close>

definition mask_for_width :: "nat \<Rightarrow> u64" where
  "mask_for_width width = (if width = 64 then NOT 0 else push_bit width 1 - 1)"

definition sign_bit_for_width :: "nat \<Rightarrow> u64" where
  "sign_bit_for_width width = push_bit (width - 1) 1"

definition sign_extend :: "u64 \<Rightarrow> nat \<Rightarrow> u64" where
  "sign_extend value width =
     (let sign = sign_bit_for_width width; v = value AND mask_for_width width in
      (v XOR sign) - sign)"

section \<open>Arithmetic with flags\<close>

definition update_flags_taint :: "cpu \<Rightarrow> cpu" where
  "update_flags_taint c = c\<lparr>c_flags_tainted := c_current_taint c\<rparr>"

definition set_logic_flags :: "u64 \<Rightarrow> nat \<Rightarrow> cpu \<Rightarrow> cpu" where
  "set_logic_flags result0 width c0 =
     (let result = result0 AND mask_for_width width;
          c1 = set_flag CF False c0;
          c2 = set_flag OF False c1;
          c3 = set_flag SF (result AND sign_bit_for_width width \<noteq> 0) c2;
          c4 = set_flag ZF (result = 0) c3;
          c5 = set_flag PF (parity_even (ucast result)) c4 in
      update_flags_taint c5)"

definition add :: "u64 \<Rightarrow> u64 \<Rightarrow> nat \<Rightarrow> bool \<Rightarrow> cpu \<Rightarrow> u64 \<times> cpu" where
  "add lhs rhs width carry c0 =
     (let mask = mask_for_width width;
          carry_value = (if carry \<and> flag CF c0 then 1 else 0);
          full = (lhs AND mask) + (rhs AND mask) + carry_value;
          result = full AND mask;
          c1 = set_flag CF (full > mask) c0;
          c2 = set_flag AF ((lhs XOR rhs XOR result) AND 0x10 \<noteq> 0) c1;
          c3 = set_flag SF (result AND sign_bit_for_width width \<noteq> 0) c2;
          c4 = set_flag ZF (result = 0) c3;
          c5 = set_flag PF (parity_even (ucast result)) c4;
          c6 = set_flag OF
                 (NOT (lhs XOR rhs) AND (lhs XOR result) AND sign_bit_for_width width \<noteq> 0) c5 in
      (result, update_flags_taint c6))"

definition sub :: "u64 \<Rightarrow> u64 \<Rightarrow> nat \<Rightarrow> bool \<Rightarrow> cpu \<Rightarrow> u64 \<times> cpu" where
  "sub lhs rhs width borrow c0 =
     (let mask = mask_for_width width;
          borrow_value = (if borrow \<and> flag CF c0 then 1 else 0);
          rhs_with_borrow = (rhs AND mask) + borrow_value;
          result = ((lhs AND mask) - rhs_with_borrow) AND mask;
          c1 = set_flag CF ((lhs AND mask) < rhs_with_borrow) c0;
          c2 = set_flag AF ((lhs XOR rhs XOR result) AND 0x10 \<noteq> 0) c1;
          c3 = set_flag SF (result AND sign_bit_for_width width \<noteq> 0) c2;
          c4 = set_flag ZF (result = 0) c3;
          c5 = set_flag PF (parity_even (ucast result)) c4;
          c6 = set_flag OF
                 ((lhs XOR rhs) AND (lhs XOR result) AND sign_bit_for_width width \<noteq> 0) c5 in
      (result, update_flags_taint c6))"

fun condition_code :: "nat \<Rightarrow> cpu \<Rightarrow> bool" where
  "condition_code cc c =
     (if cc = 0 then flag OF c
      else if cc = 1 then \<not> flag OF c
      else if cc = 2 then flag CF c
      else if cc = 3 then \<not> flag CF c
      else if cc = 4 then flag ZF c
      else if cc = 5 then \<not> flag ZF c
      else if cc = 6 then flag CF c \<or> flag ZF c
      else if cc = 7 then \<not> flag CF c \<and> \<not> flag ZF c
      else if cc = 8 then flag SF c
      else if cc = 9 then \<not> flag SF c
      else if cc = 10 then flag PF c
      else if cc = 11 then \<not> flag PF c
      else if cc = 12 then flag SF c \<noteq> flag OF c
      else if cc = 13 then flag SF c = flag OF c
      else if cc = 14 then flag ZF c \<or> flag SF c \<noteq> flag OF c
      else if cc = 15 then \<not> flag ZF c \<and> flag SF c = flag OF c
      else False)"

declare condition_code.simps [simp del]

definition condition :: "nat \<Rightarrow> cpu \<Rightarrow> bool" where
  "condition cc c = condition_code (cc mod 16) c"

section \<open>Prefixes\<close>

record prefixes =
  p_operand16 :: bool
  p_address32 :: bool
  p_repz :: bool
  p_repnz :: bool
  p_lock :: bool
  p_segment :: int
  p_rex_present :: bool
  p_rex :: u8

definition no_prefixes :: prefixes where
  "no_prefixes = \<lparr>p_operand16 = False, p_address32 = False, p_repz = False, p_repnz = False,
     p_lock = False, p_segment = -1, p_rex_present = False, p_rex = 0\<rparr>"

definition rex_w :: "prefixes \<Rightarrow> bool" where
  "rex_w p \<longleftrightarrow> p_rex p AND 0x8 \<noteq> 0"

definition rex_r :: "prefixes \<Rightarrow> nat" where
  "rex_r p = (if p_rex p AND 0x4 \<noteq> 0 then 8 else 0)"

definition rex_x :: "prefixes \<Rightarrow> nat" where
  "rex_x p = (if p_rex p AND 0x2 \<noteq> 0 then 8 else 0)"

definition rex_b :: "prefixes \<Rightarrow> nat" where
  "rex_b p = (if p_rex p AND 0x1 \<noteq> 0 then 8 else 0)"

text \<open>One turn of the switch of \<^verbatim>\<open>read_prefixes\<close>; \<open>None\<close> is the return.\<close>

definition apply_prefix :: "u8 \<Rightarrow> prefixes \<Rightarrow> prefixes option" where
  "apply_prefix byte p =
     (if byte = 0x66 then Some (p\<lparr>p_operand16 := True\<rparr>)
      else if byte = 0x67 then Some (p\<lparr>p_address32 := True\<rparr>)
      else if byte = 0x26 \<or> byte = 0x2e \<or> byte = 0x36 \<or> byte = 0x3e
      then Some (p\<lparr>p_segment := uint byte\<rparr>)
      else if byte = 0xf0 then Some (p\<lparr>p_lock := True\<rparr>)
      else if byte = 0xf2 then Some (p\<lparr>p_repnz := True\<rparr>)
      else if byte = 0xf3 then Some (p\<lparr>p_repz := True\<rparr>)
      else if byte = 0x64 then Some (p\<lparr>p_segment := 64\<rparr>)
      else if byte = 0x65 then Some (p\<lparr>p_segment := 65\<rparr>)
      else if byte \<ge> 0x40 \<and> byte \<le> 0x4f
      then Some (p\<lparr>p_rex_present := True, p_rex := byte - 0x40\<rparr>)
      else None)"

text \<open>The loop; the result carries the \<^verbatim>\<open>m_decode_pc\<close> reached, also when a read throws.\<close>

partial_function (option) prefix_loop ::
  "mmu \<Rightarrow> u64 \<Rightarrow> prefixes \<Rightarrow> ((exn + prefixes) \<times> u64) option" where
  "prefix_loop m pc p =
     (case read8 m pc of
        Inl e \<Rightarrow> Some (Inl e, pc)
      | Inr byte \<Rightarrow>
          (case apply_prefix byte p of
             None \<Rightarrow> Some (Inr p, pc)
           | Some p' \<Rightarrow> prefix_loop m (pc + 1) p'))"

declare prefix_loop.simps [code]

definition read_prefixes :: "(machine, prefixes) smon" where
  "read_prefixes = (\<lambda>s.
     case prefix_loop (s_mmu s) (c_decode_pc (s_cpu s)) no_prefixes of
       None \<Rightarrow> (Inl Diverges, s)
     | Some (r, pc) \<Rightarrow> (r, s\<lparr>s_cpu := (s_cpu s)\<lparr>c_decode_pc := pc\<rparr>\<rparr>))"

section \<open>Fetching\<close>

definition set_decode_pc :: "u64 \<Rightarrow> (machine, unit) smon" where
  "set_decode_pc pc = upd_cpu (\<lambda>c. c\<lparr>c_decode_pc := pc\<rparr>)"

definition fetch8 :: "(machine, u8) smon" where
  "fetch8 = bind (get_cpu c_decode_pc) (\<lambda>pc. seq (set_decode_pc (pc + 1)) (mem_read8 pc))"

definition fetch16 :: "(machine, u16) smon" where
  "fetch16 = bind (get_cpu c_decode_pc) (\<lambda>pc.
     bind (mem_read16 pc) (\<lambda>value. seq (set_decode_pc (pc + 2)) (return value)))"

definition fetch32 :: "(machine, u32) smon" where
  "fetch32 = bind (get_cpu c_decode_pc) (\<lambda>pc.
     bind (mem_read32 pc) (\<lambda>value. seq (set_decode_pc (pc + 4)) (return value)))"

definition fetch64 :: "(machine, u64) smon" where
  "fetch64 = bind (get_cpu c_decode_pc) (\<lambda>pc.
     bind (mem_read64 pc) (\<lambda>value. seq (set_decode_pc (pc + 8)) (return value)))"

text \<open>The signed fetches, already converted to 64 bits as every use does.\<close>

definition fetch_i8 :: "(machine, u64) smon" where
  "fetch_i8 = bind fetch8 (\<lambda>b. return (scast b))"

definition fetch_i32 :: "(machine, u64) smon" where
  "fetch_i32 = bind fetch32 (\<lambda>w. return (scast w))"

section \<open>Registers\<close>

definition legacy_high_byte :: "nat \<Rightarrow> prefixes \<Rightarrow> bool" where
  "legacy_high_byte i p \<longleftrightarrow> \<not> p_rex_present p \<and> i \<ge> 4 \<and> i \<le> 7"

definition gpr_shadow :: "nat \<Rightarrow> nat \<Rightarrow> prefixes \<Rightarrow> cpu \<Rightarrow> u64" where
  "gpr_shadow register_index width p c =
     (let i = register_index mod 16 in
      if width = 8
      then if legacy_high_byte i p then drop_bit 8 (c_gpr_shadow c (of_nat (i - 4))) AND 0xff
           else c_gpr_shadow c (of_nat i) AND 0xff
      else if width = 16 then c_gpr_shadow c (of_nat i) AND 0xffff
      else if width = 32 then c_gpr_shadow c (of_nat i) AND 0xffffffff
      else c_gpr_shadow c (of_nat i))"

definition set_gpr_shadow :: "nat \<Rightarrow> nat \<Rightarrow> u64 \<Rightarrow> prefixes \<Rightarrow> cpu \<Rightarrow> cpu" where
  "set_gpr_shadow register_index width shadow0 p c =
     (let i = register_index mod 16; shadow = shadow0 AND mask_for_width width; old = c_gpr_shadow c in
      if width = 8
      then if legacy_high_byte i p
           then c\<lparr>c_gpr_shadow := old(of_nat (i - 4) :=
                  (old (of_nat (i - 4)) AND NOT 0xff00) OR push_bit 8 shadow)\<rparr>
           else c\<lparr>c_gpr_shadow := old(of_nat i := (old (of_nat i) AND NOT 0xff) OR shadow)\<rparr>
      else if width = 16
      then c\<lparr>c_gpr_shadow := old(of_nat i := (old (of_nat i) AND NOT 0xffff) OR shadow)\<rparr>
      else c\<lparr>c_gpr_shadow := old(of_nat i := shadow)\<rparr>)"

definition gpr_value :: "nat \<Rightarrow> nat \<Rightarrow> prefixes \<Rightarrow> cpu \<Rightarrow> u64" where
  "gpr_value register_index width p c =
     (let i = register_index mod 16 in
      if width = 8
      then if legacy_high_byte i p then drop_bit 8 (c_gpr c (of_nat (i - 4))) AND 0xff
           else c_gpr c (of_nat i) AND 0xff
      else if width = 16 then c_gpr c (of_nat i) AND 0xffff
      else if width = 32 then c_gpr c (of_nat i) AND 0xffffffff
      else c_gpr c (of_nat i))"

definition read_gpr :: "nat \<Rightarrow> nat \<Rightarrow> prefixes \<Rightarrow> cpu \<Rightarrow> u64 \<times> cpu" where
  "read_gpr register_index width p c =
     (gpr_value register_index width p c,
      if gpr_shadow register_index width p c \<noteq> 0 then c\<lparr>c_current_taint := True\<rparr> else c)"

definition write_gpr :: "nat \<Rightarrow> nat \<Rightarrow> u64 \<Rightarrow> prefixes \<Rightarrow> cpu \<Rightarrow> cpu" where
  "write_gpr register_index width value0 p c0 =
     (let c = set_gpr_shadow register_index width
                (if c_current_taint c0 then mask_for_width width else 0) p c0;
          i = register_index mod 16; value = value0 AND mask_for_width width; old = c_gpr c in
      if width = 8
      then if legacy_high_byte i p
           then c\<lparr>c_gpr := old(of_nat (i - 4) :=
                  (old (of_nat (i - 4)) AND NOT 0xff00) OR push_bit 8 value)\<rparr>
           else c\<lparr>c_gpr := old(of_nat i := (old (of_nat i) AND NOT 0xff) OR value)\<rparr>
      else if width = 16
      then c\<lparr>c_gpr := old(of_nat i := (old (of_nat i) AND NOT 0xffff) OR value)\<rparr>
      else c\<lparr>c_gpr := old(of_nat i := value)\<rparr>)"

text \<open>A CPU function that also returns a value, called from the machine.\<close>

definition cpu_call :: "(cpu \<Rightarrow> 'a \<times> cpu) \<Rightarrow> (machine, 'a) smon" where
  "cpu_call f = (\<lambda>s. case f (s_cpu s) of (x, c) \<Rightarrow> (Inr x, s\<lparr>s_cpu := c\<rparr>))"

definition do_read_gpr :: "nat \<Rightarrow> nat \<Rightarrow> prefixes \<Rightarrow> (machine, u64) smon" where
  "do_read_gpr register_index width p = cpu_call (read_gpr register_index width p)"

definition do_write_gpr :: "nat \<Rightarrow> nat \<Rightarrow> u64 \<Rightarrow> prefixes \<Rightarrow> (machine, unit) smon" where
  "do_write_gpr register_index width v p = upd_cpu (write_gpr register_index width v p)"

definition set_gpr :: "regidx \<Rightarrow> u64 \<Rightarrow> cpu \<Rightarrow> cpu" where
  "set_gpr i v c = c\<lparr>c_gpr := (c_gpr c)(i := v)\<rparr>"

definition set_shadow :: "regidx \<Rightarrow> u64 \<Rightarrow> cpu \<Rightarrow> cpu" where
  "set_shadow i v c = c\<lparr>c_gpr_shadow := (c_gpr_shadow c)(i := v)\<rparr>"

definition set_taint :: "(machine, unit) smon" where
  "set_taint = upd_cpu (\<lambda>c. c\<lparr>c_current_taint := True\<rparr>)"

declare cpu_call_def [monad_defs]

section \<open>Warnings\<close>

definition warn_uninitialized_read :: "u64 \<Rightarrow> (machine, unit) smon" where
  "warn_uninitialized_read address = bind (gets s_cpu) (\<lambda>c.
     if c_instruction_start c \<in> c_reported_uninit_reads c then return ()
     else seq (upd_cpu (\<lambda>c. c\<lparr>c_reported_uninit_reads :=
                 insert (c_instruction_start c) (c_reported_uninit_reads c)\<rparr>))
              (print_err (WarnUninitializedRead address (c_instruction_start c))))"

definition warn_uninitialized_pointer :: "u64 \<Rightarrow> (machine, unit) smon" where
  "warn_uninitialized_pointer address = bind (gets s_cpu) (\<lambda>c.
     if c_instruction_start c \<in> c_reported_uninit_pointers c then return ()
     else seq (upd_cpu (\<lambda>c. c\<lparr>c_reported_uninit_pointers :=
                 insert (c_instruction_start c) (c_reported_uninit_pointers c)\<rparr>))
              (print_err (WarnUninitializedPointer address (c_instruction_start c))))"

definition warn_uninitialized_branch :: "(machine, unit) smon" where
  "warn_uninitialized_branch = bind (gets s_cpu) (\<lambda>c.
     if c_instruction_start c \<in> c_reported_uninit_branches c then return ()
     else seq (upd_cpu (\<lambda>c. c\<lparr>c_reported_uninit_branches :=
                 insert (c_instruction_start c) (c_reported_uninit_branches c)\<rparr>))
              (print_err (WarnUninitializedBranch (c_instruction_start c))))"

definition branch_condition :: "nat \<Rightarrow> (machine, bool) smon" where
  "branch_condition cc =
     bind (get_cpu c_flags_tainted) (\<lambda>tainted.
     seq (when_do tainted warn_uninitialized_branch) (get_cpu (condition cc)))"

section \<open>Decoding operands\<close>

record modrm =
  mr_byte :: u8
  mr_mod :: nat
  mr_reg :: nat
  mr_rm :: nat

definition is_register_form :: "modrm \<Rightarrow> bool" where
  "is_register_form m \<longleftrightarrow> mr_mod m = 3"

definition decode_modrm :: "prefixes \<Rightarrow> u8 \<Rightarrow> modrm" where
  "decode_modrm p byte =
     \<lparr>mr_byte = byte, mr_mod = unat (drop_bit 6 byte AND 3),
      mr_reg = unat (drop_bit 3 byte AND 7) + rex_r p, mr_rm = unat (byte AND 7) + rex_b p\<rparr>"

definition fetch_modrm :: "prefixes \<Rightarrow> (machine, modrm) smon" where
  "fetch_modrm p = bind fetch8 (\<lambda>byte. return (decode_modrm p byte))"

text \<open>\<^verbatim>\<open>(modrm.byte >> 3) & 7\<close>: the opcode extension of a group.\<close>

definition modrm_op :: "modrm \<Rightarrow> nat" where
  "modrm_op m = unat (drop_bit 3 (mr_byte m) AND 7)"

record operand =
  op_is_register :: bool
  op_reg :: nat
  op_address :: u64
  op_rip_relative :: bool
  op_rip_displacement :: u64

definition register_operand :: "nat \<Rightarrow> operand" where
  "register_operand r = \<lparr>op_is_register = True, op_reg = r, op_address = 0,
     op_rip_relative = False, op_rip_displacement = 0\<rparr>"

text \<open>
  The first half of \<^verbatim>\<open>decode_memory_address\<close>: base, scaled index, displacement, whether the
  form is RIP-relative, and whether a register used is tainted.
\<close>

definition decode_base_index ::
  "prefixes \<Rightarrow> modrm \<Rightarrow> (machine, u64 \<times> u64 \<times> u64 \<times> bool \<times> bool) smon" where
  "decode_base_index p m =
     (let rm_low = unat (mr_byte m AND 7) in
      if rm_low = 4 then
        bind fetch8 (\<lambda>sib.
        bind (gets s_cpu) (\<lambda>c.
        let scale = push_bit (unat (drop_bit 6 sib AND 3)) 1;
            index_low = unat (drop_bit 3 sib AND 7);
            base_low = unat (sib AND 7);
            has_index = (index_low \<noteq> 4 \<or> rex_x p \<noteq> 0);
            index = (if has_index then c_gpr c (of_nat (index_low + rex_x p)) else 0);
            index_taint = (has_index \<and> c_gpr_shadow c (of_nat (index_low + rex_x p)) \<noteq> 0) in
        if mr_mod m = 0 \<and> base_low = 5
        then bind fetch_i32 (\<lambda>disp. return (0, index * scale, disp, False, index_taint))
        else return (c_gpr c (of_nat (base_low + rex_b p)), index * scale, 0, False,
               index_taint \<or> c_gpr_shadow c (of_nat (base_low + rex_b p)) \<noteq> 0)))
      else if mr_mod m = 0 \<and> rm_low = 5
      then bind fetch_i32 (\<lambda>disp. return (0, 0, disp, True, False))
      else bind (gets s_cpu) (\<lambda>c.
        return (c_gpr c (of_nat (rm_low + rex_b p)), 0, 0, False,
          c_gpr_shadow c (of_nat (rm_low + rex_b p)) \<noteq> 0)))"

text \<open>The result: address, RIP-relative, displacement.\<close>

definition decode_memory_address :: "prefixes \<Rightarrow> modrm \<Rightarrow> (machine, u64 \<times> bool \<times> u64) smon" where
  "decode_memory_address p m =
     bind (decode_base_index p m) (\<lambda>(base, scaled_index, disp0, rip_relative, tainted).
     bind (if mr_mod m = 1 then fetch_i8
           else if mr_mod m = 2 then fetch_i32
           else return disp0) (\<lambda>displacement.
     bind (gets s_cpu) (\<lambda>c.
     let address1 = (if rip_relative then c_decode_pc c + displacement
                     else base + scaled_index + displacement);
         address2 = (if p_address32 p then address1 AND 0xffffffff else address1);
         address = (if p_segment p = 64 then address2 + c_fs_base c
                    else if p_segment p = 65 then address2 + c_gs_base c
                    else address2) in
     seq (when_do tainted (seq (warn_uninitialized_pointer address) set_taint))
         (return (address, rip_relative, displacement)))))"

definition decode_rm_operand :: "prefixes \<Rightarrow> modrm \<Rightarrow> (machine, operand) smon" where
  "decode_rm_operand p m =
     (if is_register_form m then return (register_operand (mr_rm m))
      else bind (decode_memory_address p m) (\<lambda>(address, rip_relative, displacement).
        return \<lparr>op_is_register = False, op_reg = 0, op_address = address,
                op_rip_relative = rip_relative, op_rip_displacement = displacement\<rparr>))"

definition operand_width :: "prefixes \<Rightarrow> nat" where
  "operand_width p = (if rex_w p then 64 else if p_operand16 p then 16 else 32)"

definition effective_address :: "operand \<Rightarrow> cpu \<Rightarrow> u64" where
  "effective_address op c =
     (if \<not> op_rip_relative op then op_address op else c_decode_pc c + op_rip_displacement op)"

section \<open>Reading and writing operands\<close>

definition widen :: "'a::len word value_with_shadow \<Rightarrow> u64 value_with_shadow" where
  "widen v = \<lparr>vs_value = ucast (vs_value v), vs_shadow = ucast (vs_shadow v)\<rparr>"

definition read_memory_operand :: "nat \<Rightarrow> u64 \<Rightarrow> (machine, u64 value_with_shadow) smon" where
  "read_memory_operand width address =
     (if width = 8 then
        bind (read8_with_shadow address) (\<lambda>b.
        return \<lparr>vs_value = ucast (vs_value b), vs_shadow = (if is_uninitialized b then 0xff else 0)\<rparr>)
      else if width = 16 then bind (read16_with_shadow address) (\<lambda>w. return (widen w))
      else if width = 32 then bind (read32_with_shadow address) (\<lambda>w. return (widen w))
      else read64_with_shadow address)"

definition read_operand :: "operand \<Rightarrow> nat \<Rightarrow> prefixes \<Rightarrow> (machine, u64) smon" where
  "read_operand op width p =
     (if op_is_register op then do_read_gpr (op_reg op) width p
      else
        bind (get_cpu (effective_address op)) (\<lambda>address.
        bind (read_memory_operand width address) (\<lambda>v.
        seq (when_do (is_uninitialized v) (seq set_taint (warn_uninitialized_read address)))
            (return (vs_value v)))))"

definition write_operand :: "operand \<Rightarrow> nat \<Rightarrow> u64 \<Rightarrow> prefixes \<Rightarrow> (machine, unit) smon" where
  "write_operand op width value0 p =
     (let value = value0 AND mask_for_width width in
      if op_is_register op then do_write_gpr (op_reg op) width value p
      else
        bind (gets s_cpu) (\<lambda>c.
        let address = effective_address op c; tainted = c_current_taint c in
        if width = 8
        then write8_with_shadow address
               \<lparr>vs_value = ucast value, vs_shadow = (if tainted then 0xff else 0)\<rparr>
        else if width = 16
        then write16_with_shadow address
               \<lparr>vs_value = ucast value, vs_shadow = (if tainted then 0xffff else 0)\<rparr>
        else if width = 32
        then write32_with_shadow address
               \<lparr>vs_value = ucast value, vs_shadow = (if tainted then 0xffffffff else 0)\<rparr>
        else write64_with_shadow address
               \<lparr>vs_value = value, vs_shadow = (if tainted then NOT 0 else 0)\<rparr>))"

definition push64 :: "u64 \<Rightarrow> u64 \<Rightarrow> (machine, unit) smon" where
  "push64 v shadow =
     seq (upd_cpu (\<lambda>c. set_gpr RSP (c_gpr c RSP - 8) c))
         (bind (get_cpu (\<lambda>c. c_gpr c RSP)) (\<lambda>rsp.
          write64_with_shadow rsp \<lparr>vs_value = v, vs_shadow = shadow\<rparr>))"

definition pop64_with_shadow :: "(machine, u64 value_with_shadow) smon" where
  "pop64_with_shadow =
     bind (get_cpu (\<lambda>c. c_gpr c RSP)) (\<lambda>rsp.
     bind (read64_with_shadow rsp) (\<lambda>v.
     seq (upd_cpu (\<lambda>c. set_gpr RSP (c_gpr c RSP + 8) c)) (return v)))"

definition pop64 :: "(machine, u64) smon" where
  "pop64 = bind pop64_with_shadow (\<lambda>v. return (vs_value v))"

fun read_bytes :: "u64 \<Rightarrow> nat \<Rightarrow> (machine, u8 list) smon" where
  "read_bytes address 0 = return []"
| "read_bytes address (Suc n) =
     bind (mem_read8 address) (\<lambda>b.
     bind (read_bytes (address + 1) n) (\<lambda>bs. return (b # bs)))"

definition read_xmm_from_operand :: "operand \<Rightarrow> (machine, u8 list) smon" where
  "read_xmm_from_operand op =
     (if op_is_register op then get_cpu (\<lambda>c. c_xmm c (of_nat (op_reg op)))
      else bind (get_cpu (effective_address op)) (\<lambda>address. read_bytes address 16))"

definition set_xmm :: "nat \<Rightarrow> u8 list \<Rightarrow> (machine, unit) smon" where
  "set_xmm i v = upd_cpu (\<lambda>c. c\<lparr>c_xmm := (c_xmm c)(of_nat i := v)\<rparr>)"

definition write_xmm_to_operand :: "operand \<Rightarrow> u8 list \<Rightarrow> (machine, unit) smon" where
  "write_xmm_to_operand op v =
     (if op_is_register op then set_xmm (op_reg op) v
      else bind (get_cpu (effective_address op)) (\<lambda>address.
        for_loop 0 16 (\<lambda>i. write8 (address + of_nat i) (v ! i))))"

text \<open>The error of \<^verbatim>\<open>unsupported\<close>; its message quotes the instruction's bytes, read again.\<close>

definition unsupported :: "string \<Rightarrow> (machine, 'a) smon" where
  "unsupported msg =
     bind (gets s_cpu) (\<lambda>c.
     let start = c_instruction_start c; stop = min (c_decode_pc c) (start + 15) in
     bind (read_bytes start (unat stop - unat start)) (\<lambda>_.
     throw (EmulatorError (Unsupported msg))))"

end
