(* ===== verification/CPU_ALU.thy ===== *)
theory CPU_ALU
  imports CPU_Core "HOL-Library.Signed_Division"
begin

text \<open>
  The integer instruction groups of \<^verbatim>\<open>src/SoftCPU64.cpp\<close> below the opcode switch:
  \<^verbatim>\<open>execute_alu_rm_reg\<close>, \<^verbatim>\<open>execute_alu_imm\<close>, \<^verbatim>\<open>execute_group_ff\<close>,
  \<^verbatim>\<open>execute_group_f6_f7\<close>, \<^verbatim>\<open>execute_shift_group\<close> and \<^verbatim>\<open>execute_string_instruction\<close>.
  The 128-bit intermediates of multiplication and division are natural numbers and integers;
  signed division truncates (\<open>sdiv\<close>, \<open>smod\<close>), as in C++.
\<close>

section \<open>The eight ALU operations\<close>

definition alu_compute :: "nat \<Rightarrow> u64 \<Rightarrow> u64 \<Rightarrow> nat \<Rightarrow> cpu \<Rightarrow> u64 \<times> cpu" where
  "alu_compute operation lhs rhs width c =
     (let logic = (\<lambda>v. let result = v AND mask_for_width width in
                       (result, set_logic_flags result width c)) in
      if operation = 0 then add lhs rhs width False c
      else if operation = 1 then logic (lhs OR rhs)
      else if operation = 2 then add lhs rhs width True c
      else if operation = 3 then sub lhs rhs width True c
      else if operation = 4 then logic (lhs AND rhs)
      else if operation = 5 then sub lhs rhs width False c
      else if operation = 6 then logic (lhs XOR rhs)
      else sub lhs rhs width False c)"

text \<open>The switch both callers share: operation 7 is the comparison, which writes nothing.\<close>

definition alu_apply ::
  "nat \<Rightarrow> u64 \<Rightarrow> u64 \<Rightarrow> nat \<Rightarrow> operand \<Rightarrow> prefixes \<Rightarrow> (machine, unit) smon" where
  "alu_apply operation lhs rhs width destination p =
     bind (cpu_call (alu_compute operation lhs rhs width)) (\<lambda>result.
     when_do (operation \<noteq> 7) (write_operand destination width result p))"

definition execute_alu_rm_reg :: "u8 \<Rightarrow> prefixes \<Rightarrow> (machine, unit) smon" where
  "execute_alu_rm_reg opcode p =
     (let operation = unat (drop_bit 3 opcode);
          form = unat (opcode AND 7);
          width = (if form = 0 \<or> form = 2 then 8 else operand_width p) in
      bind (fetch_modrm p) (\<lambda>m.
      bind (decode_rm_operand p m) (\<lambda>rm.
      let reg_operand = register_operand (mr_reg m);
          destination = (if form = 2 \<or> form = 3 then reg_operand else rm);
          source = (if form = 2 \<or> form = 3 then rm else reg_operand) in
      bind (read_operand destination width p) (\<lambda>lhs.
      bind (read_operand source width p) (\<lambda>rhs.
      seq (when_do (op_is_register destination \<and> op_is_register source
               \<and> op_reg destination = op_reg source
               \<and> (operation = 5 \<or> operation = 6 \<or> operation = 7))
             (upd_cpu (\<lambda>c. c\<lparr>c_current_taint := False\<rparr>)))
      (if operation > 7 then unsupported ''unknown ALU operation''
       else alu_apply operation lhs rhs width destination p))))))"

definition execute_alu_imm :: "u8 \<Rightarrow> prefixes \<Rightarrow> (machine, unit) smon" where
  "execute_alu_imm opcode p =
     (let width = (if opcode = 0x80 then 8 else operand_width p) in
      bind (fetch_modrm p) (\<lambda>m.
      bind (decode_rm_operand p m) (\<lambda>destination.
      bind (if opcode = 0x80 then bind fetch8 (\<lambda>b. return (ucast b))
            else if opcode = 0x83 then bind fetch8 (\<lambda>b. return (sign_extend (ucast b) 8))
            else if width = 16 then bind fetch16 (\<lambda>w. return (ucast w))
            else bind fetch32 (\<lambda>w. return (sign_extend (ucast w) 32))) (\<lambda>imm.
      bind (read_operand destination width p) (\<lambda>lhs.
      alu_apply (modrm_op m) lhs imm width destination p)))))"

section \<open>Group FF: increment, call, jump, push\<close>

definition push_call_stack :: "u64 \<Rightarrow> (machine, unit) smon" where
  "push_call_stack a = upd_cpu (\<lambda>c. c\<lparr>c_call_stack := c_call_stack c @ [a]\<rparr>)"

definition pop_call_stack :: "(machine, unit) smon" where
  "pop_call_stack = upd_cpu (\<lambda>c. c\<lparr>c_call_stack := butlast (c_call_stack c)\<rparr>)"

definition execute_group_ff :: "prefixes \<Rightarrow> (machine, unit) smon" where
  "execute_group_ff p =
     bind (fetch_modrm p) (\<lambda>m.
     bind (decode_rm_operand p m) (\<lambda>operand.
     let operation = modrm_op m in
     if operation = 0 \<or> operation = 1 then
       let width = operand_width p in
       bind (read_operand operand width p) (\<lambda>value.
       bind (get_cpu (flag CF)) (\<lambda>old_cf.
       bind (cpu_call (if operation = 0 then add value 1 width False else sub value 1 width False))
         (\<lambda>result.
       seq (upd_cpu (set_flag CF old_cf)) (write_operand operand width result p))))
     else if operation = 2 then
       bind (read_operand operand 64 p) (\<lambda>target.
       bind (get_cpu c_decode_pc) (\<lambda>return_address.
       seq (push64 return_address 0)
      (seq (push_call_stack return_address)
           (set_decode_pc target))))
     else if operation = 4 then bind (read_operand operand 64 p) set_decode_pc
     else if operation = 6 then
       bind (read_operand operand 64 p) (\<lambda>value.
       bind (get_cpu c_current_taint) (\<lambda>tainted.
       push64 value (if tainted then NOT 0 else 0)))
     else unsupported ''unsupported FF group operation''))"

section \<open>Group F6/F7: test, not, neg, mul, div\<close>

definition set_cf_of :: "bool \<Rightarrow> (machine, unit) smon" where
  "set_cf_of b = seq (upd_cpu (set_flag CF b)) (upd_cpu (set_flag OF b))"

definition execute_mul :: "nat \<Rightarrow> u64 \<Rightarrow> prefixes \<Rightarrow> (machine, unit) smon" where
  "execute_mul width value p =
     bind (do_read_gpr 0 width p) (\<lambda>rax.
     let result = unat rax * unat value in
     if width = 8
     then seq (do_write_gpr 0 16 (of_nat result) p) (set_cf_of (result > 0xff))
     else seq (do_write_gpr 0 width (of_nat result) p)
         (seq (do_write_gpr 2 width (of_nat (drop_bit width result)) p)
              (set_cf_of (drop_bit width result \<noteq> 0))))"

definition execute_imul1 :: "nat \<Rightarrow> u64 \<Rightarrow> prefixes \<Rightarrow> (machine, unit) smon" where
  "execute_imul1 width value p =
     bind (do_read_gpr 0 width p) (\<lambda>rax.
     let result = sint (sign_extend rax width) * sint (sign_extend value width) in
     if width = 8
     then seq (do_write_gpr 0 16 (of_int result) p)
              (set_cf_of (result \<noteq> sint (sign_extend (of_int result) 8)))
     else seq (do_write_gpr 0 width (of_int result) p)
         (seq (do_write_gpr 2 width (of_int (drop_bit width result)) p)
              (set_cf_of (result \<noteq> sint (sign_extend (of_int result) width)))))"

definition divide_error :: "(u64 \<Rightarrow> emu_error) \<Rightarrow> (machine, 'a) smon" where
  "divide_error kind =
     bind (get_cpu c_instruction_start) (\<lambda>start. throw (EmulatorError (kind start)))"

definition execute_div :: "nat \<Rightarrow> u64 \<Rightarrow> prefixes \<Rightarrow> (machine, unit) smon" where
  "execute_div width value p =
     (if value = 0 then divide_error DivideByZero
      else if width = 8 then
        bind (do_read_gpr 0 16 p) (\<lambda>rax.
        let dividend = unat (ucast rax :: u16); divisor = unat (ucast value :: u8);
            quotient = dividend div divisor; remainder = dividend mod divisor in
        if quotient > 0xff then divide_error DivideOverflow
        else do_write_gpr 0 16 (of_nat (push_bit 8 remainder OR quotient)) p)
      else
        bind (do_read_gpr 2 width p) (\<lambda>rdx.
        bind (do_read_gpr 0 width p) (\<lambda>rax.
        let dividend = push_bit width (unat rdx) OR unat rax;
            quotient = dividend div unat value; remainder = dividend mod unat value in
        if quotient > unat (mask_for_width width) then divide_error DivideOverflow
        else seq (do_write_gpr 0 width (of_nat quotient) p)
                 (do_write_gpr 2 width (of_nat remainder) p))))"

definition execute_idiv :: "nat \<Rightarrow> u64 \<Rightarrow> prefixes \<Rightarrow> (machine, unit) smon" where
  "execute_idiv width value p =
     (let divisor = sint (sign_extend value width) in
      if divisor = 0 then divide_error DivideByZero
      else if width = 8 then
        bind (do_read_gpr 0 16 p) (\<lambda>rax.
        let dividend = sint (ucast rax :: u16);
            quotient = sint (of_int (dividend sdiv divisor) :: u16);
            remainder = sint (of_int (dividend smod divisor) :: u16) in
        if quotient < - 128 \<or> quotient > 127 then divide_error DivideOverflow
        else do_write_gpr 0 16
               (ucast (push_bit 8 (ucast (of_int remainder :: u8)) OR ucast (of_int quotient :: u8)
                       :: u16)) p)
      else
        bind (do_read_gpr 2 width p) (\<lambda>rdx.
        bind (do_read_gpr 0 width p) (\<lambda>rax.
        let high = sint (sign_extend rdx width); low = int (unat rax);
            dividend = push_bit width high OR low in
        if dividend = - (2 ^ 127) \<and> divisor = - 1 then throw UndefinedBehaviour
        else
          let quotient = dividend sdiv divisor; remainder = dividend smod divisor in
          if quotient < - (2 ^ (width - 1)) \<or> quotient > 2 ^ (width - 1) - 1
          then divide_error DivideOverflow
          else seq (do_write_gpr 0 width (of_int quotient) p)
                   (do_write_gpr 2 width (of_int remainder) p))))"

definition execute_group_f6_f7 :: "u8 \<Rightarrow> prefixes \<Rightarrow> (machine, unit) smon" where
  "execute_group_f6_f7 opcode p =
     (let width = (if opcode = 0xf6 then 8 else operand_width p) in
      bind (fetch_modrm p) (\<lambda>m.
      bind (decode_rm_operand p m) (\<lambda>operand.
      let operation = modrm_op m in
      if operation = 0 then
        bind (if width = 8 then bind fetch8 (\<lambda>b. return (ucast b))
              else if width = 16 then bind fetch16 (\<lambda>w. return (ucast w))
              else bind fetch32 (\<lambda>w. return (ucast w))) (\<lambda>imm.
        bind (read_operand operand width p) (\<lambda>value.
        upd_cpu (set_logic_flags (value AND imm) width)))
      else if operation = 2 then
        bind (read_operand operand width p) (\<lambda>value.
        write_operand operand width (NOT value) p)
      else if operation = 3 then
        bind (read_operand operand width p) (\<lambda>value.
        bind (cpu_call (sub 0 value width False)) (\<lambda>result.
        write_operand operand width result p))
      else if operation = 4 then bind (read_operand operand width p) (\<lambda>v. execute_mul width v p)
      else if operation = 5 then bind (read_operand operand width p) (\<lambda>v. execute_imul1 width v p)
      else if operation = 6 then bind (read_operand operand width p) (\<lambda>v. execute_div width v p)
      else if operation = 7 then bind (read_operand operand width p) (\<lambda>v. execute_idiv width v p)
      else unsupported ''unsupported F6/F7 group operation'')))"

section \<open>Shifts\<close>

text \<open>
  The result of a shift; \<open>Inl UndefinedBehaviour\<close> where the C++ shifts by a negative count, and
  \<open>Inr None\<close> for the operations the switch does not have.
\<close>

definition shift_result :: "nat \<Rightarrow> u64 \<Rightarrow> nat \<Rightarrow> nat \<Rightarrow> exn + u64 option" where
  "shift_result operation value count width =
     (let mask = mask_for_width width in
      if operation = 0 then
        if count > width then Inl UndefinedBehaviour
        else Inr (Some ((push_bit count value OR drop_bit (width - count) value) AND mask))
      else if operation = 1 then
        if count > width then Inl UndefinedBehaviour
        else Inr (Some ((drop_bit count value OR push_bit (width - count) value) AND mask))
      else if operation = 4 \<or> operation = 6 then Inr (Some (push_bit count value AND mask))
      else if operation = 5 then Inr (Some (drop_bit count value AND mask))
      else if operation = 7 then Inr (Some (drop_bit count (sign_extend value width) AND mask))
      else Inr None)"

definition execute_shift_group :: "u8 \<Rightarrow> prefixes \<Rightarrow> (machine, unit) smon" where
  "execute_shift_group opcode p =
     (let width = (if opcode = 0xc0 \<or> opcode = 0xd0 \<or> opcode = 0xd2 then 8 else operand_width p) in
      bind (fetch_modrm p) (\<lambda>m.
      bind (decode_rm_operand p m) (\<lambda>operand.
      bind (if opcode = 0xc0 \<or> opcode = 0xc1 then bind fetch8 (\<lambda>b. return (b AND 0x3f))
            else if opcode = 0xd0 \<or> opcode = 0xd1 then return 1
            else get_cpu (\<lambda>c. ucast (c_gpr c RCX) AND 0x3f)) (\<lambda>count.
      if count = 0 then return ()
      else
        bind (read_operand operand width p) (\<lambda>value.
        bind (lift_sum (\<lambda>_. shift_result (modrm_op m) value (unat count) width)) (\<lambda>r.
        case r of
          None \<Rightarrow> unsupported ''unsupported shift group operation''
        | Some result \<Rightarrow>
            seq (upd_cpu (set_logic_flags result width))
                (write_operand operand width result p)))))))"

section \<open>String instructions\<close>

text \<open>One iteration of the loop: a move or a store of \<open>width\<close> bytes.\<close>

definition string_iteration :: "u8 \<Rightarrow> prefixes \<Rightarrow> nat \<Rightarrow> u64 \<Rightarrow> (machine, unit) smon" where
  "string_iteration opcode p width step =
     (if opcode = 0xa4 \<or> opcode = 0xa5 then
        bind (gets s_cpu) (\<lambda>c.
        let source = c_gpr c RSI + (if p_segment p = 64 then c_fs_base c
                                    else if p_segment p = 65 then c_gs_base c else 0) in
        seq (for_loop 0 width (\<lambda>b.
               bind (mem_read8 (source + of_nat b)) (\<lambda>byte.
               write8 (c_gpr c RDI + of_nat b) byte)))
            (upd_cpu (\<lambda>c. set_gpr RDI (c_gpr c RDI + step) (set_gpr RSI (c_gpr c RSI + step) c))))
      else if opcode = 0xaa \<or> opcode = 0xab then
        bind (gets s_cpu) (\<lambda>c.
        seq (for_loop 0 width (\<lambda>b.
               write8 (c_gpr c RDI + of_nat b) (ucast (drop_bit (b * 8) (c_gpr c RAX)))))
            (upd_cpu (\<lambda>c. set_gpr RDI (c_gpr c RDI + step) c)))
      else return ())"

definition execute_string_instruction :: "u8 \<Rightarrow> prefixes \<Rightarrow> (machine, unit) smon" where
  "execute_string_instruction opcode p =
     (let width = (if opcode = 0xa5 \<or> opcode = 0xab
                   then if rex_w p then 8 else if p_operand16 p then 2 else 4
                   else 1) in
      bind (gets s_cpu) (\<lambda>c.
      let count = (if p_repz p then c_gpr c RCX else 1);
          step = (if flag DF c then - of_nat width else of_nat width) in
      seq (for_loop 0 (unat count) (\<lambda>_. string_iteration opcode p width step))
          (when_do (p_repz p) (upd_cpu (\<lambda>c. set_shadow RCX 0 (set_gpr RCX 0 c))))))"

end
