(* ===== verification/CPU_SSE.thy ===== *)
theory CPU_SSE
  imports CPU_Core
begin

text \<open>
  The SSE2 integer and move instructions of \<^verbatim>\<open>execute_0f\<close> (\<^verbatim>\<open>src/SoftCPU64.cpp\<close>). An XMM
  register is a list of 16 bytes; what an instruction computes is a pure function on byte lists,
  what it reads and writes is the handler around it.
\<close>

section \<open>Byte-wise functions\<close>

text \<open>Little-endian value of \<open>n\<close> bytes from \<open>offset\<close>: \<^verbatim>\<open>v |= x[offset + b] << (b * 8)\<close>.\<close>

definition lane_value :: "u8 list \<Rightarrow> nat \<Rightarrow> nat \<Rightarrow> u64" where
  "lane_value xs offset n =
     fold (\<lambda>b v. v OR push_bit (b * 8) (ucast (xs ! (offset + b)))) [0..<n] 0"

text \<open>The bytes of an element: \<^verbatim>\<open>static_cast<u8>(v >> (b * 8))\<close>.\<close>

definition lane_bytes :: "nat \<Rightarrow> u64 \<Rightarrow> u8 list" where
  "lane_bytes n v = map (\<lambda>b. ucast (drop_bit (b * 8) v)) [0..<n]"

definition from_gpr_value :: "nat \<Rightarrow> u64 \<Rightarrow> u8 list" where
  "from_gpr_value n v = lane_bytes n v @ replicate (16 - n) 0"

definition unpack_lanes :: "nat \<Rightarrow> nat \<Rightarrow> u8 list \<Rightarrow> u8 list \<Rightarrow> u8 list" where
  "unpack_lanes element_size start_offset lhs rhs =
     concat (map (\<lambda>lane.
         map (\<lambda>b. lhs ! (start_offset + lane * element_size + b)) [0..<element_size] @
         map (\<lambda>b. rhs ! (start_offset + lane * element_size + b)) [0..<element_size])
       [0..<8 div element_size])"

definition shuffle_dwords :: "u8 \<Rightarrow> u8 list \<Rightarrow> u8 list" where
  "shuffle_dwords selector input =
     concat (map (\<lambda>lane. let source_lane = unat (drop_bit (lane * 2) selector AND 3) in
         map (\<lambda>b. input ! (source_lane * 4 + b)) [0..<4]) [0..<4])"

definition shuffle_qwords :: "u8 \<Rightarrow> u8 list \<Rightarrow> u8 list \<Rightarrow> u8 list" where
  "shuffle_qwords selector lhs rhs =
     (let lhs_lane = unat (selector AND 1); rhs_lane = unat (drop_bit 1 selector AND 1) in
      map (\<lambda>i. lhs ! (lhs_lane * 8 + i)) [0..<8] @ map (\<lambda>i. rhs ! (rhs_lane * 8 + i)) [0..<8])"

definition compare_equal :: "nat \<Rightarrow> u8 list \<Rightarrow> u8 list \<Rightarrow> u8 list" where
  "compare_equal element_size lhs rhs =
     concat (map (\<lambda>lane. let offset = lane * element_size;
           equal = list_all (\<lambda>b. lhs ! (offset + b) = rhs ! (offset + b)) [0..<element_size] in
         replicate element_size (if equal then 0xff else 0)) [0..<16 div element_size])"

definition compare_greater :: "nat \<Rightarrow> u8 list \<Rightarrow> u8 list \<Rightarrow> u8 list" where
  "compare_greater element_size lhs rhs =
     (let sign = push_bit (element_size * 8 - 1) 1;
          signed = (\<lambda>v. sint ((v XOR sign) - sign :: u64)) in
      concat (map (\<lambda>lane. let offset = lane * element_size;
           l = signed (lane_value lhs offset element_size);
           r = signed (lane_value rhs offset element_size) in
         replicate element_size (if l > r then 0xff else 0)) [0..<16 div element_size]))"

definition subtract_lanes :: "nat \<Rightarrow> u8 list \<Rightarrow> u8 list \<Rightarrow> u8 list" where
  "subtract_lanes element_size lhs rhs =
     concat (map (\<lambda>lane. let offset = lane * element_size;
           result = (lane_value lhs offset element_size - lane_value rhs offset element_size)
                    AND (push_bit (element_size * 8) 1 - 1) in
         lane_bytes element_size result) [0..<16 div element_size])"

definition add_qwords :: "u8 list \<Rightarrow> u8 list \<Rightarrow> u8 list" where
  "add_qwords lhs rhs =
     lane_bytes 8 (lane_value lhs 0 8 + lane_value rhs 0 8) @
     lane_bytes 8 (lane_value lhs 8 8 + lane_value rhs 8 8)"

definition shift_bytes_right :: "nat \<Rightarrow> u8 list \<Rightarrow> u8 list" where
  "shift_bytes_right count original = map (\<lambda>i. if i + count < 16 then original ! (i + count) else 0) [0..<16]"

definition shift_bytes_left :: "nat \<Rightarrow> u8 list \<Rightarrow> u8 list" where
  "shift_bytes_left count original = map (\<lambda>i. if count \<le> i then original ! (i - count) else 0) [0..<16]"

definition move_mask :: "u8 list \<Rightarrow> u32" where
  "move_mask input = fold (\<lambda>i m. if input ! i AND 0x80 \<noteq> 0 then m OR push_bit i 1 else m) [0..<16] 0"

section \<open>Handlers\<close>

text \<open>The common shape: \<open>xmm[reg] := f xmm[reg] (xmm/m128)\<close>.\<close>

definition xmm_binary :: "(u8 list \<Rightarrow> u8 list \<Rightarrow> u8 list) \<Rightarrow> prefixes \<Rightarrow> (machine, unit) smon" where
  "xmm_binary f p =
     bind (fetch_modrm p) (\<lambda>m.
     bind (decode_rm_operand p m) (\<lambda>source.
     bind (read_xmm_from_operand source) (\<lambda>rhs.
     bind (get_cpu (\<lambda>c. c_xmm c (of_nat (mr_reg m)))) (\<lambda>lhs.
     set_xmm (mr_reg m) (f lhs rhs)))))"

definition sse_load :: "prefixes \<Rightarrow> (machine, unit) smon" where
  "sse_load p = xmm_binary (\<lambda>lhs rhs. rhs) p"

definition sse_movd_load :: "prefixes \<Rightarrow> (machine, unit) smon" where
  "sse_movd_load p =
     bind (fetch_modrm p) (\<lambda>m.
     bind (decode_rm_operand p m) (\<lambda>source.
     let width = (if rex_w p then 64 else 32) in
     bind (read_operand source width p) (\<lambda>value.
     set_xmm (mr_reg m) (from_gpr_value (width div 8) value))))"

definition sse_unpack :: "u8 \<Rightarrow> prefixes \<Rightarrow> (machine, unit) smon" where
  "sse_unpack opcode p =
     (let element_size = (if opcode AND 3 = 0 then 1 else if opcode AND 3 = 1 then 2 else 4);
          start_offset = (if opcode AND 8 \<noteq> 0 then 8 else 0) in
      xmm_binary (unpack_lanes element_size start_offset) p)"

definition sse_pshufd :: "prefixes \<Rightarrow> (machine, unit) smon" where
  "sse_pshufd p =
     bind (fetch_modrm p) (\<lambda>m.
     bind (decode_rm_operand p m) (\<lambda>source.
     bind fetch8 (\<lambda>selector.
     bind (read_xmm_from_operand source) (\<lambda>input.
     set_xmm (mr_reg m) (shuffle_dwords selector input)))))"

definition sse_shufpd :: "prefixes \<Rightarrow> (machine, unit) smon" where
  "sse_shufpd p =
     bind (fetch_modrm p) (\<lambda>m.
     bind (decode_rm_operand p m) (\<lambda>source.
     bind fetch8 (\<lambda>selector.
     bind (read_xmm_from_operand source) (\<lambda>rhs.
     bind (get_cpu (\<lambda>c. c_xmm c (of_nat (mr_reg m)))) (\<lambda>lhs.
     set_xmm (mr_reg m) (shuffle_qwords selector lhs rhs))))))"

definition sse_compare_equal :: "u8 \<Rightarrow> prefixes \<Rightarrow> (machine, unit) smon" where
  "sse_compare_equal opcode p =
     xmm_binary (compare_equal (if opcode = 0x74 then 1 else if opcode = 0x75 then 2 else 4)) p"

definition sse_byte_shift :: "prefixes \<Rightarrow> (machine, unit) smon" where
  "sse_byte_shift p =
     bind (fetch_modrm p) (\<lambda>m.
     bind (decode_rm_operand p m) (\<lambda>operand.
     bind fetch8 (\<lambda>count.
     if \<not> op_is_register operand then unsupported ''SSE byte-shift with memory destination''
     else
       bind (get_cpu (\<lambda>c. c_xmm c (of_nat (op_reg operand)))) (\<lambda>original.
       if modrm_op m = 3 then set_xmm (op_reg operand) (shift_bytes_right (unat count) original)
       else if modrm_op m = 7 then set_xmm (op_reg operand) (shift_bytes_left (unat count) original)
       else unsupported ''unsupported 0F 73 SSE shift operation''))))"

definition sse_unpack_qwords :: "u8 \<Rightarrow> prefixes \<Rightarrow> (machine, unit) smon" where
  "sse_unpack_qwords opcode p =
     (let offset = (if opcode = 0x6c then 0 else 8) in
      xmm_binary (\<lambda>lhs rhs. map (\<lambda>i. lhs ! (offset + i)) [0..<8] @
                            map (\<lambda>i. rhs ! (offset + i)) [0..<8]) p)"

definition sse_store :: "prefixes \<Rightarrow> (machine, unit) smon" where
  "sse_store p =
     bind (fetch_modrm p) (\<lambda>m.
     bind (decode_rm_operand p m) (\<lambda>destination.
     bind (get_cpu (\<lambda>c. c_xmm c (of_nat (mr_reg m)))) (\<lambda>v.
     write_xmm_to_operand destination v)))"

definition sse_movnti :: "prefixes \<Rightarrow> (machine, unit) smon" where
  "sse_movnti p =
     bind (fetch_modrm p) (\<lambda>m.
     bind (decode_rm_operand p m) (\<lambda>destination.
     bind (do_read_gpr (mr_reg m) (operand_width p) p) (\<lambda>v.
     write_operand destination (operand_width p) v p)))"

definition sse_movd_store :: "prefixes \<Rightarrow> (machine, unit) smon" where
  "sse_movd_store p =
     bind (fetch_modrm p) (\<lambda>m.
     bind (decode_rm_operand p m) (\<lambda>operand.
     if p_repz p then
       bind (read_operand operand 64 p) (\<lambda>value. set_xmm (mr_reg m) (from_gpr_value 8 value))
     else
       let width = (if rex_w p then 64 else 32) in
       bind (get_cpu (\<lambda>c. c_xmm c (of_nat (mr_reg m)))) (\<lambda>v.
       write_operand operand width (lane_value v 0 (width div 8)) p)))"

definition sse_movq_store :: "prefixes \<Rightarrow> (machine, unit) smon" where
  "sse_movq_store p =
     bind (fetch_modrm p) (\<lambda>m.
     bind (decode_rm_operand p m) (\<lambda>destination.
     bind (get_cpu (\<lambda>c. c_xmm c (of_nat (mr_reg m)))) (\<lambda>v.
     write_operand destination 64 (lane_value v 0 8) p)))"

definition sse_move_mask :: "prefixes \<Rightarrow> (machine, unit) smon" where
  "sse_move_mask p =
     bind (fetch_modrm p) (\<lambda>m.
     bind (decode_rm_operand p m) (\<lambda>source.
     bind (read_xmm_from_operand source) (\<lambda>input.
     do_write_gpr (mr_reg m) 32 (ucast (move_mask input)) p)))"

definition sse_xor :: "prefixes \<Rightarrow> (machine, unit) smon" where
  "sse_xor p = xmm_binary (map2 (\<lambda>a b. a XOR b)) p"

definition sse_logic :: "u8 \<Rightarrow> prefixes \<Rightarrow> (machine, unit) smon" where
  "sse_logic opcode p =
     xmm_binary (if opcode = 0xdb then map2 (\<lambda>a b. a AND b)
                 else if opcode = 0xd4 then add_qwords
                 else if opcode = 0xdf then map2 (\<lambda>a b. NOT a AND b)
                 else map2 (\<lambda>a b. a OR b)) p"

definition sse_subtract :: "u8 \<Rightarrow> prefixes \<Rightarrow> (machine, unit) smon" where
  "sse_subtract opcode p =
     xmm_binary (subtract_lanes (if opcode = 0xf8 then 1 else if opcode = 0xf9 then 2 else 4)) p"

definition sse_compare_greater :: "u8 \<Rightarrow> prefixes \<Rightarrow> (machine, unit) smon" where
  "sse_compare_greater opcode p =
     xmm_binary (compare_greater (if opcode = 0x64 then 1 else if opcode = 0x65 then 2 else 4)) p"

definition sse_min_max :: "u8 \<Rightarrow> prefixes \<Rightarrow> (machine, unit) smon" where
  "sse_min_max opcode p =
     xmm_binary (if opcode = 0xda then map2 min else map2 max) p"

end
