(* ===== verification/ELF.thy ===== *)
theory ELF
  imports SoftMMU
begin

text \<open>
  \<^verbatim>\<open>src/ELFCommon.h\<close>, \<^verbatim>\<open>src/ELFLoader.cpp\<close> and \<^verbatim>\<open>src/ELFSymbols.cpp\<close>: parsing ELF64
  files and mapping their segments. The host's file system is a function from paths to file
  contents; \<open>None\<close> is any failure of \<^verbatim>\<open>read_file\<close>. The four ELF structures are records whose
  fields are cut out of the file at the C structure offsets.
\<close>

section \<open>File format\<close>

type_synonym files = "string \<Rightarrow> u8 list option"

record ehdr =
  e_ident :: "u8 list"
  e_type :: u16
  e_machine :: u16
  e_entry :: u64
  e_phoff :: u64
  e_shoff :: u64
  e_phentsize :: u16
  e_phnum :: u16
  e_shentsize :: u16
  e_shnum :: u16

record phdr =
  p_type :: u32
  p_flags :: u32
  p_offset :: u64
  p_vaddr :: u64
  p_filesz :: u64
  p_memsz :: u64

record shdr =
  sh_type :: u32
  sh_offset :: u64
  sh_size :: u64
  sh_link :: u32
  sh_entsize :: u64

record sym =
  st_name :: u32
  st_info :: u8
  st_value :: u64
  st_size :: u64

definition field :: "u8 list \<Rightarrow> nat \<Rightarrow> nat \<Rightarrow> 'a::len word" where
  "field obj offset n = le_word (take n (drop offset obj))"

definition read_file :: "files \<Rightarrow> string \<Rightarrow> exn + u8 list" where
  "read_file fs path =
     (case fs path of None \<Rightarrow> Inl (EmulatorError (FileError path)) | Some data \<Rightarrow> Inr data)"

text \<open>\<^verbatim>\<open>object_at\<close>: the bytes of an object of the given size, bounds checked.\<close>

definition object_at :: "nat \<Rightarrow> u8 list \<Rightarrow> u64 \<Rightarrow> exn + u8 list" where
  "object_at size_of data offset =
     (if unat offset > length data \<or> size_of > length data - unat offset
      then Inl (EmulatorError (BadELF ''extends past end of file''))
      else Inr (take size_of (drop (unat offset) data)))"

definition ehdr_at :: "u8 list \<Rightarrow> u64 \<Rightarrow> exn + ehdr" where
  "ehdr_at data offset = sbind (object_at 64 data offset) (\<lambda>b. Inr
     \<lparr>e_ident = take 16 b, e_type = field b 16 2, e_machine = field b 18 2,
      e_entry = field b 24 8, e_phoff = field b 32 8, e_shoff = field b 40 8,
      e_phentsize = field b 54 2, e_phnum = field b 56 2, e_shentsize = field b 58 2,
      e_shnum = field b 60 2\<rparr>)"

definition phdr_at :: "u8 list \<Rightarrow> u64 \<Rightarrow> exn + phdr" where
  "phdr_at data offset = sbind (object_at 56 data offset) (\<lambda>b. Inr
     \<lparr>p_type = field b 0 4, p_flags = field b 4 4, p_offset = field b 8 8,
      p_vaddr = field b 16 8, p_filesz = field b 32 8, p_memsz = field b 40 8\<rparr>)"

definition shdr_at :: "u8 list \<Rightarrow> u64 \<Rightarrow> exn + shdr" where
  "shdr_at data offset = sbind (object_at 64 data offset) (\<lambda>b. Inr
     \<lparr>sh_type = field b 4 4, sh_offset = field b 24 8, sh_size = field b 32 8,
      sh_link = field b 40 4, sh_entsize = field b 56 8\<rparr>)"

definition sym_at :: "u8 list \<Rightarrow> u64 \<Rightarrow> exn + sym" where
  "sym_at data offset = sbind (object_at 24 data offset) (\<lambda>b. Inr
     \<lparr>st_name = field b 0 4, st_info = field b 4 1, st_value = field b 8 8,
      st_size = field b 16 8\<rparr>)"

definition elf_magic :: "ehdr \<Rightarrow> bool" where
  "elf_magic h \<longleftrightarrow> take 4 (e_ident h) = [0x7f, 0x45, 0x4c, 0x46]"

definition bad_elf :: "string \<Rightarrow> exn + 'a" where
  "bad_elf msg = Inl (EmulatorError (BadELF msg))"

text \<open>A check followed by the rest: \<^verbatim>\<open>if (cond) throw EmulatorError(msg);\<close>\<close>

definition reject_if :: "bool \<Rightarrow> string \<Rightarrow> exn + unit" where
  "reject_if b msg = (if b then bad_elf msg else Inr ())"

section \<open>Loading\<close>

definition flags_to_prot :: "u32 \<Rightarrow> u32" where
  "flags_to_prot flags =
     (if flags AND 4 \<noteq> 0 then ProtRead else 0) OR
     (if flags AND 2 \<noteq> 0 then ProtWrite else 0) OR
     (if flags AND 1 \<noteq> 0 then ProtExecute else 0)"

record loaded_object =
  lo_entry :: u64
  lo_load_base :: u64
  lo_phdr :: u64
  lo_phent :: u16
  lo_phnum :: u16
  lo_brk_start :: u64
  lo_interpreter :: string

definition check_ehdr :: "u8 list \<Rightarrow> ehdr \<Rightarrow> exn + unit" where
  "check_ehdr data h =
     sbind (reject_if (\<not> elf_magic h) ''is not an ELF file'') (\<lambda>_.
     sbind (reject_if (e_ident h ! 4 \<noteq> 2) ''is not ELFCLASS64'') (\<lambda>_.
     sbind (reject_if (e_ident h ! 5 \<noteq> 1) ''is not little-endian ELF'') (\<lambda>_.
     sbind (reject_if (e_machine h \<noteq> 62) ''is not EM_X86_64'') (\<lambda>_.
     sbind (reject_if (e_type h \<noteq> 2 \<and> e_type h \<noteq> 3) ''is neither ET_EXEC nor ET_DYN'') (\<lambda>_.
     sbind (reject_if (e_phentsize h \<noteq> 56) ''has unsupported program-header entry size'') (\<lambda>_.
     sbind (reject_if (e_phnum h = 0) ''has no program headers'') (\<lambda>_.
     reject_if (unat (e_phoff h) > length data
         \<or> unat (ucast (e_phnum h) * ucast (e_phentsize h) :: u64) > length data - unat (e_phoff h))
       ''has invalid program-header table'')))))))"

definition interpreter_path :: "u8 list \<Rightarrow> phdr \<Rightarrow> string" where
  "interpreter_path data ph =
     (let bytes = take (unat (p_filesz ph)) (drop (unat (p_offset ph)) data);
          s = map (\<lambda>b. char_of (unat b)) bytes in
      if s \<noteq> [] \<and> last s = CHR 0x00 then butlast s else s)"

definition load_segment ::
  "u8 list \<Rightarrow> string \<Rightarrow> ehdr \<Rightarrow> phdr \<Rightarrow> loaded_object \<Rightarrow> (mmu, loaded_object) smon" where
  "load_segment data path h ph object =
     bind (lift_sum (\<lambda>_. reject_if (p_filesz ph > p_memsz ph) ''has PT_LOAD p_filesz > p_memsz'')) (\<lambda>_.
     bind (lift_sum (\<lambda>_. reject_if (unat (p_offset ph) > length data
             \<or> unat (p_filesz ph) > length data - unat (p_offset ph))
             ''has PT_LOAD outside file'')) (\<lambda>_.
     let segment_start = lo_load_base object + p_vaddr ph;
         map_start = page_align_down segment_start;
         map_offset = segment_start - map_start;
         map_size = page_align_up (map_offset + p_memsz ph) in
     seq (map_bytes map_start map_size (flags_to_prot (p_flags ph))
            (take (unat (p_filesz ph)) (drop (unat (p_offset ph)) data)) map_offset path)
     (let object1 = object\<lparr>lo_brk_start :=
            max (lo_brk_start object) (page_align_up (segment_start + p_memsz ph))\<rparr> in
      return (if lo_phdr object1 = 0 \<and> e_phoff h \<ge> p_offset ph
                 \<and> e_phoff h < p_offset ph + p_filesz ph
              then object1\<lparr>lo_phdr := segment_start + (e_phoff h - p_offset ph)\<rparr>
              else object1))))"

definition load_header ::
  "u8 list \<Rightarrow> string \<Rightarrow> ehdr \<Rightarrow> loaded_object \<Rightarrow> phdr \<Rightarrow> (mmu, loaded_object) smon" where
  "load_header data path h object ph =
     (if p_type ph = 3 then
        (if unat (p_offset ph) > length data \<or> unat (p_filesz ph) > length data - unat (p_offset ph)
         then throw (EmulatorError (BadELF ''has invalid PT_INTERP''))
         else return (object\<lparr>lo_interpreter := interpreter_path data ph\<rparr>))
      else if p_type ph = 6 then return (object\<lparr>lo_phdr := lo_load_base object + p_vaddr ph\<rparr>)
      else if p_type ph = 0x6474e551 then return object
      else if p_type ph \<noteq> 1 then return object
      else load_segment data path h ph object)"

fun load_headers ::
  "u8 list \<Rightarrow> string \<Rightarrow> ehdr \<Rightarrow> nat \<Rightarrow> nat \<Rightarrow> loaded_object \<Rightarrow> (mmu, loaded_object) smon" where
  "load_headers data path h i 0 object = return object"
| "load_headers data path h i (Suc n) object =
     bind (lift_sum (\<lambda>_. phdr_at data (e_phoff h + of_nat i * ucast (e_phentsize h)))) (\<lambda>ph.
     bind (load_header data path h object ph) (\<lambda>object'.
     load_headers data path h (Suc i) n object'))"

definition load_object :: "files \<Rightarrow> string \<Rightarrow> u64 \<Rightarrow> (mmu, loaded_object) smon" where
  "load_object fs path dyn_base =
     bind (lift_sum (\<lambda>_. read_file fs path)) (\<lambda>data.
     bind (lift_sum (\<lambda>_. reject_if (length data < 64) ''is too small to be an ELF64 file'')) (\<lambda>_.
     bind (lift_sum (\<lambda>_. ehdr_at data 0)) (\<lambda>h.
     bind (lift_sum (\<lambda>_. check_ehdr data h)) (\<lambda>_.
     let load_base = (if e_type h = 3 then dyn_base else 0) in
     bind (load_headers data path h 0 (unat (e_phnum h))
             \<lparr>lo_entry = load_base + e_entry h, lo_load_base = load_base, lo_phdr = 0,
              lo_phent = e_phentsize h, lo_phnum = e_phnum h, lo_brk_start = 0,
              lo_interpreter = []\<rparr>) (\<lambda>object0.
     let object = (if lo_phdr object0 = 0 then object0\<lparr>lo_phdr := load_base + e_phoff h\<rparr>
                   else object0) in
     if lo_brk_start object = 0
     then throw (EmulatorError (BadELF ''did not map any PT_LOAD segments''))
     else return object)))))"

definition executable_dyn_base :: u64 where
  "executable_dyn_base = 0x555555554000"

definition interpreter_dyn_base :: u64 where
  "interpreter_dyn_base = 0x7f0000000000"

record loaded_program =
  lp_entry :: u64
  lp_executable_entry :: u64
  lp_executable_base :: u64
  lp_interpreter_base :: u64
  lp_interpreter_phdr :: u64
  lp_interpreter_phent :: u16
  lp_interpreter_phnum :: u16
  lp_phdr :: u64
  lp_phent :: u16
  lp_phnum :: u16
  lp_brk_start :: u64
  lp_dynamic :: bool
  lp_executable_path :: string
  lp_interpreter_path :: string

definition elf_load :: "files \<Rightarrow> string \<Rightarrow> (mmu, loaded_program) smon" where
  "elf_load fs path =
     bind (load_object fs path executable_dyn_base) (\<lambda>executable.
     let program = \<lparr>lp_entry = lo_entry executable, lp_executable_entry = lo_entry executable,
           lp_executable_base = lo_load_base executable, lp_interpreter_base = 0,
           lp_interpreter_phdr = 0, lp_interpreter_phent = 0, lp_interpreter_phnum = 0,
           lp_phdr = lo_phdr executable, lp_phent = lo_phent executable,
           lp_phnum = lo_phnum executable, lp_brk_start = lo_brk_start executable,
           lp_dynamic = False, lp_executable_path = path,
           lp_interpreter_path = lo_interpreter executable\<rparr> in
     if lo_interpreter executable = [] then return program
     else
       bind (load_object fs (lo_interpreter executable) interpreter_dyn_base) (\<lambda>interpreter.
       return (program\<lparr>lp_dynamic := True, lp_entry := lo_entry interpreter,
           lp_interpreter_base := lo_load_base interpreter,
           lp_interpreter_phdr := lo_phdr interpreter,
           lp_interpreter_phent := lo_phent interpreter,
           lp_interpreter_phnum := lo_phnum interpreter\<rparr>)))"

section \<open>Symbols\<close>

record elf_symbol =
  es_name :: string
  es_value :: u64
  es_size :: u64

record elf_image_info =
  ii_min_vaddr :: u64
  ii_max_vaddr :: u64
  ii_executable_ranges :: "(u64 \<times> u64) list"
  ii_function_symbols :: "elf_symbol list"

definition symbol_name_at :: "u8 list \<Rightarrow> shdr \<Rightarrow> u32 \<Rightarrow> string" where
  "symbol_name_at data strings offset =
     (if ucast offset \<ge> sh_size strings then []
      else let start = sh_offset strings + ucast offset in
        if unat start \<ge> length data then []
        else
          let limit = min (length data) (unat (sh_offset strings + sh_size strings));
              bytes = takeWhile (\<lambda>b. b \<noteq> 0) (drop (unat start) (take limit data)) in
          takeWhile (\<lambda>c. c \<noteq> CHR ''@'') (map (\<lambda>b. char_of (unat b)) bytes))"

definition table_fits :: "u8 list \<Rightarrow> u64 \<Rightarrow> u16 \<Rightarrow> u16 \<Rightarrow> bool" where
  "table_fits data offset count entry_size \<longleftrightarrow>
     unat offset \<le> length data \<and>
     unat (ucast count * ucast entry_size :: u64) \<le> length data - unat offset"

fun parse_table :: "(u64 \<Rightarrow> exn + 'h) \<Rightarrow> u64 \<Rightarrow> u64 \<Rightarrow> nat \<Rightarrow> nat \<Rightarrow> exn + 'h list" where
  "parse_table at base entry_size i 0 = Inr []"
| "parse_table at base entry_size i (Suc n) =
     sbind (at (base + of_nat i * entry_size)) (\<lambda>x.
     sbind (parse_table at base entry_size (Suc i) n) (\<lambda>xs. Inr (x # xs)))"

definition note_segment :: "phdr \<Rightarrow> elf_image_info \<Rightarrow> elf_image_info" where
  "note_segment ph info =
     (if p_type ph \<noteq> 1 then info
      else let start = page_align_down (p_vaddr ph);
               stop = page_align_up (p_vaddr ph + p_memsz ph) in
        info\<lparr>ii_min_vaddr := min (ii_min_vaddr info) start,
             ii_max_vaddr := max (ii_max_vaddr info) stop,
             ii_executable_ranges := ii_executable_ranges info
               @ (if p_flags ph AND 1 \<noteq> 0 then [(start, stop)] else [])\<rparr>)"

definition symbol_section_usable :: "u8 list \<Rightarrow> shdr list \<Rightarrow> shdr \<Rightarrow> bool" where
  "symbol_section_usable data sections section \<longleftrightarrow>
     (sh_type section = 2 \<or> sh_type section = 11) \<and>
     sh_entsize section = 24 \<and> unat (sh_link section) < length sections \<and>
     unat (sh_offset section) \<le> length data \<and>
     unat (sh_size section) \<le> length data - unat (sh_offset section) \<and>
     (let strings = sections ! unat (sh_link section) in
      unat (sh_offset strings) \<le> length data \<and>
      unat (sh_size strings) \<le> length data - unat (sh_offset strings))"

definition named_functions :: "u8 list \<Rightarrow> shdr \<Rightarrow> sym list \<Rightarrow> elf_symbol list" where
  "named_functions data strings syms =
     map (\<lambda>s. \<lparr>es_name = symbol_name_at data strings (st_name s), es_value = st_value s,
               es_size = st_size s\<rparr>)
       (filter (\<lambda>s. st_info s AND 0xf = 2 \<and> st_value s \<noteq> 0
                    \<and> symbol_name_at data strings (st_name s) \<noteq> []) syms)"

fun collect_symbols :: "u8 list \<Rightarrow> shdr list \<Rightarrow> shdr list \<Rightarrow> exn + elf_symbol list" where
  "collect_symbols data sections [] = Inr []"
| "collect_symbols data sections (sec # rest) =
     (if \<not> symbol_section_usable data sections sec then collect_symbols data sections rest
      else
        sbind (parse_table (sym_at data) (sh_offset sec) (sh_entsize sec) 0
                 (unat (sh_size sec) div unat (sh_entsize sec))) (\<lambda>syms.
        sbind (collect_symbols data sections rest) (\<lambda>others.
        Inr (named_functions data (sections ! unat (sh_link sec)) syms @ others))))"

text \<open>
  \<^verbatim>\<open>std::sort\<close> leaves the order of symbols with equal addresses open; the model's sort is
  stable.
\<close>

definition read_elf_image_info :: "files \<Rightarrow> string \<Rightarrow> exn + elf_image_info" where
  "read_elf_image_info fs path =
     sbind (read_file fs path) (\<lambda>data.
     sbind (reject_if (length data < 64) ''is too small to be an ELF64 file'') (\<lambda>_.
     sbind (ehdr_at data 0) (\<lambda>h.
     sbind (reject_if (\<not> elf_magic h) ''is not an ELF file'') (\<lambda>_.
     sbind (reject_if (e_ident h ! 4 \<noteq> 2 \<or> e_ident h ! 5 \<noteq> 1 \<or> e_machine h \<noteq> 62)
              ''is not a supported x86_64 ELF'') (\<lambda>_.
     sbind (reject_if (e_type h \<noteq> 2 \<and> e_type h \<noteq> 3) ''is neither ET_EXEC nor ET_DYN'') (\<lambda>_.
     sbind (if e_phoff h \<noteq> 0 \<and> e_phentsize h = 56
               \<and> table_fits data (e_phoff h) (e_phnum h) (e_phentsize h)
            then parse_table (phdr_at data) (e_phoff h) (ucast (e_phentsize h)) 0 (unat (e_phnum h))
            else Inr []) (\<lambda>phdrs.
     let info0 = fold note_segment phdrs
           \<lparr>ii_min_vaddr = NOT 0, ii_max_vaddr = 0, ii_executable_ranges = [],
            ii_function_symbols = []\<rparr>;
         info = (if ii_min_vaddr info0 = NOT 0 then info0\<lparr>ii_min_vaddr := 0\<rparr> else info0) in
     sbind (if e_shoff h \<noteq> 0 \<and> e_shentsize h = 64
               \<and> table_fits data (e_shoff h) (e_shnum h) (e_shentsize h)
            then sbind (parse_table (shdr_at data) (e_shoff h) (ucast (e_shentsize h)) 0
                          (unat (e_shnum h)))
                   (\<lambda>sections. collect_symbols data sections sections)
            else Inr []) (\<lambda>symbols.
     Inr (info\<lparr>ii_function_symbols := sort_key es_value symbols\<rparr>)))))))))"

end
