(* ===== verification/Emulator.thy ===== *)
theory Emulator
  imports GuestMemory ELF
begin

text \<open>
  \<^verbatim>\<open>src/Emulator.cpp\<close>: the initial stack, the program break, and the guest's signals: the
  dispositions and the mask, pending signals, the frame pushed before a handler runs, and
  \<^verbatim>\<open>rt_sigreturn\<close>. Signal numbers and the results \<^verbatim>\<open>-EINVAL\<close> are integers; the host's
  user and group ids, clock ticks and random bytes are the argument \<open>host_info\<close>.
\<close>

section \<open>Constants\<close>

definition signal_frame_magic :: u64 where
  "signal_frame_magic = 0x4c55455349474652"

definition signal_trampoline_address :: u64 where
  "signal_trampoline_address = 0x7fffff100000"

definition signal_frame_size :: u64 where
  "signal_frame_size = 8 * (1 + 1 + 1 + 1 + 16 + 1 + 1)"

definition SignalFrameMagic :: u64 where "SignalFrameMagic = 0"
definition SignalFrameMask :: u64 where "SignalFrameMask = 8"
definition SignalFrameRip :: u64 where "SignalFrameRip = 16"
definition SignalFrameRflags :: u64 where "SignalFrameRflags = 24"
definition SignalFrameGpr :: u64 where "SignalFrameGpr = 32"
definition SignalFrameFsBase :: u64 where "SignalFrameFsBase = SignalFrameGpr + 16 * 8"
definition SignalFrameGsBase :: u64 where "SignalFrameGsBase = SignalFrameFsBase + 8"

lemmas signal_frame_defs = SignalFrameMagic_def SignalFrameMask_def SignalFrameRip_def
  SignalFrameRflags_def SignalFrameGpr_def SignalFrameFsBase_def SignalFrameGsBase_def
  signal_frame_size_def

definition EINVAL :: int where "EINVAL = 22"
definition SIGKILL :: int where "SIGKILL = 9"
definition SIGCHLD :: int where "SIGCHLD = 17"
definition SIGSTOP :: int where "SIGSTOP = 19"
definition SIGURG :: int where "SIGURG = 23"
definition SIGWINCH :: int where "SIGWINCH = 28"
definition NSIG :: int where "NSIG = 65"

lemmas signal_defs = EINVAL_def SIGKILL_def SIGCHLD_def SIGSTOP_def SIGURG_def SIGWINCH_def NSIG_def

definition is_exit_syscall :: "u64 \<Rightarrow> bool" where
  "is_exit_syscall number \<longleftrightarrow> number = 60 \<or> number = 231"

definition signal_bit :: "int \<Rightarrow> u64" where
  "signal_bit signum = (if signum \<le> 0 \<or> signum \<ge> 64 then 0 else push_bit (nat (signum - 1)) 1)"

definition default_signal_is_ignored :: "int \<Rightarrow> bool" where
  "default_signal_is_ignored signum \<longleftrightarrow>
     signum = SIGCHLD \<or> signum = SIGURG \<or> signum = SIGWINCH"

text \<open>The handler the host runs asynchronously; its only effect is the pending flag.\<close>

definition host_signal_handler :: "int \<Rightarrow> machine \<Rightarrow> machine" where
  "host_signal_handler signum s =
     (if signum > 0 \<and> signum < NSIG
      then s\<lparr>s_host_pending := (s_host_pending s)(nat signum := True)\<rparr> else s)"

section \<open>The initial stack\<close>

record host_info =
  h_uid :: u64
  h_euid :: u64
  h_gid :: u64
  h_egid :: u64
  h_clk_tck :: u64
  h_random :: "u8 list"

definition emu_push64 :: "u64 \<Rightarrow> (machine, unit) smon" where
  "emu_push64 v =
     seq (upd_emu (\<lambda>e. e\<lparr>e_stack_top := e_stack_top e - 8\<rparr>))
         (bind (get_emu e_stack_top) (\<lambda>top. write64 top v))"

definition push_bytes :: "u8 list \<Rightarrow> (machine, u64) smon" where
  "push_bytes bytes =
     seq (upd_emu (\<lambda>e. e\<lparr>e_stack_top := e_stack_top e - of_nat (length bytes)\<rparr>))
         (bind (get_emu e_stack_top) (\<lambda>top. seq (copy_to_guest top bytes) (return top)))"

definition string_bytes :: "string \<Rightarrow> u8 list" where
  "string_bytes v = map (\<lambda>ch. of_nat (of_char ch)) v @ [0]"

definition push_string :: "string \<Rightarrow> (machine, u64) smon" where
  "push_string v = push_bytes (string_bytes v)"

text \<open>A reverse loop that pushes strings and collects their addresses in the original order.\<close>

fun push_strings :: "string list \<Rightarrow> (machine, u64 list) smon" where
  "push_strings [] = return []"
| "push_strings (v # vs) =
     bind (push_strings vs) (\<lambda>rest. bind (push_string v) (\<lambda>a. return (a # rest)))"

text \<open>A reverse loop of \<^verbatim>\<open>push64\<close>: afterwards the words lie in order from the stack top.\<close>

fun push_words :: "u64 list \<Rightarrow> (machine, unit) smon" where
  "push_words [] = return ()"
| "push_words (w # ws) = seq (push_words ws) (emu_push64 w)"

definition auxiliary_vector ::
  "loaded_program \<Rightarrow> host_info \<Rightarrow> u64 \<Rightarrow> u64 \<Rightarrow> u64 \<Rightarrow> (u64 \<times> u64) list" where
  "auxiliary_vector prog h platform random_address execfn =
     [(3, lp_phdr prog), (4, ucast (lp_phent prog)), (5, ucast (lp_phnum prog)),
      (6, page_size), (7, lp_interpreter_base prog), (8, 0), (9, lp_executable_entry prog),
      (11, h_uid h), (12, h_euid h), (13, h_gid h), (14, h_egid h), (15, platform), (16, 0),
      (17, h_clk_tck h), (23, 0), (25, random_address), (26, 0), (31, execfn), (0, 0)]"

definition setup_stack ::
  "string \<Rightarrow> string list \<Rightarrow> string list \<Rightarrow> loaded_program \<Rightarrow> host_info \<Rightarrow> (machine, unit) smon" where
  "setup_stack executable_path arguments environment prog h =
     bind (push_strings arguments) (\<lambda>argv.
     bind (push_strings environment) (\<lambda>envp.
     bind (push_string executable_path) (\<lambda>execfn.
     bind (push_string ''x86_64'') (\<lambda>platform.
     bind (push_bytes (h_random h)) (\<lambda>random_address.
     seq (upd_emu (\<lambda>e. e\<lparr>e_stack_top := e_stack_top e AND NOT 0xf\<rparr>))
    (seq (push_words (concat (map (\<lambda>(tag, v). [tag, v])
                        (auxiliary_vector prog h platform random_address execfn))))
    (seq (emu_push64 0)
    (seq (push_words envp)
    (seq (emu_push64 0)
    (seq (push_words argv)
         (emu_push64 (of_nat (length argv)))))))))))))"

section \<open>The program break\<close>

definition set_brk :: "u64 \<Rightarrow> (machine, u64) smon" where
  "set_brk requested =
     bind (gets s_emu) (\<lambda>e.
     if requested = 0 then return (e_brk e)
     else if requested < e_brk_start e then return (e_brk e)
     else
       seq (if requested > e_brk_region_end e
            then let new_end = page_align_up requested in
              when_do (new_end > e_brk_region_end e)
                (seq (on_mmu (map_zeroed (e_brk_region_end e) (new_end - e_brk_region_end e)
                        (ProtRead OR ProtWrite) ''[brk]''))
                     (upd_emu (\<lambda>e. e\<lparr>e_brk_region_end := new_end\<rparr>)))
            else return ())
      (seq (upd_emu (\<lambda>e. e\<lparr>e_brk := requested\<rparr>))
           (return requested)))"

section \<open>Signals\<close>

definition signal_trampoline_code :: "u8 list" where
  "signal_trampoline_code = [0x48, 0xc7, 0xc0, 0x0f, 0x00, 0x00, 0x00, 0x0f, 0x05, 0xf4, 0x90]"

definition setup_signal_trampoline :: "(machine, unit) smon" where
  "setup_signal_trampoline =
     seq (on_mmu (map_bytes signal_trampoline_address page_size (ProtRead OR ProtExecute)
                    signal_trampoline_code 0 ''[signal trampoline]''))
         (upd_emu (\<lambda>e. e\<lparr>e_signal_trampoline := signal_trampoline_address\<rparr>))"

definition deliver_signal :: "int \<Rightarrow> emulator \<Rightarrow> int \<times> emulator" where
  "deliver_signal signum e =
     (if signum \<le> 0 \<or> signum \<ge> NSIG \<or> signum \<ge> 64 then (- EINVAL, e)
      else (0, e\<lparr>e_pending_signals := e_pending_signals e OR signal_bit signum\<rparr>))"

definition collect_host_signal :: "nat \<Rightarrow> machine \<Rightarrow> machine" where
  "collect_host_signal signum s =
     (if \<not> s_host_pending s signum then s
      else s\<lparr>s_host_pending := (s_host_pending s)(signum := False),
             s_emu := snd (deliver_signal (int signum) (s_emu s))\<rparr>)"

definition collect_host_signals :: "(machine, unit) smon" where
  "collect_host_signals = modify (fold collect_host_signal [1..<64])"

definition is_signal_blocked :: "emulator \<Rightarrow> int \<Rightarrow> bool" where
  "is_signal_blocked e signum \<longleftrightarrow> e_signal_mask e AND signal_bit signum \<noteq> 0"

definition signal_deliverable :: "emulator \<Rightarrow> nat \<Rightarrow> bool" where
  "signal_deliverable e signum \<longleftrightarrow>
     e_pending_signals e AND signal_bit (int signum) \<noteq> 0 \<and> \<not> is_signal_blocked e (int signum)"

text \<open>The frame: restorer address, magic, mask, rip, rflags, the registers, the segment bases.\<close>

definition write_signal_frame :: "u64 \<Rightarrow> u64 \<Rightarrow> u64 \<Rightarrow> (machine, unit) smon" where
  "write_signal_frame handler_rsp frame restorer =
     bind (get_emu e_signal_mask) (\<lambda>mask.
     bind (gets s_cpu) (\<lambda>c.
     seq (write64 handler_rsp restorer)
    (seq (write64 (frame + SignalFrameMagic) signal_frame_magic)
    (seq (write64 (frame + SignalFrameMask) mask)
    (seq (write64 (frame + SignalFrameRip) (c_rip c))
    (seq (write64 (frame + SignalFrameRflags) (c_rflags c))
    (seq (for_loop 0 16 (\<lambda>i.
            write64 (frame + SignalFrameGpr + of_nat i * 8) (c_gpr c (of_nat i))))
    (seq (write64 (frame + SignalFrameFsBase) (c_fs_base c))
         (write64 (frame + SignalFrameGsBase) (c_gs_base c))))))))))"

definition enter_signal_handler :: "nat \<Rightarrow> signal_action \<Rightarrow> (machine, unit) smon" where
  "enter_signal_handler signum action =
     bind (gets s_cpu) (\<lambda>c.
     bind (get_emu e_signal_trampoline) (\<lambda>trampoline.
     let frame = (c_gpr c RSP - signal_frame_size - 128) AND NOT 0xf;
         handler_rsp = frame - 8;
         restorer = (if sa_restorer action \<noteq> 0 then sa_restorer action else trampoline) in
     seq (write_signal_frame handler_rsp frame restorer)
    (seq (upd_emu (\<lambda>e. e\<lparr>e_signal_mask :=
            (e_signal_mask e OR sa_mask action) OR signal_bit (int signum)\<rparr>))
         (upd_cpu (\<lambda>c. c\<lparr>
            c_gpr := (c_gpr c)(RDI := of_nat signum, RSI := 0, RDX := 0, RSP := handler_rsp),
            c_rip := sa_handler action,
            c_call_stack := c_call_stack c @ [restorer]\<rparr>)))))"

definition dispatch_pending_signal :: "(machine, unit) smon" where
  "dispatch_pending_signal =
     bind (gets s_emu) (\<lambda>e.
     case find (signal_deliverable e) [1..<64] of
       None \<Rightarrow> return ()
     | Some signum \<Rightarrow>
         let action = e_signal_actions e signum in
         seq (upd_emu (\<lambda>e. e\<lparr>e_pending_signals :=
                e_pending_signals e AND NOT (signal_bit (int signum))\<rparr>))
         (if sa_handler action = 1 then return ()
          else if sa_handler action = 0
          then if default_signal_is_ignored (int signum) then return ()
               else throw (GuestExit (128 + int signum))
          else enter_signal_handler signum action))"

definition set_signal_action ::
  "int \<Rightarrow> bool \<Rightarrow> u64 \<Rightarrow> u64 \<Rightarrow> u64 \<Rightarrow> u64 \<Rightarrow> u64 \<Rightarrow> (machine, int) smon" where
  "set_signal_action signum update_action handler flags restorer action_mask old_action_address =
     (if signum \<le> 0 \<or> signum \<ge> NSIG \<or> signum \<ge> 64 then return (- EINVAL)
      else if signum = SIGKILL \<or> signum = SIGSTOP then return (- EINVAL)
      else
        seq (when_do (old_action_address \<noteq> 0)
              (bind (get_emu (\<lambda>e. e_signal_actions e (nat signum))) (\<lambda>old_action.
               seq (write64 (old_action_address + 0) (sa_handler old_action))
              (seq (write64 (old_action_address + 8) (sa_flags old_action))
              (seq (write64 (old_action_address + 16) (sa_restorer old_action))
                   (write64 (old_action_address + 24) (sa_mask old_action)))))))
       (seq (when_do update_action
              (upd_emu (\<lambda>e. e\<lparr>e_signal_actions := (e_signal_actions e)(nat signum :=
                 \<lparr>sa_handler = handler, sa_flags = flags, sa_restorer = restorer,
                  sa_mask = action_mask\<rparr>)\<rparr>)))
            (return 0)))"

definition set_signal_mask :: "int \<Rightarrow> u64 \<Rightarrow> u64 \<Rightarrow> (machine, int) smon" where
  "set_signal_mask how set_address old_set_address =
     seq (when_do (old_set_address \<noteq> 0)
           (bind (get_emu e_signal_mask) (\<lambda>mask. write64 old_set_address mask)))
     (if set_address = 0 then return 0
      else
        bind (mem_read64 set_address) (\<lambda>mask0.
        let new_mask = (mask0 AND NOT (signal_bit SIGKILL)) AND NOT (signal_bit SIGSTOP) in
        if how = 0
        then seq (upd_emu (\<lambda>e. e\<lparr>e_signal_mask := e_signal_mask e OR new_mask\<rparr>)) (return 0)
        else if how = 1
        then seq (upd_emu (\<lambda>e. e\<lparr>e_signal_mask := e_signal_mask e AND NOT new_mask\<rparr>)) (return 0)
        else if how = 2
        then seq (upd_emu (\<lambda>e. e\<lparr>e_signal_mask := new_mask\<rparr>)) (return 0)
        else return (- EINVAL)))"

text \<open>Reads \<open>n\<close> consecutive 64-bit words.\<close>

fun read_words :: "u64 \<Rightarrow> nat \<Rightarrow> (machine, u64 list) smon" where
  "read_words address 0 = return []"
| "read_words address (Suc n) =
     bind (mem_read64 address) (\<lambda>w. bind (read_words (address + 8) n) (\<lambda>ws. return (w # ws)))"

definition handle_sigreturn :: "(machine, u64) smon" where
  "handle_sigreturn =
     bind (get_cpu (\<lambda>c. c_gpr c RSP)) (\<lambda>frame.
     bind (mem_read64 (frame + SignalFrameMagic)) (\<lambda>magic.
     if magic \<noteq> signal_frame_magic then throw (EmulatorError (InvalidSignalFrame frame))
     else
       bind (mem_read64 (frame + SignalFrameMask)) (\<lambda>mask.
       seq (upd_emu (\<lambda>e. e\<lparr>e_signal_mask := mask\<rparr>))
      (bind (mem_read64 (frame + SignalFrameRip)) (\<lambda>restored_rip.
       bind (mem_read64 (frame + SignalFrameRflags)) (\<lambda>restored_rflags.
       bind (read_words (frame + SignalFrameGpr) 16) (\<lambda>restored_regs.
       bind (mem_read64 (frame + SignalFrameFsBase)) (\<lambda>restored_fs.
       bind (mem_read64 (frame + SignalFrameGsBase)) (\<lambda>restored_gs.
       seq (upd_cpu (\<lambda>c. c\<lparr>c_gpr := (\<lambda>i. restored_regs ! unat i),
              c_fs_base := restored_fs, c_gs_base := restored_gs,
              c_rflags := restored_rflags, c_rip := restored_rip\<rparr>))
      (seq (upd_emu (\<lambda>e. e\<lparr>e_restored_context := True\<rparr>))
           (return (restored_regs ! unat RAX))))))))))))"

definition consume_restored_context :: "(machine, bool) smon" where
  "consume_restored_context =
     bind (get_emu e_restored_context) (\<lambda>v.
     seq (upd_emu (\<lambda>e. e\<lparr>e_restored_context := False\<rparr>)) (return v))"

text \<open>\<^verbatim>\<open>handle_syscall\<close>, over the syscall dispatcher.\<close>

definition handle_syscall :: "(u64 \<Rightarrow> (machine, u64) smon) \<Rightarrow> u64 \<Rightarrow> (machine, u64) smon" where
  "handle_syscall dispatch number =
     bind (get_emu e_options) (\<lambda>options.
     seq (when_do (opt_backtrace_on_exit options \<and> \<not> is_exit_syscall number)
           (bind (lift_sum raw_backtrace) (\<lambda>bt.
            upd_emu (\<lambda>e. e\<lparr>e_last_syscall_backtrace := bt\<rparr>))))
         (dispatch number))"


section \<open>Files and images\<close>

definition path_from_host_fd :: "host \<Rightarrow> int \<Rightarrow> (machine, string option) smon" where
  "path_from_host_fd h fd =
     bind (ask_host h ''readlink''
             [HIn (bytes_of_string (''/proc/self/fd/'' @ decimal fd)), HOut 4095]) (\<lambda>a.
     if ans_rc a < 0 then return None
     else return (Some (string_of_bytes
            (c_string (take (nat (ans_rc a)) (out_buffer a 0 (zeros 4095)))))))"

definition register_host_fd :: "host \<Rightarrow> int \<Rightarrow> (machine, unit) smon" where
  "register_host_fd h guest_fd =
     bind (path_from_host_fd h guest_fd) (\<lambda>path.
     case path of None \<Rightarrow> return ()
     | Some p \<Rightarrow> upd_emu (\<lambda>e. e\<lparr>e_fd_paths := (e_fd_paths e)(guest_fd := Some p)\<rparr>))"

definition unregister_host_fd :: "int \<Rightarrow> emulator \<Rightarrow> emulator" where
  "unregister_host_fd guest_fd e = e\<lparr>e_fd_paths := (e_fd_paths e)(guest_fd := None)\<rparr>"

definition path_for_fd :: "emulator \<Rightarrow> int \<Rightarrow> string option" where
  "path_for_fd e guest_fd = e_fd_paths e guest_fd"

text \<open>The part after the last slash.\<close>

definition base_name :: "string \<Rightarrow> string" where
  "base_name path = rev (takeWhile (\<lambda>c. c \<noteq> CHR ''/'') (rev path))"

definition starts_with :: "string \<Rightarrow> string \<Rightarrow> bool" where
  "starts_with name pre \<longleftrightarrow> take (length pre) name = pre"

definition has_substring :: "string \<Rightarrow> string \<Rightarrow> bool" where
  "has_substring name part \<longleftrightarrow> list_ex (\<lambda>i. starts_with (drop i name) part) [0..<Suc (length name)]"

definition image_kind_for_path :: "string \<Rightarrow> string" where
  "image_kind_for_path path =
     (let name = base_name path in
      if name = ''ld-linux-x86-64.so.2'' \<or> starts_with name ''ld-'' then ''loader''
      else if name = ''libc.so.6'' \<or> starts_with name ''libc-'' then ''libc''
      else if has_substring name ''libsystem'' then ''libsystem''
      else [])"

definition image_of_info :: "string \<Rightarrow> u64 \<Rightarrow> string \<Rightarrow> elf_image_info \<Rightarrow> loaded_image" where
  "image_of_info path load_base kind info =
     (let base = load_base - ii_min_vaddr info in
      \<lparr>li_path = path, li_name = base_name path,
       li_kind = (if kind = [] then image_kind_for_path path else kind),
       li_base = base, li_end = base + ii_max_vaddr info,
       li_executable_ranges = map (\<lambda>(a, b). (base + a, base + b)) (ii_executable_ranges info),
       li_symbols = map (\<lambda>s. let start = base + es_value s;
             sz = (if es_size s \<noteq> 0 then es_size s else 1) in
           \<lparr>sr_start = start, sr_end = start + sz, sr_name = es_name s\<rparr>)
         (ii_function_symbols info)\<rparr>)"

definition remember_symbol :: "loaded_image \<Rightarrow> string \<Rightarrow> symbol_range \<Rightarrow> symbol_range" where
  "remember_symbol img name target =
     (case find (\<lambda>s. sr_name s = name) (li_symbols img) of None \<Rightarrow> target | Some s \<Rightarrow> s)"

definition remember_malloc_symbols :: "loaded_image \<Rightarrow> emulator \<Rightarrow> emulator" where
  "remember_malloc_symbols img e =
     (if li_kind img \<noteq> ''libc'' then e
      else e\<lparr>e_malloc_symbol := remember_symbol img ''malloc'' (e_malloc_symbol e),
             e_realloc_symbol := remember_symbol img ''realloc'' (e_realloc_symbol e),
             e_calloc_symbol := remember_symbol img ''calloc'' (e_calloc_symbol e),
             e_free_symbol := remember_symbol img ''free'' (e_free_symbol e),
             e_malloc_usable_size_symbol :=
               remember_symbol img ''malloc_usable_size'' (e_malloc_usable_size_symbol e)\<rparr>)"

definition register_loaded_image :: "files \<Rightarrow> string \<Rightarrow> u64 \<Rightarrow> string \<Rightarrow> emulator \<Rightarrow> emulator" where
  "register_loaded_image fs path load_base kind e =
     (if path = [] then e
      else if list_ex (\<lambda>i. li_path i = path \<and> li_base i = load_base) (e_loaded_images e) then e
      else case read_elf_image_info fs path of
        Inl _ \<Rightarrow> e
      | Inr info \<Rightarrow>
          let img = image_of_info path load_base kind info;
              e' = remember_malloc_symbols img e in
          e'\<lparr>e_loaded_images := e_loaded_images e' @ [img]\<rparr>)"

definition register_mapped_file :: "files \<Rightarrow> string \<Rightarrow> u64 \<Rightarrow> emulator \<Rightarrow> emulator" where
  "register_mapped_file fs path mapped_address e =
     (if path = [] then e else register_loaded_image fs path mapped_address [] e)"

section \<open>Starting a program\<close>

text \<open>\<^verbatim>\<open>Emulator::load\<close>; installing the host's signal handlers has no effect in the model.\<close>

definition emulator_load ::
  "files \<Rightarrow> string \<Rightarrow> string list \<Rightarrow> string list \<Rightarrow> host_info \<Rightarrow> (machine, unit) smon" where
  "emulator_load fs executable_path arguments environment h =
     bind (on_mmu (elf_load fs executable_path)) (\<lambda>prog.
     seq (upd_emu (register_loaded_image fs (lp_executable_path prog) (lp_executable_base prog)
            ''executable''))
    (seq (when_do (lp_dynamic prog \<and> lp_interpreter_path prog \<noteq> [])
           (upd_emu (register_loaded_image fs (lp_interpreter_path prog)
              (lp_interpreter_base prog) ''loader'')))
    (seq setup_signal_trampoline
    (seq (upd_emu (\<lambda>e. let b = page_align_up (lp_brk_start prog) in
            e\<lparr>e_brk_start := b, e_brk := b, e_brk_region_end := b\<rparr>))
    (bind (gets s_emu) (\<lambda>e.
     seq (on_mmu (map_zeroed (e_stack_base e - e_stack_size e) (e_stack_size e)
            (ProtRead OR ProtWrite) ''[stack]''))
    (seq (upd_emu (\<lambda>e. e\<lparr>e_stack_top := e_stack_base e\<rparr>))
    (seq (setup_stack executable_path arguments environment prog h)
    (bind (get_emu e_stack_top) (\<lambda>top.
     upd_cpu (\<lambda>c. c\<lparr>c_rip := lp_entry prog, c_gpr := (c_gpr c)(RSP := top)\<rparr>)))))))))))"

end
