(* ===== verification/CPU_0F.thy ===== *)
theory CPU_0F
  imports CPU_ALU CPU_SSE Emulator
begin

text \<open>
  The two-byte opcodes: \<^verbatim>\<open>SoftCPU64::execute_0f\<close> of \<^verbatim>\<open>src/SoftCPU64.cpp\<close>, one definition
  per case of its switch and the dispatch over them. The floating-point SSE unit and the system
  call dispatcher are arguments here.
\<close>

section \<open>Flag consumers\<close>

definition exec_jcc_near :: "u8 \<Rightarrow> (machine, unit) smon" where
  "exec_jcc_near opcode =
     bind fetch_i32 (\<lambda>rel.
     bind (branch_condition (unat (opcode AND 0xf))) (\<lambda>taken.
     when_do taken (bind (get_cpu c_decode_pc) (\<lambda>pc. set_decode_pc (pc + rel)))))"

definition taint_from_flags :: "(machine, unit) smon" where
  "taint_from_flags = bind (get_cpu c_flags_tainted) (\<lambda>tainted. when_do tainted set_taint)"

definition exec_setcc :: "u8 \<Rightarrow> prefixes \<Rightarrow> (machine, unit) smon" where
  "exec_setcc opcode p =
     bind (fetch_modrm p) (\<lambda>m.
     bind (decode_rm_operand p m) (\<lambda>operand.
     seq taint_from_flags
     (bind (get_cpu (condition (unat (opcode AND 0xf)))) (\<lambda>holds.
      write_operand operand 8 (if holds then 1 else 0) p))))"

definition exec_cmovcc :: "u8 \<Rightarrow> prefixes \<Rightarrow> (machine, unit) smon" where
  "exec_cmovcc opcode p =
     bind (fetch_modrm p) (\<lambda>m.
     bind (decode_rm_operand p m) (\<lambda>source.
     let width = operand_width p in
     seq taint_from_flags
     (bind (get_cpu (condition (unat (opcode AND 0xf)))) (\<lambda>holds.
      when_do holds (bind (read_operand source width p) (\<lambda>v.
        do_write_gpr (mr_reg m) width v p)))))) "

section \<open>Registers, system call, time, state save\<close>

definition swap_bytes :: "nat \<Rightarrow> u64 \<Rightarrow> u64" where
  "swap_bytes bytes value =
     fold (\<lambda>i swapped. swapped OR
         push_bit ((bytes - 1 - i) * 8) (drop_bit (i * 8) value AND 0xff)) [0..<bytes] 0"

definition exec_bswap :: "u8 \<Rightarrow> prefixes \<Rightarrow> (machine, unit) smon" where
  "exec_bswap opcode p =
     (let reg = unat (opcode - 0xc8) + rex_b p; width = (if rex_w p then 64 else 32) in
      bind (do_read_gpr reg width p) (\<lambda>value.
      do_write_gpr reg width (swap_bytes (width div 8) value) p))"

definition exec_syscall :: "(u64 \<Rightarrow> (machine, u64) smon) \<Rightarrow> (machine, unit) smon" where
  "exec_syscall dispatch =
     bind (get_cpu c_decode_pc) (\<lambda>next_rip.
     seq (upd_cpu (\<lambda>c. c\<lparr>c_gpr := (c_gpr c)(RCX := next_rip, R11 := c_rflags c),
            c_gpr_shadow := (c_gpr_shadow c)(RCX := 0, R11 := 0)\<rparr>))
    (bind (get_cpu (\<lambda>c. c_gpr c RAX)) (\<lambda>number.
     bind (handle_syscall dispatch number) (\<lambda>result.
     bind consume_restored_context (\<lambda>restored.
     if restored then bind (get_cpu c_rip) set_decode_pc
     else seq (upd_cpu (\<lambda>c. set_shadow RAX 0 (set_gpr RAX result c)))
              (set_decode_pc next_rip))))))"

definition exec_hint_nop :: "prefixes \<Rightarrow> (machine, unit) smon" where
  "exec_hint_nop p =
     bind (fetch_modrm p) (\<lambda>m.
     when_do (\<not> is_register_form m) (bind (decode_memory_address p m) (\<lambda>_. return ())))"

definition exec_rdtsc :: "(machine, unit) smon" where
  "exec_rdtsc =
     bind (gets (\<lambda>s. s_clock s (s_clock_reads s))) (\<lambda>now.
     seq (modify (\<lambda>s. s\<lparr>s_clock_reads := Suc (s_clock_reads s)\<rparr>))
         (upd_cpu (\<lambda>c. c\<lparr>
            c_gpr := (c_gpr c)(RAX := ucast (ucast now :: u32),
                               RDX := ucast (ucast (drop_bit 32 now) :: u32)),
            c_gpr_shadow := (c_gpr_shadow c)(RAX := 0, RDX := 0)\<rparr>)))"

definition exec_fxsave :: "u64 \<Rightarrow> (machine, unit) smon" where
  "exec_fxsave address =
     seq (for_loop 0 512 (\<lambda>i. write8 (address + of_nat i) 0))
    (bind (gets s_cpu) (\<lambda>c.
     seq (write32 (address + 24) (c_mxcsr c))
    (seq (write32 (address + 28) 0xffff)
         (for_loop 0 16 (\<lambda>reg. for_loop 0 16 (\<lambda>byte.
            write8 (address + 160 + of_nat reg * 16 + of_nat byte)
                   (c_xmm c (of_nat reg) ! byte)))))))"

definition exec_fxrstor :: "u64 \<Rightarrow> (machine, unit) smon" where
  "exec_fxrstor address =
     bind (mem_read32 (address + 24)) (\<lambda>w.
     seq (upd_cpu (\<lambda>c. c\<lparr>c_mxcsr := w\<rparr>))
         (for_loop 0 16 (\<lambda>reg. for_loop 0 16 (\<lambda>byte.
            bind (mem_read8 (address + 160 + of_nat reg * 16 + of_nat byte)) (\<lambda>b.
            upd_cpu (\<lambda>c. c\<lparr>c_xmm := (c_xmm c)(of_nat reg := (c_xmm c (of_nat reg))[byte := b])\<rparr>))))))"

definition exec_group_ae :: "prefixes \<Rightarrow> (machine, unit) smon" where
  "exec_group_ae p =
     bind (fetch_modrm p) (\<lambda>m.
     let operation = modrm_op m in
     if is_register_form m then
       if operation \<ge> 5 then return () else unsupported ''unsupported register 0F AE operation''
     else
       bind (decode_rm_operand p m) (\<lambda>operand.
       bind (get_cpu (effective_address operand)) (\<lambda>address.
       if operation = 0 then exec_fxsave address
       else if operation = 1 then exec_fxrstor address
       else if operation = 2 then bind (get_cpu c_mxcsr) (write32 address)
       else if operation = 3 then
         bind (mem_read32 address) (\<lambda>w. upd_cpu (\<lambda>c. c\<lparr>c_mxcsr := w\<rparr>))
       else unsupported ''unsupported 0F AE operation'')))"

text \<open>\<^verbatim>\<open>cpuid\<close>: the values of RAX, RBX, RCX, RDX per leaf.\<close>

definition cpuid_leaf :: "u32 \<Rightarrow> u64 \<times> u64 \<times> u64 \<times> u64" where
  "cpuid_leaf leaf =
     (if leaf = 0 then (1, 0x756e6547, 0x6c65746e, 0x49656e69)
      else if leaf = 1 then
        (0x00000663, 0, push_bit 0 1,
         push_bit 0 1 OR push_bit 4 1 OR push_bit 8 1 OR push_bit 15 1 OR push_bit 23 1
         OR push_bit 24 1 OR push_bit 25 1 OR push_bit 26 1)
      else if leaf = 0x80000000 then (0x80000001, 0, 0, 0)
      else if leaf = 0x80000001 then
        (0, 0, push_bit 0 1, push_bit 11 1 OR push_bit 20 1 OR push_bit 29 1)
      else (0, 0, 0, 0))"

definition exec_cpuid :: "(machine, unit) smon" where
  "exec_cpuid = upd_cpu (\<lambda>c.
     case cpuid_leaf (ucast (c_gpr c RAX)) of (a, b, cx, d) \<Rightarrow>
       c\<lparr>c_gpr := (c_gpr c)(RAX := a, RBX := b, RCX := cx, RDX := d),
         c_gpr_shadow := (c_gpr_shadow c)(RAX := 0, RBX := 0, RCX := 0, RDX := 0)\<rparr>)"

section \<open>Bit operations\<close>

definition flags_taint_now :: "(machine, unit) smon" where
  "flags_taint_now = upd_cpu update_flags_taint"

text \<open>Set, reset or complement one bit: the tail of the BT family.\<close>

definition bit_update :: "nat \<Rightarrow> u64 \<Rightarrow> nat \<Rightarrow> u64" where
  "bit_update operation value bit_index =
     (let b = push_bit bit_index 1 in
      if operation = 5 then value OR b
      else if operation = 6 then value AND NOT b
      else if operation = 7 then value XOR b
      else value)"

definition exec_bt_imm :: "prefixes \<Rightarrow> (machine, unit) smon" where
  "exec_bt_imm p =
     bind (fetch_modrm p) (\<lambda>m.
     let operation = modrm_op m in
     bind (decode_rm_operand p m) (\<lambda>bit_base.
     let width = operand_width p in
     bind fetch8 (\<lambda>b.
     let bit_index = unat b mod width in
     bind (read_operand bit_base width p) (\<lambda>value.
     seq (upd_cpu (set_flag CF (drop_bit bit_index value AND 1 \<noteq> 0)))
    (seq flags_taint_now
     (let new_value = bit_update operation value bit_index in
      when_do (operation \<noteq> 4 \<and> new_value \<noteq> value)
        (write_operand bit_base width new_value p)))))))"

definition bt_operation :: "u8 \<Rightarrow> nat" where
  "bt_operation opcode = (if opcode = 0xab then 5 else if opcode = 0xb3 then 6
                          else if opcode = 0xbb then 7 else 4)"

text \<open>The element and the bit that a signed bit offset selects in memory.\<close>

definition bt_memory_position :: "u64 \<Rightarrow> nat \<Rightarrow> int \<times> nat" where
  "bt_memory_position bit_offset width =
     (let signed_offset = sint (sign_extend bit_offset width);
          element_offset = signed_offset sdiv int width;
          bit_index = signed_offset smod int width in
      if bit_index < 0 then (element_offset - 1, nat (bit_index + int width))
      else (element_offset, nat bit_index))"

definition exec_bt_reg :: "u8 \<Rightarrow> prefixes \<Rightarrow> (machine, unit) smon" where
  "exec_bt_reg opcode p =
     bind (fetch_modrm p) (\<lambda>m.
     bind (decode_rm_operand p m) (\<lambda>bit_base.
     let width = operand_width p in
     bind (do_read_gpr (mr_reg m) width p) (\<lambda>bit_offset.
     bind (if op_is_register bit_base
           then bind (read_operand bit_base width p) (\<lambda>value.
                return (value, unat bit_offset mod width, 0))
           else
             bind (get_cpu (effective_address bit_base)) (\<lambda>base.
             let (element_offset, bit_index) = bt_memory_position bit_offset width;
                 address = base + of_int (element_offset * int (width div 8)) in
             bind (if width = 16 then bind (mem_read16 address) (\<lambda>v. return (ucast v))
                   else if width = 32 then bind (mem_read32 address) (\<lambda>v. return (ucast v))
                   else mem_read64 address) (\<lambda>value.
             return (value, bit_index, address)))) (\<lambda>(value, bit_index, address).
     seq (upd_cpu (set_flag CF (drop_bit bit_index value AND 1 \<noteq> 0)))
    (seq flags_taint_now
     (let new_value = bit_update (bt_operation opcode) value bit_index in
      when_do (opcode \<noteq> 0xa3 \<and> new_value \<noteq> value)
        (if op_is_register bit_base then write_operand bit_base width new_value p
         else if width = 16 then write16 address (ucast new_value)
         else if width = 32 then write32 address (ucast new_value)
         else write64 address new_value)))))))"

text \<open>Result and carry of a double-precision shift by \<open>count\<close>, 0 < count < width.\<close>

definition double_shift :: "bool \<Rightarrow> u64 \<Rightarrow> u64 \<Rightarrow> nat \<Rightarrow> nat \<Rightarrow> u64 \<times> bool" where
  "double_shift is_left dest_value src_value count width =
     (let mask = mask_for_width width in
      if is_left
      then ((push_bit count dest_value OR drop_bit (width - count) src_value) AND mask,
            drop_bit (width - count) dest_value AND 1 \<noteq> 0)
      else ((drop_bit count dest_value OR push_bit (width - count) src_value) AND mask,
            drop_bit (count - 1) dest_value AND 1 \<noteq> 0))"

definition exec_double_shift :: "u8 \<Rightarrow> prefixes \<Rightarrow> (machine, unit) smon" where
  "exec_double_shift opcode p =
     bind (fetch_modrm p) (\<lambda>m.
     bind (decode_rm_operand p m) (\<lambda>dest.
     let width = operand_width p; mask = mask_for_width width in
     bind (read_operand dest width p) (\<lambda>d0.
     bind (do_read_gpr (mr_reg m) width p) (\<lambda>s0.
     let dest_value = d0 AND mask; src_value = s0 AND mask in
     bind (if opcode = 0xa4 \<or> opcode = 0xac then bind fetch8 (\<lambda>b. return (unat b))
           else bind (do_read_gpr 1 8 p) (\<lambda>v. return (unat v))) (\<lambda>count0.
     let count = count0 mod width in
     if count = 0 then return ()
     else
       let (result, cf) = double_shift (opcode = 0xa4 \<or> opcode = 0xa5) dest_value src_value count width in
       seq (write_operand dest width result p)
      (seq (upd_cpu (set_logic_flags result width))
      (seq (upd_cpu (set_flag CF cf))
           flags_taint_now)))))))"

definition exec_bit_scan :: "u8 \<Rightarrow> prefixes \<Rightarrow> (machine, unit) smon" where
  "exec_bit_scan opcode p =
     bind (fetch_modrm p) (\<lambda>m.
     bind (decode_rm_operand p m) (\<lambda>source.
     let width = operand_width p in
     bind (read_operand source width p) (\<lambda>v0.
     let value = v0 AND mask_for_width width in
     seq (if value = 0 then upd_cpu (set_flag ZF True)
          else
            seq (upd_cpu (set_flag ZF False))
            (case find (\<lambda>index. drop_bit index value AND 1 \<noteq> 0)
                   (if opcode = 0xbc then [0..<64] else rev [0..<width]) of
               None \<Rightarrow> throw UndefinedBehaviour
             | Some index \<Rightarrow> do_write_gpr (mr_reg m) width (of_nat index) p))
         flags_taint_now)))"

section \<open>Arithmetic and moves\<close>

definition exec_imul2 :: "prefixes \<Rightarrow> (machine, unit) smon" where
  "exec_imul2 p =
     bind (fetch_modrm p) (\<lambda>m.
     bind (decode_rm_operand p m) (\<lambda>source.
     let width = operand_width p in
     bind (do_read_gpr (mr_reg m) width p) (\<lambda>l.
     bind (read_operand source width p) (\<lambda>r.
     let product = sint (sign_extend l width) * sint (sign_extend r width) in
     if product < - (2 ^ 63) \<or> product \<ge> 2 ^ 63 then throw UndefinedBehaviour
     else do_write_gpr (mr_reg m) width (of_int product) p))))"

definition exec_cmpxchg :: "u8 \<Rightarrow> prefixes \<Rightarrow> (machine, unit) smon" where
  "exec_cmpxchg opcode p =
     (let width = (if opcode = 0xb0 then 8 else operand_width p) in
      bind (fetch_modrm p) (\<lambda>m.
      bind (decode_rm_operand p m) (\<lambda>destination.
      bind (read_operand destination width p) (\<lambda>destination_value.
      bind (do_read_gpr 0 width p) (\<lambda>accumulator.
      seq (if destination_value AND mask_for_width width = accumulator AND mask_for_width width
           then bind (do_read_gpr (mr_reg m) width p) (\<lambda>v.
             seq (write_operand destination width v p) (upd_cpu (set_flag ZF True)))
           else seq (do_write_gpr 0 width destination_value p) (upd_cpu (set_flag ZF False)))
          flags_taint_now)))))"

definition exec_xadd :: "u8 \<Rightarrow> prefixes \<Rightarrow> (machine, unit) smon" where
  "exec_xadd opcode p =
     (let width = (if opcode = 0xc0 then 8 else operand_width p) in
      bind (fetch_modrm p) (\<lambda>m.
      bind (decode_rm_operand p m) (\<lambda>destination.
      bind (read_operand destination width p) (\<lambda>destination_value.
      bind (do_read_gpr (mr_reg m) width p) (\<lambda>reg_value.
      bind (cpu_call (add destination_value reg_value width False)) (\<lambda>sum.
      seq (do_write_gpr (mr_reg m) width destination_value p)
          (write_operand destination width sum p)))))))"

definition exec_movx :: "u8 \<Rightarrow> prefixes \<Rightarrow> (machine, unit) smon" where
  "exec_movx opcode p =
     bind (fetch_modrm p) (\<lambda>m.
     bind (decode_rm_operand p m) (\<lambda>source.
     let source_width = (if opcode = 0xb6 \<or> opcode = 0xbe then 8 else 16) in
     bind (read_operand source source_width p) (\<lambda>value.
     do_write_gpr (mr_reg m) (operand_width p)
       (if opcode = 0xbe \<or> opcode = 0xbf then sign_extend value source_width else value) p)))"

section \<open>Dispatch\<close>

definition is_sse_float_opcode :: "u8 \<Rightarrow> bool" where
  "is_sse_float_opcode opcode \<longleftrightarrow> opcode \<in> set
     [0x10, 0x11, 0x12, 0x13, 0x14, 0x15, 0x16, 0x17, 0x2a, 0x2c, 0x2d, 0x2e, 0x2f, 0x51, 0x54,
      0x55, 0x56, 0x58, 0x59, 0x5a, 0x5b, 0x5c, 0x5d, 0x5e, 0x5f, 0xe6]"

definition execute_0f ::
  "(u8 \<Rightarrow> prefixes \<Rightarrow> (machine, unit) smon) \<Rightarrow> (u64 \<Rightarrow> (machine, u64) smon) \<Rightarrow>
   prefixes \<Rightarrow> (machine, unit) smon" where
  "execute_0f sse_float dispatch p =
     bind fetch8 (\<lambda>opcode.
     if opcode \<ge> 0x80 \<and> opcode \<le> 0x8f then exec_jcc_near opcode
     else if opcode \<ge> 0x90 \<and> opcode \<le> 0x9f then exec_setcc opcode p
     else if opcode \<ge> 0x40 \<and> opcode \<le> 0x4f then exec_cmovcc opcode p
     else if opcode \<ge> 0xc8 \<and> opcode \<le> 0xcf then exec_bswap opcode p
     else if opcode = 0x05 then exec_syscall dispatch
     else if opcode \<in> set [0x18, 0x19, 0x1a, 0x1b, 0x1c, 0x1d, 0x1f] then exec_hint_nop p
     else if opcode = 0x1e then bind fetch8 (\<lambda>_. return ())
     else if opcode = 0x31 then exec_rdtsc
     else if opcode = 0xae then exec_group_ae p
     else if opcode = 0xa2 then exec_cpuid
     else if opcode = 0xba then exec_bt_imm p
     else if opcode \<in> set [0xa3, 0xab, 0xb3, 0xbb] then exec_bt_reg opcode p
     else if opcode \<in> set [0xa4, 0xa5, 0xac, 0xad] then exec_double_shift opcode p
     else if opcode = 0xaf then exec_imul2 p
     else if opcode = 0xb0 \<or> opcode = 0xb1 then exec_cmpxchg opcode p
     else if opcode = 0xc0 \<or> opcode = 0xc1 then exec_xadd opcode p
     else if opcode \<in> set [0xb6, 0xb7, 0xbe, 0xbf] then exec_movx opcode p
     else if opcode = 0xbc \<or> opcode = 0xbd then exec_bit_scan opcode p
     else if opcode = 0x28 \<or> opcode = 0x6f then sse_load p
     else if is_sse_float_opcode opcode then sse_float opcode p
     else if opcode = 0x6e then sse_movd_load p
     else if opcode \<in> set [0x60, 0x61, 0x62, 0x68, 0x69, 0x6a] then sse_unpack opcode p
     else if opcode = 0x70 then sse_pshufd p
     else if opcode = 0xc6 then sse_shufpd p
     else if opcode \<in> set [0x74, 0x75, 0x76] then sse_compare_equal opcode p
     else if opcode = 0x73 then sse_byte_shift p
     else if opcode = 0x6c \<or> opcode = 0x6d then sse_unpack_qwords opcode p
     else if opcode \<in> set [0x29, 0x7f, 0xe7] then sse_store p
     else if opcode = 0xc3 then sse_movnti p
     else if opcode = 0x7e then sse_movd_store p
     else if opcode = 0xd6 then sse_movq_store p
     else if opcode = 0xd7 then sse_move_mask p
     else if opcode = 0x57 \<or> opcode = 0xef then sse_xor p
     else if opcode \<in> set [0xdb, 0xd4, 0xdf, 0xeb] then sse_logic opcode p
     else if opcode \<in> set [0xf8, 0xf9, 0xfa] then sse_subtract opcode p
     else if opcode \<in> set [0x64, 0x65, 0x66] then sse_compare_greater opcode p
     else if opcode = 0xda \<or> opcode = 0xde then sse_min_max opcode p
     else unsupported ''unsupported 0F opcode'')"

end
