(* ===== verification/CPU_Step.thy ===== *)
theory CPU_Step
  imports CPU_0F
begin

text \<open>
  \<^verbatim>\<open>SoftCPU64::step\<close> (\<^verbatim>\<open>src/SoftCPU64.cpp\<close>): one instruction. The early returns and the
  cases of the opcode switch are separate definitions; \<open>step\<close> composes them in the order of the
  code and ends, as every path of the code does, by \<^verbatim>\<open>m_rip = m_decode_pc\<close>, which an
  exception skips. The x87 unit joins the arguments of theory \<^verbatim>\<open>CPU_0F\<close> in the record \<open>units\<close>.
\<close>

record units =
  u_x87 :: "u8 \<Rightarrow> prefixes \<Rightarrow> (machine, unit) smon"
  u_sse_float :: "u8 \<Rightarrow> prefixes \<Rightarrow> (machine, unit) smon"
  u_syscall :: "u64 \<Rightarrow> (machine, u64) smon"

section \<open>The groups before the switch\<close>

text \<open>ALU operations on the accumulator with an immediate; here the logical results are not
  masked before the register write masks them.\<close>

definition alu_accumulator :: "nat \<Rightarrow> u64 \<Rightarrow> u64 \<Rightarrow> nat \<Rightarrow> cpu \<Rightarrow> u64 \<times> cpu" where
  "alu_accumulator operation lhs imm width c =
     (let logic = (\<lambda>result. (result, set_logic_flags result width c)) in
      if operation = 0 then add lhs imm width False c
      else if operation = 1 then logic (lhs OR imm)
      else if operation = 2 then add lhs imm width True c
      else if operation = 3 then sub lhs imm width True c
      else if operation = 4 then logic (lhs AND imm)
      else if operation = 5 then sub lhs imm width False c
      else if operation = 6 then logic (lhs XOR imm)
      else sub lhs imm width False c)"

definition exec_alu_accumulator :: "u8 \<Rightarrow> prefixes \<Rightarrow> (machine, unit) smon" where
  "exec_alu_accumulator opcode p =
     (let form = unat (opcode AND 7); operation = unat (drop_bit 3 opcode);
          width = (if form = 4 then 8 else operand_width p) in
      bind (do_read_gpr 0 width p) (\<lambda>lhs.
      bind (if form = 4 then bind fetch8 (\<lambda>b. return (ucast b))
            else if width = 16 then bind fetch16 (\<lambda>w. return (ucast w))
            else bind fetch32 (\<lambda>w.
              return (if rex_w p then sign_extend (ucast w) 32 else ucast w))) (\<lambda>imm.
      bind (cpu_call (alu_accumulator operation lhs imm width)) (\<lambda>result.
      when_do (operation \<noteq> 7) (do_write_gpr 0 width result p)))))"

definition exec_jcc_short :: "u8 \<Rightarrow> (machine, unit) smon" where
  "exec_jcc_short opcode =
     bind fetch_i8 (\<lambda>rel.
     bind (branch_condition (unat (opcode AND 0xf))) (\<lambda>taken.
     when_do taken (bind (get_cpu c_decode_pc) (\<lambda>pc. set_decode_pc (pc + rel)))))"

definition swap_registers :: "regidx \<Rightarrow> regidx \<Rightarrow> cpu \<Rightarrow> cpu" where
  "swap_registers i j c = c\<lparr>
     c_gpr := (c_gpr c)(i := c_gpr c j, j := c_gpr c i),
     c_gpr_shadow := (c_gpr_shadow c)(i := c_gpr_shadow c j, j := c_gpr_shadow c i)\<rparr>"

definition exec_xchg_accumulator :: "u8 \<Rightarrow> prefixes \<Rightarrow> (machine, unit) smon" where
  "exec_xchg_accumulator opcode p =
     (let other = unat (opcode AND 7) + rex_b p in
      when_do (other \<noteq> 0) (upd_cpu (swap_registers RAX (of_nat other))))"

definition exec_mov_imm8 :: "u8 \<Rightarrow> prefixes \<Rightarrow> (machine, unit) smon" where
  "exec_mov_imm8 opcode p =
     bind fetch8 (\<lambda>b. do_write_gpr (unat (opcode - 0xb0) + rex_b p) 8 (ucast b) p)"

definition exec_mov_imm :: "u8 \<Rightarrow> prefixes \<Rightarrow> (machine, unit) smon" where
  "exec_mov_imm opcode p =
     (let target = unat (opcode - 0xb8) + rex_b p in
      if rex_w p then bind fetch64 (\<lambda>w. do_write_gpr target 64 w p)
      else if p_operand16 p then bind fetch16 (\<lambda>w. do_write_gpr target 16 (ucast w) p)
      else bind fetch32 (\<lambda>w. do_write_gpr target 32 (ucast w) p))"

definition exec_push :: "u8 \<Rightarrow> prefixes \<Rightarrow> (machine, unit) smon" where
  "exec_push opcode p =
     (let source = of_nat (unat (opcode - 0x50) + rex_b p) in
      bind (gets s_cpu) (\<lambda>c. push64 (c_gpr c source) (c_gpr_shadow c source)))"

definition load_popped :: "regidx \<Rightarrow> u64 value_with_shadow \<Rightarrow> (machine, unit) smon" where
  "load_popped target v =
     upd_cpu (\<lambda>c. set_shadow target (if is_uninitialized v then NOT 0 else 0)
                    (set_gpr target (vs_value v) c))"

definition exec_pop :: "u8 \<Rightarrow> prefixes \<Rightarrow> (machine, unit) smon" where
  "exec_pop opcode p =
     bind pop64_with_shadow (load_popped (of_nat (unat (opcode - 0x58) + rex_b p)))"

section \<open>The cases of the switch\<close>

definition exec_movsxd :: "prefixes \<Rightarrow> (machine, unit) smon" where
  "exec_movsxd p =
     bind (fetch_modrm p) (\<lambda>m.
     bind (decode_rm_operand p m) (\<lambda>source.
     bind (read_operand source 32 p) (\<lambda>v.
     do_write_gpr (mr_reg m) (operand_width p) (sign_extend v 32) p)))"

definition exec_imul3 :: "u8 \<Rightarrow> prefixes \<Rightarrow> (machine, unit) smon" where
  "exec_imul3 opcode p =
     (let width = operand_width p in
      bind (fetch_modrm p) (\<lambda>m.
      bind (decode_rm_operand p m) (\<lambda>source.
      bind (read_operand source width p) (\<lambda>v.
      bind (if opcode = 0x6b then bind fetch8 (\<lambda>b. return (sign_extend (ucast b) 8))
            else bind fetch32 (\<lambda>w. return (sign_extend (ucast w) 32))) (\<lambda>imm.
      let result = sint (sign_extend v width) * sint imm in
      seq (do_write_gpr (mr_reg m) width (of_int result) p)
          (set_cf_of (result \<noteq> sint (sign_extend (of_int result) width))))))))"

definition exec_test :: "u8 \<Rightarrow> prefixes \<Rightarrow> (machine, unit) smon" where
  "exec_test opcode p =
     (let width = (if opcode = 0x84 then 8 else operand_width p) in
      bind (fetch_modrm p) (\<lambda>m.
      bind (decode_rm_operand p m) (\<lambda>rm.
      bind (read_operand rm width p) (\<lambda>a.
      bind (do_read_gpr (mr_reg m) width p) (\<lambda>b.
      upd_cpu (set_logic_flags (a AND b) width))))))"

definition exec_xchg :: "prefixes \<Rightarrow> (machine, unit) smon" where
  "exec_xchg p =
     bind (fetch_modrm p) (\<lambda>m.
     bind (decode_rm_operand p m) (\<lambda>rm.
     let width = operand_width p in
     bind (read_operand rm width p) (\<lambda>lhs.
     bind (do_read_gpr (mr_reg m) width p) (\<lambda>rhs.
     seq (write_operand rm width rhs p) (do_write_gpr (mr_reg m) width lhs p)))))"

definition exec_mov_store :: "u8 \<Rightarrow> prefixes \<Rightarrow> (machine, unit) smon" where
  "exec_mov_store opcode p =
     (let width = (if opcode = 0x88 then 8 else operand_width p) in
      bind (fetch_modrm p) (\<lambda>m.
      bind (decode_rm_operand p m) (\<lambda>destination.
      bind (do_read_gpr (mr_reg m) width p) (\<lambda>v. write_operand destination width v p))))"

definition exec_mov_load :: "u8 \<Rightarrow> prefixes \<Rightarrow> (machine, unit) smon" where
  "exec_mov_load opcode p =
     (let width = (if opcode = 0x8a then 8 else operand_width p) in
      bind (fetch_modrm p) (\<lambda>m.
      bind (decode_rm_operand p m) (\<lambda>source.
      bind (read_operand source width p) (\<lambda>v. do_write_gpr (mr_reg m) width v p))))"

definition exec_lea :: "prefixes \<Rightarrow> (machine, unit) smon" where
  "exec_lea p =
     bind (fetch_modrm p) (\<lambda>m.
     if is_register_form m then unsupported ''lea with register source''
     else bind (decode_memory_address p m) (\<lambda>(address, _, _).
       do_write_gpr (mr_reg m) (operand_width p) address p))"

definition exec_pop_rm :: "prefixes \<Rightarrow> (machine, unit) smon" where
  "exec_pop_rm p =
     bind (fetch_modrm p) (\<lambda>m.
     if modrm_op m \<noteq> 0 then unsupported ''unsupported 8F group operation''
     else
       bind (decode_rm_operand p m) (\<lambda>destination.
       bind pop64_with_shadow (\<lambda>v.
       seq (when_do (is_uninitialized v) set_taint)
           (write_operand destination 64 (vs_value v) p))))"

definition exec_cwde :: "prefixes \<Rightarrow> (machine, unit) smon" where
  "exec_cwde p =
     (if rex_w p
      then bind (do_read_gpr 0 32 p) (\<lambda>v.
        upd_cpu (\<lambda>c. set_shadow RAX (if c_current_taint c then NOT 0 else 0)
                       (set_gpr RAX (sign_extend v 32) c)))
      else bind (do_read_gpr 0 16 p) (\<lambda>v. do_write_gpr 0 32 (sign_extend v 16) p))"

definition exec_cdq :: "prefixes \<Rightarrow> (machine, unit) smon" where
  "exec_cdq p =
     (if rex_w p
      then bind (do_read_gpr 0 64 p) (\<lambda>v.
        upd_cpu (\<lambda>c. set_shadow RDX (if c_current_taint c then NOT 0 else 0)
                       (set_gpr RDX (if v AND push_bit 63 1 \<noteq> 0 then NOT 0 else 0) c)))
      else bind (do_read_gpr 0 32 p) (\<lambda>v.
        do_write_gpr 2 32 (if v AND push_bit 31 1 \<noteq> 0 then 0xffffffff else 0) p))"

definition exec_test_accumulator :: "u8 \<Rightarrow> prefixes \<Rightarrow> (machine, unit) smon" where
  "exec_test_accumulator opcode p =
     (if opcode = 0xa8
      then bind (do_read_gpr 0 8 p) (\<lambda>v. bind fetch8 (\<lambda>b.
        upd_cpu (set_logic_flags (v AND ucast b) 8)))
      else bind (do_read_gpr 0 (operand_width p) p) (\<lambda>v. bind fetch32 (\<lambda>w.
        upd_cpu (set_logic_flags (v AND (if rex_w p then sign_extend (ucast w) 32 else ucast w))
                   (operand_width p)))))"

definition exec_ret_imm :: "(machine, unit) smon" where
  "exec_ret_imm =
     bind fetch16 (\<lambda>n.
     bind pop64 (\<lambda>target.
     seq (upd_cpu (\<lambda>c. set_gpr RSP (c_gpr c RSP + ucast n) c))
    (seq pop_call_stack
         (set_decode_pc target))))"

definition exec_ret :: "(machine, unit) smon" where
  "exec_ret = bind pop64 (\<lambda>target. seq (set_decode_pc target) pop_call_stack)"

definition exec_mov_rm_imm :: "u8 \<Rightarrow> prefixes \<Rightarrow> (machine, unit) smon" where
  "exec_mov_rm_imm opcode p =
     (let width = (if opcode = 0xc6 then 8 else operand_width p) in
      bind (fetch_modrm p) (\<lambda>m.
      if modrm_op m \<noteq> 0 then unsupported ''unsupported C6/C7 group operation''
      else
        bind (decode_rm_operand p m) (\<lambda>destination.
        bind (if width = 8 then bind fetch8 (\<lambda>b. return (ucast b))
              else if width = 16 then bind fetch16 (\<lambda>w. return (ucast w))
              else bind fetch32 (\<lambda>w. return (sign_extend (ucast w) 32))) (\<lambda>value.
        write_operand destination width value p))))"

definition exec_leave :: "(machine, unit) smon" where
  "exec_leave =
     seq (upd_cpu (\<lambda>c. set_shadow RSP (c_gpr_shadow c RBP) (set_gpr RSP (c_gpr c RBP) c)))
         (bind pop64_with_shadow (load_popped RBP))"

definition jump_if :: "bool \<Rightarrow> u64 \<Rightarrow> (machine, unit) smon" where
  "jump_if take_it rel =
     when_do take_it (bind (get_cpu c_decode_pc) (\<lambda>pc. set_decode_pc (pc + rel)))"

definition exec_loop_rcx :: "u8 \<Rightarrow> (machine, unit) smon" where
  "exec_loop_rcx opcode =
     bind fetch_i8 (\<lambda>rel.
     seq (upd_cpu (\<lambda>c. set_gpr RCX (c_gpr c RCX - 1) c))
     (bind (gets s_cpu) (\<lambda>c.
      jump_if (if opcode = 0xe2 then c_gpr c RCX \<noteq> 0
               else if opcode = 0xe1 then c_gpr c RCX \<noteq> 0 \<and> flag ZF c
               else c_gpr c RCX \<noteq> 0 \<and> \<not> flag ZF c) rel)))"

definition exec_jrcxz :: "(machine, unit) smon" where
  "exec_jrcxz = bind fetch_i8 (\<lambda>rel. bind (gets s_cpu) (\<lambda>c. jump_if (c_gpr c RCX = 0) rel))"

definition exec_call :: "(machine, unit) smon" where
  "exec_call =
     bind fetch_i32 (\<lambda>rel.
     bind (get_cpu c_decode_pc) (\<lambda>return_address.
     seq (push64 return_address 0)
    (seq (push_call_stack return_address)
         (set_decode_pc (return_address + rel)))))"

definition exec_switch :: "units \<Rightarrow> u8 \<Rightarrow> prefixes \<Rightarrow> (machine, unit) smon" where
  "exec_switch u opcode p =
     (if opcode = 0x63 then exec_movsxd p
      else if opcode = 0x68 then bind fetch32 (\<lambda>w. push64 (sign_extend (ucast w) 32) 0)
      else if opcode = 0x69 \<or> opcode = 0x6b then exec_imul3 opcode p
      else if opcode = 0x6a then bind fetch8 (\<lambda>b. push64 (sign_extend (ucast b) 8) 0)
      else if opcode \<in> set [0x80, 0x81, 0x83] then execute_alu_imm opcode p
      else if opcode = 0x84 \<or> opcode = 0x85 then exec_test opcode p
      else if opcode = 0x87 then exec_xchg p
      else if opcode = 0x88 \<or> opcode = 0x89 then exec_mov_store opcode p
      else if opcode = 0x8a \<or> opcode = 0x8b then exec_mov_load opcode p
      else if opcode = 0x8d then exec_lea p
      else if opcode = 0x8f then exec_pop_rm p
      else if opcode = 0x98 then exec_cwde p
      else if opcode = 0x99 then exec_cdq p
      else if opcode \<in> set [0xa4, 0xa5, 0xaa, 0xab] then execute_string_instruction opcode p
      else if opcode = 0xa8 \<or> opcode = 0xa9 then exec_test_accumulator opcode p
      else if opcode \<in> set [0xc0, 0xc1, 0xd0, 0xd1, 0xd2, 0xd3] then execute_shift_group opcode p
      else if opcode = 0xc2 then exec_ret_imm
      else if opcode = 0xc3 then exec_ret
      else if opcode = 0xc6 \<or> opcode = 0xc7 then exec_mov_rm_imm opcode p
      else if opcode = 0xc9 then exec_leave
      else if opcode \<in> set [0xe0, 0xe1, 0xe2] then exec_loop_rcx opcode
      else if opcode = 0xe3 then exec_jrcxz
      else if opcode = 0xe8 then exec_call
      else if opcode = 0xe9 then bind fetch_i32 (jump_if True)
      else if opcode = 0xeb then bind fetch_i8 (jump_if True)
      else if opcode \<ge> 0xd8 \<and> opcode \<le> 0xdf then u_x87 u opcode p
      else if opcode = 0xf6 \<or> opcode = 0xf7 then execute_group_f6_f7 opcode p
      else if opcode = 0xfc then upd_cpu (set_flag DF False)
      else if opcode = 0xfd then upd_cpu (set_flag DF True)
      else if opcode = 0xf8 then upd_cpu (set_flag CF False)
      else if opcode = 0x0f then execute_0f (u_sse_float u) (u_syscall u) p
      else if opcode = 0xff then execute_group_ff p
      else unsupported ''unsupported opcode'')"

section \<open>One instruction\<close>

definition begin_step :: "(machine, unit) smon" where
  "begin_step = upd_cpu (\<lambda>c. c\<lparr>c_instruction_start := c_rip c, c_decode_pc := c_rip c,
                               c_current_taint := False\<rparr>)"

definition finish_step :: "(machine, unit) smon" where
  "finish_step = upd_cpu (\<lambda>c. c\<lparr>c_rip := c_decode_pc c\<rparr>)"

definition execute_opcode :: "units \<Rightarrow> u8 \<Rightarrow> prefixes \<Rightarrow> (machine, unit) smon" where
  "execute_opcode u opcode p =
     (if opcode \<le> 0x3d \<and> opcode AND 7 \<le> 5
      then if opcode AND 7 \<le> 3 then execute_alu_rm_reg opcode p
           else exec_alu_accumulator opcode p
      else if opcode \<ge> 0x70 \<and> opcode \<le> 0x7f then exec_jcc_short opcode
      else if opcode \<ge> 0x90 \<and> opcode \<le> 0x97 then exec_xchg_accumulator opcode p
      else if opcode \<ge> 0xb0 \<and> opcode \<le> 0xb7 then exec_mov_imm8 opcode p
      else if opcode \<ge> 0xb8 \<and> opcode \<le> 0xbf then exec_mov_imm opcode p
      else if opcode \<ge> 0x50 \<and> opcode \<le> 0x57 then exec_push opcode p
      else if opcode \<ge> 0x58 \<and> opcode \<le> 0x5f then exec_pop opcode p
      else exec_switch u opcode p)"

definition step :: "units \<Rightarrow> (machine, unit) smon" where
  "step u =
     seq begin_step
    (bind read_prefixes (\<lambda>p.
     bind fetch8 (\<lambda>opcode.
     seq (execute_opcode u opcode p) finish_step)))"

end
