(* ===== verification/CPU_Float.thy ===== *)
theory CPU_Float
  imports CPU_SSE
begin

text \<open>
  The SSE floating-point instructions of \<^verbatim>\<open>src/SoftCPU64.cpp\<close>, \<^verbatim>\<open>execute_sse_float\<close>, and the
  arithmetic they share with the x87 unit (\<open>CPU_X87\<close>).
  The sources compute with the host's \<^verbatim>\<open>float\<close>, \<^verbatim>\<open>double\<close> and \<^verbatim>\<open>long double\<close>; these
  operations are the fields of the record \<open>fpu\<close>, functions on the bit patterns of the values, and
  everything around them (decoding, operands, the stack, flags, memory) is modelled.
\<close>

section \<open>The host's floating point\<close>

type_synonym x80 = "80 word"

text \<open>
  An operator or a function of \<^verbatim>\<open>libm\<close> is named as in the sources and applied to its arguments;
  a literal has no arguments. The remaining fields are the conversions, the comparisons and the
  classifications, those on \<^verbatim>\<open>double\<close> with the suffix 64.
\<close>

record fpu =
  fp_op :: "string \<Rightarrow> x80 list \<Rightarrow> x80"
  fp_op32 :: "string \<Rightarrow> u32 list \<Rightarrow> u32"
  fp_op64 :: "string \<Rightarrow> u64 list \<Rightarrow> u64"
  fp_of32 :: "u32 \<Rightarrow> x80"
  fp_of64 :: "u64 \<Rightarrow> x80"
  fp_to32 :: "x80 \<Rightarrow> u32"
  fp_to64 :: "x80 \<Rightarrow> u64"
  fp_of_int :: "int \<Rightarrow> x80"
  fp_int32 :: "int \<Rightarrow> u32"
  fp_int64 :: "int \<Rightarrow> u64"
  fp_trunc :: "nat \<Rightarrow> x80 \<Rightarrow> int"
  fp_round :: "x80 \<Rightarrow> int"
  fp_exponent :: "x80 \<Rightarrow> int"
  fp_less :: "x80 \<Rightarrow> x80 \<Rightarrow> bool"
  fp_eq :: "x80 \<Rightarrow> x80 \<Rightarrow> bool"
  fp_nan :: "x80 \<Rightarrow> bool"
  fp_nan64 :: "u64 \<Rightarrow> bool"
  fp_inf64 :: "u64 \<Rightarrow> bool"
  fp_sign64 :: "u64 \<Rightarrow> bool"

definition set_eflags_from_float_compare :: "fpu \<Rightarrow> x80 \<Rightarrow> x80 \<Rightarrow> cpu \<Rightarrow> cpu" where
  "set_eflags_from_float_compare F a b c =
     (let flags = (\<lambda>z q k. set_flag CF k (set_flag PF q (set_flag ZF z
            (set_flag AF False (set_flag SF False (set_flag OF False c)))))) in
      (if fp_nan64 F (fp_to64 F a) \<or> fp_nan64 F (fp_to64 F b) then flags True True True
       else if fp_less F b a then flags False False False
       else if fp_less F a b then flags False False True
       else flags True False False)\<lparr>c_flags_tainted := False\<rparr>)"

section \<open>Lanes of an XMM register\<close>

definition load_f32 :: "u8 list \<Rightarrow> nat \<Rightarrow> u32" where
  "load_f32 v lane = ucast (lane_value v (lane * 4) 4)"

definition load_f64 :: "u8 list \<Rightarrow> nat \<Rightarrow> u64" where
  "load_f64 v lane = lane_value v (lane * 8) 8"

definition load_i32 :: "u8 list \<Rightarrow> nat \<Rightarrow> int" where
  "load_i32 v lane = sint (load_f32 v lane)"

definition replace_bytes :: "u8 list \<Rightarrow> nat \<Rightarrow> u8 list \<Rightarrow> u8 list" where
  "replace_bytes v offset bytes =
     take offset v @ bytes @ drop (offset + length bytes) v"

definition store_f32 :: "nat \<Rightarrow> u32 \<Rightarrow> u8 list \<Rightarrow> u8 list" where
  "store_f32 lane f v = replace_bytes v (lane * 4) (lane_bytes 4 (ucast f))"

definition store_f64 :: "nat \<Rightarrow> u64 \<Rightarrow> u8 list \<Rightarrow> u8 list" where
  "store_f64 lane d v = replace_bytes v (lane * 8) (lane_bytes 8 d)"

definition store_i32 :: "nat \<Rightarrow> int \<Rightarrow> u8 list \<Rightarrow> u8 list" where
  "store_i32 lane x v = store_f32 lane (of_int x) v"

section \<open>SSE floating point\<close>

definition get_xmm :: "nat \<Rightarrow> (machine, u8 list) smon" where
  "get_xmm i = get_cpu (\<lambda>c. c_xmm c (of_nat i))"

definition upd_xmm :: "nat \<Rightarrow> (u8 list \<Rightarrow> u8 list) \<Rightarrow> (machine, unit) smon" where
  "upd_xmm i f = upd_cpu (\<lambda>c. c\<lparr>c_xmm := (c_xmm c)(of_nat i := f (c_xmm c (of_nat i)))\<rparr>)"

text \<open>\<^verbatim>\<open>for (i = 0; i < n; ++i) dst[offset + i] = m_mmu.read8(address + i)\<close>\<close>

definition load_bytes :: "nat \<Rightarrow> nat \<Rightarrow> u64 \<Rightarrow> nat \<Rightarrow> (machine, unit) smon" where
  "load_bytes dst offset address n =
     for_loop 0 n (\<lambda>i. bind (mem_read8 (address + of_nat i)) (\<lambda>b. upd_xmm dst (\<lambda>v. v[offset + i := b])))"

definition store_bytes :: "u64 \<Rightarrow> u8 list \<Rightarrow> (machine, unit) smon" where
  "store_bytes address bytes =
     for_loop 0 (length bytes) (\<lambda>i. write8 (address + of_nat i) (bytes ! i))"

definition is_scalar :: "prefixes \<Rightarrow> bool" where
  "is_scalar p \<longleftrightarrow> p_repz p \<or> p_repnz p"

definition is_double :: "prefixes \<Rightarrow> bool" where
  "is_double p \<longleftrightarrow> p_operand16 p \<or> p_repnz p"

definition scalar_bytes :: "prefixes \<Rightarrow> nat" where
  "scalar_bytes p = (if is_double p then 8 else 4)"

definition read_source :: "operand \<Rightarrow> prefixes \<Rightarrow> (machine, u8 list) smon" where
  "read_source operand p =
     (if op_is_register operand then get_xmm (op_reg operand)
      else
        bind (get_cpu (effective_address operand)) (\<lambda>address.
        let n = (if is_scalar p then scalar_bytes p else 16) in
        bind (read_bytes address n) (\<lambda>bytes. return (bytes @ replicate (16 - n) 0))))"

definition load_scalar :: "fpu \<Rightarrow> operand \<Rightarrow> bool \<Rightarrow> (machine, x80) smon" where
  "load_scalar F operand dbl =
     (if op_is_register operand then
        bind (get_xmm (op_reg operand)) (\<lambda>s.
        return (if dbl then fp_of64 F (load_f64 s 0) else fp_of32 F (load_f32 s 0)))
      else
        bind (get_cpu (effective_address operand)) (\<lambda>address.
        if dbl then bind (mem_read64 address) (\<lambda>bits. return (fp_of64 F bits))
        else bind (mem_read32 address) (\<lambda>bits. return (fp_of32 F bits))))"

definition sse_mov_load :: "nat \<Rightarrow> operand \<Rightarrow> prefixes \<Rightarrow> (machine, unit) smon" where
  "sse_mov_load dst operand p =
     (if is_scalar p then
        if op_is_register operand then
          bind (get_xmm (op_reg operand)) (\<lambda>src.
          upd_xmm dst (\<lambda>v. replace_bytes v 0 (take (scalar_bytes p) src)))
        else
          bind (get_cpu (effective_address operand)) (\<lambda>address.
          seq (set_xmm dst (replicate 16 0)) (load_bytes dst 0 address (scalar_bytes p)))
      else bind (read_xmm_from_operand operand) (set_xmm dst))"

definition sse_mov_store :: "nat \<Rightarrow> operand \<Rightarrow> prefixes \<Rightarrow> (machine, unit) smon" where
  "sse_mov_store dst operand p =
     bind (get_xmm dst) (\<lambda>v.
     if is_scalar p then
       if op_is_register operand
       then upd_xmm (op_reg operand) (\<lambda>d. replace_bytes d 0 (take (scalar_bytes p) v))
       else bind (get_cpu (effective_address operand)) (\<lambda>address.
              store_bytes address (take (scalar_bytes p) v))
     else write_xmm_to_operand operand v)"

definition sse_mov_low :: "nat \<Rightarrow> operand \<Rightarrow> prefixes \<Rightarrow> (machine, unit) smon" where
  "sse_mov_low dst operand p =
     (if p_repnz p then
        bind (if op_is_register operand then get_xmm (op_reg operand)
              else bind (get_cpu (effective_address operand)) (\<lambda>address. read_bytes address 8)) (\<lambda>src.
        set_xmm dst (take 8 src @ take 8 src))
      else if op_is_register operand then
        bind (get_xmm (op_reg operand)) (\<lambda>src. upd_xmm dst (\<lambda>v. replace_bytes v 0 (take 8 (drop 8 src))))
      else bind (get_cpu (effective_address operand)) (\<lambda>address. load_bytes dst 0 address 8))"

definition sse_mov_high :: "nat \<Rightarrow> operand \<Rightarrow> (machine, unit) smon" where
  "sse_mov_high dst operand =
     (if op_is_register operand then
        bind (get_xmm (op_reg operand)) (\<lambda>src. upd_xmm dst (\<lambda>v. replace_bytes v 8 (take 8 src)))
      else bind (get_cpu (effective_address operand)) (\<lambda>address. load_bytes dst 8 address 8))"

definition sse_store_half :: "nat \<Rightarrow> nat \<Rightarrow> operand \<Rightarrow> (machine, unit) smon" where
  "sse_store_half offset dst operand =
     bind (get_cpu (effective_address operand)) (\<lambda>address.
     bind (get_xmm dst) (\<lambda>v. store_bytes address (take 8 (drop offset v))))"

text \<open>UNPCKLPS/UNPCKLPD and UNPCKHPS/UNPCKHPD.\<close>

definition unpack_floats :: "nat \<Rightarrow> nat \<Rightarrow> u8 list \<Rightarrow> u8 list \<Rightarrow> u8 list" where
  "unpack_floats element base a src =
     concat (map (\<lambda>i. let off = base + i * element in
         take element (drop off a) @ take element (drop off src)) [0..<16 div (element * 2)])"

definition sse_float_logic :: "u8 \<Rightarrow> u8 list \<Rightarrow> u8 list \<Rightarrow> u8 list" where
  "sse_float_logic opcode dst src =
     map2 (\<lambda>a b. if opcode = 0x54 then a AND b else if opcode = 0x55 then NOT a AND b else a OR b) dst src"

text \<open>One lane of the arithmetic instructions.\<close>

definition lane_f64 :: "fpu \<Rightarrow> u8 \<Rightarrow> u64 \<Rightarrow> u64 \<Rightarrow> u64" where
  "lane_f64 F opcode a b =
     (if opcode = 0x51 then fp_op64 F ''sqrt'' [b]
      else if opcode = 0x58 then fp_op64 F ''+'' [a, b]
      else if opcode = 0x59 then fp_op64 F ''*'' [a, b]
      else if opcode = 0x5c then fp_op64 F ''-'' [a, b]
      else if opcode = 0x5d then if fp_less F (fp_of64 F a) (fp_of64 F b) then a else b
      else if opcode = 0x5e then fp_op64 F ''/'' [a, b]
      else if fp_less F (fp_of64 F b) (fp_of64 F a) then a else b)"

definition lane_f32 :: "fpu \<Rightarrow> u8 \<Rightarrow> u32 \<Rightarrow> u32 \<Rightarrow> u32" where
  "lane_f32 F opcode a b =
     (if opcode = 0x51 then fp_op32 F ''sqrt'' [b]
      else if opcode = 0x58 then fp_op32 F ''+'' [a, b]
      else if opcode = 0x59 then fp_op32 F ''*'' [a, b]
      else if opcode = 0x5c then fp_op32 F ''-'' [a, b]
      else if opcode = 0x5d then if fp_less F (fp_of32 F a) (fp_of32 F b) then a else b
      else if opcode = 0x5e then fp_op32 F ''/'' [a, b]
      else if fp_less F (fp_of32 F b) (fp_of32 F a) then a else b)"

definition arith_lanes :: "fpu \<Rightarrow> u8 \<Rightarrow> prefixes \<Rightarrow> u8 list \<Rightarrow> u8 list \<Rightarrow> u8 list" where
  "arith_lanes F opcode p src dst =
     (let lanes = (if is_scalar p then 1 else if is_double p then 2 else 4) in
      fold (\<lambda>lane v.
        if is_double p
        then store_f64 lane (lane_f64 F opcode (load_f64 v lane) (load_f64 src lane)) v
        else store_f32 lane (lane_f32 F opcode (load_f32 v lane) (load_f32 src lane)) v) [0..<lanes] dst)"

text \<open>Conversions between the packed formats; the scalar ones go through \<open>load_scalar\<close>.\<close>

definition convert_packed :: "fpu \<Rightarrow> prefixes \<Rightarrow> u8 list \<Rightarrow> u8 list \<Rightarrow> u8 list" where
  "convert_packed F p src dst =
     (if p_operand16 p then
        store_f32 1 (fp_to32 F (fp_of64 F (load_f64 src 1)))
          (store_f32 0 (fp_to32 F (fp_of64 F (load_f64 src 0))) (replicate 16 0))
      else
        store_f64 1 (fp_to64 F (fp_of32 F (load_f32 src 1)))
          (store_f64 0 (fp_to64 F (fp_of32 F (load_f32 src 0))) dst))"

definition convert_int_lanes :: "fpu \<Rightarrow> prefixes \<Rightarrow> u8 list \<Rightarrow> u8 list \<Rightarrow> u8 list" where
  "convert_int_lanes F p src dst =
     (if \<not> p_operand16 p \<and> \<not> p_repz p
      then fold (\<lambda>lane. store_f32 lane (fp_int32 F (load_i32 src lane))) [0..<4] dst
      else fold (\<lambda>lane. let f = fp_of32 F (load_f32 src lane) in
             store_i32 lane (if p_repz p then fp_trunc F 32 f else fp_round F f)) [0..<4] dst)"

definition convert_int_doubles :: "fpu \<Rightarrow> prefixes \<Rightarrow> u8 list \<Rightarrow> u8 list \<Rightarrow> u8 list" where
  "convert_int_doubles F p src dst =
     (if p_repz p then
        store_f64 1 (fp_int64 F (load_i32 src 1)) (store_f64 0 (fp_int64 F (load_i32 src 0)) dst)
      else
        let r = (\<lambda>lane. let d = fp_of64 F (load_f64 src lane) in
              if p_operand16 p then fp_trunc F 32 d else fp_round F d) in
        store_i32 1 (r 1) (store_i32 0 (r 0) (replicate 16 0)))"

definition execute_sse_float :: "fpu \<Rightarrow> u8 \<Rightarrow> prefixes \<Rightarrow> (machine, unit) smon" where
  "execute_sse_float F opcode p =
     bind (fetch_modrm p) (\<lambda>m.
     bind (decode_rm_operand p m) (\<lambda>operand.
     let dst = mr_reg m; width = (if rex_w p then 64 else 32) in
     if opcode = 0x10 then sse_mov_load dst operand p
     else if opcode = 0x11 then sse_mov_store dst operand p
     else if opcode = 0x12 then sse_mov_low dst operand p
     else if opcode = 0x13 then sse_store_half 0 dst operand
     else if opcode = 0x14 \<or> opcode = 0x15 then
       bind (read_xmm_from_operand operand) (\<lambda>src.
       upd_xmm dst (\<lambda>a. unpack_floats (scalar_bytes p) (if opcode = 0x15 then 8 else 0) a src))
     else if opcode = 0x16 then sse_mov_high dst operand
     else if opcode = 0x17 then sse_store_half 8 dst operand
     else if opcode = 0x2a then
       bind (read_operand operand width p) (\<lambda>v.
       let value = sint (sign_extend v width) in
       upd_xmm dst (if p_repnz p then store_f64 0 (fp_int64 F value) else store_f32 0 (fp_int32 F value)))
     else if opcode = 0x2c \<or> opcode = 0x2d then
       bind (load_scalar F operand (p_repnz p)) (\<lambda>v.
       do_write_gpr dst width (of_int (if opcode = 0x2c then fp_trunc F 64 v else fp_round F v)) p)
     else if opcode = 0x2e \<or> opcode = 0x2f then
       bind (get_xmm dst) (\<lambda>d.
       bind (load_scalar F operand (p_operand16 p)) (\<lambda>b.
       upd_cpu (set_eflags_from_float_compare F
         (if p_operand16 p then fp_of64 F (load_f64 d 0) else fp_of32 F (load_f32 d 0)) b)))
     else if opcode \<in> {0x54, 0x55, 0x56} then
       bind (read_xmm_from_operand operand) (\<lambda>src. upd_xmm dst (\<lambda>d. sse_float_logic opcode d src))
     else if opcode \<in> {0x51, 0x58, 0x59, 0x5c, 0x5d, 0x5e, 0x5f} then
       bind (read_source operand p) (\<lambda>src. upd_xmm dst (arith_lanes F opcode p src))
     else if opcode = 0x5a then
       if p_repz p then
         bind (load_scalar F operand False) (\<lambda>v. upd_xmm dst (store_f64 0 (fp_to64 F v)))
       else if p_repnz p then
         bind (load_scalar F operand True) (\<lambda>v. upd_xmm dst (store_f32 0 (fp_to32 F v)))
       else bind (read_xmm_from_operand operand) (\<lambda>src. upd_xmm dst (convert_packed F p src))
     else if opcode = 0x5b then
       bind (read_xmm_from_operand operand) (\<lambda>src. upd_xmm dst (convert_int_lanes F p src))
     else if opcode = 0xe6 then
       bind (read_xmm_from_operand operand) (\<lambda>src. upd_xmm dst (convert_int_doubles F p src))
     else unsupported ''unsupported SSE float opcode 0F''))"

end
