(* ===== verification/CPU_X87.thy ===== *)
theory CPU_X87
  imports CPU_Float
begin

text \<open>
  The x87 unit: \<^verbatim>\<open>execute_x87\<close> of \<^verbatim>\<open>src/SoftCPU64.cpp\<close> and the register stack of
  \<^verbatim>\<open>src/SoftCPU64.h\<close>. ST(i) is the register at the index of the top plus \<open>i\<close>, modulo 8.
\<close>

section \<open>The register stack\<close>

definition fst_reg :: "nat \<Rightarrow> cpu \<Rightarrow> x80" where
  "fst_reg i c = c_fpu_st c (c_fpu_top c + of_nat i)"

definition set_fst :: "nat \<Rightarrow> x80 \<Rightarrow> cpu \<Rightarrow> cpu" where
  "set_fst i v c = c\<lparr>c_fpu_st := (c_fpu_st c)(c_fpu_top c + of_nat i := v)\<rparr>"

definition fst_empty :: "nat \<Rightarrow> cpu \<Rightarrow> bool" where
  "fst_empty i c = c_fpu_empty c (c_fpu_top c + of_nat i)"

definition fpu_push :: "x80 \<Rightarrow> cpu \<Rightarrow> cpu" where
  "fpu_push v c = (let top = c_fpu_top c - 1 in
     c\<lparr>c_fpu_top := top, c_fpu_st := (c_fpu_st c)(top := v),
       c_fpu_empty := (c_fpu_empty c)(top := False)\<rparr>)"

definition fpu_pop :: "cpu \<Rightarrow> cpu" where
  "fpu_pop c = c\<lparr>c_fpu_empty := (c_fpu_empty c)(c_fpu_top c := True), c_fpu_top := c_fpu_top c + 1\<rparr>"

definition fpu_status_word :: "cpu \<Rightarrow> u16" where
  "fpu_status_word c =
     (c_fpu_status c AND NOT (push_bit 11 7)) OR push_bit 11 (ucast (c_fpu_top c))"

definition fpu_compare :: "fpu \<Rightarrow> x80 \<Rightarrow> x80 \<Rightarrow> cpu \<Rightarrow> cpu" where
  "fpu_compare F a b c =
     (let cleared = c_fpu_status c AND NOT 0x4500 in
      c\<lparr>c_fpu_status :=
        (if fp_nan F a \<or> fp_nan F b then cleared OR 0x4500
         else if fp_less F b a then cleared
         else if fp_less F a b then cleared OR 0x100
         else cleared OR 0x4000)\<rparr>)"

section \<open>Arithmetic\<close>

text \<open>ST(0) with an operand: FADD, FMUL, FCOM, FCOMP, FSUB, FSUBR, FDIV, FDIVR.\<close>

definition arith_into_st0 :: "fpu \<Rightarrow> nat \<Rightarrow> x80 \<Rightarrow> cpu \<Rightarrow> cpu" where
  "arith_into_st0 F opn b c =
     (let a = fst_reg 0 c in
      if opn = 0 then set_fst 0 (fp_op F ''+'' [a, b]) c
      else if opn = 1 then set_fst 0 (fp_op F ''*'' [a, b]) c
      else if opn = 2 then fpu_compare F a b c
      else if opn = 3 then fpu_pop (fpu_compare F a b c)
      else if opn = 4 then set_fst 0 (fp_op F ''-'' [a, b]) c
      else if opn = 5 then set_fst 0 (fp_op F ''-'' [b, a]) c
      else if opn = 6 then set_fst 0 (fp_op F ''/'' [a, b]) c
      else set_fst 0 (fp_op F ''/'' [b, a]) c)"

text \<open>ST(i) with ST(0), the encodings DC and DE; no result where there is no instruction.\<close>

definition arith_into_sti :: "fpu \<Rightarrow> nat \<Rightarrow> nat \<Rightarrow> cpu \<Rightarrow> cpu option" where
  "arith_into_sti F opn i c =
     (let a = fst_reg 0 c; d = fst_reg i c in
      if opn = 0 then Some (set_fst i (fp_op F ''+'' [d, a]) c)
      else if opn = 1 then Some (set_fst i (fp_op F ''*'' [d, a]) c)
      else if opn = 4 then Some (set_fst i (fp_op F ''-'' [a, d]) c)
      else if opn = 5 then Some (set_fst i (fp_op F ''-'' [d, a]) c)
      else if opn = 6 then Some (set_fst i (fp_op F ''/'' [a, d]) c)
      else if opn = 7 then Some (set_fst i (fp_op F ''/'' [d, a]) c)
      else None)"

definition x87_arith_sti :: "fpu \<Rightarrow> string \<Rightarrow> nat \<Rightarrow> nat \<Rightarrow> (cpu \<Rightarrow> cpu) \<Rightarrow> (machine, unit) smon" where
  "x87_arith_sti F msg opn i after =
     bind (get_cpu (arith_into_sti F opn i)) (\<lambda>r.
     case r of None \<Rightarrow> unsupported msg | Some c \<Rightarrow> upd_cpu (\<lambda>_. after c))"

section \<open>Memory forms\<close>

definition read_m80 :: "u64 \<Rightarrow> (machine, x80) smon" where
  "read_m80 address = bind (read_bytes address 10) (\<lambda>bytes. return (le_word bytes))"

definition write_m32 :: "fpu \<Rightarrow> u64 \<Rightarrow> x80 \<Rightarrow> (machine, unit) smon" where
  "write_m32 F address v = write32 address (fp_to32 F v)"

definition write_m64 :: "fpu \<Rightarrow> u64 \<Rightarrow> x80 \<Rightarrow> (machine, unit) smon" where
  "write_m64 F address v = write64 address (fp_to64 F v)"

definition write_m80 :: "u64 \<Rightarrow> x80 \<Rightarrow> (machine, unit) smon" where
  "write_m80 address v = store_bytes address (le_bytes 10 v)"

definition store_int :: "fpu \<Rightarrow> u64 \<Rightarrow> x80 \<Rightarrow> nat \<Rightarrow> bool \<Rightarrow> (machine, unit) smon" where
  "store_int F address v bits toward_zero =
     (let r = (if toward_zero then fp_trunc F 64 v else fp_round F v) in
      if bits = 16 then write16 address (of_int r)
      else if bits = 32 then write32 address (of_int r)
      else write64 address (of_int r))"

text \<open>Reading the operand of the arithmetic and load forms.\<close>

definition read_m32 :: "fpu \<Rightarrow> u64 \<Rightarrow> (machine, x80) smon" where
  "read_m32 F address = bind (mem_read32 address) (\<lambda>bits. return (fp_of32 F bits))"

definition read_m64 :: "fpu \<Rightarrow> u64 \<Rightarrow> (machine, x80) smon" where
  "read_m64 F address = bind (mem_read64 address) (\<lambda>bits. return (fp_of64 F bits))"

definition read_int16 :: "fpu \<Rightarrow> u64 \<Rightarrow> (machine, x80) smon" where
  "read_int16 F address = bind (mem_read16 address) (\<lambda>v. return (fp_of_int F (sint v)))"

definition read_int32 :: "fpu \<Rightarrow> u64 \<Rightarrow> (machine, x80) smon" where
  "read_int32 F address = bind (mem_read32 address) (\<lambda>v. return (fp_of_int F (sint v)))"

definition read_int64 :: "fpu \<Rightarrow> u64 \<Rightarrow> (machine, x80) smon" where
  "read_int64 F address = bind (mem_read64 address) (\<lambda>v. return (fp_of_int F (sint v)))"

definition push_read :: "(machine, x80) smon \<Rightarrow> (machine, unit) smon" where
  "push_read r = bind r (\<lambda>v. upd_cpu (fpu_push v))"

text \<open>A store of ST(0), popping it or not.\<close>

definition store_st0 :: "(x80 \<Rightarrow> (machine, unit) smon) \<Rightarrow> bool \<Rightarrow> (machine, unit) smon" where
  "store_st0 w pop = bind (get_cpu (fst_reg 0)) (\<lambda>v. seq (w v) (when_do pop (upd_cpu fpu_pop)))"

definition x87_memory :: "fpu \<Rightarrow> u8 \<Rightarrow> nat \<Rightarrow> u64 \<Rightarrow> (machine, unit) smon" where
  "x87_memory F opcode reg_field address =
     (let arith = (\<lambda>r. bind r (\<lambda>b. upd_cpu (arith_into_st0 F reg_field b))) in
      if opcode = 0xd8 then arith (read_m32 F address)
      else if opcode = 0xdc then arith (read_m64 F address)
      else if opcode = 0xda then arith (read_int32 F address)
      else if opcode = 0xde then arith (read_int16 F address)
      else if opcode = 0xd9 then
        if reg_field = 0 then push_read (read_m32 F address)
        else if reg_field = 2 then store_st0 (write_m32 F address) False
        else if reg_field = 3 then store_st0 (write_m32 F address) True
        else if reg_field = 5 then
          bind (mem_read16 address) (\<lambda>v. upd_cpu (\<lambda>c. c\<lparr>c_fpu_control := v\<rparr>))
        else if reg_field = 7 then bind (get_cpu c_fpu_control) (write16 address)
        else unsupported ''unsupported x87 D9''
      else if opcode = 0xdd then
        if reg_field = 0 then push_read (read_m64 F address)
        else if reg_field = 2 then store_st0 (write_m64 F address) False
        else if reg_field = 3 then store_st0 (write_m64 F address) True
        else if reg_field = 7 then bind (get_cpu fpu_status_word) (write16 address)
        else unsupported ''unsupported x87 DD''
      else if opcode = 0xdb then
        if reg_field = 0 then push_read (read_int32 F address)
        else if reg_field = 1 then store_st0 (\<lambda>v. store_int F address v 32 True) True
        else if reg_field = 2 then store_st0 (\<lambda>v. store_int F address v 32 False) False
        else if reg_field = 3 then store_st0 (\<lambda>v. store_int F address v 32 False) True
        else if reg_field = 5 then push_read (read_m80 address)
        else if reg_field = 7 then store_st0 (write_m80 address) True
        else unsupported ''unsupported x87 DB''
      else if opcode = 0xdf then
        if reg_field = 0 then push_read (read_int16 F address)
        else if reg_field = 1 then store_st0 (\<lambda>v. store_int F address v 16 True) True
        else if reg_field = 2 then store_st0 (\<lambda>v. store_int F address v 16 False) False
        else if reg_field = 3 then store_st0 (\<lambda>v. store_int F address v 16 False) True
        else if reg_field = 5 then push_read (read_int64 F address)
        else if reg_field = 7 then store_st0 (\<lambda>v. store_int F address v 64 False) True
        else unsupported ''unsupported x87 DF''
      else unsupported ''unsupported x87 memory opcode'')"

section \<open>Register forms\<close>

text \<open>FXAM: the class of ST(0) in C3, C2 and C0, its sign in C1.\<close>

definition x87_examine :: "fpu \<Rightarrow> cpu \<Rightarrow> cpu" where
  "x87_examine F c =
     (let v = fst_reg 0 c;
          cleared = c_fpu_status c AND NOT 0x4700;
          signed = (if fp_sign64 F (fp_to64 F v) then cleared OR 0x200 else cleared) in
      c\<lparr>c_fpu_status :=
        (if fst_empty 0 c then signed OR 0x4100
         else if fp_nan64 F (fp_to64 F v) then signed OR 0x100
         else if fp_inf64 F (fp_to64 F v) then signed OR 0x500
         else if fp_eq F v (fp_of_int F 0) then signed OR 0x4000
         else signed OR 0x400)\<rparr>)"

text \<open>The operations D9 D0 to D9 FF as functions on the processor; no result where unsupported.\<close>

definition x87_unary :: "fpu \<Rightarrow> u8 \<Rightarrow> cpu \<Rightarrow> cpu option" where
  "x87_unary F rb c =
     (let a = fst_reg 0 c; b = fst_reg 1 c; one = fp_of_int F 1;
          op = fp_op F; set0 = (\<lambda>v. set_fst 0 v c); into1 = (\<lambda>v. fpu_pop (set_fst 1 v c)) in
      if rb = 0xd0 then Some c
      else if rb = 0xe0 then Some (set0 (op ''negate'' [a]))
      else if rb = 0xe1 then Some (set0 (op ''fabs'' [a]))
      else if rb = 0xe4 then Some (fpu_compare F a (fp_of_int F 0) c)
      else if rb = 0xe5 then Some (x87_examine F c)
      else if rb = 0xe8 then Some (fpu_push one c)
      else if rb = 0xe9 then Some (fpu_push (op ''log2'' [fp_of_int F 10]) c)
      else if rb = 0xea then Some (fpu_push (op ''log2'' [op ''2.718281828459045235360287'' []]) c)
      else if rb = 0xeb then Some (fpu_push (op ''3.141592653589793238462643'' []) c)
      else if rb = 0xec then Some (fpu_push (op ''log10'' [fp_of_int F 2]) c)
      else if rb = 0xed then Some (fpu_push (op ''log'' [fp_of_int F 2]) c)
      else if rb = 0xee then Some (fpu_push (fp_of_int F 0) c)
      else if rb = 0xf0 then Some (set0 (op ''-'' [op ''exp2'' [a], one]))
      else if rb = 0xf1 then Some (into1 (op ''*'' [b, op ''log2'' [a]]))
      else if rb = 0xf2 then Some (fpu_push one (set0 (op ''tan'' [a])))
      else if rb = 0xf3 then Some (into1 (op ''atan2'' [b, a]))
      else if rb = 0xf4 then
        Some (fpu_push (op ''*'' [op ''frexp'' [a], fp_of_int F 2])
               (set0 (fp_of_int F (fp_exponent F a - 1))))
      else if rb = 0xf5 then Some (set0 (op ''remainder'' [a, b]))
      else if rb = 0xf6 then Some (c\<lparr>c_fpu_top := c_fpu_top c + 1\<rparr>)
      else if rb = 0xf7 then Some (c\<lparr>c_fpu_top := c_fpu_top c - 1\<rparr>)
      else if rb = 0xf8 then Some (set0 (op ''fmod'' [a, b]))
      else if rb = 0xf9 then Some (into1 (op ''*'' [b, op ''log2'' [op ''+'' [a, one]]]))
      else if rb = 0xfa then Some (set0 (op ''sqrt'' [a]))
      else if rb = 0xfb then Some (fpu_push (op ''cos'' [a]) (set0 (op ''sin'' [a])))
      else if rb = 0xfc then Some (set0 (op ''rint'' [a]))
      else if rb = 0xfd then Some (set0 (op ''ldexp'' [a, fp_of_int F (fp_trunc F 32 b)]))
      else if rb = 0xfe then Some (set0 (op ''sin'' [a]))
      else if rb = 0xff then Some (set0 (op ''cos'' [a]))
      else None)"

definition x87_d9 :: "fpu \<Rightarrow> u8 \<Rightarrow> nat \<Rightarrow> (machine, unit) smon" where
  "x87_d9 F rb sti =
     (if rb \<ge> 0xc0 \<and> rb \<le> 0xc7 then upd_cpu (\<lambda>c. fpu_push (fst_reg sti c) c)
      else if rb \<ge> 0xc8 \<and> rb \<le> 0xcf then
        upd_cpu (\<lambda>c. set_fst sti (fst_reg 0 c) (set_fst 0 (fst_reg sti c) c))
      else
        bind (get_cpu (x87_unary F rb)) (\<lambda>r.
        case r of None \<Rightarrow> unsupported ''unsupported x87 D9 register op'' | Some c \<Rightarrow> upd_cpu (\<lambda>_. c)))"

text \<open>The condition of FCMOVB, FCMOVE, FCMOVBE, FCMOVU by the second byte.\<close>

definition fcmov_condition :: "u8 \<Rightarrow> cpu \<Rightarrow> bool option" where
  "fcmov_condition rb c =
     (if rb \<ge> 0xc0 \<and> rb \<le> 0xc7 then Some (flag CF c)
      else if rb \<ge> 0xc8 \<and> rb \<le> 0xcf then Some (flag ZF c)
      else if rb \<ge> 0xd0 \<and> rb \<le> 0xd7 then Some (flag CF c \<or> flag ZF c)
      else if rb \<ge> 0xd8 \<and> rb \<le> 0xdf then Some (flag PF c)
      else None)"

definition x87_move_if :: "string \<Rightarrow> u8 \<Rightarrow> nat \<Rightarrow> bool \<Rightarrow> (machine, unit) smon" where
  "x87_move_if msg rb sti expected =
     bind (get_cpu (fcmov_condition rb)) (\<lambda>r.
     case r of None \<Rightarrow> unsupported msg
     | Some b \<Rightarrow> when_do (b = expected) (upd_cpu (\<lambda>c. set_fst 0 (fst_reg sti c) c)))"

definition x87_compare_pop2 :: "fpu \<Rightarrow> cpu \<Rightarrow> cpu" where
  "x87_compare_pop2 F c = fpu_pop (fpu_pop (fpu_compare F (fst_reg 0 c) (fst_reg 1 c) c))"

definition x87_eflags :: "fpu \<Rightarrow> nat \<Rightarrow> cpu \<Rightarrow> cpu" where
  "x87_eflags F sti c = set_eflags_from_float_compare F (fst_reg 0 c) (fst_reg sti c) c"

definition x87_db :: "fpu \<Rightarrow> u8 \<Rightarrow> nat \<Rightarrow> (machine, unit) smon" where
  "x87_db F rb sti =
     (if rb = 0xe2 then upd_cpu (\<lambda>c. c\<lparr>c_fpu_status := c_fpu_status c AND NOT 0x80ff\<rparr>)
      else if rb = 0xe3 then
        upd_cpu (\<lambda>c. c\<lparr>c_fpu_control := 0x037f, c_fpu_status := 0, c_fpu_top := 0,
          c_fpu_empty := (\<lambda>_. True)\<rparr>)
      else if rb \<ge> 0xe8 \<and> rb \<le> 0xf7 then upd_cpu (x87_eflags F sti)
      else x87_move_if ''unsupported x87 DB register op'' rb sti False)"

definition x87_dd :: "fpu \<Rightarrow> u8 \<Rightarrow> nat \<Rightarrow> (machine, unit) smon" where
  "x87_dd F rb sti =
     (let store = (\<lambda>c. set_fst sti (fst_reg 0 c) c);
          compare = (\<lambda>c. fpu_compare F (fst_reg 0 c) (fst_reg sti c) c) in
      if rb \<ge> 0xc0 \<and> rb \<le> 0xc7 then
        upd_cpu (\<lambda>c. c\<lparr>c_fpu_empty := (c_fpu_empty c)(c_fpu_top c + of_nat sti := True)\<rparr>)
      else if rb \<ge> 0xd0 \<and> rb \<le> 0xd7 then upd_cpu store
      else if rb \<ge> 0xd8 \<and> rb \<le> 0xdf then upd_cpu (\<lambda>c. fpu_pop (store c))
      else if rb \<ge> 0xe0 \<and> rb \<le> 0xe7 then upd_cpu compare
      else if rb \<ge> 0xe8 \<and> rb \<le> 0xef then upd_cpu (\<lambda>c. fpu_pop (compare c))
      else unsupported ''unsupported x87 DD register op'')"

definition x87_df :: "fpu \<Rightarrow> u8 \<Rightarrow> nat \<Rightarrow> (machine, unit) smon" where
  "x87_df F rb sti =
     (if rb = 0xe0 then
        upd_cpu (\<lambda>c. set_shadow RAX (c_gpr_shadow c RAX AND NOT 0xffff)
          (set_gpr RAX ((c_gpr c RAX AND NOT 0xffff) OR ucast (fpu_status_word c)) c))
      else if rb \<ge> 0xe8 \<and> rb \<le> 0xf7 then upd_cpu (\<lambda>c. fpu_pop (x87_eflags F sti c))
      else unsupported ''unsupported x87 DF register op'')"

definition x87_register :: "fpu \<Rightarrow> u8 \<Rightarrow> u8 \<Rightarrow> (machine, unit) smon" where
  "x87_register F opcode rb =
     (let sti = unat (rb AND 7); opn = unat (drop_bit 3 rb AND 7) in
      if opcode = 0xd8 then upd_cpu (\<lambda>c. arith_into_st0 F opn (fst_reg sti c) c)
      else if opcode = 0xdc then x87_arith_sti F ''unsupported x87 DC register op'' opn sti id
      else if opcode = 0xde then
        if rb = 0xd9 then upd_cpu (x87_compare_pop2 F)
        else x87_arith_sti F ''unsupported x87 DE register op'' opn sti fpu_pop
      else if opcode = 0xd9 then x87_d9 F rb sti
      else if opcode = 0xda then
        if rb = 0xe9 then upd_cpu (x87_compare_pop2 F)
        else x87_move_if ''unsupported x87 DA register op'' rb sti True
      else if opcode = 0xdb then x87_db F rb sti
      else if opcode = 0xdd then x87_dd F rb sti
      else if opcode = 0xdf then x87_df F rb sti
      else unsupported ''unsupported x87 register opcode'')"

definition execute_x87 :: "fpu \<Rightarrow> u8 \<Rightarrow> prefixes \<Rightarrow> (machine, unit) smon" where
  "execute_x87 F opcode p =
     bind (fetch_modrm p) (\<lambda>m.
     if \<not> is_register_form m then
       bind (decode_rm_operand p m) (\<lambda>operand.
       bind (get_cpu (effective_address operand)) (\<lambda>address.
       x87_memory F opcode (modrm_op m) address))
     else x87_register F opcode (mr_byte m))"

end
