(* ===== verification/CPU_Type.thy ===== *)
theory CPU_Type
  imports CPU_Step CPU_X87
begin

text \<open>
  The type of a vector register. In C++ it is a \<^verbatim>\<open>std::array\<close> of 16 bytes; in the model it is a
  list, and every index the instructions form is inside it because its length is 16. The lemmas say
  which functions on the processor leave the vector registers alone and that every function on their
  contents gives 16 bytes for 16 bytes.
\<close>

definition xmm_typed :: "cpu \<Rightarrow> bool" where
  "xmm_typed c \<longleftrightarrow> (\<forall>i. length (c_xmm c i) = 16)"

lemma xmm_typed_length: "xmm_typed c \<Longrightarrow> length (c_xmm c i) = 16"
  by (simp add: xmm_typed_def)

lemma xmm_typed_update:
  "xmm_typed c \<Longrightarrow> length v = 16 \<Longrightarrow> xmm_typed (c\<lparr>c_xmm := (c_xmm c)(i := v)\<rparr>)"
  by (simp add: xmm_typed_def)

named_theorems xmm_rules \<open>what keeps the vector registers typed\<close>

declare xmm_typed_length [xmm_rules] xmm_typed_update [xmm_rules]

section \<open>Updates of other fields\<close>

lemma xmm_typed_fields [xmm_rules]:
  "xmm_typed (c\<lparr>c_gpr := a1\<rparr>) = xmm_typed c" "xmm_typed (c\<lparr>c_gpr_shadow := a1\<rparr>) = xmm_typed c"
  "xmm_typed (c\<lparr>c_mxcsr := a2\<rparr>) = xmm_typed c" "xmm_typed (c\<lparr>c_rip := a3\<rparr>) = xmm_typed c"
  "xmm_typed (c\<lparr>c_rflags := a4\<rparr>) = xmm_typed c" "xmm_typed (c\<lparr>c_fs_base := a5\<rparr>) = xmm_typed c"
  "xmm_typed (c\<lparr>c_gs_base := a6\<rparr>) = xmm_typed c"
  "xmm_typed (c\<lparr>c_instruction_start := a7\<rparr>) = xmm_typed c"
  "xmm_typed (c\<lparr>c_decode_pc := a8\<rparr>) = xmm_typed c"
  "xmm_typed (c\<lparr>c_call_stack := a9\<rparr>) = xmm_typed c"
  "xmm_typed (c\<lparr>c_current_taint := b1\<rparr>) = xmm_typed c"
  "xmm_typed (c\<lparr>c_flags_tainted := b2\<rparr>) = xmm_typed c"
  "xmm_typed (c\<lparr>c_reported_uninit_reads := b3\<rparr>) = xmm_typed c"
  "xmm_typed (c\<lparr>c_reported_uninit_pointers := b4\<rparr>) = xmm_typed c"
  "xmm_typed (c\<lparr>c_reported_uninit_branches := b5\<rparr>) = xmm_typed c"
  "xmm_typed (c\<lparr>c_fpu_st := b6\<rparr>) = xmm_typed c" "xmm_typed (c\<lparr>c_fpu_empty := b7\<rparr>) = xmm_typed c"
  "xmm_typed (c\<lparr>c_fpu_top := b8\<rparr>) = xmm_typed c" "xmm_typed (c\<lparr>c_fpu_status := b9\<rparr>) = xmm_typed c"
  "xmm_typed (c\<lparr>c_fpu_control := b10\<rparr>) = xmm_typed c"
  by (simp_all add: xmm_typed_def)

lemma xmm_typed_registers [xmm_rules]:
  "xmm_typed (set_gpr i v c) = xmm_typed c" "xmm_typed (set_shadow i v c) = xmm_typed c"
  "xmm_typed (set_gpr_shadow n w v p c) = xmm_typed c" "xmm_typed (write_gpr n w v p c) = xmm_typed c"
  "xmm_typed (snd (read_gpr n w p c)) = xmm_typed c" "xmm_typed (swap_registers i j c) = xmm_typed c"
  by (simp_all add: set_gpr_def set_shadow_def set_gpr_shadow_def write_gpr_def read_gpr_def
      swap_registers_def Let_def xmm_typed_def)

lemma xmm_typed_flags [xmm_rules]:
  "xmm_typed (set_flag f b c) = xmm_typed c" "xmm_typed (update_flags_taint c) = xmm_typed c"
  "xmm_typed (set_logic_flags v w c) = xmm_typed c"
  "xmm_typed (set_eflags_from_float_compare F x y c) = xmm_typed c"
  by (simp_all add: set_flag_def update_flags_taint_def set_logic_flags_def
      set_eflags_from_float_compare_def Let_def xmm_typed_def)

lemma xmm_typed_alu [xmm_rules]:
  "xmm_typed (snd (add x y w b c)) = xmm_typed c" "xmm_typed (snd (sub x y w b c)) = xmm_typed c"
  "xmm_typed (snd (alu_compute n x y w c)) = xmm_typed c"
  "xmm_typed (snd (alu_accumulator n x y w c)) = xmm_typed c"
  by (simp_all add: add_def sub_def alu_compute_def alu_accumulator_def Let_def xmm_rules)

lemma xmm_typed_x87 [xmm_rules]:
  "xmm_typed (set_fst i v c) = xmm_typed c" "xmm_typed (fpu_push v c) = xmm_typed c"
  "xmm_typed (fpu_pop c) = xmm_typed c" "xmm_typed (fpu_compare F x y c) = xmm_typed c"
  "xmm_typed (arith_into_st0 F n v c) = xmm_typed c" "xmm_typed (x87_examine F c) = xmm_typed c"
  "xmm_typed (x87_compare_pop2 F c) = xmm_typed c" "xmm_typed (x87_eflags F i c) = xmm_typed c"
  by (simp_all add: set_fst_def fpu_push_def fpu_pop_def fpu_compare_def arith_into_st0_def
      x87_examine_def x87_compare_pop2_def x87_eflags_def Let_def xmm_rules)

lemma xmm_typed_sti: "arith_into_sti F n i c = Some c' \<Longrightarrow> xmm_typed c' = xmm_typed c"
  by (auto simp: arith_into_sti_def Let_def xmm_rules split: if_splits)

lemma xmm_typed_unary: "x87_unary F rb c = Some c' \<Longrightarrow> xmm_typed c' = xmm_typed c"
  by (simp add: x87_unary_def Let_def xmm_rules split: if_splits) (auto simp: xmm_rules)

section \<open>Sixteen bytes for sixteen bytes\<close>

lemma length_chunks:
  "(\<And>i. i < n \<Longrightarrow> length (f i) = k) \<Longrightarrow> length (concat (map f [0..<n])) = n * k"
  by (induction n) auto

lemma length_lane_bytes [xmm_rules]: "length (lane_bytes n v) = n"
  by (simp add: lane_bytes_def)

lemma length_from_gpr [xmm_rules]: "n \<le> 16 \<Longrightarrow> length (from_gpr_value n v) = 16"
  by (simp add: from_gpr_value_def xmm_rules)

lemma length_shuffles [xmm_rules]:
  "length (shuffle_dwords s x) = 16" "length (shuffle_qwords s x y) = 16"
  "length (add_qwords x y) = 16" "length (shift_bytes_right n x) = 16"
  "length (shift_bytes_left n x) = 16"
  by (simp_all add: shuffle_dwords_def shuffle_qwords_def add_qwords_def shift_bytes_right_def
      shift_bytes_left_def length_chunks [where k = 4] length_lane_bytes Let_def)

lemma length_lanes [xmm_rules]:
  assumes "e = 1 \<or> e = 2 \<or> e = (4 :: nat)"
  shows "length (unpack_lanes e k x y) = 16" "length (compare_equal e x y) = 16"
    "length (compare_greater e x y) = 16" "length (subtract_lanes e x y) = 16"
  using assms
  by (auto simp: unpack_lanes_def compare_equal_def compare_greater_def subtract_lanes_def Let_def
      length_chunks [where k = 2] length_chunks [where k = 4] length_chunks [where k = 8]
      length_chunks [where k = 1] length_lane_bytes)

lemma length_replace [xmm_rules]:
  "off + length b \<le> length v \<Longrightarrow> length (replace_bytes v off b) = length v"
  by (simp add: replace_bytes_def)

lemma length_store [xmm_rules]:
  "length v = 16 \<Longrightarrow> lane < 2 \<Longrightarrow> length (store_f64 lane d v) = 16"
  "length v = 16 \<Longrightarrow> lane < 4 \<Longrightarrow> length (store_f32 lane f v) = 16"
  "length v = 16 \<Longrightarrow> lane < 4 \<Longrightarrow> length (store_i32 lane x v) = 16"
  by (simp_all add: store_f64_def store_f32_def store_i32_def xmm_rules)

lemma length_fold:
  "(\<And>i v. i < n \<Longrightarrow> length v = 16 \<Longrightarrow> length (f i v) = 16) \<Longrightarrow> length v = 16 \<Longrightarrow>
     length (fold f [0..<n] v) = (16 :: nat)"
  by (induction n) auto

lemma length_float [xmm_rules]:
  assumes "length d = 16"
  shows "length (arith_lanes F opcode p s d) = 16" "length (convert_packed F p s d) = 16"
    "length (convert_int_lanes F p s d) = 16" "length (convert_int_doubles F p s d) = 16"
    "length s = 16 \<Longrightarrow> length (sse_float_logic opcode d s) = 16"
  using assms
  by (auto simp: arith_lanes_def convert_packed_def convert_int_lanes_def convert_int_doubles_def
      sse_float_logic_def Let_def is_double_def intro!: length_fold length_store)

lemma length_unpack_floats [xmm_rules]:
  "length a = 16 \<Longrightarrow> length s = 16 \<Longrightarrow> base = 0 \<or> base = 8 \<Longrightarrow>
     length (unpack_floats (scalar_bytes p) base a s) = 16"
  by (auto simp: unpack_floats_def scalar_bytes_def upt_conv_Cons)

end
