(* ===== verification/MMU_Spec.thy ===== *)
theory MMU_Spec
  imports SoftMMU
begin

text \<open>
  What the address space of theory \<^verbatim>\<open>SoftMMU\<close> promises. The abstract view is a partial map
  from addresses to cells (byte, initialisation bit, protection); \<open>mmu_wf\<close> is the invariant of
  the region list; every mapping operation preserves the invariant and acts on the abstract map
  as its documentation says.
\<close>

section \<open>Well-formed regions\<close>

definition region_wf :: "region \<Rightarrow> bool" where
  "region_wf r \<longleftrightarrow>
     unat (r_base r) + unat (r_size r) < 18446744073709551616 \<and>
     page_aligned (r_base r) \<and> page_aligned (r_size r) \<and>
     length (r_bytes r) = unat (r_size r) \<and> length (r_init r) = unat (r_size r)"

definition regions_disjoint :: "region \<Rightarrow> region \<Rightarrow> bool" where
  "regions_disjoint r s \<longleftrightarrow> region_end r \<le> r_base s \<or> region_end s \<le> r_base r"

definition regions_wf :: "region list \<Rightarrow> bool" where
  "regions_wf rs \<longleftrightarrow> (\<forall>r \<in> set rs. region_wf r) \<and> sorted_wrt regions_disjoint rs"

definition mmu_wf :: "mmu \<Rightarrow> bool" where
  "mmu_wf m \<longleftrightarrow> regions_wf (m_regions m) \<and> sorted (map r_base (m_regions m)) \<and>
     page_aligned (m_next_allocation m)"

abbreviation lo :: "region \<Rightarrow> nat" where
  "lo r \<equiv> unat (r_base r)"

abbreviation hi :: "region \<Rightarrow> nat" where
  "hi r \<equiv> unat (r_base r) + unat (r_size r)"

lemma symp_regions_disjoint: "symp regions_disjoint"
  by (auto simp: symp_def regions_disjoint_def)

lemma unat_region_end: "region_wf r \<Longrightarrow> unat (region_end r) = hi r"
  by (simp add: region_wf_def region_end_def unat_add_u64)

lemma region_contains_nat:
  "region_wf r \<Longrightarrow> region_contains r a \<longleftrightarrow> lo r \<le> unat a \<and> unat a < hi r"
  by (simp add: region_contains_def u64_order unat_region_end)

lemma regions_disjoint_nat:
  "region_wf r \<Longrightarrow> region_wf s \<Longrightarrow> regions_disjoint r s \<longleftrightarrow> hi r \<le> lo s \<or> hi s \<le> lo r"
  by (simp add: regions_disjoint_def u64_order unat_region_end)

lemma regions_wf_Cons:
  "regions_wf (r # rs) \<longleftrightarrow> region_wf r \<and> (\<forall>s \<in> set rs. regions_disjoint r s) \<and> regions_wf rs"
  by (auto simp: regions_wf_def)

lemma regions_wf_append:
  "regions_wf (rs @ ss) \<longleftrightarrow>
     regions_wf rs \<and> regions_wf ss \<and> (\<forall>r \<in> set rs. \<forall>s \<in> set ss. regions_disjoint r s)"
  by (induction rs) (auto simp: regions_wf_Cons, auto simp: regions_wf_def)

lemma regions_wf_sort [simp]: "regions_wf (sort_regions rs) \<longleftrightarrow> regions_wf rs"
  by (simp add: regions_wf_def sort_regions_def sorted_wrt_sort_sym symp_regions_disjoint)

lemma regions_wf_filter: "regions_wf rs \<Longrightarrow> regions_wf (filter P rs)"
  by (auto simp: regions_wf_def intro: sorted_wrt_filter)

text \<open>Lookup finds \<^emph>\<open>the\<close> region: at most one region contains an address.\<close>

lemma regions_wf_unique:
  "regions_wf rs \<Longrightarrow> r \<in> set rs \<Longrightarrow> s \<in> set rs \<Longrightarrow> region_contains r a \<Longrightarrow>
     region_contains s a \<Longrightarrow> r = s"
proof (induction rs)
  case (Cons q rs)
  have "\<not> region_contains p a" if "regions_disjoint q p" "region_contains q a" for p
    using that by (auto simp: regions_disjoint_def region_contains_def)
  with Cons show ?case by (auto simp: regions_wf_Cons)
qed simp

lemma find_containing_iff:
  "regions_wf rs \<Longrightarrow>
     find (\<lambda>r. region_contains r a) rs = Some r \<longleftrightarrow> r \<in> set rs \<and> region_contains r a"
proof (induction rs)
  case (Cons q rs)
  have "\<not> region_contains p a" if "regions_disjoint q p" "region_contains q a" for p
    using that by (auto simp: regions_disjoint_def region_contains_def)
  with Cons show ?case by (auto simp: regions_wf_Cons)
qed simp

lemma find_region_iff:
  "regions_wf (m_regions m) \<Longrightarrow>
     find_region m a = Some r \<longleftrightarrow> r \<in> set (m_regions m) \<and> region_contains r a"
  by (simp add: find_region_def find_containing_iff)

lemma find_region_None: "find_region m a = None \<longleftrightarrow> (\<forall>r \<in> set (m_regions m). \<not> region_contains r a)"
  by (auto simp: find_region_def find_None_iff)

section \<open>The abstract address space\<close>

datatype cell = Cell (cell_byte: u8) (cell_init: bool) (cell_prot: u32)

definition region_cell :: "region \<Rightarrow> u64 \<Rightarrow> cell" where
  "region_cell r a =
     Cell (r_bytes r ! unat (a - r_base r)) (r_init r ! unat (a - r_base r)) (r_prot r)"

definition cell_at :: "mmu \<Rightarrow> u64 \<Rightarrow> cell option" where
  "cell_at m a = map_option (\<lambda>r. region_cell r a) (find_region m a)"

lemma cell_at_Some:
  assumes "regions_wf (m_regions m)"
  shows "cell_at m a = Some c \<longleftrightarrow>
    (\<exists>r \<in> set (m_regions m). region_contains r a \<and> region_cell r a = c)"
  by (auto simp: cell_at_def find_region_iff [OF assms])

lemma cell_at_None: "cell_at m a = None \<longleftrightarrow> (\<forall>r \<in> set (m_regions m). \<not> region_contains r a)"
  by (simp add: cell_at_def find_region_None)

lemma option_eqI: "(\<And>c. x = Some c \<longleftrightarrow> y = Some c) \<Longrightarrow> x = y"
  by (cases x; cases y) auto

lemma cell_at_eqI:
  assumes "regions_wf (m_regions m)" and "regions_wf (m_regions m')"
    and "\<And>c. (\<exists>r \<in> set (m_regions m). region_contains r a \<and> region_cell r a = c) \<longleftrightarrow>
             (\<exists>s \<in> set (m_regions m'). region_contains s a \<and> region_cell s a = c)"
  shows "cell_at m a = cell_at m' a"
  by (rule option_eqI) (simp add: cell_at_Some assms)

section \<open>Cutting regions\<close>

text \<open>A piece of a region: inside it, with the same protection and the same cells.\<close>

definition piece_of :: "region \<Rightarrow> region \<Rightarrow> bool" where
  "piece_of r p \<longleftrightarrow> region_wf p \<and> lo r \<le> lo p \<and> hi p \<le> hi r \<and>
     (\<forall>a. region_contains p a \<longrightarrow> region_cell p a = region_cell r a)"

lemma piece_of_refl: "region_wf r \<Longrightarrow> piece_of r r"
  by (simp add: piece_of_def)

lemma length_slice:
  "unat off + unat n \<le> length xs \<Longrightarrow> length (slice off n xs) = unat n"
  by (simp add: slice_def)

lemma nth_slice:
  "unat off + unat n \<le> length xs \<Longrightarrow> i < unat n \<Longrightarrow> slice off n xs ! i = xs ! (unat off + i)"
  by (simp add: slice_def)

lemma clone_slice_Inr:
  "clone_slice r nb off n = Inr p \<longleftrightarrow>
     unat off + unat n \<le> length (r_bytes r) \<and> unat off + unat n \<le> length (r_init r) \<and>
     p = \<lparr>r_base = nb, r_size = n, r_prot = r_prot r, r_name = r_name r,
          r_kind = (case r_kind r of SimpleRegion \<Rightarrow> SimpleRegion
                    | MmapRegion path fo \<Rightarrow> MmapRegion path (fo + off)),
          r_bytes = slice off n (r_bytes r), r_init = slice off n (r_init r)\<rparr>"
  by (auto simp: clone_slice_def simple_clone_slice_def mmap_clone_slice_def
        new_simple_region_bytes_def new_mmap_region_bytes_def length_slice
      split: region_kind.splits)

lemma clone_slice_piece:
  assumes r: "region_wf r" and p: "clone_slice r nb off n = Inr p"
    and nb: "unat nb = lo r + unat off" and al: "page_aligned nb" "page_aligned n"
  shows "piece_of r p \<and> lo p = lo r + unat off \<and> hi p = lo r + unat off + unat n"
proof -
  have fit: "unat off + unat n \<le> unat (r_size r)"
    using r p by (auto simp: clone_slice_Inr region_wf_def)
  have wf: "region_wf p"
    using r p nb al fit by (auto simp: clone_slice_Inr region_wf_def length_slice)
  have "region_cell p a = region_cell r a" if a: "region_contains p a" for a
  proof -
    from a wf p have "unat nb \<le> unat a" and "unat a < unat nb + unat n"
      by (auto simp: region_contains_nat clone_slice_Inr)
    with nb have "unat (a - nb) < unat n" and "unat (a - r_base r) = unat off + unat (a - nb)"
      by (auto simp: unat_sub_u64 u64_order)
    with p r show ?thesis
      by (auto simp: clone_slice_Inr region_cell_def nth_slice)
  qed
  with wf p nb fit show ?thesis by (auto simp: piece_of_def clone_slice_Inr)
qed

lemma clone_slice_total:
  "region_wf r \<Longrightarrow> unat off + unat n \<le> unat (r_size r) \<Longrightarrow> \<exists>p. clone_slice r nb off n = Inr p"
  by (simp add: clone_slice_Inr region_wf_def)

text \<open>What \<^verbatim>\<open>split_around\<close> makes of one region.\<close>

definition cut_of :: "u64 \<Rightarrow> u64 \<Rightarrow> region \<Rightarrow> region list \<Rightarrow> bool" where
  "cut_of base stop r ps \<longleftrightarrow>
     (\<forall>p \<in> set ps. piece_of r p) \<and> regions_wf ps \<and>
     (\<forall>a. region_contains r a \<longrightarrow> (\<exists>p \<in> set ps. region_contains p a)) \<and>
     (\<forall>p \<in> set ps. hi p \<le> unat base \<or> unat stop \<le> lo p \<or> (unat base \<le> lo p \<and> hi p \<le> unat stop))"

definition untouched :: "u64 \<Rightarrow> u64 \<Rightarrow> region \<Rightarrow> bool" where
  "untouched base stop r \<longleftrightarrow> stop \<le> r_base r \<or> base \<ge> region_end r"

lemma split_region_untouched: "untouched base stop r \<Longrightarrow> split_region base stop r = Inr [r]"
  by (simp add: split_region_def untouched_def)

text \<open>A range that wraps round the address space and meets a region is undefined behaviour.\<close>

lemma split_region_no_wrap:
  assumes r: "region_wf r" and t: "\<not> untouched base stop r"
    and ps: "split_region base stop r = Inr ps"
  shows "base \<le> stop"
proof (rule ccontr)
  assume "\<not> base \<le> stop"
  then have lt: "stop < base" by simp
  from t r have t': "lo r < unat stop" "unat base < hi r"
    by (auto simp: untouched_def u64_order unat_region_end)
  then have "max base (r_base r) = base" and "min stop (region_end r) = stop"
    using lt r by (auto simp: max_def min_def u64_order unat_region_end)
  with ps t obtain p where "clone_slice r base (base - r_base r) (stop - base) = Inr p"
    by (auto simp: split_region_def untouched_def sbind_eq_Inr Let_def split: if_splits)
  then have "unat (base - r_base r) + unat (stop - base) \<le> unat (r_size r)"
    using r by (simp add: clone_slice_Inr region_wf_def)
  moreover have "unat (base - r_base r) = unat base - lo r"
    using lt t' by (simp add: unat_sub_u64 u64_order)
  ultimately show False
    using lt t' unat_sub_wrap [OF lt] u64_bound [of "r_size r"] unfolding u64_order by linarith
qed

text \<open>The three cases of the code, piece by piece.\<close>

lemma split_before:
  assumes "region_wf r" "page_aligned base" "base > r_base r" "unat base < hi r"
    and "clone_slice r (r_base r) 0 (base - r_base r) = Inr p"
  shows "piece_of r p" "lo p = lo r" "hi p = unat base"
  using clone_slice_piece [OF assms(1) assms(5)] assms
  by (auto simp: region_wf_def page_aligned_diff unat_sub_u64 u64_order)

lemma split_after:
  assumes "region_wf r" "page_aligned stop" "lo r \<le> unat stop" "stop < region_end r"
    and "clone_slice r stop (stop - r_base r) (region_end r - stop) = Inr p"
  shows "piece_of r p" "lo p = unat stop" "hi p = hi r"
proof -
  have "page_aligned (region_end r)"
    using assms(1) by (simp add: region_wf_def region_end_def page_aligned_add)
  then have al: "page_aligned (region_end r - stop)"
    using assms by (simp add: page_aligned_diff)
  have un: "unat (stop - r_base r) = unat stop - lo r"
     "unat (region_end r - stop) = hi r - unat stop" "unat stop < hi r"
    using assms by (auto simp: unat_sub_u64 u64_order unat_region_end)
  from clone_slice_piece [OF assms(1) assms(5)] assms(2,3) al un
  show "piece_of r p" "lo p = unat stop" "hi p = hi r" by auto
qed

lemma split_overlap:
  assumes r: "region_wf r" and al: "page_aligned base" "page_aligned stop" and le: "base \<le> stop"
    and t: "lo r < unat stop" "unat base < hi r"
    and p: "clone_slice r (max base (r_base r)) (max base (r_base r) - r_base r)
         (min stop (region_end r) - max base (r_base r)) = Inr p"
  shows "piece_of r p" "lo p = max (unat base) (lo r)" "hi p = min (unat stop) (hi r)"
proof -
  let ?s = "max base (r_base r)" and ?e = "min stop (region_end r)"
  have s: "unat ?s = max (unat base) (lo r)" and e: "unat ?e = min (unat stop) (hi r)"
    using r by (auto simp: max_def min_def u64_order unat_region_end)
  have "page_aligned ?s" and "page_aligned ?e"
    using al r by (auto simp: max_def min_def region_wf_def region_end_def page_aligned_add)
  moreover have se: "?s \<le> ?e" using s e t le r by (simp add: u64_order region_wf_def)
  ultimately have "page_aligned (?e - ?s)" by (simp add: page_aligned_diff)
  moreover have "unat (?s - r_base r) = unat ?s - lo r" and "unat (?e - ?s) = unat ?e - unat ?s"
    using se s by (auto simp: unat_sub_u64 u64_order)
  moreover have "lo r \<le> unat ?s" "unat ?s \<le> unat ?e" using s se by (auto simp: u64_order)
  ultimately show "piece_of r p" "lo p = max (unat base) (lo r)" "hi p = min (unat stop) (hi r)"
    using clone_slice_piece [OF r p] \<open>page_aligned ?s\<close> s e by auto
qed

lemma split_region_pieces:
  assumes "region_wf r" and "\<not> untouched base stop r" and "split_region base stop r = Inr ps"
  obtains bs q as where "ps = bs @ [q] @ as"
    and "if base > r_base r then \<exists>p. bs = [p] \<and> clone_slice r (r_base r) 0 (base - r_base r) = Inr p
         else bs = []"
    and "clone_slice r (max base (r_base r)) (max base (r_base r) - r_base r)
         (min stop (region_end r) - max base (r_base r)) = Inr q"
    and "if stop < region_end r
         then \<exists>p. as = [p] \<and> clone_slice r stop (stop - r_base r) (region_end r - stop) = Inr p
         else as = []"
  using assms
  by (auto simp: split_region_def untouched_def sbind_eq_Inr Let_def split: if_splits)

lemma split_region_cut:
  assumes r: "region_wf r" and al: "page_aligned base" "page_aligned stop"
    and ps: "split_region base stop r = Inr ps"
  shows "cut_of base stop r ps"
proof (cases "untouched base stop r")
  case True
  then have "hi r \<le> unat base \<or> unat stop \<le> lo r"
    using r by (auto simp: untouched_def u64_order unat_region_end)
  with True r ps show ?thesis
    by (auto simp: cut_of_def split_region_untouched piece_of_refl regions_wf_Cons regions_wf_def)
next
  case False
  then have le: "base \<le> stop" using r ps split_region_no_wrap by blast
  from False r have t: "lo r < unat stop" "unat base < hi r"
    by (auto simp: untouched_def u64_order unat_region_end)
  from r False ps show ?thesis
  proof (rule split_region_pieces)
    fix bs q as
    assume ps: "ps = bs @ [q] @ as"
      and bs: "if base > r_base r then \<exists>p. bs = [p] \<and> clone_slice r (r_base r) 0 (base - r_base r) = Inr p
               else bs = []"
      and q: "clone_slice r (max base (r_base r)) (max base (r_base r) - r_base r)
         (min stop (region_end r) - max base (r_base r)) = Inr q"
      and as: "if stop < region_end r
         then \<exists>p. as = [p] \<and> clone_slice r stop (stop - r_base r) (region_end r - stop) = Inr p
         else as = []"
    note Q = split_overlap [OF r al le t q]
    have B: "p \<in> set bs \<Longrightarrow> piece_of r p \<and> lo p = lo r \<and> hi p = unat base" for p
      using bs split_before [OF r al(1) _ t(2)] by (auto split: if_splits)
    have A: "p \<in> set as \<Longrightarrow> piece_of r p \<and> lo p = unat stop \<and> hi p = hi r" for p
      using as split_after [OF r al(2)] t(1) by (auto split: if_splits)
    have lenB: "bs = [] \<and> unat base \<le> lo r \<or> (\<exists>p. bs = [p])"
      using bs by (auto simp: u64_order split: if_splits)
    have lenA: "as = [] \<and> hi r \<le> unat stop \<or> (\<exists>p. as = [p])"
      using as r by (auto simp: u64_order unat_region_end split: if_splits)
    have wf: "p \<in> set ps \<Longrightarrow> region_wf p" for p
      using A B Q ps by (auto simp: piece_of_def)
    have dis: "regions_wf bs" "regions_wf as" using lenA lenB wf ps
      by (auto simp: regions_wf_def)
    have below: "regions_disjoint p p'" if "p \<in> set ps" "p' \<in> set ps" "hi p \<le> lo p'" for p p'
      using that wf regions_disjoint_nat by blast
    have BQ: "regions_disjoint p q" if "p \<in> set bs" for p
    proof (rule below)
      from B [OF that] have "hi p = unat base" by blast
      then show "hi p \<le> lo q" by (simp only: Q(2))
    qed (use that ps in auto)
    have QA: "regions_disjoint q p" if "p \<in> set as" for p
    proof (rule below)
      from A [OF that] have "lo p = unat stop" by blast
      then show "hi q \<le> lo p" by (simp only: Q(3))
    qed (use that ps in auto)
    have BA: "regions_disjoint p p'" if "p \<in> set bs" "p' \<in> set as" for p p'
    proof (rule below)
      from A [OF that(2)] B [OF that(1)] have "lo p' = unat stop" "hi p = unat base" by blast+
      then show "hi p \<le> lo p'" using le by (simp only: u64_order)
    qed (use that ps in auto)
    have "regions_wf ps"
      unfolding ps regions_wf_append regions_wf_Cons append_Cons append_Nil
      using dis BQ QA BA wf ps by auto
    moreover have "\<forall>p \<in> set ps. piece_of r p" using A B Q ps by auto
    moreover have "\<exists>p \<in> set ps. region_contains p a" if "region_contains r a" for a
    proof -
      have a: "lo r \<le> unat a" "unat a < hi r" using that r by (auto simp: region_contains_nat)
      consider "unat a < unat base" | "unat stop \<le> unat a"
        | "unat base \<le> unat a" "unat a < unat stop" by linarith
      then show ?thesis
      proof cases
        case 1
        with a lenB B ps wf show ?thesis by (auto simp: region_contains_nat)
      next
        case 2
        with a lenA A ps wf show ?thesis by (auto simp: region_contains_nat)
      next
        case 3
        with a Q ps wf show ?thesis by (auto simp: region_contains_nat)
      qed
    qed
    moreover have "hi p \<le> unat base \<or> unat stop \<le> lo p \<or> (unat base \<le> lo p \<and> hi p \<le> unat stop)"
      if "p \<in> set ps" for p
    proof -
      from that ps consider "p \<in> set bs" | "p = q" | "p \<in> set as" by auto
      then show ?thesis
      proof cases
        case 1
        then have "hi p = unat base" using B by blast
        then show ?thesis by (simp only: order.refl simp_thms)
      next
        case 2
        then have "unat base \<le> lo p" by (simp only: Q(2) max.cobounded1)
        moreover from 2 have "hi p \<le> unat stop" by (simp only: Q(3) min.cobounded1)
        ultimately show ?thesis by blast
      next
        case 3
        then have "lo p = unat stop" using A by blast
        then show ?thesis by (simp only: order.refl simp_thms)
      qed
    qed
    ultimately show ?thesis unfolding cut_of_def by blast
  qed
qed

lemma split_region_total:
  assumes r: "region_wf r" and le: "base \<le> stop"
  shows "\<exists>ps. split_region base stop r = Inr ps"
proof (cases "untouched base stop r")
  case False
  then have t: "lo r < unat stop" "unat base < hi r"
    using r by (auto simp: untouched_def u64_order unat_region_end)
  have "\<exists>p. clone_slice r (r_base r) 0 (base - r_base r) = Inr p" if "base > r_base r"
    using that t by (intro clone_slice_total [OF r]) (auto simp: unat_sub_u64 u64_order)
  moreover have "\<exists>p. clone_slice r stop (stop - r_base r) (region_end r - stop) = Inr p"
    if "stop < region_end r"
    using that t r by (intro clone_slice_total [OF r])
      (auto simp: unat_sub_u64 u64_order unat_region_end)
  moreover have "\<exists>p. clone_slice r (max base (r_base r)) (max base (r_base r) - r_base r)
         (min stop (region_end r) - max base (r_base r)) = Inr p"
    using t le r by (intro clone_slice_total [OF r])
      (auto simp: unat_sub_u64 u64_order unat_region_end max_def min_def)
  ultimately show ?thesis
    using False by (auto simp: split_region_def untouched_def Let_def)
qed (simp add: split_region_untouched)


section \<open>Cutting the whole list\<close>

definition has_cell :: "region list \<Rightarrow> u64 \<Rightarrow> cell \<Rightarrow> bool" where
  "has_cell rs a c \<longleftrightarrow> (\<exists>r \<in> set rs. region_contains r a \<and> region_cell r a = c)"

lemma has_cell_simps [simp]:
  "\<not> has_cell [] a c"
  "has_cell (r # rs) a c \<longleftrightarrow> region_contains r a \<and> region_cell r a = c \<or> has_cell rs a c"
  "has_cell (rs @ ss) a c \<longleftrightarrow> has_cell rs a c \<or> has_cell ss a c"
  "has_cell (sort_regions rs) a c \<longleftrightarrow> has_cell rs a c"
  by (auto simp: has_cell_def sort_regions_def)

lemma cell_at_has_cell:
  "regions_wf (m_regions m) \<Longrightarrow> cell_at m a = Some c \<longleftrightarrow> has_cell (m_regions m) a c"
  by (simp add: cell_at_Some has_cell_def)

lemma cell_at_None_has_cell: "cell_at m a = None \<longleftrightarrow> (\<forall>c. \<not> has_cell (m_regions m) a c)"
  by (auto simp: cell_at_None has_cell_def)

definition placed :: "u64 \<Rightarrow> u64 \<Rightarrow> region \<Rightarrow> bool" where
  "placed base stop p \<longleftrightarrow>
     hi p \<le> unat base \<or> unat stop \<le> lo p \<or> (unat base \<le> lo p \<and> hi p \<le> unat stop)"

lemma cut_of_cells:
  assumes "region_wf r" and "cut_of base stop r ps"
  shows "has_cell ps a c \<longleftrightarrow> region_contains r a \<and> region_cell r a = c"
proof -
  have "region_contains r a" if "p \<in> set ps" "region_contains p a" for p
  proof -
    from that(1) assms(2) have p: "piece_of r p" by (simp add: cut_of_def)
    then have "region_wf p" "lo r \<le> lo p" "hi p \<le> hi r" by (auto simp: piece_of_def)
    with that(2) assms(1) show ?thesis by (auto simp: region_contains_nat)
  qed
  with assms(2) show ?thesis
    unfolding has_cell_def cut_of_def piece_of_def by metis
qed

lemma cut_of_disjoint:
  assumes "region_wf r" "region_wf s" "regions_disjoint r s" "piece_of r p" "piece_of s q"
  shows "regions_disjoint p q"
proof -
  have "region_wf p" "region_wf q" and le: "lo r \<le> lo p" "hi p \<le> hi r" "lo s \<le> lo q" "hi q \<le> hi s"
    using assms by (auto simp: piece_of_def)
  moreover have "hi r \<le> lo s \<or> hi s \<le> lo r" using assms by (simp add: regions_disjoint_nat)
  ultimately show ?thesis by (simp add: regions_disjoint_nat) linarith
qed

lemma split_regions_spec:
  assumes "regions_wf rs" and "page_aligned base" "page_aligned stop"
    and "split_regions base stop rs = Inr qs"
  shows "regions_wf qs \<and> (\<forall>a c. has_cell qs a c \<longleftrightarrow> has_cell rs a c) \<and>
     (\<forall>q \<in> set qs. placed base stop q) \<and> (\<forall>q \<in> set qs. \<exists>r \<in> set rs. piece_of r q)"
  using assms(1,4)
proof (induction rs arbitrary: qs)
  case Nil
  then show ?case by (simp add: regions_wf_def)
next
  case (Cons r rs)
  then obtain ps qs' where ps: "split_region base stop r = Inr ps"
    and qs': "split_regions base stop rs = Inr qs'" and qs: "qs = ps @ qs'"
    by (auto simp: sbind_eq_Inr)
  from Cons.prems have r: "region_wf r" and rs: "regions_wf rs"
    and rd: "\<forall>s \<in> set rs. regions_disjoint r s" by (auto simp: regions_wf_Cons)
  have cut: "cut_of base stop r ps"
    using split_region_cut [OF r assms(2,3) ps] .
  have IH: "regions_wf qs'" "\<And>a c. has_cell qs' a c \<longleftrightarrow> has_cell rs a c"
     "\<forall>q \<in> set qs'. placed base stop q" "\<forall>q \<in> set qs'. \<exists>r \<in> set rs. piece_of r q"
    using Cons.IH [OF rs qs'] by auto
  have "regions_disjoint p q" if "p \<in> set ps" "q \<in> set qs'" for p q
  proof -
    from that(2) IH(4) obtain s where s: "s \<in> set rs" "piece_of s q" by blast
    moreover have "region_wf s" using s(1) rs by (simp add: regions_wf_def)
    moreover have "piece_of r p" using cut that(1) by (simp add: cut_of_def)
    ultimately show ?thesis using cut_of_disjoint r rd by blast
  qed
  then have "regions_wf qs"
    using cut IH(1) by (simp add: qs regions_wf_append cut_of_def)
  moreover have "\<forall>q \<in> set qs. placed base stop q"
    using cut IH(3) by (auto simp: qs cut_of_def placed_def)
  moreover have "\<forall>q \<in> set qs. \<exists>s \<in> set (r # rs). piece_of s q"
    using cut IH(4) by (auto simp: qs cut_of_def)
  ultimately show ?case using IH(2) cut_of_cells [OF r cut] by (simp add: qs)
qed

lemma split_regions_total:
  "regions_wf rs \<Longrightarrow> base \<le> stop \<Longrightarrow> \<exists>qs. split_regions base stop rs = Inr qs"
proof (induction rs)
  case (Cons r rs)
  then show ?case
    using split_region_total [of r base stop] by (auto simp: regions_wf_Cons)
qed simp

lemma sorted_sort_regions [simp]: "sorted (map r_base (sort_regions rs))"
  by (simp add: sort_regions_def)

lemma split_around_Inr:
  assumes m: "mmu_wf m" and al: "page_aligned base" "page_aligned sz"
    and run: "split_around base sz m = (Inr (), m')"
  shows "mmu_wf m' \<and> (\<forall>a. cell_at m' a = cell_at m a) \<and>
     (\<forall>q \<in> set (m_regions m'). placed base (base + sz) q)"
proof -
  from run obtain qs where qs: "split_regions base (base + sz) (m_regions m) = Inr qs"
    and m': "m' = m\<lparr>m_regions := sort_regions qs\<rparr>"
    by (auto simp: split_around_def bind_def lift_sum_def modify_def split: sum.splits)
  have wf: "regions_wf (m_regions m)" using m by (simp add: mmu_wf_def)
  note S = split_regions_spec [OF wf al(1) page_aligned_add [OF al] qs]
  have wf': "mmu_wf m'" using S m m' by (simp add: mmu_wf_def)
  moreover have "cell_at m' a = cell_at m a" for a
    using wf wf' S m' by (intro option_eqI) (auto simp: cell_at_has_cell mmu_wf_def)
  moreover have "\<forall>q \<in> set (m_regions m'). placed base (base + sz) q"
    using S m' by (simp add: sort_regions_def)
  ultimately show ?thesis by blast
qed

lemma split_around_total:
  assumes "mmu_wf m" and "base \<le> base + sz"
  shows "\<exists>m'. split_around base sz m = (Inr (), m')"
  using split_regions_total [OF _ assms(2), of "m_regions m"] assms(1)
  by (auto simp: split_around_def bind_def lift_sum_def modify_def mmu_wf_def)

lemma split_around_Inl: "split_around base sz m = (Inl e, m') \<Longrightarrow> m' = m"
  by (auto simp: split_around_def bind_def lift_sum_def modify_def split: sum.splits)

section \<open>Unmapping and changing the protection\<close>

text \<open>The page range that a call with \<^verbatim>\<open>base\<close> and \<^verbatim>\<open>size\<close> works on.\<close>

definition in_pages :: "u64 \<Rightarrow> u64 \<Rightarrow> u64 \<Rightarrow> bool" where
  "in_pages base0 size0 a \<longleftrightarrow>
     unat (page_align_down base0) \<le> unat a \<and>
     unat a < unat (page_align_down base0) + unat (page_align_up size0)"

definition pages_fit :: "u64 \<Rightarrow> u64 \<Rightarrow> bool" where
  "pages_fit base0 size0 \<longleftrightarrow>
     unat (page_align_down base0) + unat (page_align_up size0) < 18446744073709551616"

lemma pages_fit_stop:
  "pages_fit base0 size0 \<Longrightarrow>
     unat (page_align_down base0 + page_align_up size0) =
       unat (page_align_down base0) + unat (page_align_up size0)"
  by (simp add: pages_fit_def unat_add_u64)

lemma covered_nat:
  "region_wf r \<Longrightarrow> covered base stop r \<longleftrightarrow> unat base \<le> lo r \<and> hi r \<le> unat stop"
  by (auto simp: covered_def u64_order unat_region_end)

lemma placed_covered:
  assumes "region_wf r" "placed base stop r" "region_contains r a"
  shows "covered base stop r \<longleftrightarrow> unat base \<le> unat a \<and> unat a < unat stop"
  using assms by (auto simp: covered_nat region_contains_nat placed_def)

lemma mmu_wf_map_regions:
  assumes "mmu_wf m"
    and "\<And>r. r_base (f r) = r_base r \<and> r_size (f r) = r_size r \<and>
           length (r_bytes (f r)) = length (r_bytes r) \<and> length (r_init (f r)) = length (r_init r)"
  shows "mmu_wf (m\<lparr>m_regions := map f (m_regions m)\<rparr>)"
proof -
  have "regions_disjoint (f r) (f s) = regions_disjoint r s" for r s
    using assms(2) [of r] assms(2) [of s] by (simp add: regions_disjoint_def region_end_def)
  moreover have "region_wf (f r) = region_wf r" for r
    using assms(2) [of r] by (simp add: region_wf_def)
  moreover have "map r_base (map f rs) = map r_base rs" for rs
    using assms(2) by (simp add: comp_def)
  ultimately show ?thesis
    using assms(1) by (simp add: mmu_wf_def regions_wf_def sorted_wrt_map comp_def assms(2))
qed

lemma mmu_wf_filter: "mmu_wf m \<Longrightarrow> mmu_wf (m\<lparr>m_regions := filter P (m_regions m)\<rparr>)"
  by (simp add: mmu_wf_def regions_wf_filter sorted_filter)


lemma unmap_run:
  assumes m: "mmu_wf m" and z: "size0 \<noteq> 0" and fit: "pages_fit base0 size0"
  shows "\<exists>m'. unmap base0 size0 m = (Inr (), m') \<and> mmu_wf m' \<and>
     (\<forall>a. cell_at m' a = (if in_pages base0 size0 a then None else cell_at m a))"
proof -
  let ?b = "page_align_down base0" and ?z = "page_align_up size0"
  note stop = pages_fit_stop [OF fit]
  have "?b \<le> ?b + ?z" by (simp add: u64_order stop)
  then obtain m1 where run: "split_around ?b ?z m = (Inr (), m1)"
    using split_around_total [OF m] by blast
  from split_around_Inr [OF m _ _ run] have m1: "mmu_wf m1"
    and same: "\<And>a. cell_at m1 a = cell_at m a"
    and pl: "\<And>q. q \<in> set (m_regions m1) \<Longrightarrow> placed ?b (?b + ?z) q" by auto
  let ?m' = "m1\<lparr>m_regions := filter (\<lambda>r. \<not> covered ?b (?b + ?z) r) (m_regions m1)\<rparr>"
  have wf': "mmu_wf ?m'" using mmu_wf_filter [OF m1] by blast
  have cov: "covered ?b (?b + ?z) r \<longleftrightarrow> in_pages base0 size0 a"
    if "r \<in> set (m_regions m1)" "region_contains r a" for r a
    using placed_covered [OF _ pl [OF that(1)] that(2)] m1 that
    by (simp add: mmu_wf_def regions_wf_def stop in_pages_def)
  have "cell_at ?m' a = (if in_pages base0 size0 a then None else cell_at m1 a)" for a
  proof (rule option_eqI)
    fix c
    have "cell_at ?m' a = Some c \<longleftrightarrow>
      (\<exists>r \<in> set (m_regions m1). \<not> covered ?b (?b + ?z) r \<and> region_contains r a \<and> region_cell r a = c)"
      using wf' by (subst cell_at_Some) (auto simp: mmu_wf_def)
    also have "\<dots> \<longleftrightarrow> \<not> in_pages base0 size0 a \<and> cell_at m1 a = Some c"
      using m1 cov by (subst cell_at_Some) (auto simp: mmu_wf_def)
    finally show "cell_at ?m' a = Some c \<longleftrightarrow>
      (if in_pages base0 size0 a then None else cell_at m1 a) = Some c" by simp
  qed
  with wf' same z show ?thesis
    by (intro exI [of _ ?m']) (simp add: unmap_def Let_def seq_def bind_def run modify_def)
qed

definition set_cell_prot :: "u32 \<Rightarrow> cell \<Rightarrow> cell" where
  "set_cell_prot prot c = Cell (cell_byte c) (cell_init c) prot"

lemma find_map_keep: "(\<And>x. P (f x) = P x) \<Longrightarrow> find P (map f xs) = map_option f (find P xs)"
  by (induction xs) auto

lemma find_region_map:
  "(\<And>r. region_contains (f r) a = region_contains r a) \<Longrightarrow>
     find_region (m\<lparr>m_regions := map f (m_regions m)\<rparr>) a = map_option f (find_region m a)"
  by (simp add: find_region_def find_map_keep)

lemma protect_run:
  assumes m: "mmu_wf m" and z: "size0 \<noteq> 0" and fit: "pages_fit base0 size0"
  shows "\<exists>m'. protect base0 size0 prot m = (Inr (), m') \<and> mmu_wf m' \<and>
     (\<forall>a. cell_at m' a =
        (if in_pages base0 size0 a then map_option (set_cell_prot prot) (cell_at m a)
         else cell_at m a))"
proof -
  let ?b = "page_align_down base0" and ?z = "page_align_up size0"
  let ?f = "\<lambda>r. if covered ?b (?b + ?z) r then r\<lparr>r_prot := prot\<rparr> else r"
  note stop = pages_fit_stop [OF fit]
  have "?b \<le> ?b + ?z" by (simp add: u64_order stop)
  then obtain m1 where run: "split_around ?b ?z m = (Inr (), m1)"
    using split_around_total [OF m] by blast
  from split_around_Inr [OF m _ _ run] have m1: "mmu_wf m1"
    and same: "\<And>a. cell_at m1 a = cell_at m a"
    and pl: "\<And>q. q \<in> set (m_regions m1) \<Longrightarrow> placed ?b (?b + ?z) q" by auto
  let ?m' = "m1\<lparr>m_regions := map ?f (m_regions m1)\<rparr>"
  have wf': "mmu_wf ?m'" by (rule mmu_wf_map_regions [OF m1]) simp
  have cov: "covered ?b (?b + ?z) r \<longleftrightarrow> in_pages base0 size0 a"
    if "r \<in> set (m_regions m1)" "region_contains r a" for r a
    using placed_covered [OF _ pl [OF that(1)] that(2)] m1 that
    by (simp add: mmu_wf_def regions_wf_def stop in_pages_def)
  have con: "region_contains (?f r) a = region_contains r a" for r a
    by (simp add: region_contains_def region_end_def)
  have cel: "region_cell (?f r) a =
      (if in_pages base0 size0 a then set_cell_prot prot (region_cell r a) else region_cell r a)"
    if "r \<in> set (m_regions m1)" "region_contains r a" for r a
    using cov [OF that] by (simp add: region_cell_def set_cell_prot_def)
  have "cell_at ?m' a = (if in_pages base0 size0 a then map_option (set_cell_prot prot) (cell_at m1 a)
      else cell_at m1 a)" for a
  proof (cases "find_region m1 a")
    case (Some r)
    then have "r \<in> set (m_regions m1) \<and> region_contains r a"
      using m1 by (simp add: mmu_wf_def find_region_iff)
    with Some show ?thesis
      using find_region_map [of ?f a m1, OF con] cel [of r a] by (simp add: cell_at_def)
  qed (use find_region_map [of ?f a m1, OF con] in \<open>simp add: cell_at_def\<close>)
  with wf' same z show ?thesis
    by (intro exI [of _ ?m']) (simp add: protect_def Let_def seq_def bind_def run modify_def)
qed

text \<open>Whatever the arguments, the invariant survives, and a failed call changes nothing.\<close>

lemma unmap_preserves [pres]: "preserves mmu_wf (unmap base0 size0)"
proof (rule preservesI)
  fix m assume m: "mmu_wf m"
  show "mmu_wf (snd (unmap base0 size0 m))"
  proof (cases "split_around (page_align_down base0) (page_align_up size0) m")
    case (Pair res m1)
    have "mmu_wf m1"
      using Pair split_around_Inr [OF m, of "page_align_down base0" "page_align_up size0" m1] m
      by (cases res) (auto dest: split_around_Inl)
    with Pair m show ?thesis
      by (cases res) (auto simp: unmap_def Let_def monad_defs mmu_wf_filter)
  qed
qed

lemma protect_preserves [pres]: "preserves mmu_wf (protect base0 size0 prot)"
proof (rule preservesI)
  fix m assume m: "mmu_wf m"
  show "mmu_wf (snd (protect base0 size0 prot m))"
  proof (cases "split_around (page_align_down base0) (page_align_up size0) m")
    case (Pair res m1)
    have "mmu_wf m1"
      using Pair split_around_Inr [OF m, of "page_align_down base0" "page_align_up size0" m1] m
      by (cases res) (auto dest: split_around_Inl)
    with Pair m show ?thesis
      by (cases res) (auto simp: protect_def Let_def monad_defs intro!: mmu_wf_map_regions)
  qed
qed

section \<open>New mappings\<close>

lemma ensure_no_overlap_Inr:
  "ensure_no_overlap rs base sz = Inr u \<longleftrightarrow>
     sz \<noteq> 0 \<and> base \<le> base + sz \<and> (\<forall>r \<in> set rs. \<not> ranges_overlap base (base + sz) r)"
  by (auto simp: ensure_no_overlap_def Let_def find_None_iff find_Some_iff not_less
      split: option.splits)

lemma no_wrap_nat: "sz \<noteq> 0 \<Longrightarrow> (base::u64) \<le> base + sz \<Longrightarrow>
   unat base + unat sz < 18446744073709551616 \<and> unat (base + sz) = unat base + unat sz"
  using u64_bound [of sz] unat_add_u64 [of base sz] by (auto simp: u64_order split: if_splits)

text \<open>A fresh region that overlaps no other can be inserted.\<close>

lemma insert_region_spec:
  assumes m: "mmu_wf m" and r: "region_wf r"
    and free: "\<forall>s \<in> set (m_regions m). \<not> ranges_overlap (r_base r) (region_end r) s"
  shows "mmu_wf (insert_region r m) \<and>
    (\<forall>a. cell_at (insert_region r m) a =
       (if region_contains r a then Some (region_cell r a) else cell_at m a)) \<and>
    (\<forall>a. region_contains r a \<longrightarrow> cell_at m a = None)"
proof -
  have dis: "regions_disjoint s r" if "s \<in> set (m_regions m)" for s
    using free that by (auto simp: ranges_overlap_def regions_disjoint_def not_less)
  have "regions_wf [r]" using r by (simp add: regions_wf_def)
  then have wf: "mmu_wf (insert_region r m)"
    using m dis by (simp add: mmu_wf_def insert_region_def regions_wf_append)
  have new: "cell_at m a = None" if "region_contains r a" for a
    using that dis unfolding cell_at_None regions_disjoint_def region_contains_def by force
  have "cell_at (insert_region r m) a =
       (if region_contains r a then Some (region_cell r a) else cell_at m a)" for a
  proof (rule option_eqI)
    fix c
    have "cell_at (insert_region r m) a = Some c \<longleftrightarrow>
        has_cell (m_regions m) a c \<or> region_contains r a \<and> region_cell r a = c"
      using wf by (subst cell_at_has_cell) (auto simp: mmu_wf_def insert_region_def)
    moreover have "has_cell (m_regions m) a c \<longleftrightarrow> cell_at m a = Some c"
      using m by (simp add: cell_at_has_cell mmu_wf_def)
    ultimately show "cell_at (insert_region r m) a = Some c \<longleftrightarrow>
        (if region_contains r a then Some (region_cell r a) else cell_at m a) = Some c"
      using new by auto
  qed
  with wf new show ?thesis by blast
qed


text \<open>What a call that maps \<open>size0\<close> bytes at \<open>base0\<close> does, given the content of the new cells.\<close>

definition maps_range ::
  "u64 \<Rightarrow> u64 \<Rightarrow> (u64 \<Rightarrow> cell) \<Rightarrow> mmu \<Rightarrow> mmu \<Rightarrow> bool" where
  "maps_range base0 size0 content m m' \<longleftrightarrow>
     mmu_wf m' \<and> page_align_up size0 \<noteq> 0 \<and> pages_fit base0 size0 \<and>
     (\<forall>a. in_pages base0 size0 a \<longrightarrow> cell_at m a = None) \<and>
     (\<forall>a. cell_at m' a =
        (if in_pages base0 size0 a then Some (content a) else cell_at m a))"

lemma insert_maps_range:
  assumes m: "mmu_wf m"
    and no: "ensure_no_overlap (m_regions m) (page_align_down base0) (page_align_up size0) = Inr u"
    and r: "r_base r = page_align_down base0" "r_size r = page_align_up size0"
      "length (r_bytes r) = unat (r_size r)" "length (r_init r) = unat (r_size r)"
    and content: "\<And>a. in_pages base0 size0 a \<Longrightarrow> region_cell r a = content a"
  shows "maps_range base0 size0 content m (insert_region r m)"
proof -
  let ?b = "page_align_down base0" and ?z = "page_align_up size0"
  from no have z: "?z \<noteq> 0" and le: "?b \<le> ?b + ?z"
    and free: "\<forall>s \<in> set (m_regions m). \<not> ranges_overlap ?b (?b + ?z) s"
    by (auto simp: ensure_no_overlap_Inr)
  note nat = no_wrap_nat [OF z le]
  have wf: "region_wf r" using r nat by (simp add: region_wf_def)
  have con: "region_contains r a \<longleftrightarrow> in_pages base0 size0 a" for a
    using wf r by (simp add: region_contains_nat in_pages_def)
  have "region_end r = ?b + ?z" by (simp add: region_end_def r)
  with insert_region_spec [OF m wf] free r con content nat z show ?thesis
    by (auto simp: maps_range_def pages_fit_def)
qed

lemma in_pages_offset:
  "in_pages base0 size0 a \<Longrightarrow>
     unat (a - page_align_down base0) = unat a - unat (page_align_down base0) \<and>
     unat (a - page_align_down base0) < unat (page_align_up size0)"
  by (auto simp: in_pages_def unat_sub_u64 u64_order)

lemma map_zeroed_run:
  assumes "mmu_wf m" and "map_zeroed base0 size0 prot name m = (res, m')"
  shows "case res of Inl e \<Rightarrow> m' = m
    | Inr _ \<Rightarrow> maps_range base0 size0 (\<lambda>_. Cell 0 True prot) m m'"
proof (cases "ensure_no_overlap (m_regions m) (page_align_down base0) (page_align_up size0)")
  case (Inl e)
  from assms(2) have "res = Inl e \<and> m' = m" by (auto simp: map_zeroed_def Let_def monad_defs Inl)
  then show ?thesis by simp
next
  case (Inr u)
  with assms have "res = Inr ()" and m': "m' = insert_region
      (new_simple_region (page_align_down base0) (page_align_up size0) prot name) m"
    by (auto simp: map_zeroed_def Let_def monad_defs)
  moreover have "region_cell (new_simple_region (page_align_down base0) (page_align_up size0) prot name) a = Cell 0 True prot"
    if "in_pages base0 size0 a" for a
    using in_pages_offset [OF that, THEN conjunct2] by (simp add: new_simple_region_def region_cell_def)
  ultimately show ?thesis
    using insert_maps_range [OF assms(1) Inr, of
        "new_simple_region (page_align_down base0) (page_align_up size0) prot name"]
    by (simp add: new_simple_region_def)
qed

lemma map_mmap_run:
  assumes "mmu_wf m" and "map_mmap base0 size0 prot name path fo m = (res, m')"
  shows "case res of Inl e \<Rightarrow> m' = m
    | Inr _ \<Rightarrow> maps_range base0 size0 (\<lambda>_. Cell 0 True prot) m m'"
proof (cases "ensure_no_overlap (m_regions m) (page_align_down base0) (page_align_up size0)")
  case (Inl e)
  from assms(2) have "res = Inl e \<and> m' = m" by (auto simp: map_mmap_def Let_def monad_defs Inl)
  then show ?thesis by simp
next
  case (Inr u)
  with assms have "res = Inr ()" and m': "m' = insert_region
      (new_mmap_region (page_align_down base0) (page_align_up size0) prot name path fo) m"
    by (auto simp: map_mmap_def Let_def monad_defs)
  moreover have "region_cell (new_mmap_region (page_align_down base0) (page_align_up size0) prot name path fo) a = Cell 0 True prot"
    if "in_pages base0 size0 a" for a
    using in_pages_offset [OF that, THEN conjunct2] by (simp add: new_mmap_region_def region_cell_def)
  ultimately show ?thesis
    using insert_maps_range [OF assms(1) Inr, of
        "new_mmap_region (page_align_down base0) (page_align_up size0) prot name path fo"]
    by (simp add: new_mmap_region_def)
qed

text \<open>The bytes a file-backed mapping starts with: the source at its offset, zeros elsewhere.\<close>

definition image_byte :: "u64 \<Rightarrow> u8 list \<Rightarrow> u64 \<Rightarrow> u64 \<Rightarrow> u8" where
  "image_byte base0 source off a =
     (let i = unat (a - page_align_down base0) in
      if unat off \<le> i \<and> i < unat off + length source then source ! (i - unat off) else 0)"

lemma map_bytes_run:
  assumes m: "mmu_wf m" and run: "map_bytes base0 size0 prot source off name m = (res, m')"
  shows "case res of Inl e \<Rightarrow> m' = m
    | Inr _ \<Rightarrow> maps_range base0 size0 (\<lambda>a. Cell (image_byte base0 source off a) True prot) m m'"
proof -
  let ?b = "page_align_down base0" and ?z = "page_align_up size0"
  let ?bytes = "replicate (unat off) 0 @ source
                 @ replicate (unat ?z - unat off - length source) 0"
  let ?r = "\<lparr>r_base = ?b, r_size = ?z, r_prot = prot, r_name = name, r_kind = SimpleRegion,
             r_bytes = ?bytes, r_init = replicate (unat ?z) True\<rparr>"
  show ?thesis
  proof (cases res)
    case (Inl e)
    with run show ?thesis
      by (auto simp: map_bytes_def Let_def monad_defs split: sum.splits if_splits)
  next
    case (Inr u)
    with run have no: "ensure_no_overlap (m_regions m) ?b ?z = Inr ()"
      and fit: "off \<le> ?z" "length source \<le> unat (?z - off)"
      by (auto simp: map_bytes_def Let_def monad_defs split: sum.splits if_splits)
    then have len: "length ?bytes = unat ?z" by (simp add: unat_sub_u64 u64_order)
    with run Inr fit have m': "m' = insert_region ?r m"
      by (auto simp: map_bytes_def Let_def monad_defs new_simple_region_bytes_def
          split: sum.splits if_splits)
    have "?bytes ! i = (if unat off \<le> i \<and> i < unat off + length source
        then source ! (i - unat off) else 0)" if "i < unat ?z" for i
      using that len by (auto simp: nth_append)
    then have "region_cell ?r a = Cell (image_byte base0 source off a) True prot"
      if "in_pages base0 size0 a" for a
      using in_pages_offset [OF that] by (simp add: region_cell_def image_byte_def Let_def)
    with insert_maps_range [OF m no, of ?r] len m' Inr show ?thesis by simp
  qed
qed

lemma maps_range_preserves:
  assumes "\<And>m res m'. mmu_wf m \<Longrightarrow> f m = (res, m') \<Longrightarrow>
     (case res of Inl (e::exn) \<Rightarrow> m' = m | Inr (_::unit) \<Rightarrow> maps_range base0 size0 g m m')"
  shows "preserves mmu_wf f"
proof (rule preservesI)
  fix m assume "mmu_wf m"
  with assms [OF this, of "fst (f m)" "snd (f m)"] show "mmu_wf (snd (f m))"
    by (auto simp: maps_range_def split: sum.splits)
qed

lemma map_preserves [pres]:
  "preserves mmu_wf (map_zeroed base0 size0 prot name)"
  "preserves mmu_wf (map_mmap base0 size0 prot name path fo)"
  "preserves mmu_wf (map_bytes base0 size0 prot source off name)"
  by (rule maps_range_preserves, erule (1) map_zeroed_run map_mmap_run map_bytes_run)+

section \<open>Allocation\<close>

lemma allocation_candidate_page:
  "page_aligned next \<Longrightarrow> allocation_candidate next page_size = next"
  using page_align_up_aligned [of "next"] by (simp add: allocation_candidate_def page_align_up_def)

text \<open>
  With page alignment the search ends: each collision moves the candidate up, to the end of a
  region, and addresses are bounded.
\<close>

lemma find_slot_total:
  assumes rs: "\<forall>r \<in> set rs. region_wf r" and al: "page_aligned next"
  shows "\<exists>c. find_slot rs sz page_size next = Some (c, c) \<and> page_aligned c \<and> next \<le> c \<and>
     (\<forall>r \<in> set rs. \<not> allocation_collides c sz r)"
  using al
proof (induction "18446744073709551616 - unat next" arbitrary: "next" rule: less_induct)
  case less
  note cand = allocation_candidate_page [OF less.prems]
  show ?case
  proof (cases "find (allocation_collides next sz) rs")
    case None
    then have "\<forall>r \<in> set rs. \<not> allocation_collides next sz r" by (simp add: find_None_iff)
    moreover have "find_slot rs sz page_size next = Some (next, next)"
      by (subst find_slot.simps) (simp add: cand None)
    ultimately show ?thesis using less.prems by blast
  next
    case (Some r)
    then have r: "r \<in> set rs" "next < region_end r"
      by (auto simp: find_Some_iff allocation_collides_def)
    then have "page_aligned (region_end r)"
      using rs by (simp add: region_wf_def region_end_def page_aligned_add)
    then have up: "page_align_up (region_end r) = region_end r" "page_aligned (region_end r)"
      by (simp_all add: page_align_up_aligned)
    moreover have "18446744073709551616 - unat (region_end r) < 18446744073709551616 - unat next"
      using r(2) u64_bound [of "region_end r"] by (simp add: u64_order)
    ultimately obtain c where c: "find_slot rs sz page_size (region_end r) = Some (c, c)"
        "page_aligned c" "region_end r \<le> c" "\<forall>r \<in> set rs. \<not> allocation_collides c sz r"
      using less.hyps by blast
    moreover have "find_slot rs sz page_size next = Some (c, c)"
      by (subst find_slot.simps) (simp add: cand Some up c(1))
    moreover have "next \<le> c" using r(2) c(3) by simp
    ultimately show ?thesis by blast
  qed
qed

lemma allocate_mmap_run:
  assumes m: "mmu_wf m" and al: "alignment \<le> page_size"
    and run: "allocate_mmap size0 alignment prot name path fo m = (res, m')"
  shows "mmu_wf m' \<and> (case res of
      Inl e \<Rightarrow> (e = EmulatorError ZeroSizeMapping \<or> e = EmulatorError MappingOverflow) \<and>
        m_regions m' = m_regions m
    | Inr c \<Rightarrow> page_aligned c \<and> m_next_allocation m' = c + page_align_up size0 \<and>
        maps_range c size0 (\<lambda>_. Cell 0 True prot) m m')"
proof -
  let ?z = "page_align_up size0"
  have mx: "max page_size alignment = page_size" using al by simp
  from m have rs: "\<forall>r \<in> set (m_regions m). region_wf r" and nx: "page_aligned (m_next_allocation m)"
    by (auto simp: mmu_wf_def regions_wf_def)
  from find_slot_total [OF rs nx] obtain c where
    c: "find_slot (m_regions m) ?z page_size (m_next_allocation m) = Some (c, c)"
      "page_aligned c" "\<forall>r \<in> set (m_regions m). \<not> allocation_collides c ?z r" by blast
  let ?m1 = "m\<lparr>m_next_allocation := c\<rparr>"
  have m1: "mmu_wf ?m1" using m c(2) by (simp add: mmu_wf_def)
  have zz: "page_align_up ?z = ?z" by (simp add: page_align_up_aligned)
  have rng: "maps_range c ?z g m' m'' = maps_range c size0 g m' m''" for g m' m''
    by (simp add: maps_range_def in_pages_def pages_fit_def zz)
  obtain res1 m2 where mm: "map_mmap c ?z prot name path fo ?m1 = (res1, m2)" by fastforce
  note R = map_mmap_run [OF m1 mm]
  have none: "find (ranges_overlap c (c + ?z)) (m_regions m) = None"
    using c(3) by (auto simp: find_None_iff ranges_overlap_def allocation_collides_def)
  show ?thesis
  proof (cases res1)
    case (Inl e)
    then have "e = EmulatorError ZeroSizeMapping \<or> e = EmulatorError MappingOverflow"
      using mm none zz by (auto simp: map_mmap_def monad_defs ensure_no_overlap_def Let_def
          page_align_down_aligned [OF c(2)] split: if_splits sum.splits)
    then show ?thesis
      using run R Inl mm c m1 mx
      by (auto simp: allocate_mmap_def Let_def monad_defs split: sum.splits prod.splits)
  next
    case (Inr u)
    with run c mm mx have res: "res = Inr c" and m': "m' = m2\<lparr>m_next_allocation := c + ?z\<rparr>"
      by (auto simp: allocate_mmap_def Let_def monad_defs split: sum.splits prod.splits)
    have cells: "cell_at (m2\<lparr>m_next_allocation := x\<rparr>) a = cell_at m2 a"
      "cell_at (m\<lparr>m_next_allocation := x\<rparr>) a = cell_at m a" for x a
      by (simp_all add: cell_at_def find_region_def)
    have "maps_range c size0 (\<lambda>_. Cell 0 True prot) ?m1 m2" using R Inr rng by simp
    then have "maps_range c size0 (\<lambda>_. Cell 0 True prot) m m'"
      using c(2) m' cells by (simp add: maps_range_def mmu_wf_def page_aligned_add)
    with res m' c(2) show ?thesis by (simp add: maps_range_def)
  qed
qed

lemma initial_mmu_wf: "mmu_wf initial_mmu"
  by (simp add: mmu_wf_def initial_mmu_def regions_wf_def page_aligned_iff)

end
