(* ===== verification/MMU_Access.thy ===== *)
theory MMU_Access
  imports MMU_Spec
begin

text \<open>
  Byte access through the address space: what a lookup, a read and a write of one byte do on the
  abstract map of theory \<^verbatim>\<open>MMU_Spec\<close>, and the interface \<open>byte_memory\<close> from which the
  multi-byte accesses are derived once for every memory that offers it.
\<close>

section \<open>Permissions\<close>

definition cell_allows :: "u32 \<Rightarrow> cell \<Rightarrow> bool" where
  "cell_allows prot c \<longleftrightarrow> cell_prot c AND prot = prot"

definition accessible :: "mmu \<Rightarrow> u32 \<Rightarrow> u64 \<Rightarrow> bool" where
  "accessible m prot a = (case cell_at m a of None \<Rightarrow> False | Some c \<Rightarrow> cell_allows prot c)"

lemma region_for_spec:
  assumes "regions_wf (m_regions m)"
  shows "region_for m a prot =
    (case cell_at m a of
       None \<Rightarrow> Inl (EmulatorError (UnmappedMemory a))
     | Some c \<Rightarrow>
         if cell_allows prot c then Inr (the (find_region m a))
         else Inl (EmulatorError (PermissionFault a)))"
  by (auto simp: region_for_def cell_at_def region_cell_def cell_allows_def split: option.splits)

lemma region_index:
  assumes "region_wf r" and "region_contains r a"
  shows "unat (a - r_base r) < unat (r_size r)"
    and "unat (a - r_base r) < length (r_bytes r)" and "unat (a - r_base r) < length (r_init r)"
proof -
  have "lo r \<le> unat a" and "unat a < hi r" using assms by (simp_all add: region_contains_nat)
  then show "unat (a - r_base r) < unat (r_size r)" by (simp add: unat_sub_u64 u64_order)
  then show "unat (a - r_base r) < length (r_bytes r)" "unat (a - r_base r) < length (r_init r)"
    using assms(1) by (simp_all add: region_wf_def)
qed

lemma find_region_wf:
  "regions_wf (m_regions m) \<Longrightarrow> find_region m a = Some r \<Longrightarrow>
     region_wf r \<and> region_contains r a \<and> r \<in> set (m_regions m)"
  by (simp add: find_region_iff regions_wf_def)

lemma read8_cell:
  assumes "regions_wf (m_regions m)"
  shows "read8 m a =
    (case cell_at m a of
       None \<Rightarrow> Inl (EmulatorError (UnmappedMemory a))
     | Some c \<Rightarrow>
         if cell_allows ProtRead c then Inr (cell_byte c)
         else Inl (EmulatorError (PermissionFault a)))"
proof (cases "find_region m a")
  case None
  then show ?thesis by (simp add: read8_def region_for_def cell_at_def)
next
  case (Some r)
  then show ?thesis
    using find_region_wf [OF assms Some] region_index(2) [of r a]
    by (auto simp: read8_def region_for_def cell_at_def region_cell_def cell_allows_def
        read_offset_def)
qed

section \<open>Updating one region\<close>

lemma replace_first_find_other:
  assumes "\<And>s. s \<in> set rs \<Longrightarrow> p s \<Longrightarrow> q s = q r'"
  shows "find q (replace_first p r' rs) =
    (case find p rs of None \<Rightarrow> find q rs
     | Some r \<Rightarrow> if q r' \<and> find q rs = Some r then Some r' else find q rs)"
  using assms
proof (induction rs)
  case (Cons s rs)
  show ?case
  proof (cases "p s")
    case True
    with Cons.prems [of s] show ?thesis by simp
  next
    case False
    have "find p rs = Some r \<Longrightarrow> s \<noteq> r" for r using False by (auto simp: find_Some_iff)
    with Cons.IH Cons.prems False show ?thesis by (simp split: option.split)
  qed
qed simp

lemma map_replace_first:
  assumes "find p rs = Some r" and "f r' = f r"
  shows "map f (replace_first p r' rs) = map f rs"
  using assms by (induction rs) (auto split: if_splits)

text \<open>The layout of a region: everything but the bytes and their shadow.\<close>

definition region_layout :: "region \<Rightarrow> u64 \<times> u64 \<times> u32 \<times> string \<times> region_kind \<times> nat \<times> nat" where
  "region_layout r = (r_base r, r_size r, r_prot r, r_name r, r_kind r,
     length (r_bytes r), length (r_init r))"

definition mmu_layout :: "mmu \<Rightarrow> (u64 \<times> u64 \<times> u32 \<times> string \<times> region_kind \<times> nat \<times> nat) list \<times> u64" where
  "mmu_layout m = (map region_layout (m_regions m), m_next_allocation m)"

lemma region_layout_same:
  assumes "region_layout r = region_layout s"
  shows "region_wf r = region_wf s" "region_contains r a = region_contains s a"
    "regions_disjoint r t = regions_disjoint s t" "regions_disjoint t r = regions_disjoint t s"
  using assms
  by (simp_all add: region_layout_def region_wf_def region_contains_def regions_disjoint_def
      region_end_def)

lemma layout_regions_wf:
  assumes "map region_layout rs = map region_layout ss" and "regions_wf rs"
  shows "regions_wf ss"
  using assms
proof (induction rs arbitrary: ss)
  case (Cons r rs)
  from Cons.prems(1) obtain s ss' where ss: "ss = s # ss'" "region_layout r = region_layout s"
    "map region_layout rs = map region_layout ss'" by (cases ss) auto
  have "regions_disjoint s t" if "t \<in> set ss'" for t
  proof -
    have "region_layout t \<in> region_layout ` set rs" using that ss(3) by (metis image_eqI set_map)
    then obtain q where q: "q \<in> set rs" "region_layout t = region_layout q" by auto
    then have "regions_disjoint r q" using Cons.prems by (simp add: regions_wf_Cons)
    then show ?thesis
      using region_layout_same(3) [OF ss(2)] region_layout_same(4) [OF q(2)] by metis
  qed
  moreover have "regions_wf ss'" using Cons.IH [OF ss(3)] Cons.prems by (simp add: regions_wf_Cons)
  moreover have "region_wf s"
    using region_layout_same(1) [OF ss(2)] Cons.prems by (simp add: regions_wf_Cons)
  ultimately show ?case by (simp add: ss(1) regions_wf_Cons)
qed simp

lemma layout_mmu_wf:
  assumes "mmu_layout m = mmu_layout m'" and "mmu_wf m"
  shows "mmu_wf m'"
proof -
  have "map r_base rs = map fst (map region_layout rs)" for rs
    by (simp add: region_layout_def comp_def)
  then have "map r_base (m_regions m) = map r_base (m_regions m')"
    using assms(1) by (simp only: mmu_layout_def prod.inject)
  then show ?thesis
    using assms layout_regions_wf [of "m_regions m" "m_regions m'"]
    by (auto simp: mmu_wf_def mmu_layout_def)
qed

text \<open>An operation on the region containing an address that keeps the region's layout.\<close>

lemma with_region_run:
  assumes m: "mmu_wf m" and acc: "accessible m prot a"
    and f: "\<And>r. region_wf r \<Longrightarrow> region_contains r a \<Longrightarrow>
       \<exists>r'. f r r = (Inr x, r') \<and> region_layout r' = region_layout r \<and>
         region_cell r' a = g (region_cell r a) \<and>
         (\<forall>b. b \<noteq> a \<longrightarrow> region_contains r b \<longrightarrow> region_cell r' b = region_cell r b)"
  shows "\<exists>m'. with_region a prot f m = (Inr x, m') \<and> mmu_wf m' \<and> mmu_layout m' = mmu_layout m \<and>
     cell_at m' = (cell_at m)(a := map_option g (cell_at m a))"
proof -
  have wf: "regions_wf (m_regions m)" using m by (simp add: mmu_wf_def)
  from acc obtain r where r: "find_region m a = Some r"
    by (auto simp: accessible_def cell_at_def split: option.splits)
  note R = find_region_wf [OF wf r]
  from f [of r] R obtain r' where r': "f r r = (Inr x, r')" "region_layout r' = region_layout r"
    "region_cell r' a = g (region_cell r a)"
    "\<And>b. b \<noteq> a \<Longrightarrow> region_contains r b \<Longrightarrow> region_cell r' b = region_cell r b" by blast
  let ?m' = "m\<lparr>m_regions := replace_first (\<lambda>r. region_contains r a) r' (m_regions m)\<rparr>"
  have run: "with_region a prot f m = (Inr x, ?m')"
    using acc r r'(1) by (simp add: with_region_def region_for_def accessible_def cell_at_def
        region_cell_def cell_allows_def)
  have layout: "mmu_layout ?m' = mmu_layout m"
    using map_replace_first [OF r [unfolded find_region_def], of region_layout r'] r'(2)
    by (simp add: mmu_layout_def)
  have "find_region ?m' b = (if find_region m b = Some r then Some r' else find_region m b)" for b
  proof -
    have "s = r" if "s \<in> set (m_regions m)" "region_contains s a" for s
      using regions_wf_unique [OF wf that(1)] R that(2) by blast
    then have "find (\<lambda>r. region_contains r b) (replace_first (\<lambda>r. region_contains r a) r' (m_regions m)) =
       (case find (\<lambda>r. region_contains r a) (m_regions m) of None \<Rightarrow> find (\<lambda>r. region_contains r b) (m_regions m)
        | Some r \<Rightarrow> if region_contains r' b \<and> find (\<lambda>r. region_contains r b) (m_regions m) = Some r
                    then Some r' else find (\<lambda>r. region_contains r b) (m_regions m))"
      using region_layout_same(2) [OF r'(2)] by (intro replace_first_find_other) blast
    then show ?thesis
      using r find_region_wf [OF wf, of b r] region_layout_same(2) [OF r'(2)]
      by (auto simp: find_region_def)
  qed
  then have "cell_at ?m' b = (if b = a then map_option g (cell_at m a) else cell_at m b)" for b
    using r r'(3) r'(4) [of b] find_region_wf [OF wf, of b r] by (auto simp: cell_at_def)
  then have "cell_at ?m' = (cell_at m)(a := map_option g (cell_at m a))" by (auto simp: fun_eq_iff)
  with run layout layout_mmu_wf [OF layout [symmetric] m] show ?thesis by blast
qed

text \<open>With no accessible cell the call is the fault of \<^verbatim>\<open>region_for\<close>, and nothing changes.\<close>

lemma with_region_fault:
  assumes "\<not> accessible m prot a"
  shows "\<exists>e. with_region a prot f m = (Inl (EmulatorError e), m)"
  using assms
  by (auto simp: with_region_def region_for_def accessible_def cell_at_def region_cell_def
      cell_allows_def split: option.splits)


section \<open>One byte written\<close>

definition set_cell_value :: "u8 \<Rightarrow> bool \<Rightarrow> cell \<Rightarrow> cell" where
  "set_cell_value v i c = Cell v i (cell_prot c)"

definition set_cell_init :: "bool \<Rightarrow> cell \<Rightarrow> cell" where
  "set_cell_init i c = Cell (cell_byte c) i (cell_prot c)"

lemma offset_eq_iff: "(a - base :: u64) = b - base \<longleftrightarrow> a = b"
  by simp

lemma unat_offset_eq: "unat (a - base :: u64) = unat (b - base) \<longleftrightarrow> a = b"
  by (simp add: word_unat_eq_iff [symmetric])

lemma write_offset_cells:
  assumes "region_wf r" and "region_contains r a"
  shows "\<exists>r'. write_offset (a - r_base r) v i r = (Inr (), r') \<and> region_layout r' = region_layout r \<and>
    region_cell r' a = set_cell_value v i (region_cell r a) \<and>
    (\<forall>b. b \<noteq> a \<longrightarrow> region_contains r b \<longrightarrow> region_cell r' b = region_cell r b)"
  using region_index [OF assms]
  by (auto simp: write_offset_def set_offset_initialized_def region_layout_def region_cell_def
      set_cell_value_def nth_list_update unat_offset_eq)

lemma set_init_cells:
  assumes "region_wf r" and "region_contains r a"
  shows "\<exists>r'. set_offset_initialized (a - r_base r) i r = (Inr (), r') \<and>
    region_layout r' = region_layout r \<and>
    region_cell r' a = set_cell_init i (region_cell r a) \<and>
    (\<forall>b. b \<noteq> a \<longrightarrow> region_contains r b \<longrightarrow> region_cell r' b = region_cell r b)"
  using region_index [OF assms]
  by (auto simp: set_offset_initialized_def region_layout_def region_cell_def
      set_cell_init_def nth_list_update unat_offset_eq)

lemma store8_run:
  assumes "mmu_wf m" and "accessible m ProtWrite a"
  shows "\<exists>m'. store8 a v i m = (Inr (), m') \<and> mmu_wf m' \<and> mmu_layout m' = mmu_layout m \<and>
     cell_at m' = (cell_at m)(a := map_option (set_cell_value v i) (cell_at m a))"
  unfolding store8_def by (rule with_region_run [OF assms]) (rule write_offset_cells)

lemma set_init_run:
  assumes "mmu_wf m" and "accessible m ProtRead a"
  shows "\<exists>m'. with_region a ProtRead (\<lambda>r. set_offset_initialized (a - r_base r) i) m = (Inr (), m') \<and>
     mmu_wf m' \<and> mmu_layout m' = mmu_layout m \<and>
     cell_at m' = (cell_at m)(a := map_option (set_cell_init i) (cell_at m a))"
  by (rule with_region_run [OF assms]) (rule set_init_cells)

section \<open>Memories of bytes\<close>

text \<open>The bytes of a little-endian word, as the store loops compute them.\<close>

definition word_byte :: "'a::len word \<Rightarrow> nat \<Rightarrow> u8" where
  "word_byte v i = ucast (drop_bit (i * 8) v)"

text \<open>Consecutive 64-bit stores, each a loop over its bytes.\<close>

fun store_words :: "(u64 \<Rightarrow> u8 \<Rightarrow> ('s, unit) smon) \<Rightarrow> u64 \<Rightarrow> u64 list \<Rightarrow> ('s, unit) smon" where
  "store_words wr a [] = return ()"
| "store_words wr a (w # ws) =
     seq (for_loop 0 8 (\<lambda>i. wr (a + of_nat i) (word_byte w i))) (store_words wr (a + 8) ws)"

lemma offset_past_word: "8 \<le> unat (x - a :: u64) \<Longrightarrow> unat (x - (a + 8)) = unat (x - a) - 8"
  using unat_sub_u64 [of 8 "x - a"] by (simp add: diff_diff_eq u64_order)

lemma offset_in_word:
  assumes "unat (x - a :: u64) < 8"
  shows "18446744073709551608 \<le> unat (x - (a + 8))"
  using unat_sub_wrap [of "x - a" 8] assms by (simp add: diff_diff_eq u64_order)

text \<open>
  What a memory must offer for multi-byte loads and stores: at an address where both reading and
  writing are allowed, a write succeeds, changes what is read there and nowhere else, and keeps
  the rest of the state. What is stored at an address is a byte, or a byte and its initialisation.
\<close>

locale cell_memory =
  fixes rd :: "'m \<Rightarrow> u64 \<Rightarrow> exn + 'v"
    and wr :: "u64 \<Rightarrow> 'v \<Rightarrow> ('m, unit) smon"
    and ok :: "'m \<Rightarrow> bool"
    and open_at :: "'m \<Rightarrow> u64 \<Rightarrow> bool"
    and rest :: "'m \<Rightarrow> 'r"
  assumes wr_run: "ok m \<Longrightarrow> open_at m a \<Longrightarrow>
    \<exists>m'. wr a b m = (Inr (), m') \<and> ok m' \<and> open_at m' = open_at m \<and> rest m' = rest m \<and>
      rd m' = (rd m)(a := Inr b)"
begin

lemma wr_loop_run:
  assumes "ok m" and "\<And>j. i \<le> j \<Longrightarrow> j < i + n \<Longrightarrow> open_at m (a + of_nat j)"
    and "i + n \<le> 18446744073709551616"
  shows "\<exists>m'. for_loop i n (\<lambda>j. wr (a + of_nat j) (f j)) m = (Inr (), m') \<and> ok m' \<and>
    open_at m' = open_at m \<and> rest m' = rest m \<and>
    rd m' = (\<lambda>x. let j = unat (x - a) in if i \<le> j \<and> j < i + n then Inr (f j) else rd m x)"
  using assms
proof (induction n arbitrary: i m)
  case 0
  then show ?case by (intro exI [of _ m]) (auto simp: return_def Let_def fun_eq_iff)
next
  case (Suc n)
  from Suc.prems have "open_at m (a + of_nat i)" by simp
  from wr_run [OF Suc.prems(1) this, of "f i"] obtain m1 where
    m1: "wr (a + of_nat i) (f i) m = (Inr (), m1)" "ok m1" "open_at m1 = open_at m"
      "rest m1 = rest m" "rd m1 = (rd m)(a + of_nat i := Inr (f i))" by blast
  have "\<exists>m'. for_loop (Suc i) n (\<lambda>j. wr (a + of_nat j) (f j)) m1 = (Inr (), m') \<and> ok m' \<and>
    open_at m' = open_at m1 \<and> rest m' = rest m1 \<and>
    rd m' = (\<lambda>x. let j = unat (x - a) in if Suc i \<le> j \<and> j < Suc i + n then Inr (f j) else rd m1 x)"
    using Suc.prems m1(2,3) by (intro Suc.IH) auto
  then obtain m' where m': "for_loop (Suc i) n (\<lambda>j. wr (a + of_nat j) (f j)) m1 = (Inr (), m')"
    "ok m'" "open_at m' = open_at m" "rest m' = rest m"
    "rd m' = (\<lambda>x. let j = unat (x - a) in if Suc i \<le> j \<and> j < Suc i + n then Inr (f j) else rd m1 x)"
    using m1 by auto
  have i: "i < 18446744073709551616" using Suc.prems(3) by simp
  have at: "x = a + of_nat i \<longleftrightarrow> unat (x - a) = i" for x
  proof
    assume "unat (x - a) = i"
    then have "x - a = of_nat i" using i by (simp add: word_unat_eq_iff of_nat_unat_u64)
    then show "x = a + of_nat i" by (simp add: algebra_simps)
  qed (use i in \<open>simp add: of_nat_unat_u64\<close>)
  have "rd m' = (\<lambda>x. let j = unat (x - a) in if i \<le> j \<and> j < i + Suc n then Inr (f j) else rd m x)"
    unfolding m'(5) m1(5) by (rule ext) (auto simp: Let_def at)
  then show ?case using m' m1(1) by (intro exI [of _ m']) (simp add: seq_def bind_def)
qed

end

locale byte_memory = cell_memory rd wr ok open_at rest
  for rd :: "'m \<Rightarrow> u64 \<Rightarrow> exn + u8"
    and wr :: "u64 \<Rightarrow> u8 \<Rightarrow> ('m, unit) smon"
    and ok :: "'m \<Rightarrow> bool"
    and open_at :: "'m \<Rightarrow> u64 \<Rightarrow> bool"
    and rest :: "'m \<Rightarrow> 'r"
begin

lemma store_words_run:
  assumes "ok m" and "\<And>j. j < 8 * length ws \<Longrightarrow> open_at m (a + of_nat j)"
    and "8 * length ws < 18446744073709551608"
  shows "\<exists>m'. store_words wr a ws m = (Inr (), m') \<and> ok m' \<and> open_at m' = open_at m \<and>
    rest m' = rest m \<and> rd m' = (\<lambda>x. let j = unat (x - a) in
      if j < 8 * length ws then Inr (word_byte (ws ! (j div 8)) (j mod 8)) else rd m x)"
  using assms
proof (induction ws arbitrary: a m)
  case Nil
  then show ?case by (simp add: return_def Let_def)
next
  case (Cons w ws)
  have "open_at m (a + of_nat j)" if "0 \<le> j" "j < 0 + 8" for j using Cons.prems(2) [of j] that by simp
  from wr_loop_run [OF Cons.prems(1) this, where f = "word_byte w"] obtain m1 where
    m1: "for_loop 0 8 (\<lambda>i. wr (a + of_nat i) (word_byte w i)) m = (Inr (), m1)" "ok m1"
      "open_at m1 = open_at m" "rest m1 = rest m"
      "rd m1 = (\<lambda>x. let j = unat (x - a) in if j < 8 then Inr (word_byte w j) else rd m x)"
    by (force simp: Let_def)
  have "open_at m1 (a + 8 + of_nat j)" if "j < 8 * length ws" for j
    using Cons.prems(2) [of "8 + j"] that m1(3) by (simp add: algebra_simps)
  from Cons.IH [OF m1(2) this] Cons.prems(3) obtain m' where
    m': "store_words wr (a + 8) ws m1 = (Inr (), m')" "ok m'" "open_at m' = open_at m"
      "rest m' = rest m" "rd m' = (\<lambda>x. let j = unat (x - (a + 8)) in
        if j < 8 * length ws then Inr (word_byte (ws ! (j div 8)) (j mod 8)) else rd m1 x)"
    using m1(3,4) by auto
  have "rd m' x = (let j = unat (x - a) in if j < 8 * length (w # ws)
      then Inr (word_byte ((w # ws) ! (j div 8)) (j mod 8)) else rd m x)" for x
  proof (cases "unat (x - a) < 8")
    case True
    with offset_in_word [OF True] Cons.prems(3) show ?thesis
      by (simp add: m'(5) m1(5) Let_def)
  next
    case False
    then have "unat (x - (a + 8)) = unat (x - a) - 8" by (simp add: offset_past_word)
    moreover from False have "unat (x - a) div 8 = Suc ((unat (x - a) - 8) div 8)"
      "unat (x - a) mod 8 = (unat (x - a) - 8) mod 8" by (simp_all add: le_div_geq le_mod_geq)
    ultimately show ?thesis using False by (auto simp: m'(5) m1(5) Let_def)
  qed
  then show ?case using m' m1(1) by (intro exI [of _ m']) (simp add: monad_defs fun_eq_iff)
qed

end

lemma read_loop_bits:
  assumes "\<And>j. i \<le> j \<Longrightarrow> j < i + n \<Longrightarrow> read8 m (a + of_nat j) = Inr (word_byte v j)"
    and "8 * (i + n) \<le> LENGTH('a)"
  shows "read_loop m a i n (take_bit (8 * i) v) = Inr (take_bit (8 * (i + n)) (v :: 'a::len word))"
  using assms
proof (induction n arbitrary: i)
  case (Suc n)
  have "take_bit (8 * i) v OR push_bit (i * 8) (ucast (word_byte v i)) = take_bit (8 * Suc i) v"
    using Suc.prems(2) by (intro bit_eqI) (auto simp: bit_simps word_byte_def mult.commute)
  then show ?case
    using Suc.prems Suc.IH [of "Suc i"] by (simp del: mult_Suc_right add: algebra_simps)
qed simp

lemma read64_bytes:
  assumes "\<And>j. j < 8 \<Longrightarrow> read8 m (a + of_nat j) = Inr (word_byte v j)"
  shows "read64 m a = Inr v"
  using read_loop_bits [of 0 8 m a v] assms by (simp add: read64_def take_bit_length_eq [where 'a = 64, simplified])

lemma read32_bytes:
  assumes "\<And>j. j < 4 \<Longrightarrow> read8 m (a + of_nat j) = Inr (word_byte v j)"
  shows "read32 m a = Inr v"
  using read_loop_bits [of 0 4 m a v] assms by (simp add: read32_def take_bit_length_eq [where 'a = 32, simplified])

lemma read16_bytes:
  assumes "\<And>j. j < 2 \<Longrightarrow> read8 m (a + of_nat j) = Inr (word_byte v j)"
  shows "read16 m a = Inr v"
  using read_loop_bits [of 0 2 m a v] assms by (simp add: read16_def take_bit_length_eq [where 'a = 16, simplified])

section \<open>The guest's address space is a memory of bytes\<close>

definition open_byte :: "mmu \<Rightarrow> u64 \<Rightarrow> bool" where
  "open_byte m a \<longleftrightarrow> accessible m ProtRead a \<and> accessible m ProtWrite a"

lemma store8_byte_memory:
  assumes "mmu_wf m" and "open_byte m a"
  shows "\<exists>m'. store8 a b i m = (Inr (), m') \<and> mmu_wf m' \<and> open_byte m' = open_byte m \<and>
    mmu_layout m' = mmu_layout m \<and> read8 m' = (read8 m)(a := Inr b)"
proof -
  from assms(2) have w: "accessible m ProtWrite a" and r: "accessible m ProtRead a"
    by (auto simp: open_byte_def)
  from store8_run [OF assms(1) w] obtain m' where m': "store8 a b i m = (Inr (), m')" "mmu_wf m'"
    "mmu_layout m' = mmu_layout m"
    "cell_at m' = (cell_at m)(a := map_option (set_cell_value b i) (cell_at m a))" by blast
  have "accessible m' prot x = accessible m prot x" for prot x
    by (auto simp: accessible_def m'(4) set_cell_value_def cell_allows_def split: option.split)
  then have "open_byte m' = open_byte m" by (simp add: open_byte_def fun_eq_iff)
  moreover have "read8 m' x = ((read8 m)(a := Inr b)) x" for x
    using r m'(2) assms(1)
    by (auto simp: read8_cell mmu_wf_def m'(4) accessible_def set_cell_value_def cell_allows_def
        split: option.split)
  ultimately show ?thesis using m' by (auto simp: fun_eq_iff)
qed

interpretation mmu_bytes: byte_memory read8 "\<lambda>a b. store8 a b True" mmu_wf open_byte mmu_layout
  by unfold_locales (rule store8_byte_memory)

end
