(* ===== verification/Sound.thy ===== *)
theory Sound
  imports Machine MMU_Access
begin

text \<open>
  The judgement that the invariants of the whole machine are proved with: an operation keeps the
  invariant, and no exception of it is one that a correct emulator never sees, the
  \<^verbatim>\<open>std::out_of_range\<close> of a vector or a loop that does not end. The rules take a program apart
  construct by construct, as those for \<open>preserves\<close> do.
\<close>

section \<open>Expected exceptions\<close>

definition expected :: "exn \<Rightarrow> bool" where
  "expected e \<longleftrightarrow> e \<noteq> OutOfRange \<and> e \<noteq> Diverges"

definition as_expected :: "exn + 'a \<Rightarrow> bool" where
  "as_expected r \<longleftrightarrow> (\<forall>e. r = Inl e \<longrightarrow> expected e)"

lemma expected_simps [simp]:
  "expected (EmulatorError err)" "expected (GuestExit status)" "expected UndefinedBehaviour"
  "\<not> expected OutOfRange" "\<not> expected Diverges"
  by (simp_all add: expected_def)

lemma as_expected_simps [simp]:
  "as_expected (Inr x)" "as_expected (Inl e) \<longleftrightarrow> expected e"
  by (simp_all add: as_expected_def)

lemma as_expected_sbind:
  "as_expected r \<Longrightarrow> (\<And>x. r = Inr x \<Longrightarrow> as_expected (f x)) \<Longrightarrow> as_expected (sbind r f)"
  by (cases r) auto

lemma as_expected_sum:
  "(\<And>e. r = Inl e \<Longrightarrow> expected e) \<Longrightarrow> as_expected r"
  by (simp add: as_expected_def)

section \<open>The judgement\<close>

definition sound :: "('s \<Rightarrow> bool) \<Rightarrow> ('s, 'a) smon \<Rightarrow> bool" where
  "sound J f \<longleftrightarrow> (\<forall>s. J s \<longrightarrow> J (snd (f s)) \<and> as_expected (fst (f s)))"

named_theorems sound_rules \<open>rules for \<open>sound\<close>, one per program construct or operation\<close>

lemma soundI:
  "(\<And>s. J s \<Longrightarrow> J (snd (f s))) \<Longrightarrow> (\<And>s. J s \<Longrightarrow> as_expected (fst (f s))) \<Longrightarrow> sound J f"
  by (simp add: sound_def)

lemma soundD:
  assumes "sound J f" and "J s"
  shows "J (snd (f s))" and "as_expected (fst (f s))"
  using assms by (simp_all add: sound_def)

lemma sound_preserves: "sound J f \<Longrightarrow> preserves J f"
  by (simp add: sound_def preserves_def)

lemma preserves_sound:
  "preserves J f \<Longrightarrow> (\<And>s. J s \<Longrightarrow> as_expected (fst (f s))) \<Longrightarrow> sound J f"
  by (simp add: sound_def preserves_def)

lemma sound_return [sound_rules]: "sound J (return x)"
  by (simp add: sound_def return_def)

lemma sound_throw [sound_rules]:
  "sound J (throw (EmulatorError err))" "sound J (throw (GuestExit status))"
  "sound J (throw UndefinedBehaviour)"
  by (simp_all add: sound_def throw_def)

lemma sound_gets [sound_rules]: "sound J (gets f)"
  by (simp add: sound_def gets_def)

lemma sound_lift_sum: "(\<And>s. J s \<Longrightarrow> as_expected (f s)) \<Longrightarrow> sound J (lift_sum f)"
  by (simp add: sound_def lift_sum_def)

lemma sound_lift_const: "as_expected r \<Longrightarrow> sound J (lift_sum (\<lambda>_. r))"
  by (rule sound_lift_sum)

lemma sound_modify: "(\<And>s. J s \<Longrightarrow> J (f s)) \<Longrightarrow> sound J (modify f)"
  by (simp add: sound_def modify_def)

lemma sound_bind_value:
  assumes "sound J m" and "\<And>s x. J s \<Longrightarrow> fst (m s) = Inr x \<Longrightarrow> J (snd (m s)) \<Longrightarrow>
    J (snd (f x (snd (m s)))) \<and> as_expected (fst (f x (snd (m s))))"
  shows "sound J (bind m f)"
  unfolding sound_def
proof (intro allI impI)
  fix s assume s: "J s"
  obtain r t where r: "m s = (r, t)" by fastforce
  show "J (snd (bind m f s)) \<and> as_expected (fst (bind m f s))"
  proof (cases r)
    case (Inl e)
    then show ?thesis using soundD [OF assms(1) s] r by (simp add: bind_def)
  next
    case (Inr x)
    then show ?thesis using soundD [OF assms(1) s] assms(2) [OF s, of x] r by (simp add: bind_def)
  qed
qed

lemma sound_bind [sound_rules]:
  "sound J m \<Longrightarrow> (\<And>x. sound J (f x)) \<Longrightarrow> sound J (bind m f)"
  by (rule sound_bind_value) (auto dest: soundD)

lemma sound_seq [sound_rules]: "sound J m \<Longrightarrow> sound J n \<Longrightarrow> sound J (seq m n)"
  unfolding seq_def by (rule sound_bind)

lemma sound_when [sound_rules]: "(b \<Longrightarrow> sound J m) \<Longrightarrow> sound J (when_do b m)"
  by (simp add: when_do_def sound_return)

lemma sound_if [sound_rules]:
  "(b \<Longrightarrow> sound J m) \<Longrightarrow> (\<not> b \<Longrightarrow> sound J n) \<Longrightarrow> sound J (if b then m else n)"
  by simp

lemma sound_let [sound_rules]: "(\<And>x. sound J (f x)) \<Longrightarrow> sound J (let x = e in f x)"
  by simp

lemma sound_case_option [sound_rules]:
  "sound J n \<Longrightarrow> (\<And>x. sound J (f x)) \<Longrightarrow> sound J (case y of None \<Rightarrow> n | Some x \<Rightarrow> f x)"
  by (cases y) auto

lemma sound_case_prod [sound_rules]:
  "(\<And>a b. sound J (f a b)) \<Longrightarrow> sound J (case p of (a, b) \<Rightarrow> f a b)"
  by (cases p) auto

lemma sound_case_sum [sound_rules]:
  "(\<And>x. sound J (f x)) \<Longrightarrow> (\<And>y. sound J (g y)) \<Longrightarrow> sound J (case z of Inl x \<Rightarrow> f x | Inr y \<Rightarrow> g y)"
  by (cases z) auto

lemma sound_catch [sound_rules]:
  assumes "sound J m" and "sound J h"
  shows "sound J (catch_emulator_error m h)"
  unfolding sound_def
proof (intro allI impI)
  fix s assume "J s"
  with soundD [OF assms(1), of s] show "J (snd (catch_emulator_error m h s)) \<and>
      as_expected (fst (catch_emulator_error m h s))"
    using soundD [OF assms(2)]
    by (cases "m s") (auto simp: catch_emulator_error_def split: sum.splits exn.splits)
qed

lemma sound_for_loop [sound_rules]: "(\<And>i. sound J (body i)) \<Longrightarrow> sound J (for_loop i n body)"
  by (induction n arbitrary: i) (auto intro: sound_rules)

section \<open>Sound operations with a known result\<close>

definition yields :: "('s \<Rightarrow> bool) \<Rightarrow> ('a \<Rightarrow> bool) \<Rightarrow> ('s, 'a) smon \<Rightarrow> bool" where
  "yields J P f \<longleftrightarrow> sound J f \<and> (\<forall>s x. J s \<longrightarrow> fst (f s) = Inr x \<longrightarrow> P x)"

lemma yields_sound: "yields J P f \<Longrightarrow> sound J f"
  by (simp add: yields_def)

lemma sound_bind_yields:
  assumes "yields J P m" and "\<And>x. P x \<Longrightarrow> sound J (f x)"
  shows "sound J (bind m f)"
proof (rule sound_bind_value)
  show "sound J m" using assms(1) by (rule yields_sound)
  fix s x assume "J s" and "fst (m s) = Inr x" and J: "J (snd (m s))"
  then have "P x" using assms(1) by (auto simp: yields_def)
  from soundD [OF assms(2) [OF this] J]
  show "J (snd (f x (snd (m s)))) \<and> as_expected (fst (f x (snd (m s))))" by simp
qed

lemma yields_return: "P x \<Longrightarrow> yields J P (return x)"
  by (simp add: yields_def sound_return) (simp add: return_def)

lemma yields_gets: "(\<And>s. J s \<Longrightarrow> P (f s)) \<Longrightarrow> yields J P (gets f)"
  by (simp add: yields_def sound_gets) (simp add: gets_def)

lemma yields_bind:
  assumes "yields J P m" and "\<And>x. P x \<Longrightarrow> yields J Q (f x)"
  shows "yields J Q (bind m f)"
  unfolding yields_def
proof (intro conjI allI impI)
  show "sound J (bind m f)" by (rule sound_bind_yields [OF assms(1)]) (rule yields_sound [OF assms(2)])
  fix s y assume s: "J s" and run: "fst (bind m f s) = Inr y"
  then obtain x t where x: "m s = (Inr x, t)" "fst (f x t) = Inr y"
    by (auto simp: bind_def split: prod.splits sum.splits)
  have "sound J m" and "P x" using assms(1) s x by (auto simp: yields_def)
  then have "J t" using soundD(1) [of J m s] s x by simp
  then show "Q y" using assms(2) [OF \<open>P x\<close>] x(2) by (auto simp: yields_def)
qed

lemma yields_if:
  "(b \<Longrightarrow> yields J P m) \<Longrightarrow> (\<not> b \<Longrightarrow> yields J P n) \<Longrightarrow> yields J P (if b then m else n)"
  by simp

lemma yields_any: "sound J m \<Longrightarrow> yields J (\<lambda>_. True) m"
  by (simp add: yields_def)

section \<open>Reads of a well-formed address space\<close>

definition reads :: "(mmu \<Rightarrow> exn + 'a) \<Rightarrow> bool" where
  "reads k \<longleftrightarrow> (\<forall>m. mmu_wf m \<longrightarrow> as_expected (k m))"

lemma readsD: "reads k \<Longrightarrow> mmu_wf m \<Longrightarrow> as_expected (k m)"
  by (simp add: reads_def)

lemma region_for_expected: "as_expected (region_for m a prot)"
  by (auto simp: region_for_def split: option.split)

lemma read8_expected: "mmu_wf m \<Longrightarrow> as_expected (read8 m a)"
  by (auto simp: read8_cell mmu_wf_def split: option.split)

lemma read_loop_expected: "mmu_wf m \<Longrightarrow> as_expected (read_loop m a i n v)"
  by (induction m a i n v rule: read_loop.induct) (auto intro!: as_expected_sbind read8_expected)

lemma copy_expected: "mmu_wf m \<Longrightarrow> as_expected (copy_from_guest m a n)"
  by (induction m a n rule: copy_from_guest.induct) (auto intro!: as_expected_sbind read8_expected)

lemma read_c_string_expected: "mmu_wf m \<Longrightarrow> as_expected (read_c_string_loop m start a n)"
  by (induction m start a n rule: read_c_string_loop.induct)
    (auto intro!: as_expected_sbind read8_expected)

lemma reads_rules [sound_rules]:
  "reads (\<lambda>m. region_for m a prot)" "reads (\<lambda>m. read8 m a)" "reads (\<lambda>m. read16 m a)"
  "reads (\<lambda>m. read32 m a)" "reads (\<lambda>m. read64 m a)" "reads (\<lambda>m. copy_from_guest m a n)"
  "reads (\<lambda>m. read_c_string m a limit)"
  by (simp_all add: reads_def region_for_expected read8_expected read16_def read32_def read64_def
      read_loop_expected copy_expected read_c_string_def read_c_string_expected)

lemma walk_frames_expected: "mmu_wf m \<Longrightarrow> as_expected (walk_frames m n bt frame)"
  by (induction m n bt frame rule: walk_frames.induct)
    (auto simp: Let_def read64_def intro!: as_expected_sbind read_loop_expected)

lemma raw_backtrace_expected: "mmu_wf (s_mmu s) \<Longrightarrow> as_expected (raw_backtrace s)"
  unfolding raw_backtrace_def by (rule walk_frames_expected)

end
