(* ===== verification/Disassembler.thy ===== *)
theory Disassembler
  imports CPU_Core
begin

text \<open>
  \<^verbatim>\<open>SoftCPU64::describe_current_instruction\<close> of \<^verbatim>\<open>src/SoftCPU64.cpp\<close>: the text of the
  instruction at the instruction pointer, in AT&T syntax, followed by its bytes. It decodes on its
  own, reading guest memory through a cursor, and fails with the fault of the first byte that cannot
  be read.
\<close>

section \<open>The cursor\<close>

text \<open>The state is the address of the next byte.\<close>

type_synonym 'a cursor = "(u64, 'a) smon"

definition advance :: "u64 \<Rightarrow> (u64 \<Rightarrow> exn + 'a) \<Rightarrow> 'a cursor" where
  "advance n r = bind (lift_sum r) (\<lambda>v. seq (modify (\<lambda>pc. pc + n)) (return v))"

definition cursor8 :: "mmu \<Rightarrow> u8 cursor" where
  "cursor8 m = advance 1 (read8 m)"

definition cursor16 :: "mmu \<Rightarrow> u16 cursor" where
  "cursor16 m = advance 2 (read16 m)"

definition cursor32 :: "mmu \<Rightarrow> u32 cursor" where
  "cursor32 m = advance 4 (read32 m)"

definition cursor64 :: "mmu \<Rightarrow> u64 cursor" where
  "cursor64 m = advance 8 (read64 m)"

definition cursor_i8 :: "mmu \<Rightarrow> int cursor" where
  "cursor_i8 m = bind (cursor8 m) (\<lambda>b. return (sint b))"

definition cursor_i32 :: "mmu \<Rightarrow> int cursor" where
  "cursor_i32 m = bind (cursor32 m) (\<lambda>w. return (sint w))"

section \<open>Names and numbers\<close>

definition register_name :: "nat \<Rightarrow> string" where
  "register_name i =
     [''rax'', ''rcx'', ''rdx'', ''rbx'', ''rsp'', ''rbp'', ''rsi'', ''rdi'',
      ''r8'', ''r9'', ''r10'', ''r11'', ''r12'', ''r13'', ''r14'', ''r15''] ! (i mod 16)"

definition register_name_for_width :: "nat \<Rightarrow> nat \<Rightarrow> string" where
  "register_name_for_width i width =
     (if width = 8 then
        [''al'', ''cl'', ''dl'', ''bl'', ''spl'', ''bpl'', ''sil'', ''dil'',
         ''r8b'', ''r9b'', ''r10b'', ''r11b'', ''r12b'', ''r13b'', ''r14b'', ''r15b''] ! (i mod 16)
      else if width = 16 then
        [''ax'', ''cx'', ''dx'', ''bx'', ''sp'', ''bp'', ''si'', ''di'',
         ''r8w'', ''r9w'', ''r10w'', ''r11w'', ''r12w'', ''r13w'', ''r14w'', ''r15w''] ! (i mod 16)
      else if width = 32 then
        [''eax'', ''ecx'', ''edx'', ''ebx'', ''esp'', ''ebp'', ''esi'', ''edi'',
         ''r8d'', ''r9d'', ''r10d'', ''r11d'', ''r12d'', ''r13d'', ''r14d'', ''r15d''] ! (i mod 16)
      else register_name i)"

definition condition_name :: "nat \<Rightarrow> string" where
  "condition_name cc =
     [''o'', ''no'', ''b'', ''ae'', ''e'', ''ne'', ''be'', ''a'',
      ''s'', ''ns'', ''p'', ''np'', ''l'', ''ge'', ''le'', ''g''] ! (cc mod 16)"

text \<open>
  The negation wraps round at the least 64-bit number, as it does on the host's machine; C++ leaves
  \<^verbatim>\<open>-value\<close> undefined there.
\<close>

definition imm_text :: "int \<Rightarrow> string" where
  "imm_text v = CHR ''$'' # (if v < 0 then CHR ''-'' # hex_text 0 (of_int (- v)) else hex_text 0 (of_int v))"

definition reg_text :: "nat \<Rightarrow> nat \<Rightarrow> string" where
  "reg_text reg width = CHR ''%'' # register_name_for_width reg width"

definition format_hex_bytes :: "mmu \<Rightarrow> u64 \<Rightarrow> nat \<Rightarrow> exn + string" where
  "format_hex_bytes m address count =
     fold (\<lambda>i r. sbind r (\<lambda>text.
         sbind (read8 m (address + of_nat i)) (\<lambda>b.
         Inr ((if i = 0 then text else text @ '' '') @ hex_text 2 (ucast b)))))
       [0..<count] (Inr [])"

section \<open>Prefixes and operands\<close>

text \<open>Its own loop over prefixes keeps every segment prefix as its byte.\<close>

definition describe_prefix :: "u8 \<Rightarrow> prefixes \<Rightarrow> prefixes option" where
  "describe_prefix byte p =
     (if byte = 0x66 then Some (p\<lparr>p_operand16 := True\<rparr>)
      else if byte = 0x67 then Some (p\<lparr>p_address32 := True\<rparr>)
      else if byte = 0xf0 then Some (p\<lparr>p_lock := True\<rparr>)
      else if byte = 0xf2 then Some (p\<lparr>p_repnz := True\<rparr>)
      else if byte = 0xf3 then Some (p\<lparr>p_repz := True\<rparr>)
      else if byte \<in> set [0x26, 0x2e, 0x36, 0x3e, 0x64, 0x65] then Some (p\<lparr>p_segment := uint byte\<rparr>)
      else if byte \<ge> 0x40 \<and> byte \<le> 0x4f
      then Some (p\<lparr>p_rex_present := True, p_rex := byte - 0x40\<rparr>)
      else None)"

partial_function (option) describe_prefixes ::
  "mmu \<Rightarrow> u64 \<Rightarrow> prefixes \<Rightarrow> ((exn + prefixes) \<times> u64) option" where
  "describe_prefixes m pc p =
     (case read8 m pc of
        Inl e \<Rightarrow> Some (Inl e, pc)
      | Inr byte \<Rightarrow>
          (case describe_prefix byte p of
             None \<Rightarrow> Some (Inr p, pc)
           | Some p' \<Rightarrow> describe_prefixes m (pc + 1) p'))"

declare describe_prefixes.simps [code]

definition cursor_modrm :: "mmu \<Rightarrow> prefixes \<Rightarrow> modrm cursor" where
  "cursor_modrm m p = bind (cursor8 m) (\<lambda>byte. return (decode_modrm p byte))"

text \<open>The base, index and scale of a memory operand, and its displacement so far.\<close>

record memory_parts =
  mp_base :: string
  mp_index :: string
  mp_scale :: nat
  mp_displacement :: int
  mp_has_base :: bool
  mp_rip_relative :: bool

definition no_parts :: memory_parts where
  "no_parts = \<lparr>mp_base = [], mp_index = [], mp_scale = 1, mp_displacement = 0, mp_has_base = True,
     mp_rip_relative = False\<rparr>"

definition memory_parts :: "mmu \<Rightarrow> prefixes \<Rightarrow> modrm \<Rightarrow> memory_parts cursor" where
  "memory_parts m p modrm =
     (let rm_low = unat (mr_byte modrm AND 7) in
      if rm_low = 4 then
        bind (cursor8 m) (\<lambda>sib.
        let index_low = unat (drop_bit 3 sib AND 7); base_low = unat (sib AND 7);
            parts = no_parts\<lparr>mp_scale := 2 ^ unat (drop_bit 6 sib AND 3),
              mp_index := (if index_low = 4 then [] else register_name (index_low + rex_x p))\<rparr> in
        if mr_mod modrm = 0 \<and> base_low = 5 then
          bind (cursor_i32 m) (\<lambda>d. return (parts\<lparr>mp_has_base := False, mp_displacement := d\<rparr>))
        else return (parts\<lparr>mp_base := register_name (base_low + rex_b p)\<rparr>))
      else if mr_mod modrm = 0 \<and> rm_low = 5 then
        bind (cursor_i32 m) (\<lambda>d. return (no_parts\<lparr>mp_rip_relative := True, mp_displacement := d\<rparr>))
      else return (no_parts\<lparr>mp_base := register_name (rm_low + rex_b p)\<rparr>))"

definition parts_text :: "memory_parts \<Rightarrow> string" where
  "parts_text r =
     (if \<not> mp_has_base r \<and> mp_index r = [] then hex_text 0 (of_int (mp_displacement r))
      else
        (if mp_displacement r \<noteq> 0
         then (if mp_displacement r < 0 then ''-'' else []) @ hex_text 0 (of_int \<bar>mp_displacement r\<bar>)
         else []) @ ''('' @
        (if mp_base r \<noteq> [] then CHR ''%'' # mp_base r else []) @
        (if mp_index r \<noteq> []
         then '',%'' @ mp_index r @ (if mp_scale r \<noteq> 1 then CHR '','' # decimal_nat (mp_scale r) else [])
         else []) @ '')'')"

definition memory_text :: "mmu \<Rightarrow> prefixes \<Rightarrow> modrm \<Rightarrow> u64 \<Rightarrow> string cursor" where
  "memory_text m p modrm trailing_bytes =
     bind (memory_parts m p modrm) (\<lambda>r0.
     bind (if mr_mod modrm = 1 then bind (cursor_i8 m) (\<lambda>d. return (r0\<lparr>mp_displacement := d\<rparr>))
           else if mr_mod modrm = 2 then bind (cursor_i32 m) (\<lambda>d. return (r0\<lparr>mp_displacement := d\<rparr>))
           else return r0) (\<lambda>r.
     bind (gets id) (\<lambda>pc.
     let segment = (if p_segment p = 0x64 then ''%fs:'' else if p_segment p = 0x65 then ''%gs:'' else []) in
     return (segment @
       (if mp_rip_relative r
        then hex_text 0 (pc + of_int (mp_displacement r) + trailing_bytes) @ ''(%rip)''
        else parts_text r)))))"

definition rm_text :: "mmu \<Rightarrow> prefixes \<Rightarrow> modrm \<Rightarrow> nat \<Rightarrow> u64 \<Rightarrow> string cursor" where
  "rm_text m p modrm width trailing_bytes =
     (if mr_mod modrm = 3 then return (CHR ''%'' # register_name_for_width (mr_rm modrm) width)
      else memory_text m p modrm trailing_bytes)"

section \<open>Two-byte opcodes\<close>

definition sse_name :: "u8 \<Rightarrow> string" where
  "sse_name op2 =
     (if op2 = 0x57 \<or> op2 = 0xef then ''pxor/xorps''
      else if op2 \<in> set [0x74, 0x75, 0x76] then ''pcmpeq''
      else if op2 = 0xd7 then ''pmovmskb''
      else if op2 = 0xdb then ''pand''
      else if op2 = 0xeb then ''por''
      else if op2 = 0xd4 then ''paddq''
      else if op2 \<in> set [0xf8, 0xf9, 0xfa] then ''psub''
      else if op2 = 0xc6 then ''shufpd''
      else if op2 = 0x58 then ''add[ps]''
      else if op2 = 0x59 then ''mul[ps]''
      else if op2 = 0x5c then ''sub[ps]''
      else if op2 = 0x5e then ''div[ps]''
      else if op2 = 0x51 then ''sqrt[ps]''
      else if op2 = 0x5d then ''min[ps]''
      else if op2 = 0x5f then ''max[ps]''
      else if op2 \<in> set [0x54, 0x55, 0x56] then ''andorps''
      else if op2 \<in> set [0x2a, 0x2c, 0x2d, 0x5a, 0x5b, 0xe6] then ''cvt''
      else if op2 = 0x2e \<or> op2 = 0x2f then ''comis''
      else if op2 = 0x14 \<or> op2 = 0x15 then ''unpckps''
      else ''sse'')"

definition binary_name :: "u8 \<Rightarrow> string" where
  "binary_name op2 =
     (if op2 = 0xa3 then ''bt'' else if op2 = 0xaf then ''imul''
      else if op2 = 0xb0 \<or> op2 = 0xb1 then ''cmpxchg''
      else if op2 = 0xc0 \<or> op2 = 0xc1 then ''xadd''
      else if op2 = 0xbc then ''bsf'' else if op2 = 0xbd then ''bsr''
      else if op2 = 0xb6 \<or> op2 = 0xb7 then ''movzx'' else ''movsx'')"

definition sse_opcodes :: "u8 list" where
  "sse_opcodes = [0x10, 0x11, 0x12, 0x13, 0x14, 0x15, 0x16, 0x17, 0x28, 0x29, 0x2a, 0x2c, 0x2d, 0x2e,
     0x2f, 0x51, 0x54, 0x55, 0x56, 0x57, 0x58, 0x59, 0x5a, 0x5b, 0x5c, 0x5d, 0x5e, 0x5f, 0x6e, 0x6f,
     0x7e, 0x7f, 0xd6, 0xd7, 0xe6, 0xef, 0xdb, 0xdf, 0xeb, 0xd4, 0xf8, 0xf9, 0xfa, 0x60, 0x61, 0x62,
     0x6c, 0x70, 0x73, 0x74, 0x75, 0x76, 0xc6]"

text \<open>A target relative to the address after the instruction.\<close>

definition target_text :: "int \<Rightarrow> string cursor" where
  "target_text rel = bind (gets id) (\<lambda>pc. return (hex_text 0 (pc + of_int rel)))"

definition describe_double_shift :: "mmu \<Rightarrow> prefixes \<Rightarrow> u8 \<Rightarrow> string cursor" where
  "describe_double_shift m p op2 =
     bind (cursor_modrm m p) (\<lambda>modrm.
     let has_imm = (op2 = 0xa4 \<or> op2 = 0xac) in
     bind (rm_text m p modrm (operand_width p) (if has_imm then 1 else 0)) (\<lambda>operand.
     bind (if has_imm then bind (cursor8 m) (\<lambda>b. return (imm_text (uint b) @ '', ''))
           else return ''%cl, '') (\<lambda>count.
     return ((if op2 = 0xa4 \<or> op2 = 0xa5 then ''shld '' else ''shrd '') @ count @
       reg_text (mr_reg modrm) (operand_width p) @ '', '' @ operand))))"

definition describe_sse :: "mmu \<Rightarrow> prefixes \<Rightarrow> u8 \<Rightarrow> string cursor" where
  "describe_sse m p op2 =
     bind (cursor_modrm m p) (\<lambda>modrm.
     let has_imm = (op2 = 0x70 \<or> op2 = 0x73 \<or> op2 = 0xc6) in
     bind (rm_text m p modrm 128 (if has_imm then 1 else 0)) (\<lambda>operand.
     seq (when_do has_imm (bind (cursor8 m) (\<lambda>_. return ())))
         (return (sse_name op2 @ '' '' @ operand @ '', %xmm'' @ decimal_nat (mr_reg modrm)))))"

definition describe_0f :: "mmu \<Rightarrow> prefixes \<Rightarrow> string cursor" where
  "describe_0f m p =
     bind (cursor8 m) (\<lambda>op2.
     if op2 = 0x05 then return ''syscall''
     else if op2 \<ge> 0x80 \<and> op2 \<le> 0x8f then
       bind (cursor_i32 m) (\<lambda>rel.
       bind (target_text rel) (\<lambda>target.
       return (''j'' @ condition_name (unat op2 mod 16) @ '' '' @ target)))
     else if op2 \<ge> 0x90 \<and> op2 \<le> 0x9f then
       bind (cursor_modrm m p) (\<lambda>modrm.
       bind (rm_text m p modrm 8 0) (\<lambda>operand.
       return (''set'' @ condition_name (unat op2 mod 16) @ '' '' @ operand)))
     else if op2 \<ge> 0x40 \<and> op2 \<le> 0x4f then
       bind (cursor_modrm m p) (\<lambda>modrm.
       bind (rm_text m p modrm (operand_width p) 0) (\<lambda>operand.
       return (''cmov'' @ condition_name (unat op2 mod 16) @ '' '' @ operand @ '', '' @
         reg_text (mr_reg modrm) (operand_width p))))
     else if op2 = 0x1f then
       bind (cursor_modrm m p) (\<lambda>modrm.
       seq (when_do (mr_mod modrm \<noteq> 3) (bind (memory_text m p modrm 0) (\<lambda>_. return ())))
           (return ''nop''))
     else if op2 = 0x31 then return ''rdtsc''
     else if op2 = 0xa2 then return ''cpuid''
     else if op2 \<in> set [0xa3, 0xaf, 0xb0, 0xb1, 0xc0, 0xc1, 0xbc, 0xbd, 0xb6, 0xb7, 0xbe, 0xbf] then
       bind (cursor_modrm m p) (\<lambda>modrm.
       bind (rm_text m p modrm (operand_width p) 0) (\<lambda>operand.
       return (binary_name op2 @ '' '' @ operand @ '', '' @ reg_text (mr_reg modrm) (operand_width p))))
     else if op2 \<in> set [0xa4, 0xa5, 0xac, 0xad] then describe_double_shift m p op2
     else if op2 = 0xba then
       bind (cursor_modrm m p) (\<lambda>modrm.
       bind (rm_text m p modrm (operand_width p) 1) (\<lambda>operand.
       bind (cursor8 m) (\<lambda>imm.
       return ([''bt?'', ''bt?'', ''bt?'', ''bt?'', ''bt'', ''bts'', ''btr'', ''btc''] ! modrm_op modrm @
         '' '' @ imm_text (uint imm) @ '', '' @ operand))))
     else if op2 \<in> set sse_opcodes then describe_sse m p op2
     else return (''0f '' @ hex_text 2 (ucast op2)))"

section \<open>One-byte opcodes\<close>

definition alu_name :: "nat \<Rightarrow> string" where
  "alu_name i = [''add'', ''or'', ''adc'', ''sbb'', ''and'', ''sub'', ''xor'', ''cmp''] ! i"

text \<open>An immediate of the operand's width: 16 bits unsigned, otherwise 32 bits signed.\<close>

definition cursor_imm :: "mmu \<Rightarrow> nat \<Rightarrow> int cursor" where
  "cursor_imm m width =
     (if width = 16 then bind (cursor16 m) (\<lambda>w. return (uint w)) else cursor_i32 m)"

definition describe_alu :: "mmu \<Rightarrow> prefixes \<Rightarrow> u8 \<Rightarrow> string cursor" where
  "describe_alu m p opcode =
     (let name = alu_name (unat (drop_bit 3 opcode)); form = unat (opcode AND 7);
          width = (if form = 0 \<or> form = 2 \<or> form = 4 then 8 else operand_width p) in
      if form \<le> 3 then
        bind (cursor_modrm m p) (\<lambda>modrm.
        bind (rm_text m p modrm width 0) (\<lambda>operand.
        return (name @ '' '' @
          (if form \<le> 1 then reg_text (mr_reg modrm) width @ '', '' @ operand
           else operand @ '', '' @ reg_text (mr_reg modrm) width))))
      else
        bind (if form = 4 then cursor_i8 m else cursor_imm m width) (\<lambda>imm.
        return (name @ '' '' @ imm_text imm @ '', '' @ reg_text 0 width)))"

text \<open>Groups that name an operation by the middle field: one operand, its immediate skipped.\<close>

definition describe_group ::
  "mmu \<Rightarrow> prefixes \<Rightarrow> string list \<Rightarrow> nat \<Rightarrow> (nat \<Rightarrow> u64) \<Rightarrow> bool \<Rightarrow> string cursor" where
  "describe_group m p names width trailing_bytes skip_byte =
     bind (cursor_modrm m p) (\<lambda>modrm.
     bind (rm_text m p modrm width (trailing_bytes (modrm_op modrm))) (\<lambda>operand.
     seq (when_do skip_byte (bind (cursor8 m) (\<lambda>_. return ())))
         (return (names ! modrm_op modrm @ '' '' @ operand))))"

definition describe_imul3 :: "mmu \<Rightarrow> prefixes \<Rightarrow> u8 \<Rightarrow> string cursor" where
  "describe_imul3 m p opcode =
     bind (cursor_modrm m p) (\<lambda>modrm.
     bind (rm_text m p modrm (operand_width p) (if opcode = 0x6b then 1 else 4)) (\<lambda>source.
     bind (if opcode = 0x6b then cursor_i8 m else cursor_i32 m) (\<lambda>imm.
     return (''imul '' @ imm_text imm @ '', '' @ source @ '', '' @
       reg_text (mr_reg modrm) (operand_width p)))))"

definition imm_size :: "nat \<Rightarrow> u64" where
  "imm_size width = (if width = 8 then 1 else if width = 16 then 2 else 4)"

definition describe_alu_imm :: "mmu \<Rightarrow> prefixes \<Rightarrow> u8 \<Rightarrow> string cursor" where
  "describe_alu_imm m p opcode =
     bind (cursor_modrm m p) (\<lambda>modrm.
     let width = (if opcode = 0x80 then 8 else operand_width p);
         short = (opcode = 0x80 \<or> opcode = 0x83) in
     bind (rm_text m p modrm width (if short then 1 else if width = 16 then 2 else 4)) (\<lambda>operand.
     bind (if short then cursor_i8 m else cursor_imm m width) (\<lambda>imm.
     return (alu_name (modrm_op modrm) @ '' '' @ imm_text imm @ '', '' @ operand))))"

definition describe_mov :: "mmu \<Rightarrow> prefixes \<Rightarrow> u8 \<Rightarrow> string cursor" where
  "describe_mov m p opcode =
     bind (cursor_modrm m p) (\<lambda>modrm.
     let width = (if opcode = 0x88 \<or> opcode = 0x8a then 8 else operand_width p) in
     bind (rm_text m p modrm width 0) (\<lambda>operand.
     return (''mov '' @
       (if opcode = 0x88 \<or> opcode = 0x89 then reg_text (mr_reg modrm) width @ '', '' @ operand
        else operand @ '', '' @ reg_text (mr_reg modrm) width))))"

definition describe_mov_imm :: "mmu \<Rightarrow> prefixes \<Rightarrow> u8 \<Rightarrow> string cursor" where
  "describe_mov_imm m p opcode =
     bind (cursor_modrm m p) (\<lambda>modrm.
     let width = (if opcode = 0xc6 then 8 else operand_width p) in
     bind (rm_text m p modrm width (imm_size width)) (\<lambda>operand.
     bind (if width = 8 then cursor_i8 m else cursor_imm m width) (\<lambda>imm.
     return (''mov '' @ imm_text imm @ '', '' @ operand))))"

definition describe_x87 :: "mmu \<Rightarrow> prefixes \<Rightarrow> u8 \<Rightarrow> string cursor" where
  "describe_x87 m p opcode =
     bind (cursor_modrm m p) (\<lambda>modrm.
     bind (if mr_mod modrm \<noteq> 3
           then bind (memory_text m p modrm 0) (\<lambda>text. return ('' '' @ text))
           else return ('' /'' @ hex_text 2 (ucast (mr_byte modrm)))) (\<lambda>operand.
     return (''x87.'' @ hex_text 2 (ucast opcode) @ operand)))"

definition describe_jump :: "string \<Rightarrow> int cursor \<Rightarrow> string cursor" where
  "describe_jump name r =
     bind r (\<lambda>rel. bind (target_text rel) (\<lambda>target. return (name @ '' '' @ target)))"

text \<open>The instructions that name a register in the low bits of the opcode.\<close>

definition describe_short :: "mmu \<Rightarrow> prefixes \<Rightarrow> u8 \<Rightarrow> string cursor option" where
  "describe_short m p opcode =
     (let reg = unat (opcode AND 7) + rex_b p in
      if opcode \<ge> 0x50 \<and> opcode \<le> 0x57 then Some (return (''push '' @ reg_text reg 64))
      else if opcode \<ge> 0x58 \<and> opcode \<le> 0x5f then Some (return (''pop '' @ reg_text reg 64))
      else if opcode \<ge> 0x70 \<and> opcode \<le> 0x7f then
        Some (describe_jump (''j'' @ condition_name (unat opcode mod 16)) (cursor_i8 m))
      else if opcode \<ge> 0x90 \<and> opcode \<le> 0x97 then
        Some (return (if opcode = 0x90 \<and> rex_b p = 0 then ''nop''
                      else ''xchg '' @ reg_text 0 64 @ '', '' @ reg_text reg 64))
      else if opcode \<ge> 0xb0 \<and> opcode \<le> 0xb7 then
        Some (bind (cursor8 m) (\<lambda>b. return (''mov '' @ imm_text (uint b) @ '', '' @ reg_text reg 8)))
      else if opcode \<ge> 0xb8 \<and> opcode \<le> 0xbf then
        Some (let width = operand_width p in
          bind (if width = 64 then bind (cursor64 m) (\<lambda>w. return (sint w))
                else if width = 16 then bind (cursor16 m) (\<lambda>w. return (uint w))
                else bind (cursor32 m) (\<lambda>w. return (uint w))) (\<lambda>imm.
          return (''mov '' @ imm_text imm @ '', '' @ reg_text reg width)))
      else None)"

definition describe_switch :: "mmu \<Rightarrow> prefixes \<Rightarrow> u8 \<Rightarrow> string cursor" where
  "describe_switch m p opcode =
     (let width = operand_width p in
      if opcode = 0x0f then describe_0f m p
      else if opcode = 0x63 then
        bind (cursor_modrm m p) (\<lambda>modrm.
        bind (rm_text m p modrm 32 0) (\<lambda>operand.
        return (''movsxd '' @ operand @ '', '' @ reg_text (mr_reg modrm) width)))
      else if opcode = 0x69 \<or> opcode = 0x6b then describe_imul3 m p opcode
      else if opcode = 0x68 then bind (cursor_i32 m) (\<lambda>imm. return (''push '' @ imm_text imm))
      else if opcode = 0x6a then bind (cursor_i8 m) (\<lambda>imm. return (''push '' @ imm_text imm))
      else if opcode \<in> set [0x80, 0x81, 0x83] then describe_alu_imm m p opcode
      else if opcode = 0x84 \<or> opcode = 0x85 then
        bind (cursor_modrm m p) (\<lambda>modrm.
        let w = (if opcode = 0x84 then 8 else width) in
        bind (rm_text m p modrm w 0) (\<lambda>operand.
        return (''test '' @ reg_text (mr_reg modrm) w @ '', '' @ operand)))
      else if opcode = 0x87 then
        bind (cursor_modrm m p) (\<lambda>modrm.
        bind (rm_text m p modrm width 0) (\<lambda>operand.
        return (''xchg '' @ reg_text (mr_reg modrm) width @ '', '' @ operand)))
      else if opcode \<in> set [0x88, 0x89, 0x8a, 0x8b] then describe_mov m p opcode
      else if opcode = 0x8d then
        bind (cursor_modrm m p) (\<lambda>modrm.
        bind (rm_text m p modrm 64 0) (\<lambda>operand.
        return (''lea '' @ operand @ '', '' @ reg_text (mr_reg modrm) width)))
      else if opcode = 0x8f then
        bind (cursor_modrm m p) (\<lambda>modrm.
        bind (rm_text m p modrm 64 0) (\<lambda>operand. return (''pop '' @ operand)))
      else if opcode = 0x98 then return (if rex_w p then ''cdqe'' else ''cwde'')
      else if opcode = 0x99 then return (if rex_w p then ''cqo'' else ''cdq'')
      else if opcode \<in> set [0xa4, 0xa5, 0xaa, 0xab] then
        return (if opcode = 0xa4 then ''movsb'' else if opcode = 0xa5 then ''movs''
                else if opcode = 0xaa then ''stosb'' else ''stos'')
      else if opcode = 0xa8 then
        bind (cursor8 m) (\<lambda>b. return (''test '' @ imm_text (uint b) @ '', %al''))
      else if opcode = 0xa9 then
        bind (cursor_i32 m) (\<lambda>imm. return (''test '' @ imm_text imm @ '', '' @ reg_text 0 width))
      else if opcode \<in> set [0xc0, 0xc1, 0xd0, 0xd1, 0xd2, 0xd3] then
        let has_imm = (opcode = 0xc0 \<or> opcode = 0xc1) in
        describe_group m p [''rol'', ''ror'', ''rcl'', ''rcr'', ''shl'', ''shr'', ''shl'', ''sar'']
          (if opcode \<in> set [0xc0, 0xd0, 0xd2] then 8 else width) (\<lambda>_. if has_imm then 1 else 0) has_imm
      else if opcode = 0xc2 then bind (cursor16 m) (\<lambda>w. return (''ret '' @ imm_text (uint w)))
      else if opcode = 0xc3 then return ''ret''
      else if opcode = 0xc6 \<or> opcode = 0xc7 then describe_mov_imm m p opcode
      else if opcode = 0xc9 then return ''leave''
      else if opcode \<in> set [0xe0, 0xe1, 0xe2, 0xe3] then
        describe_jump (if opcode = 0xe0 then ''loopne'' else if opcode = 0xe1 then ''loope''
                       else if opcode = 0xe2 then ''loop'' else ''jrcxz'') (cursor_i8 m)
      else if opcode = 0xe8 then describe_jump ''call'' (cursor_i32 m)
      else if opcode = 0xe9 then describe_jump ''jmp'' (cursor_i32 m)
      else if opcode = 0xeb then describe_jump ''jmp'' (cursor_i8 m)
      else if opcode = 0xf6 \<or> opcode = 0xf7 then
        describe_group m p [''test'', ''test'', ''not'', ''neg'', ''mul'', ''imul'', ''div'', ''idiv'']
          (if opcode = 0xf6 then 8 else width)
          (\<lambda>operation. if operation \<le> 1 then if opcode = 0xf6 then 1 else if width = 16 then 2 else 4 else 0)
          False
      else if opcode \<ge> 0xd8 \<and> opcode \<le> 0xdf then describe_x87 m p opcode
      else if opcode = 0xfc then return ''cld''
      else if opcode = 0xfd then return ''std''
      else if opcode = 0xf8 then return ''clc''
      else if opcode = 0xff then
        describe_group m p [''inc'', ''dec'', ''call'', ''callf'', ''jmp'', ''jmpf'', ''push'', ''groupff'']
          64 (\<lambda>_. 0) False
      else return (''db '' @ hex_text 2 (ucast opcode)))"

section \<open>One instruction\<close>

definition describe_opcode :: "mmu \<Rightarrow> prefixes \<Rightarrow> u8 \<Rightarrow> string cursor" where
  "describe_opcode m p opcode =
     (if opcode \<le> 0x3d \<and> opcode AND 7 \<le> 5 then describe_alu m p opcode
      else case describe_short m p opcode of Some text \<Rightarrow> text | None \<Rightarrow> describe_switch m p opcode)"

definition with_prefixes :: "mmu \<Rightarrow> prefixes \<Rightarrow> u64 \<Rightarrow> u64 \<Rightarrow> string \<Rightarrow> exn + string" where
  "with_prefixes m p start pc text =
     sbind (format_hex_bytes m start (unat (pc - start))) (\<lambda>bytes.
     Inr ((if p_lock p then ''lock '' else []) @ (if p_repz p then ''rep '' else []) @
          (if p_repnz p then ''repnz '' else []) @ text @ ''    ; bytes: '' @ bytes))"

definition describe_current_instruction :: "mmu \<Rightarrow> u64 \<Rightarrow> exn + string" where
  "describe_current_instruction m rip =
     (case describe_prefixes m rip no_prefixes of
        None \<Rightarrow> Inl Diverges
      | Some (Inl e, _) \<Rightarrow> Inl e
      | Some (Inr p, pc) \<Rightarrow>
          (case bind (cursor8 m) (describe_opcode m p) pc of
             (Inl e, _) \<Rightarrow> Inl e
           | (Inr text, pc') \<Rightarrow> with_prefixes m p rip pc' text))"

end
