(* ===== verification/MMU_Laws.thy ===== *)
theory MMU_Laws
  imports MMU_Access
begin

text \<open>
  The properties of the address space (\<^verbatim>\<open>src/SoftMMU.cpp\<close>), stated on the abstract map of
  theory \<^verbatim>\<open>MMU_Spec\<close>, each with a concrete instance on a small address space.
\<close>

section \<open>An address space with three pages\<close>

definition three_pages :: mmu where
  "three_pages = snd (map_zeroed 0x10000 0x3000 3 ''a'' initial_mmu)"

lemma pages_eval:
  "page_align_down 0x10000 = 0x10000" "page_align_up 0x3000 = 0x3000"
  "page_align_down 0x11000 = 0x11000" "page_align_up 0x1000 = 0x1000"
  "page_align_down 0x20000 = 0x20000" "page_align_up 0x800 = 0x1000"
  by (simp_all add: page_align_down_def page_align_up_def page_size_def)

lemma three_pages_run: "map_zeroed 0x10000 0x3000 3 ''a'' initial_mmu = (Inr (), three_pages)"
  by (simp add: three_pages_def map_zeroed_def Let_def monad_defs pages_eval ensure_no_overlap_def
      initial_mmu_def)

lemma three_pages_regions: "m_regions three_pages = [new_simple_region 0x10000 0x3000 3 ''a'']"
  by (simp add: three_pages_def map_zeroed_def Let_def monad_defs pages_eval ensure_no_overlap_def
      initial_mmu_def insert_region_def sort_regions_def)

lemma three_pages_wf: "mmu_wf three_pages"
  and three_pages_cells: "cell_at three_pages a =
    (if in_pages 0x10000 0x3000 a then Some (Cell 0 True 3) else None)"
proof -
  have none: "cell_at initial_mmu a = None" by (simp add: cell_at_def find_region_def initial_mmu_def)
  from map_zeroed_run [OF initial_mmu_wf three_pages_run] none
  show "mmu_wf three_pages" "cell_at three_pages a =
    (if in_pages 0x10000 0x3000 a then Some (Cell 0 True 3) else None)"
    by (auto simp: maps_range_def)
qed

lemmas three_pages_simps = three_pages_cells in_pages_def pages_fit_def pages_eval

section \<open>Lookup\<close>

text \<open>
  Lookup is exact: in a well-formed address space \<^verbatim>\<open>find_region\<close> returns a region exactly
  when the region is in the list and contains the address, so an address belongs to at most one
  region, and the answer does not depend on the order in which the regions are searched.
\<close>

lemma find_region_exact:
  assumes "mmu_wf m"
  shows "find_region m a = Some r \<longleftrightarrow> r \<in> set (m_regions m) \<and> region_contains r a"
  using assms by (simp add: find_region_iff mmu_wf_def)

lemma find_region_exact_witness:
  "\<forall>r. find_region three_pages 0x10FFF = Some r \<longleftrightarrow>
     r \<in> set (m_regions three_pages) \<and> region_contains r 0x10FFF"
  using find_region_exact [OF three_pages_wf] by blast

section \<open>Access to one byte\<close>

text \<open>
  C17. Permissions: a byte can be read exactly where a region allows reading and written
  exactly where a region allows writing; otherwise the access fails with the error for an
  unmapped address or a missing permission, and changes nothing. A write changes the value and
  the initialisation bit of that one byte.
\<close>

theorem byte_access:
  assumes "mmu_wf m"
  shows "read8 m a = (case cell_at m a of
       None \<Rightarrow> Inl (EmulatorError (UnmappedMemory a))
     | Some c \<Rightarrow> if cell_allows ProtRead c then Inr (cell_byte c)
                 else Inl (EmulatorError (PermissionFault a))) \<and>
    (case store8 a v i m of (res, m') \<Rightarrow> mmu_wf m' \<and>
       (case cell_at m a of
          None \<Rightarrow> res = Inl (EmulatorError (UnmappedMemory a)) \<and> m' = m
        | Some c \<Rightarrow>
            if cell_allows ProtWrite c
            then res = Inr () \<and> cell_at m' = (cell_at m)(a \<mapsto> Cell v i (cell_prot c))
            else res = Inl (EmulatorError (PermissionFault a)) \<and> m' = m))"
proof -
  from assms have rw: "regions_wf (m_regions m)" by (simp add: mmu_wf_def)
  show ?thesis
  proof (cases "accessible m ProtWrite a")
    case True
    then obtain c where c: "cell_at m a = Some c" "cell_allows ProtWrite c"
      by (auto simp: accessible_def split: option.splits)
    from store8_run [OF assms True, of v i] show ?thesis
      by (auto simp: read8_cell [OF rw] c set_cell_value_def)
  next
    case False
    have "store8 a v i m = (case region_for m a ProtWrite of Inl e \<Rightarrow> (Inl e, m) | Inr _ \<Rightarrow> store8 a v i m)"
      by (auto simp: store8_def with_region_def monad_defs split: sum.splits)
    then show ?thesis
      using False assms
      by (auto simp: read8_cell [OF rw] region_for_spec [OF rw] accessible_def split: option.splits)
  qed
qed

theorem byte_access_witness:
  "read8 three_pages 0x10001 = Inr 0 \<and>
   fst (store8 0x13000 7 True three_pages) = Inl (EmulatorError (UnmappedMemory 0x13000))"
  using byte_access [OF three_pages_wf, of "0x10001" 7 True]
    byte_access [OF three_pages_wf, of "0x13000" 7 True]
  by (simp add: three_pages_simps cell_allows_def ProtRead_def split: prod.splits)

section \<open>Unmapping and protecting\<close>

text \<open>
  C13. \<^verbatim>\<open>unmap\<close> of a page range that stays below the end of the address space succeeds,
  removes exactly the cells of the range, whatever regions it cuts through, and leaves every
  other byte, its initialisation and its protection as they were.
\<close>

theorem unmap_spec:
  assumes "mmu_wf m" and "size0 \<noteq> 0" and "pages_fit base0 size0"
  shows "\<exists>m'. unmap base0 size0 m = (Inr (), m') \<and> mmu_wf m' \<and>
     (\<forall>a. cell_at m' a = (if in_pages base0 size0 a then None else cell_at m a))"
  by (rule unmap_run [OF assms])

theorem unmap_spec_witness:
  "\<exists>m'. unmap 0x11000 0x800 three_pages = (Inr (), m') \<and>
     cell_at m' 0x10FFF = Some (Cell 0 True 3) \<and> cell_at m' 0x11000 = None \<and>
     cell_at m' 0x11FFF = None \<and> cell_at m' 0x12000 = Some (Cell 0 True 3)"
  using unmap_spec [OF three_pages_wf, of "0x800" "0x11000"]
  by (auto simp: three_pages_simps)

text \<open>
  C14. \<^verbatim>\<open>protect\<close> of such a range succeeds and sets the protection of exactly its mapped
  cells, keeping all bytes and initialisation bits.
\<close>

theorem protect_spec:
  assumes "mmu_wf m" and "size0 \<noteq> 0" and "pages_fit base0 size0"
  shows "\<exists>m'. protect base0 size0 prot m = (Inr (), m') \<and> mmu_wf m' \<and>
     (\<forall>a. cell_at m' a = (if in_pages base0 size0 a
        then map_option (\<lambda>c. Cell (cell_byte c) (cell_init c) prot) (cell_at m a)
        else cell_at m a))"
  using protect_run [OF assms, of prot] by (simp only: set_cell_prot_def [abs_def])

theorem protect_spec_witness:
  "\<exists>m'. protect 0x11000 0x800 1 three_pages = (Inr (), m') \<and>
     cell_at m' 0x10FFF = Some (Cell 0 True 3) \<and> cell_at m' 0x11000 = Some (Cell 0 True 1) \<and>
     cell_at m' 0x20000 = None"
  using protect_spec [OF three_pages_wf, of "0x800" "0x11000" 1]
  by (auto simp: three_pages_simps)

section \<open>Mapping\<close>

text \<open>Why a mapping call is refused.\<close>

definition mapping_refused :: "u64 \<Rightarrow> u64 \<Rightarrow> mmu \<Rightarrow> exn \<Rightarrow> bool" where
  "mapping_refused base0 size0 m e \<longleftrightarrow>
     (page_align_up size0 = 0 \<and> e = EmulatorError ZeroSizeMapping) \<or>
     (page_align_up size0 \<noteq> 0 \<and> \<not> pages_fit base0 size0 \<and> e = EmulatorError MappingOverflow) \<or>
     (pages_fit base0 size0 \<and> (\<exists>r \<in> set (m_regions m).
        lo r < unat (page_align_down base0) + unat (page_align_up size0) \<and>
        unat (page_align_down base0) < hi r \<and>
        e = EmulatorError (MappingOverlap (page_align_down base0) (r_base r))))"

lemma ensure_no_overlap_Inl:
  assumes "mmu_wf m"
    and "ensure_no_overlap (m_regions m) (page_align_down base0) (page_align_up size0) = Inl e"
  shows "mapping_refused base0 size0 m e"
proof -
  let ?b = "page_align_down base0" and ?z = "page_align_up size0"
  have wrap: "?b + ?z < ?b \<longleftrightarrow> \<not> pages_fit base0 size0" if "?z \<noteq> 0"
    using that no_wrap_nat [of ?z ?b] u64_bound [of ?z] unat_add_u64 [of ?b ?z]
    by (auto simp: pages_fit_def u64_order not_less split: if_splits)
  show ?thesis
  proof (cases "?z = 0 \<or> \<not> pages_fit base0 size0")
    case True
    then show ?thesis using assms(2) wrap
      by (auto simp: ensure_no_overlap_def Let_def mapping_refused_def split: if_splits option.splits)
  next
    case False
    then obtain r where r: "find (ranges_overlap ?b (?b + ?z)) (m_regions m) = Some r"
      and e: "e = EmulatorError (MappingOverlap ?b (r_base r))"
      using assms(2) wrap by (auto simp: ensure_no_overlap_def Let_def split: option.splits)
    then have "r \<in> set (m_regions m)" "ranges_overlap ?b (?b + ?z) r"
      by (auto simp: find_Some_iff)
    with assms(1) e False show ?thesis
      by (auto simp: mapping_refused_def ranges_overlap_def u64_order pages_fit_stop mmu_wf_def
          regions_wf_def unat_region_end)
  qed
qed

text \<open>
  The two zero-filled mappings, \<^verbatim>\<open>map_zeroed\<close> and \<^verbatim>\<open>map_mmap\<close>: either the call is
  refused for an empty, wrapping or overlapping range and nothing changes, or the whole page
  range was free and now holds initialised zero bytes with the requested protection, everything
  else unchanged.
\<close>

lemma zero_mapping_spec:
  assumes "mmu_wf m"
    and "map_zeroed base0 size0 prot name m = (res, m') \<or>
         map_mmap base0 size0 prot name path off m = (res, m')"
  shows "case res of
      Inl e \<Rightarrow> m' = m \<and> mapping_refused base0 size0 m e
    | Inr _ \<Rightarrow> mmu_wf m' \<and> page_align_up size0 \<noteq> 0 \<and> pages_fit base0 size0 \<and>
        (\<forall>a. in_pages base0 size0 a \<longrightarrow> cell_at m a = None) \<and>
        (\<forall>a. cell_at m' a =
          (if in_pages base0 size0 a then Some (Cell 0 True prot) else cell_at m a))"
proof (cases res)
  case (Inl e)
  then have "ensure_no_overlap (m_regions m) (page_align_down base0) (page_align_up size0) = Inl e \<and> m' = m"
    using assms(2) by (auto simp: map_zeroed_def map_mmap_def Let_def monad_defs split: sum.splits)
  then show ?thesis using ensure_no_overlap_Inl [OF assms(1)] Inl by simp
next
  case (Inr u)
  then have "maps_range base0 size0 (\<lambda>_. Cell 0 True prot) m m'"
    using assms map_zeroed_run [OF assms(1)] map_mmap_run [OF assms(1)] by fastforce
  then show ?thesis using Inr by (simp add: maps_range_def)
qed

lemma zero_mapping_spec_witness:
  "cell_at three_pages 0x12FFF = Some (Cell 0 True 3) \<and> cell_at three_pages 0x13000 = None \<and>
   snd (map_zeroed 0x11000 0x1000 3 ''b'' three_pages) = three_pages"
proof -
  obtain res m' where run: "map_zeroed 0x11000 0x1000 3 ''b'' three_pages = (res, m')" by fastforce
  have "m' = three_pages"
    using zero_mapping_spec [OF three_pages_wf disjI1 [OF run]] three_pages_cells [of "0x11000"]
    by (cases res) (auto simp: in_pages_def pages_eval dest!: spec [where x = "0x11000"])
  then show ?thesis
    using run zero_mapping_spec [OF initial_mmu_wf disjI1 [OF three_pages_run]]
      three_pages_cells [of "0x13000"] by (simp add: in_pages_def pages_eval)
qed

text \<open>
  C16. \<^verbatim>\<open>map_bytes\<close>, which loads segments and the signal trampoline: either nothing
  changes, or the page range was free and now holds the source bytes at the given offset and
  zeros around them, with the requested protection.
\<close>

theorem map_bytes_spec:
  assumes "mmu_wf m" and "map_bytes base0 size0 prot source off name m = (res, m')"
  shows "case res of
      Inl e \<Rightarrow> m' = m \<and> (mapping_refused base0 size0 m e \<or>
        e = EmulatorError CopyExceedsRegion \<and>
        unat (page_align_up size0) < unat off + length source)
    | Inr _ \<Rightarrow> mmu_wf m' \<and> (\<forall>a. in_pages base0 size0 a \<longrightarrow> cell_at m a = None) \<and>
        (\<forall>a. cell_at m' a = (if in_pages base0 size0 a
           then Some (Cell (let i = unat (a - page_align_down base0) in
                  if unat off \<le> i \<and> i < unat off + length source
                  then source ! (i - unat off) else 0) True prot)
           else cell_at m a))"
proof (cases res)
  case (Inr u)
  then show ?thesis using map_bytes_run [OF assms]
    by (simp only: maps_range_def image_byte_def sum.case) blast
next
  case (Inl e)
  show ?thesis
  proof (cases "ensure_no_overlap (m_regions m) (page_align_down base0) (page_align_up size0)")
    case (Inl e')
    with assms(2) \<open>res = Inl e\<close> ensure_no_overlap_Inl [OF assms(1) Inl] show ?thesis
      by (auto simp: map_bytes_def Let_def monad_defs)
  next
    case (Inr u)
    let ?z = "page_align_up size0"
    have "\<not> (off > ?z \<or> length source > unat (?z - off)) \<Longrightarrow>
        length (replicate (unat off) 0 @ source @ replicate (unat ?z - unat off - length source) 0) = unat ?z"
      by (auto simp: u64_order unat_sub_u64 not_less)
    then have "e = EmulatorError CopyExceedsRegion \<and> m' = m \<and>
        (off > ?z \<or> length source > unat (?z - off))"
      using assms(2) \<open>res = Inl e\<close> Inr
      by (auto simp: map_bytes_def Let_def monad_defs new_simple_region_bytes_def split: if_splits)
    then show ?thesis using \<open>res = Inl e\<close> by (auto simp: u64_order unat_sub_u64 not_less)
  qed
qed

theorem map_bytes_spec_witness:
  "cell_at (snd (map_bytes 0x11000 0x800 5 [1, 2] 4 ''t'' initial_mmu)) 0x11005 = Some (Cell 2 True 5) \<and>
   snd (map_bytes 0x11000 0x800 5 [1, 2] 4 ''t'' three_pages) = three_pages"
proof -
  have "fst (map_bytes 0x11000 0x800 5 [1, 2] 4 ''t'' initial_mmu) = Inr ()"
    by (simp add: map_bytes_def Let_def monad_defs pages_eval ensure_no_overlap_def initial_mmu_def
        new_simple_region_bytes_def)
  then obtain m1 where r1: "map_bytes 0x11000 0x800 5 [1, 2] 4 ''t'' initial_mmu = (Inr (), m1)"
    by (metis prod.collapse)
  obtain res m2 where r2: "map_bytes 0x11000 0x800 5 [1, 2] 4 ''t'' three_pages = (res, m2)"
    by fastforce
  have "m2 = three_pages"
    using map_bytes_spec [OF three_pages_wf r2] three_pages_cells [of "0x11000"]
    by (cases res) (auto simp: in_pages_def pages_eval dest!: spec [where x = "0x11000"])
  moreover have "cell_at m1 0x11005 = Some (Cell 2 True 5)"
    using map_bytes_spec [OF initial_mmu_wf r1] by (simp add: in_pages_def pages_eval)
  ultimately show ?thesis using r1 r2 by simp
qed

text \<open>
  C15. \<^verbatim>\<open>allocate_mmap\<close> with page alignment: the search for a free slot always ends; the call
  fails only for a size that rounds to nothing or a range that does not fit, without touching the
  regions; otherwise the slot returned is page-aligned, was entirely free, holds initialised
  zeros afterwards, and the next search starts behind it.
\<close>

theorem allocate_mmap_spec:
  assumes "mmu_wf m" and "allocate_mmap size0 page_size prot name path off m = (res, m')"
  shows "mmu_wf m' \<and> (case res of
      Inl e \<Rightarrow> m_regions m' = m_regions m \<and>
        (e = EmulatorError ZeroSizeMapping \<or> e = EmulatorError MappingOverflow)
    | Inr c \<Rightarrow> page_aligned c \<and> m_next_allocation m' = c + page_align_up size0 \<and>
        pages_fit c size0 \<and> (\<forall>a. in_pages c size0 a \<longrightarrow> cell_at m a = None) \<and>
        (\<forall>a. cell_at m' a = (if in_pages c size0 a then Some (Cell 0 True prot) else cell_at m a)))"
  using allocate_mmap_run [OF assms(1) order_refl assms(2)]
  by (auto simp: maps_range_def split: sum.splits)

theorem allocate_mmap_spec_witness:
  "mmu_wf (snd (allocate_mmap 0x800 page_size 3 ''[mmap]'' None 0 three_pages)) \<and>
   fst (allocate_mmap 0x800 page_size 3 ''[mmap]'' None 0 three_pages) \<noteq> Inl Diverges"
  using allocate_mmap_spec [OF three_pages_wf, of "0x800" 3 "''[mmap]''" None 0
      "fst (allocate_mmap 0x800 page_size 3 ''[mmap]'' None 0 three_pages)"
      "snd (allocate_mmap 0x800 page_size 3 ''[mmap]'' None 0 three_pages)"]
  by (auto split: sum.splits)

end
