(* ===== verification/Decode_Laws.thy ===== *)
theory Decode_Laws
  imports CPU_Core MMU_Laws
begin

text \<open>
  The scan of instruction prefixes. The loop of \<^verbatim>\<open>read_prefixes\<close> has no limit of its own (a
  processor stops at 15 bytes); it ends because the last byte of the address space cannot be mapped.
\<close>

definition is_prefix_byte :: "u8 \<Rightarrow> bool" where
  "is_prefix_byte b \<longleftrightarrow>
     b \<in> set [0x66, 0x67, 0x26, 0x2e, 0x36, 0x3e, 0xf0, 0xf2, 0xf3, 0x64, 0x65] \<or> 0x40 \<le> b \<and> b \<le> 0x4f"

lemma apply_prefix_byte: "(\<exists>q. apply_prefix b p = Some q) \<longleftrightarrow> is_prefix_byte b"
  by (auto simp: apply_prefix_def is_prefix_byte_def)

lemma last_byte_unmapped:
  assumes "mmu_wf m"
  shows "read8 m (- 1) = Inl (EmulatorError (UnmappedMemory (- 1)))"
proof -
  have "find_region m (- 1) = None"
  proof (rule ccontr)
    assume "find_region m (- 1) \<noteq> None"
    then obtain r where r: "find_region m (- 1) = Some r" by auto
    then have wf: "region_wf r" and c: "region_contains r (- 1)"
      using find_region_wf [OF _ r] assms by (auto simp: mmu_wf_def)
    have "(- 1 :: u64) < region_end r" using c by (simp add: region_contains_def)
    then show False using word_order.extremum_strict by blast
  qed
  then show ?thesis by (simp add: read8_def region_for_def)
qed

lemma prefix_loop_ends:
  assumes "mmu_wf m"
  shows "\<exists>k r. prefix_loop m pc p = Some (r, pc + of_nat k) \<and> unat pc + k < 2 ^ 64 \<and>
    (\<forall>j < k. \<exists>b. read8 m (pc + of_nat j) = Inr b \<and> is_prefix_byte b) \<and>
    (case read8 m (pc + of_nat k) of
       Inl e \<Rightarrow> r = Inl e
     | Inr b \<Rightarrow> \<not> is_prefix_byte b \<and> (\<exists>q. r = Inr q))"
proof (induction "unat (- 1 - pc)" arbitrary: pc p rule: less_induct)
  case less
  show ?case
  proof (cases "\<exists>b q. read8 m pc = Inr b \<and> apply_prefix b p = Some q")
    case False
    then have "\<exists>r. prefix_loop m pc p = Some (r, pc) \<and>
        (case read8 m pc of Inl e \<Rightarrow> r = Inl e | Inr b \<Rightarrow> \<not> is_prefix_byte b \<and> (\<exists>q. r = Inr q))"
      using apply_prefix_byte by (subst prefix_loop.simps) (force split: sum.split option.split)
    moreover have "unat pc < 2 ^ 64" using unsigned_less [of pc] by simp
    ultimately show ?thesis by (intro exI [of _ 0]) auto
  next
    case True
    then obtain b q where b: "read8 m pc = Inr b" "apply_prefix b p = Some q" by blast
    with last_byte_unmapped [OF assms] have pc: "pc \<noteq> - 1" by auto
    then have next_pc: "unat (pc + 1) = unat pc + 1" 
      by (metis add.commute add_eq_0_iff unatSuc Suc_eq_plus1)
    have "- 1 - (pc + 1) = - 1 - pc - 1" by simp
    moreover have "- 1 - pc \<noteq> 0" using pc by simp
    ultimately have "unat (- 1 - (pc + 1)) < unat (- 1 - pc)" by (metis measure_unat)
    from less [OF this, of q] obtain k r where
      IH: "prefix_loop m (pc + 1) q = Some (r, pc + 1 + of_nat k)" "unat (pc + 1) + k < 2 ^ 64"
        "\<forall>j < k. \<exists>b. read8 m (pc + 1 + of_nat j) = Inr b \<and> is_prefix_byte b"
        "case read8 m (pc + 1 + of_nat k) of
           Inl e \<Rightarrow> r = Inl e | Inr b \<Rightarrow> \<not> is_prefix_byte b \<and> (\<exists>q. r = Inr q)"
      by blast
    have "prefix_loop m pc p = Some (r, pc + of_nat (Suc k))"
      using b IH(1) by (subst prefix_loop.simps) (simp add: add.assoc)
    moreover have "\<forall>j < Suc k. \<exists>b. read8 m (pc + of_nat j) = Inr b \<and> is_prefix_byte b"
    proof (intro allI impI)
      fix j assume "j < Suc k"
      then show "\<exists>b. read8 m (pc + of_nat j) = Inr b \<and> is_prefix_byte b"
        using b IH(3) apply_prefix_byte by (cases j) (auto simp: add.assoc)
    qed
    moreover have "unat pc + Suc k < 2 ^ 64" using IH(2) next_pc by simp
    ultimately show ?thesis using IH(4) by (intro exI [of _ "Suc k"]) (auto simp: add.assoc)
  qed
qed

text \<open>
  C38. Reading prefixes ends in every well-formed address space: the scan passes over \<open>k\<close> readable
  prefix bytes and stops at the first byte that is no prefix, or with the fault of the first
  that cannot be read; the decode pointer is left there.
\<close>

theorem prefix_scan_ends:
  assumes "mmu_wf m"
  shows "\<exists>k r. prefix_loop m pc p = Some (r, pc + of_nat k) \<and> unat pc + k < 2 ^ 64 \<and>
    (\<forall>j < k. \<exists>b. read8 m (pc + of_nat j) = Inr b \<and> is_prefix_byte b) \<and>
    (case read8 m (pc + of_nat k) of
       Inl e \<Rightarrow> r = Inl e
     | Inr b \<Rightarrow> \<not> is_prefix_byte b \<and> (\<exists>q. r = Inr q))"
  using assms by (rule prefix_loop_ends)

theorem prefix_scan_ends_witness:
  "\<exists>k r. prefix_loop three_pages 0x10000 no_prefixes = Some (r, 0x10000 + of_nat k) \<and>
     0x10000 + k < 2 ^ 64"
  using prefix_scan_ends [OF three_pages_wf, of "0x10000" no_prefixes] by auto

end
