(* ===== verification/Disassembler_Laws.thy ===== *)
theory Disassembler_Laws
  imports Disassembler Decode_Laws
begin

text \<open>
  The disassembler in a well-formed address space: it always ends, fails only with a memory fault,
  and lists exactly the bytes it decoded.
\<close>

section \<open>Only memory faults\<close>

definition memory_fault :: "exn \<Rightarrow> bool" where
  "memory_fault e \<longleftrightarrow>
     (\<exists>a. e = EmulatorError (UnmappedMemory a) \<or> e = EmulatorError (PermissionFault a))"

definition faults_only :: "('s, 'a) smon \<Rightarrow> bool" where
  "faults_only f \<longleftrightarrow> (\<forall>s e t. f s = (Inl e, t) \<longrightarrow> memory_fault e)"

named_theorems faults \<open>operations that fail only with a memory fault\<close>

lemma faults_only_return [faults]: "faults_only (return v)"
  by (simp add: faults_only_def return_def)

lemma faults_only_gets [faults]: "faults_only (gets f)"
  by (simp add: faults_only_def gets_def)

lemma faults_only_modify [faults]: "faults_only (modify f)"
  by (simp add: faults_only_def modify_def)

lemma faults_only_bind [faults]:
  "faults_only f \<Longrightarrow> (\<And>v. faults_only (g v)) \<Longrightarrow> faults_only (bind f g)"
  by (auto simp: faults_only_def bind_def split: prod.splits sum.splits)

lemma faults_only_seq [faults]: "faults_only f \<Longrightarrow> faults_only g \<Longrightarrow> faults_only (seq f g)"
  by (simp add: seq_def faults_only_bind)

lemma faults_only_if [faults]:
  "(b \<Longrightarrow> faults_only f) \<Longrightarrow> (\<not> b \<Longrightarrow> faults_only g) \<Longrightarrow> faults_only (if b then f else g)"
  by simp

lemma faults_only_when [faults]: "(b \<Longrightarrow> faults_only f) \<Longrightarrow> faults_only (when_do b f)"
  by (simp add: when_do_def faults_only_return)

lemma faults_only_let [faults]: "(\<And>x. faults_only (f x)) \<Longrightarrow> faults_only (Let v f)"
  by simp

lemma faults_only_lift: "(\<And>s e. r s = Inl e \<Longrightarrow> memory_fault e) \<Longrightarrow> faults_only (lift_sum r)"
  by (auto simp: faults_only_def lift_sum_def split: sum.splits)

lemma read8_fault: "mmu_wf m \<Longrightarrow> read8 m a = Inl e \<Longrightarrow> memory_fault e"
  by (auto simp: mmu_wf_def read8_cell memory_fault_def split: option.splits if_splits)

lemma read_loop_fault: "mmu_wf m \<Longrightarrow> read_loop m a i n v = Inl e \<Longrightarrow> memory_fault e"
proof (induction n arbitrary: i v)
  case (Suc n)
  then show ?case
    using read8_fault [OF Suc.prems(1)] by (auto simp: sbind_def split: sum.splits)
qed simp

lemma cursor_faults [faults]:
  assumes "mmu_wf m"
  shows "faults_only (cursor8 m)" "faults_only (cursor16 m)" "faults_only (cursor32 m)"
    "faults_only (cursor64 m)" "faults_only (cursor_i8 m)" "faults_only (cursor_i32 m)"
  using read8_fault [OF assms] read_loop_fault [OF assms]
  unfolding cursor_i8_def cursor_i32_def cursor8_def cursor16_def cursor32_def cursor64_def
    advance_def read16_def read32_def read64_def
  by (intro faults faults_only_lift; blast)+

lemma operand_faults [faults]:
  assumes "mmu_wf m"
  shows "faults_only (cursor_modrm m p)" "faults_only (memory_parts m p modrm)"
    "faults_only (memory_text m p modrm n)" "faults_only (rm_text m p modrm w n)"
    "faults_only (cursor_imm m w)"
  unfolding cursor_modrm_def memory_text_def memory_parts_def rm_text_def cursor_imm_def
  by (intro faults assms)+

lemma target_faults [faults]: "faults_only (target_text rel)"
  unfolding target_text_def by (intro faults)

lemma describe_faults [faults]:
  assumes "mmu_wf m"
  shows "faults_only (describe_double_shift m p op2)" "faults_only (describe_sse m p op2)"
    "faults_only (describe_0f m p)" "faults_only (describe_alu m p opcode)"
    "faults_only (describe_group m p names w n b)" "faults_only (describe_imul3 m p opcode)"
    "faults_only (describe_alu_imm m p opcode)" "faults_only (describe_mov m p opcode)"
    "faults_only (describe_mov_imm m p opcode)" "faults_only (describe_x87 m p opcode)"
  unfolding describe_double_shift_def describe_sse_def describe_0f_def describe_alu_def
    describe_group_def describe_imul3_def describe_alu_imm_def describe_mov_def describe_mov_imm_def
    describe_x87_def
  by (intro faults assms)+

lemma describe_jump_faults [faults]: "faults_only r \<Longrightarrow> faults_only (describe_jump name r)"
  unfolding describe_jump_def by (intro faults)

lemma pred_option_if:
  "(b \<Longrightarrow> pred_option P x) \<Longrightarrow> (\<not> b \<Longrightarrow> pred_option P y) \<Longrightarrow> pred_option P (if b then x else y)"
  by simp

lemma describe_short_faults:
  assumes "mmu_wf m" and "describe_short m p opcode = Some text"
  shows "faults_only text"
proof -
  have some: "faults_only t \<Longrightarrow> pred_option faults_only (Some t)" for t :: "string cursor" by simp
  have none: "pred_option (faults_only :: string cursor \<Rightarrow> bool) None" by simp
  have "pred_option faults_only (describe_short m p opcode)"
    unfolding describe_short_def Let_def by (intro pred_option_if some none faults assms(1))
  then show ?thesis using assms(2) by simp
qed

lemma describe_opcode_faults:
  assumes "mmu_wf m"
  shows "faults_only (describe_opcode m p opcode)"
proof (cases "describe_short m p opcode")
  case None
  then show ?thesis
    unfolding describe_opcode_def describe_switch_def None option.simps by (intro faults assms)
next
  case (Some t)
  then show ?thesis
    unfolding describe_opcode_def Some option.simps
    by (intro faults assms describe_short_faults [OF assms Some])
qed

section \<open>Prefixes\<close>

text \<open>The two scanners of prefixes pass over the same bytes.\<close>

lemma describe_prefix_byte: "(\<exists>q. describe_prefix b p = Some q) \<longleftrightarrow> is_prefix_byte b"
  by (auto simp: describe_prefix_def is_prefix_byte_def)

lemma read8_last:
  assumes "mmu_wf m" "read8 m pc = Inr b"
  shows "unat (- 1 - (pc + 1)) < unat (- 1 - pc)"
proof -
  have "- 1 - pc \<noteq> 0" using assms last_byte_unmapped by auto
  moreover have "- 1 - (pc + 1) = - 1 - pc - 1" by simp
  ultimately show ?thesis by (metis measure_unat)
qed

lemma describe_prefixes_extent:
  assumes "mmu_wf m"
  shows "\<exists>r q pc'. describe_prefixes m pc p = Some (r, pc') \<and> prefix_loop m pc p' = Some (q, pc') \<and>
    (\<forall>e. r = Inl e \<longrightarrow> q = Inl e \<and> memory_fault e) \<and> ((\<exists>x. r = Inr x) = (\<exists>x. q = Inr x))"
proof (induction "unat (- 1 - pc)" arbitrary: pc p p' rule: less_induct)
  case less
  show ?case
  proof (cases "read8 m pc")
    case (Inl e)
    then show ?thesis
      using read8_fault [OF assms] by (simp add: describe_prefixes.simps prefix_loop.simps)
  next
    case (Inr b)
    show ?thesis
    proof (cases "is_prefix_byte b")
      case True
      then obtain q q' where "describe_prefix b p = Some q" "apply_prefix b p' = Some q'"
        using describe_prefix_byte apply_prefix_byte by blast
      then show ?thesis
        using less [OF read8_last [OF assms Inr], of q q'] Inr
        by (simp add: describe_prefixes.simps [of m pc] prefix_loop.simps [of m pc])
    next
      case False
      then have "describe_prefix b p = None" "apply_prefix b p' = None"
        using describe_prefix_byte [of b p] apply_prefix_byte [of b p'] by auto
      then show ?thesis using Inr by (simp add: describe_prefixes.simps prefix_loop.simps)
    qed
  qed
qed

section \<open>The text\<close>

fun join_space :: "string list \<Rightarrow> string" where
  "join_space [] = []"
| "join_space [x] = x"
| "join_space (x # y # rest) = x @ CHR '' '' # join_space (y # rest)"

lemma join_space_snoc: "join_space (xs @ [x]) = (if xs = [] then x else join_space xs @ '' '' @ x)"
  by (induction xs rule: join_space.induct) auto

lemma format_bytes:
  "case format_hex_bytes m a n of
     Inl e \<Rightarrow> \<exists>i < n. read8 m (a + of_nat i) = Inl e
   | Inr text \<Rightarrow> \<exists>bytes. length bytes = n \<and> (\<forall>i < n. read8 m (a + of_nat i) = Inr (bytes ! i)) \<and>
       text = join_space (map (\<lambda>b. hex_text 2 (ucast b)) bytes)"
proof (induction n)
  case 0
  show ?case by (simp add: format_hex_bytes_def)
next
  case (Suc n)
  have step: "format_hex_bytes m a (Suc n) =
    sbind (format_hex_bytes m a n) (\<lambda>text. sbind (read8 m (a + of_nat n)) (\<lambda>b.
      Inr ((if n = 0 then text else text @ '' '') @ hex_text 2 (ucast b))))"
    by (simp add: format_hex_bytes_def)
  show ?case
  proof (cases "format_hex_bytes m a n")
    case (Inl e)
    then show ?thesis using Suc by (auto simp: step sbind_def intro: less_SucI)
  next
    case (Inr t)
    with Suc obtain bytes where b: "length bytes = n" "\<forall>i < n. read8 m (a + of_nat i) = Inr (bytes ! i)"
      "t = join_space (map (\<lambda>b. hex_text 2 (ucast b)) bytes)" by auto
    show ?thesis
    proof (cases "read8 m (a + of_nat n)")
      case (Inl e)
      then show ?thesis by (auto simp: step \<open>format_hex_bytes m a n = Inr t\<close> sbind_def)
    next
      case r: (Inr c)
      have fmt: "format_hex_bytes m a (Suc n) =
          Inr ((if n = 0 then t else t @ '' '') @ hex_text 2 (ucast c))"
        by (simp add: step \<open>format_hex_bytes m a n = Inr t\<close> r sbind_def)
      have "length (bytes @ [c]) = Suc n" using b(1) by simp
      moreover have "\<forall>i < Suc n. read8 m (a + of_nat i) = Inr ((bytes @ [c]) ! i)"
        using b(1,2) r by (auto simp: nth_append less_Suc_eq)
      moreover have "(if n = 0 then t else t @ '' '') @ hex_text 2 (ucast c) =
          join_space (map (\<lambda>b. hex_text 2 (ucast b)) (bytes @ [c]))"
        using b(1,3) by (auto simp: join_space_snoc)
      ultimately show ?thesis unfolding fmt sum.simps by blast
    qed
  qed
qed

lemma with_prefixes_split:
  "\<exists>mnemonic. with_prefixes m p start pc t =
     sbind (format_hex_bytes m start (unat (pc - start)))
       (\<lambda>bytes. Inr (mnemonic @ ''    ; bytes: '' @ bytes))"
proof -
  let ?mnemonic = "(if p_lock p then ''lock '' else []) @ (if p_repz p then ''rep '' else []) @
    (if p_repnz p then ''repnz '' else []) @ t"
  have "with_prefixes m p start pc t = sbind (format_hex_bytes m start (unat (pc - start)))
      (\<lambda>bytes. Inr (?mnemonic @ ''    ; bytes: '' @ bytes))"
    unfolding with_prefixes_def append_assoc ..
  then show ?thesis by (intro exI [of _ ?mnemonic])
qed

lemma describe_current_instruction_cases:
  assumes "mmu_wf m"
  shows "case describe_current_instruction m rip of
      Inl e \<Rightarrow> \<exists>a. e = EmulatorError (UnmappedMemory a) \<or> e = EmulatorError (PermissionFault a)
    | Inr text \<Rightarrow> \<exists>mnemonic bytes.
        text = mnemonic @ ''    ; bytes: '' @ join_space (map (\<lambda>b. hex_text 2 (ucast b)) bytes) \<and>
        (\<forall>i < length bytes. read8 m (rip + of_nat i) = Inr (bytes ! i))"
proof -
  obtain r pc' where P: "describe_prefixes m rip no_prefixes = Some (r, pc')"
    "\<And>e. r = Inl e \<Longrightarrow> memory_fault e"
    using describe_prefixes_extent [OF assms, of rip no_prefixes no_prefixes] by metis
  show ?thesis
  proof (cases r)
    case (Inl e)
    then show ?thesis using P by (simp add: describe_current_instruction_def memory_fault_def)
  next
    case (Inr p)
    have f: "faults_only (bind (cursor8 m) (describe_opcode m p))"
      by (intro faults assms describe_opcode_faults)
    obtain d pc where d: "bind (cursor8 m) (describe_opcode m p) pc' = (d, pc)" by fastforce
    show ?thesis
    proof (cases d)
      case (Inl e)
      then have "memory_fault e" using f d unfolding faults_only_def by blast
      then show ?thesis using P(1) d Inl Inr by (simp add: describe_current_instruction_def memory_fault_def)
    next
      case t: (Inr t)
      have run: "describe_current_instruction m rip = with_prefixes m p rip pc t"
        using P(1) d t Inr by (simp add: describe_current_instruction_def)
      obtain mnemonic where split: "with_prefixes m p rip pc t =
          sbind (format_hex_bytes m rip (unat (pc - rip))) (\<lambda>bytes. Inr (mnemonic @ ''    ; bytes: '' @ bytes))"
        using with_prefixes_split by metis
      show ?thesis
      proof (cases "format_hex_bytes m rip (unat (pc - rip))")
        case (Inl e)
        then show ?thesis
          using format_bytes [where m = m and a = rip and n = "unat (pc - rip)"] read8_fault [OF assms]
          by (auto simp: run split sbind_def memory_fault_def)
      next
        case bytes: (Inr b)
        then have res: "describe_current_instruction m rip = Inr (mnemonic @ ''    ; bytes: '' @ b)"
          unfolding run split by (simp add: sbind_def)
        obtain bs where bs: "length bs = unat (pc - rip)"
          "\<forall>i < unat (pc - rip). read8 m (rip + of_nat i) = Inr (bs ! i)"
          "b = join_space (map (\<lambda>b. hex_text 2 (ucast b)) bs)"
          using format_bytes [where m = m and a = rip and n = "unat (pc - rip)"] bytes by auto
        show ?thesis unfolding res sum.simps
          by (intro exI [of _ mnemonic] exI [of _ bs], unfold bs(1,3)) (intro conjI refl bs(2))
      qed
    qed
  qed
qed

text \<open>
  C39. The disassembler in a well-formed address space, at any instruction pointer and whatever the
  bytes there: it ends and either fails with the fault of an unreadable byte or gives a text that
  closes with the bytes of a range starting at the instruction pointer, all of them readable, in
  hexadecimal. It changes nothing.
\<close>

theorem disassembly_spec:
  assumes "mmu_wf m"
  shows "case describe_current_instruction m rip of
      Inl e \<Rightarrow> \<exists>a. e = EmulatorError (UnmappedMemory a) \<or> e = EmulatorError (PermissionFault a)
    | Inr text \<Rightarrow> \<exists>mnemonic bytes.
        text = mnemonic @ ''    ; bytes: '' @ join_space (map (\<lambda>b. hex_text 2 (ucast b)) bytes) \<and>
        (\<forall>i < length bytes. read8 m (rip + of_nat i) = Inr (bytes ! i))"
  using assms by (rule describe_current_instruction_cases)

theorem disassembly_spec_witness:
  "case describe_current_instruction three_pages 0x10000 of
      Inl e \<Rightarrow> \<exists>a. e = EmulatorError (UnmappedMemory a) \<or> e = EmulatorError (PermissionFault a)
    | Inr text \<Rightarrow> \<exists>mnemonic bytes.
        text = mnemonic @ ''    ; bytes: '' @ join_space (map (\<lambda>b. hex_text 2 (ucast b)) bytes) \<and>
        (\<forall>i < length bytes. read8 three_pages (0x10000 + of_nat i) = Inr (bytes ! i))"
  using disassembly_spec [OF three_pages_wf] .

end
