(* ===== verification/Memory_Invariant.thy ===== *)
theory Memory_Invariant
  imports CPU_Type Sound Disassembler_Laws
begin

text \<open>
  The interface through which the processor, the tracer and the signal code touch guest memory,
  and what follows for every instruction. All their effects on the address space are
  \<^verbatim>\<open>write8_with_shadow\<close> (\<open>store8\<close>, which checks the write permission) and the tracer's
  \<^verbatim>\<open>mark_initialized\<close>; so a property of well-formed address spaces that these two keep is kept
  by every instruction, whatever it does and whether or not it throws, and what it throws is
  expected. The locale states that once, and beside it that the vector registers keep their type;
  it is interpreted for the well-formedness of the region list and for the frame property that a
  byte without write permission never changes.
\<close>

section \<open>What is kept\<close>

text \<open>The address space satisfies \<open>I\<close> and, where \<open>typed\<close> asks for it, every vector register has
  its 16 bytes.\<close>

definition machine_ok :: "(mmu \<Rightarrow> bool) \<Rightarrow> bool \<Rightarrow> machine \<Rightarrow> bool" where
  "machine_ok I typed s \<longleftrightarrow> I (s_mmu s) \<and> (typed \<longrightarrow> xmm_typed (s_cpu s))"

lemma machine_ok_other [simp]:
  "machine_ok I typed (s\<lparr>s_emu := e\<rparr>) = machine_ok I typed s"
  "machine_ok I typed (s\<lparr>s_host_log := log\<rparr>) = machine_ok I typed s"
  "machine_ok I typed (s\<lparr>s_host_pending := pending\<rparr>) = machine_ok I typed s"
  by (simp_all add: machine_ok_def)

lemma machine_ok_memory: "machine_ok I typed s \<Longrightarrow> I (s_mmu s)"
  by (simp add: machine_ok_def)

lemma sound_upd_cpu [sound_rules]:
  "(\<And>c. xmm_typed c \<Longrightarrow> xmm_typed (f c)) \<Longrightarrow> sound (machine_ok I typed) (upd_cpu f)"
  by (simp add: sound_def monad_defs machine_ok_def)

lemma sound_cpu_call [sound_rules]:
  "(\<And>c. xmm_typed c \<Longrightarrow> xmm_typed (snd (k c))) \<Longrightarrow> sound (machine_ok I typed) (cpu_call k)"
  by (fastforce simp: sound_def cpu_call_def machine_ok_def split: prod.split)

lemma sound_machine [sound_rules]:
  "sound (machine_ok I typed) (upd_tracer g)"
  "sound (machine_ok I typed) (upd_emu h)"
  "sound (machine_ok I typed) (print_err msg)"
  by (simp_all add: sound_def monad_defs machine_ok_def)

lemma sound_getters [sound_rules]:
  "sound J (get_cpu f)" "sound J (get_tracer g)" "sound J (get_emu h)"
  by (simp_all add: sound_def monad_defs)

lemma sound_on_mmu: "sound I f \<Longrightarrow> sound (machine_ok I typed) (on_mmu f)"
  by (auto simp: sound_def on_mmu_def machine_ok_def split: prod.split)

lemma sound_modify_other:
  "(\<And>s. s_mmu (f s) = s_mmu s \<and> s_cpu (f s) = s_cpu s) \<Longrightarrow> sound (machine_ok I typed) (modify f)"
  by (rule sound_modify) (simp add: machine_ok_def)

text \<open>The value of a register.\<close>

definition sixteen :: "bool \<Rightarrow> u8 list \<Rightarrow> bool" where
  "sixteen typed v \<longleftrightarrow> (typed \<longrightarrow> length v = 16)"

lemma get_xmm_yields: "yields (machine_ok I typed) (sixteen typed) (get_cpu (\<lambda>c. c_xmm c i))"
  unfolding get_cpu_def by (rule yields_gets) (simp add: machine_ok_def sixteen_def xmm_typed_def)

lemma set_xmm_sound: "sixteen typed v \<Longrightarrow> sound (machine_ok I typed) (set_xmm i v)"
  by (simp add: sound_def set_xmm_def monad_defs machine_ok_def sixteen_def xmm_typed_update)

lemma shift_result_expected: "as_expected (shift_result operation v count width)"
  by (simp add: shift_result_def Let_def)

lemma sound_shift [sound_rules]:
  "sound J (lift_sum (\<lambda>_. shift_result operation v count width))"
  by (rule sound_lift_const) (rule shift_result_expected)

lemma scan_block_expected: "mmu_wf mem \<Longrightarrow> as_expected (scan_block m mem base offs acc)"
  by (induction m mem base offs acc rule: scan_block.induct)
    (auto simp: read64_def intro!: as_expected_sbind read_loop_expected)

lemmas machine_prims = do_read_gpr_def do_write_gpr_def set_decode_pc_def set_taint_def
  mem_read8_def mem_read16_def mem_read32_def mem_read64_def trace_message_def
  push_call_stack_def pop_call_stack_def flags_taint_now_def load_popped_def jump_if_def

section \<open>Invariants of the address space\<close>

text \<open>The units that are arguments of \<open>step\<close> keep \<open>I\<close>.\<close>

definition units_keep :: "(mmu \<Rightarrow> bool) \<Rightarrow> bool \<Rightarrow> units \<Rightarrow> bool" where
  "units_keep I typed u \<longleftrightarrow>
     (\<forall>opcode p. sound (machine_ok I typed) (u_x87 u opcode p)) \<and>
     (\<forall>opcode p. sound (machine_ok I typed) (u_sse_float u opcode p)) \<and>
     (\<forall>number. sound (machine_ok I typed) (u_syscall u number))"


locale memory_invariant =
  fixes I :: "mmu \<Rightarrow> bool" and typed :: bool
  assumes well_formed: "I m \<Longrightarrow> mmu_wf m"
    and store_keeps: "sound I (store8 a v i)"
    and mark_keeps:
      "sound I (with_region a ProtRead (\<lambda>r. set_offset_initialized (a - r_base r) i))"
begin

abbreviation ok :: "machine \<Rightarrow> bool" where
  "ok \<equiv> machine_ok I typed"

lemma ok_well_formed: "ok s \<Longrightarrow> mmu_wf (s_mmu s)"
  by (rule well_formed) (rule machine_ok_memory)

subsection \<open>The tracer\<close>

lemma read_mmu_keeps [sound_rules]: "reads k \<Longrightarrow> sound ok (read_mmu k)"
  unfolding read_mmu_def by (rule sound_lift_sum) (rule readsD, assumption, erule ok_well_formed)

lemma backtrace_keeps [sound_rules]: "sound ok (lift_sum raw_backtrace)"
  by (rule sound_lift_sum) (rule raw_backtrace_expected, erule ok_well_formed)

lemma caller_is_internal_keeps [sound_rules]:
  "sound ok (lift_sum caller_is_internal)"
proof (rule sound_lift_sum)
  fix s :: machine assume "ok s"
  then have "as_expected (read64 (s_mmu s) (c_gpr (s_cpu s) RSP))"
    using ok_well_formed read_loop_expected unfolding read64_def by blast
  then show "as_expected (caller_is_internal s)"
    by (auto simp: caller_is_internal_def split: sum.split exn.split)
qed

lemma store_machine [sound_rules]: "sound ok (on_mmu (store8 a v i))"
  by (rule sound_on_mmu, rule store_keeps)

lemma mark_machine [sound_rules]: "sound ok (on_mmu (mark_initialized a n i))"
  unfolding mark_initialized_def by (intro sound_on_mmu sound_for_loop mark_keeps)

lemma report_keeps [sound_rules]:
  "sound ok (report_heap_overflow a p r)"
  "sound ok (report_use_after_free a p r)"
  "sound ok (report_use_after_free_read a p r)"
  "sound ok (report_uninitialized_read a p r)"
  "sound ok (report_double_free p r)"
  "sound ok (report_invalid_free p)"
  "sound ok (report_realloc_error p ro)"
  unfolding report_heap_overflow_def report_use_after_free_def report_use_after_free_read_def
    report_uninitialized_read_def report_double_free_def report_invalid_free_def
    report_realloc_error_def report_once_def
  by (intro sound_rules; simp add: xmm_rules)+

lemma observers_keep [sound_rules]:
  "sound ok (on_memory_write a)"
  "sound ok (on_memory_read a)"
  unfolding on_memory_write_def on_memory_read_def by (intro sound_rules; simp add: xmm_rules)+

lemma observe_keeps [sound_rules]:
  "sound ok obs \<Longrightarrow> sound ok (observe obs)"
  unfolding observe_def by (intro sound_rules; simp add: xmm_rules)

lemma record_keeps [sound_rules]:
  "sound ok (record_allocation p sz b)"
  "sound ok (move_to_freed p)"
  unfolding record_allocation_def move_to_freed_def machine_prims by (intro sound_rules; simp add: xmm_rules)+

lemma tracer_leave_keeps [sound_rules]:
  "sound ok (on_malloc_leave r)"
  "sound ok (on_free_enter p)"
  "sound ok on_free_leave"
  "sound ok (on_realloc_leave r)"
  "sound ok (on_calloc_leave r)"
  unfolding on_malloc_leave_def on_free_enter_def on_free_leave_def on_realloc_leave_def
    on_calloc_leave_def machine_prims
  by (intro sound_rules; simp add: xmm_rules)+

lemma tracer_function_keeps [sound_rules]:
  "sound ok (on_function_enter f)"
  "sound ok on_function_leave"
  unfolding on_function_enter_def on_function_leave_def
  by (intro sound_rules; simp add: xmm_rules) (auto intro!: sound_rules split: alloc_function.split)

lemma tracer_step_keeps [sound_rules]: "sound ok tracer_step"
  unfolding tracer_step_def by (intro sound_rules; simp add: xmm_rules)

subsection \<open>Memory accesses\<close>

lemma read8_shadow_keeps [sound_rules]: "sound ok (read8_with_shadow a)"
  unfolding read8_with_shadow_def
proof (rule sound_bind_value)
  show "sound ok (read_mmu (\<lambda>m. region_for m a ProtRead))" by (intro sound_rules; simp add: xmm_rules)
next
  fix s r
  assume "ok s" and found: "fst (read_mmu (\<lambda>m. region_for m a ProtRead) s) = Inr r"
  then have wf: "regions_wf (m_regions (s_mmu s))" using ok_well_formed by (auto simp: mmu_wf_def)
  have "find_region (s_mmu s) a = Some r"
    using found by (auto simp: read_mmu_def lift_sum_def region_for_def split: option.splits if_splits)
  from find_region_wf [OF wf this] have "as_expected (read_offset_with_shadow r (a - r_base r))"
    using region_index [of r a] by (simp add: read_offset_with_shadow_def read_offset_def is_offset_initialized_def)
  then have "sound ok (seq (observe (on_memory_read a))
      (lift_sum (\<lambda>_. read_offset_with_shadow r (a - r_base r))))"
    by (intro sound_rules sound_lift_const)
  moreover assume "ok (snd (read_mmu (\<lambda>m. region_for m a ProtRead) s))"
  ultimately show "ok (snd (seq (observe (on_memory_read a))
        (lift_sum (\<lambda>_. read_offset_with_shadow r (a - r_base r)))
        (snd (read_mmu (\<lambda>m. region_for m a ProtRead) s)))) \<and>
      as_expected (fst (seq (observe (on_memory_read a))
        (lift_sum (\<lambda>_. read_offset_with_shadow r (a - r_base r)))
        (snd (read_mmu (\<lambda>m. region_for m a ProtRead) s))))"
    by (simp add: sound_def)
qed

lemma read_shadow_loop_keeps [sound_rules]:
  "sound ok (read_shadow_loop a i n v sh)"
  by (induction a i n v sh rule: read_shadow_loop.induct) (auto intro!: sound_rules)

lemma read_shadow_words_keep [sound_rules]:
  "sound ok (read16_with_shadow a)"
  "sound ok (read32_with_shadow a)"
  "sound ok (read64_with_shadow a)"
  unfolding read16_with_shadow_def read32_with_shadow_def read64_with_shadow_def by (intro sound_rules; simp add: xmm_rules)+

lemma write_keeps [sound_rules]:
  "sound ok (write8_with_shadow a w)"
  "sound ok (write16_with_shadow a w16)"
  "sound ok (write32_with_shadow a w32)"
  "sound ok (write64_with_shadow a w64)"
  "sound ok (write8 a b)"
  "sound ok (write16 a h)"
  "sound ok (write32 a d)"
  "sound ok (write64 a q)"
  "sound ok (copy_to_guest a bytes)"
  unfolding write8_with_shadow_def write16_with_shadow_def write32_with_shadow_def
    write64_with_shadow_def write_shadow_loop_def write8_def write16_def write32_def write64_def
    copy_to_guest_def
  by (intro sound_rules; simp add: xmm_rules)+


subsection \<open>Fetching, decoding, operands\<close>

lemma fetch_keeps [sound_rules]:
  "sound ok fetch8" "sound ok fetch16"
  "sound ok fetch32" "sound ok fetch64"
  "sound ok fetch_i8" "sound ok fetch_i32"
  "sound ok (fetch_modrm p)"
  unfolding fetch8_def fetch16_def fetch32_def fetch64_def fetch_i8_def fetch_i32_def
    fetch_modrm_def machine_prims
  by (intro sound_rules; simp add: xmm_rules)+

lemma read_prefixes_keeps [sound_rules]: "sound ok read_prefixes"
proof (rule soundI)
  fix s :: machine assume I: "ok s"
  then have wf: "mmu_wf (s_mmu s)" by (rule ok_well_formed)
  let ?pc = "c_decode_pc (s_cpu s)"
  obtain k r where run: "prefix_loop (s_mmu s) ?pc no_prefixes = Some (r, ?pc + of_nat k)"
    and r: "case read8 (s_mmu s) (?pc + of_nat k) of
       Inl e \<Rightarrow> r = Inl e | Inr b \<Rightarrow> \<not> is_prefix_byte b \<and> (\<exists>q. r = Inr q)"
    using prefix_loop_ends [OF wf] by blast
  show "ok (snd (read_prefixes s))"
    using I by (simp add: read_prefixes_def run machine_ok_def xmm_rules)
  show "as_expected (fst (read_prefixes s))"
    using r read8_expected [OF wf, of "?pc + of_nat k"]
    by (auto simp: read_prefixes_def run split: sum.splits)
qed

lemma prims_keep [sound_rules]:
  "sound ok (do_read_gpr i w p)"
  "sound ok (do_write_gpr i w v p)"
  "sound ok (set_decode_pc a)"
  "sound ok set_taint"
  "sound ok (mem_read8 a)" "sound ok (mem_read16 a)"
  "sound ok (mem_read32 a)" "sound ok (mem_read64 a)"
  "sound ok (push_call_stack a)" "sound ok pop_call_stack"
  "sound ok flags_taint_now" "sound ok (load_popped r vs)"
  "sound ok (jump_if b a)" "sound ok (set_cf_of b)"
  unfolding machine_prims set_cf_of_def by (intro sound_rules; simp add: xmm_rules)+

lemma warn_keeps [sound_rules]:
  "sound ok (warn_uninitialized_read a)"
  "sound ok (warn_uninitialized_pointer a)"
  "sound ok warn_uninitialized_branch"
  "sound ok (branch_condition cc)"
  unfolding warn_uninitialized_read_def warn_uninitialized_pointer_def
    warn_uninitialized_branch_def branch_condition_def
  by (intro sound_rules; simp add: xmm_rules)+

lemma decode_keeps [sound_rules]:
  "sound ok (decode_base_index p m)"
  "sound ok (decode_memory_address p m)"
  "sound ok (decode_rm_operand p m)"
  unfolding decode_rm_operand_def decode_memory_address_def decode_base_index_def by (intro sound_rules; simp add: xmm_rules)+

lemma read_operand_keeps [sound_rules]:
  "sound ok (read_memory_operand w a)"
  "sound ok (read_operand op w p)"
  unfolding read_operand_def read_memory_operand_def by (intro sound_rules; simp add: xmm_rules)+

lemma write_operand_keeps [sound_rules]: "sound ok (write_operand op w v p)"
  unfolding write_operand_def by (intro sound_rules; simp add: xmm_rules)

lemma stack_keeps [sound_rules]:
  "sound ok (push64 v sh)"
  "sound ok pop64_with_shadow"
  "sound ok pop64"
  unfolding push64_def pop64_def pop64_with_shadow_def by (intro sound_rules; simp add: xmm_rules)+

lemma read_bytes_keeps [sound_rules]: "sound ok (read_bytes a n)"
  by (induction a n rule: read_bytes.induct) (auto intro!: sound_rules)

lemma read_bytes_yields: "yields ok (\<lambda>bs. length bs = n) (read_bytes a n)"
proof (induction a n rule: read_bytes.induct)
  case (2 a n)
  show ?case unfolding read_bytes.simps
    by (rule yields_bind [OF yields_any], rule sound_rules, rule yields_bind [OF 2])
      (rule yields_return, simp)
qed (simp add: yields_return)

lemma read_xmm_yields: "yields ok (sixteen typed) (read_xmm_from_operand op)"
  unfolding read_xmm_from_operand_def
  by (rule yields_if, rule get_xmm_yields, rule yields_bind [OF yields_any], rule sound_rules)
    (use read_bytes_yields [of 16] in \<open>auto simp: yields_def sixteen_def\<close>)

text \<open>Binding the contents of a register: the rest may use its type.\<close>

lemmas xmm_binds = sound_bind_yields [OF read_xmm_yields] sound_bind_yields [OF get_xmm_yields]

lemma xmm_operand_keeps [sound_rules]:
  "sound ok (read_xmm_from_operand op)"
  "sixteen typed v \<Longrightarrow> sound ok (write_xmm_to_operand op v)"
  using read_xmm_yields [of op] unfolding write_xmm_to_operand_def
  by (auto intro!: sound_rules set_xmm_sound dest: yields_sound)

lemma unsupported_keeps [sound_rules]: "sound ok (unsupported msg)"
  unfolding unsupported_def by (intro sound_rules; simp add: xmm_rules)

subsection \<open>Instructions\<close>

lemma alu_keeps [sound_rules]:
  "sound ok (alu_apply operation lhs rhs w d p)"
  "sound ok (execute_alu_rm_reg opcode p)"
  "sound ok (execute_alu_imm opcode p)"
  "sound ok (execute_group_ff p)"
  unfolding execute_alu_rm_reg_def execute_alu_imm_def execute_group_ff_def alu_apply_def
  by (intro sound_rules; simp add: xmm_rules)+

lemma muldiv_keeps [sound_rules]:
  "sound ok (divide_error kind)"
  "sound ok (execute_mul w v p)"
  "sound ok (execute_imul1 w v p)"
  "sound ok (execute_div w v p)"
  "sound ok (execute_idiv w v p)"
  "sound ok (execute_group_f6_f7 opcode p)"
  unfolding execute_group_f6_f7_def execute_mul_def execute_imul1_def execute_div_def
    execute_idiv_def divide_error_def
  by (intro sound_rules; simp add: xmm_rules)+

lemma shift_string_keeps [sound_rules]:
  "sound ok (execute_shift_group opcode p)"
  "sound ok (execute_string_instruction opcode p)"
  unfolding execute_shift_group_def execute_string_instruction_def string_iteration_def
  by (intro sound_rules; simp add: xmm_rules)+

lemma xmm_binary_keeps:
  assumes "\<And>x y. length x = 16 \<Longrightarrow> length y = 16 \<Longrightarrow> length (f x y) = 16"
  shows "sound ok (xmm_binary f p)"
  unfolding xmm_binary_def
  by (rule sound_bind sound_rules xmm_binds set_xmm_sound | simp add: sixteen_def assms)+

lemma sse_binary_keeps [sound_rules]:
  "sound ok (sse_load p)" "sound ok (sse_unpack opcode p)" "sound ok (sse_compare_equal opcode p)"
  "sound ok (sse_unpack_qwords opcode p)" "sound ok (sse_xor p)" "sound ok (sse_logic opcode p)"
  "sound ok (sse_subtract opcode p)" "sound ok (sse_compare_greater opcode p)"
  "sound ok (sse_min_max opcode p)"
  unfolding sse_load_def sse_unpack_def sse_compare_equal_def sse_unpack_qwords_def sse_xor_def
    sse_logic_def sse_subtract_def sse_compare_greater_def sse_min_max_def Let_def
  by (rule xmm_binary_keeps, simp add: xmm_rules split: if_split)+

lemma sse_keeps [sound_rules]:
  "sound ok (sse_movd_load p)" "sound ok (sse_pshufd p)" "sound ok (sse_shufpd p)"
  "sound ok (sse_byte_shift p)" "sound ok (sse_store p)" "sound ok (sse_movnti p)"
  "sound ok (sse_movd_store p)" "sound ok (sse_movq_store p)" "sound ok (sse_move_mask p)"
  unfolding sse_movd_load_def sse_pshufd_def sse_shufpd_def sse_byte_shift_def sse_store_def
    sse_movnti_def sse_movd_store_def sse_movq_store_def sse_move_mask_def Let_def
  by ((rule xmm_binds set_xmm_sound sound_if sound_rules | assumption |
      simp add: sixteen_def xmm_rules)+)[9]

lemma exec_0f_keeps [sound_rules]:
  "sound ok taint_from_flags"
  "sound ok (exec_jcc_near opcode)"
  "sound ok (exec_setcc opcode p)"
  "sound ok (exec_cmovcc opcode p)"
  "sound ok (exec_bswap opcode p)"
  "sound ok (exec_hint_nop p)"
  "sound ok exec_cpuid"
  "sound ok (exec_fxsave a)"
  "sound ok (exec_fxrstor a)"
  "sound ok (exec_group_ae p)"
  "sound ok (exec_bt_imm p)"
  "sound ok (exec_bt_reg opcode p)"
  "sound ok (exec_double_shift opcode p)"
  "sound ok (exec_bit_scan opcode p)"
  "sound ok (exec_imul2 p)"
  "sound ok (exec_cmpxchg opcode p)"
  "sound ok (exec_xadd opcode p)"
  "sound ok (exec_movx opcode p)"
  unfolding taint_from_flags_def exec_jcc_near_def exec_setcc_def exec_cmovcc_def exec_bswap_def
    exec_hint_nop_def exec_cpuid_def exec_fxsave_def exec_fxrstor_def exec_group_ae_def
    exec_bt_imm_def exec_bt_reg_def exec_double_shift_def exec_bit_scan_def exec_imul2_def
    exec_cmpxchg_def exec_xadd_def exec_movx_def
  by (intro sound_rules; simp add: xmm_rules split: prod.split)+

lemma exec_rdtsc_keeps [sound_rules]: "sound ok exec_rdtsc"
  unfolding exec_rdtsc_def by (intro sound_rules sound_modify_other; simp add: xmm_rules)

text \<open>A system call is as good as the dispatcher; everything around it keeps the invariant.\<close>

lemma handle_syscall_keeps:
  "sound ok (dispatch number) \<Longrightarrow>
     sound ok (handle_syscall dispatch number)"
  unfolding handle_syscall_def by (intro sound_rules; simp add: xmm_rules)

lemma exec_syscall_keeps:
  "(\<And>number. sound ok (dispatch number)) \<Longrightarrow>
     sound ok (exec_syscall dispatch)"
  unfolding exec_syscall_def consume_restored_context_def
  by (intro sound_rules handle_syscall_keeps; simp add: xmm_rules)

lemma execute_0f_keeps:
  assumes "\<And>opcode p. sound ok (sse_float opcode p)"
    and "\<And>number. sound ok (dispatch number)"
  shows "sound ok (execute_0f sse_float dispatch p)"
  unfolding execute_0f_def by (intro sound_rules assms exec_syscall_keeps)

lemma exec_one_byte_keeps [sound_rules]:
  "sound ok (exec_alu_accumulator opcode p)"
  "sound ok (exec_jcc_short opcode)"
  "sound ok (exec_xchg_accumulator opcode p)"
  "sound ok (exec_mov_imm8 opcode p)"
  "sound ok (exec_mov_imm opcode p)"
  "sound ok (exec_push opcode p)"
  "sound ok (exec_pop opcode p)"
  "sound ok (exec_movsxd p)"
  "sound ok (exec_imul3 opcode p)"
  "sound ok (exec_test opcode p)"
  "sound ok (exec_xchg p)"
  "sound ok (exec_mov_store opcode p)"
  "sound ok (exec_mov_load opcode p)"
  "sound ok (exec_lea p)"
  "sound ok (exec_pop_rm p)"
  "sound ok (exec_cwde p)"
  "sound ok (exec_cdq p)"
  "sound ok (exec_test_accumulator opcode p)"
  "sound ok exec_ret_imm" "sound ok exec_ret"
  "sound ok (exec_mov_rm_imm opcode p)"
  "sound ok exec_leave"
  "sound ok (exec_loop_rcx opcode)"
  "sound ok exec_jrcxz" "sound ok exec_call"
  unfolding exec_alu_accumulator_def exec_jcc_short_def exec_xchg_accumulator_def
    exec_mov_imm8_def exec_mov_imm_def exec_push_def exec_pop_def exec_movsxd_def exec_imul3_def
    exec_test_def exec_xchg_def exec_mov_store_def exec_mov_load_def exec_lea_def exec_pop_rm_def
    exec_cwde_def exec_cdq_def exec_test_accumulator_def exec_ret_imm_def exec_ret_def
    exec_mov_rm_imm_def exec_leave_def exec_loop_rcx_def exec_jrcxz_def exec_call_def
  by (intro sound_rules; simp add: xmm_rules)+

lemma execute_opcode_keeps:
  assumes "units_keep I typed u"
  shows "sound ok (execute_opcode u opcode p)"
proof -
  from assms have x87: "sound ok (u_x87 u opcode p)"
    and sse: "\<And>opcode p. sound ok (u_sse_float u opcode p)"
    and sys: "\<And>number. sound ok (u_syscall u number)"
    by (auto simp: units_keep_def)
  show ?thesis
    unfolding execute_opcode_def exec_switch_def by (intro sound_rules x87 execute_0f_keeps sse sys; simp only: xmm_rules)
qed

lemma step_keeps:
  assumes "units_keep I typed u"
  shows "sound ok (step u)"
  unfolding step_def begin_step_def finish_step_def
  by (intro sound_rules execute_opcode_keeps assms; simp add: xmm_rules)

subsection \<open>Signals and the stack\<close>

lemma signal_keeps [sound_rules]:
  "sound ok (write_signal_frame h f r)"
  "sound ok (enter_signal_handler n action)"
  "sound ok dispatch_pending_signal"
  "sound ok (set_signal_action sn upd hndl fl rs mk old)"
  "sound ok (set_signal_mask how a b)"
  unfolding dispatch_pending_signal_def enter_signal_handler_def write_signal_frame_def
    set_signal_action_def set_signal_mask_def
  by (intro sound_rules; simp add: xmm_rules)+

lemma read_words_keeps [sound_rules]: "sound ok (read_words a n)"
  by (induction a n rule: read_words.induct) (auto intro!: sound_rules)

lemma sigreturn_keeps [sound_rules]: "sound ok handle_sigreturn"
  unfolding handle_sigreturn_def by (intro sound_rules; simp add: xmm_rules)

lemma collect_host_signal_rest:
  "s_mmu (collect_host_signal n s) = s_mmu s \<and> s_cpu (collect_host_signal n s) = s_cpu s"
  by (simp add: collect_host_signal_def)

lemma collect_host_signals_keeps [sound_rules]: "sound ok collect_host_signals"
proof -
  have "s_mmu (fold collect_host_signal ns s) = s_mmu s \<and>
      s_cpu (fold collect_host_signal ns s) = s_cpu s" for ns s
    by (induction ns arbitrary: s) (auto simp: collect_host_signal_rest)
  then show ?thesis unfolding collect_host_signals_def by (intro sound_modify_other)
qed

end


section \<open>Two invariants\<close>

lemma store8_cases:
  assumes "mmu_wf m"
  shows "(\<not> accessible m ProtWrite a \<and> snd (store8 a v i m) = m) \<or>
    (accessible m ProtWrite a \<and> mmu_wf (snd (store8 a v i m)) \<and>
     mmu_layout (snd (store8 a v i m)) = mmu_layout m \<and>
     cell_at (snd (store8 a v i m)) = (cell_at m)(a := map_option (set_cell_value v i) (cell_at m a)))"
proof (cases "accessible m ProtWrite a")
  case True
  then show ?thesis using store8_run [OF assms True, of v i] by auto
next
  case False
  then show ?thesis
    using with_region_fault [OF False, of "\<lambda>r. write_offset (a - r_base r) v i"]
    by (auto simp: store8_def)
qed

lemma mark_cases:
  assumes "mmu_wf m"
  shows "let m' = snd (with_region a ProtRead (\<lambda>r. set_offset_initialized (a - r_base r) i) m) in
    m' = m \<or> (mmu_wf m' \<and> mmu_layout m' = mmu_layout m \<and>
      cell_at m' = (cell_at m)(a := map_option (set_cell_init i) (cell_at m a)))"
proof (cases "accessible m ProtRead a")
  case True
  then show ?thesis using set_init_run [OF assms True, of i] by auto
next
  case False
  then show ?thesis
    using with_region_fault [OF False, of "\<lambda>r. set_offset_initialized (a - r_base r) i"] by auto
qed

lemma store8_expected: "mmu_wf m \<Longrightarrow> as_expected (fst (store8 a v i m))"
  using store8_run [of m a v i]
    with_region_fault [of m ProtWrite a "\<lambda>r. write_offset (a - r_base r) v i"]
  by (cases "accessible m ProtWrite a") (auto simp: store8_def)

lemma mark_expected:
  "mmu_wf m \<Longrightarrow>
     as_expected (fst (with_region a ProtRead (\<lambda>r. set_offset_initialized (a - r_base r) i) m))"
  using set_init_run [of m a i]
    with_region_fault [of m ProtRead a "\<lambda>r. set_offset_initialized (a - r_base r) i"]
  by (cases "accessible m ProtRead a") auto

interpretation wf_memory: memory_invariant mmu_wf True
proof unfold_locales
  show "sound mmu_wf (store8 a v i)" for a v i
    by (rule soundI [OF _ store8_expected]) (metis store8_cases)
  show "sound mmu_wf (with_region a ProtRead (\<lambda>r. set_offset_initialized (a - r_base r) i))" for a i
  proof (rule soundI [OF _ mark_expected])
    fix m assume "mmu_wf m"
    with mark_cases [OF this, of a i]
    show "mmu_wf (snd (with_region a ProtRead (\<lambda>r. set_offset_initialized (a - r_base r) i) m))"
      unfolding Let_def by (elim disjE conjE) simp_all
  qed
qed

text \<open>
  The frame of an address space \<open>m0\<close>: the same regions with the same protections, and every byte
  that \<open>m0\<close> does not allow to write unchanged.
\<close>

definition memory_frame :: "mmu \<Rightarrow> mmu \<Rightarrow> bool" where
  "memory_frame m0 m \<longleftrightarrow> mmu_wf m \<and> mmu_layout m = mmu_layout m0 \<and>
     (\<forall>a. map_option cell_prot (cell_at m a) = map_option cell_prot (cell_at m0 a)) \<and>
     (\<forall>a. \<not> accessible m0 ProtWrite a \<longrightarrow>
        map_option cell_byte (cell_at m a) = map_option cell_byte (cell_at m0 a))"

lemma memory_frame_refl: "mmu_wf m \<Longrightarrow> memory_frame m m"
  by (simp add: memory_frame_def)

lemma sound_frame:
  "sound (machine_ok (memory_frame (s_mmu s)) False) f \<Longrightarrow> mmu_wf (s_mmu s) \<Longrightarrow>
     memory_frame (s_mmu s) (s_mmu (snd (f s)))"
  by (simp add: sound_def machine_ok_def memory_frame_refl)

lemma accessible_prot:
  "map_option cell_prot (cell_at m a) = map_option cell_prot (cell_at m0 a) \<Longrightarrow>
     accessible m prot a = accessible m0 prot a"
  by (cases "cell_at m a"; cases "cell_at m0 a") (auto simp: accessible_def cell_allows_def)

interpretation frame_memory: memory_invariant "memory_frame m0" False for m0
proof unfold_locales
  show "memory_frame m0 m \<Longrightarrow> mmu_wf m" for m by (simp add: memory_frame_def)
  show "sound (memory_frame m0) (store8 a v i)" for a v i
  proof (rule soundI [OF _ store8_expected])
    fix m assume f: "memory_frame m0 m"
    then have wf: "mmu_wf m" by (simp add: memory_frame_def)
    have acc: "accessible m ProtWrite a = accessible m0 ProtWrite a"
      using f by (intro accessible_prot) (simp add: memory_frame_def)
    have pr: "map_option cell_prot (map_option (set_cell_value v i) c) = map_option cell_prot c" for c
      by (cases c) (auto simp: set_cell_value_def)
    show "memory_frame m0 (snd (store8 a v i m))"
      using store8_cases [OF wf, of a v i] f acc pr by (auto simp: memory_frame_def)
  qed (simp add: memory_frame_def)
  show "sound (memory_frame m0)
      (with_region a ProtRead (\<lambda>r. set_offset_initialized (a - r_base r) i))" for a i
  proof (rule soundI [OF _ mark_expected])
    fix m assume f: "memory_frame m0 m"
    then have wf: "mmu_wf m" by (simp add: memory_frame_def)
    have pr: "map_option cell_prot (map_option (set_cell_init i) c) = map_option cell_prot c"
      "map_option cell_byte (map_option (set_cell_init i) c) = map_option cell_byte c" for c
      by (cases c; simp add: set_cell_init_def)+
    show "memory_frame m0 (snd (with_region a ProtRead
        (\<lambda>r. set_offset_initialized (a - r_base r) i) m))"
      using mark_cases [OF wf, of a i] f pr by (auto simp: memory_frame_def Let_def)
  qed (simp add: memory_frame_def)
qed

end
