(* ===== verification/Sys_Base.thy ===== *)
theory Sys_Base
  imports Emulator
begin

text \<open>
  What the handlers of \<^verbatim>\<open>src/LinuxSyscalls.cpp\<close> share: results and error numbers, arguments cast
  to the host's types, the copies between guest memory and the buffers handed to the host, and the
  guest layouts of the structures (\<^verbatim>\<open>GuestStat\<close>, \<^verbatim>\<open>GuestStatfs\<close>, \<^verbatim>\<open>GuestTimespec\<close>,
  \<^verbatim>\<open>GuestUtsname\<close>, \<^verbatim>\<open>GuestRLimit64\<close>, \<^verbatim>\<open>GuestPollFD\<close>, \<^verbatim>\<open>GuestIOVec\<close>) as bytes.
\<close>

text \<open>
  The world outside: the answers to the calls, and the contents of the host's files, both depending
  on the calls made so far, since writes of the guest change files.
\<close>

record os =
  os_host :: host
  os_files :: "host_call list \<Rightarrow> files"

section \<open>Results and arguments\<close>

definition syscall_error :: "int \<Rightarrow> u64" where
  "syscall_error err = of_int (- err)"

definition ESRCH :: int where "ESRCH = 3"
definition ECHILD :: int where "ECHILD = 10"
definition EAGAIN :: int where "EAGAIN = 11"
definition ENOMEM :: int where "ENOMEM = 12"
definition EFAULT :: int where "EFAULT = 14"
definition EEXIST :: int where "EEXIST = 17"
definition ENOSYS :: int where "ENOSYS = 38"

text \<open>\<^verbatim>\<open>static_cast\<close> of an argument to \<^verbatim>\<open>int\<close>, \<^verbatim>\<open>long\<close> and \<^verbatim>\<open>unsigned\<close>.\<close>

definition to_int :: "u64 \<Rightarrow> int" where
  "to_int a = sint (ucast a :: u32)"

definition to_long :: "u64 \<Rightarrow> int" where
  "to_long a = sint a"

definition to_unsigned :: "u64 \<Rightarrow> int" where
  "to_unsigned a = uint (ucast a :: u32)"

definition signed_result :: "int \<Rightarrow> u64" where
  "signed_result rc = (if rc < 0 then of_int rc else 0)"

text \<open>\<^verbatim>\<open>syscall_result\<close> of a request, and the pattern that returns the error before going on.\<close>

definition syscall_result :: "host_answer \<Rightarrow> u64" where
  "syscall_result a = (if ans_rc a < 0 then syscall_error (ans_errno a) else of_int (ans_rc a))"

definition host_result :: "os \<Rightarrow> string \<Rightarrow> host_arg list \<Rightarrow> (machine, u64) smon" where
  "host_result h name args = bind (ask_host (os_host h) name args) (\<lambda>a. return (syscall_result a))"

definition host_then ::
  "os \<Rightarrow> string \<Rightarrow> host_arg list \<Rightarrow> (host_answer \<Rightarrow> (machine, u64) smon) \<Rightarrow> (machine, u64) smon" where
  "host_then h name args k = bind (ask_host (os_host h) name args) (\<lambda>a.
     if ans_rc a < 0 then return (syscall_error (ans_errno a)) else k a)"

definition return_rc :: "host_answer \<Rightarrow> (machine, u64) smon" where
  "return_rc a = return (of_int (ans_rc a))"

section \<open>Guest memory and host buffers\<close>

definition read_guest :: "u64 \<Rightarrow> nat \<Rightarrow> (machine, u8 list) smon" where
  "read_guest address n = read_mmu (\<lambda>m. copy_from_guest m address n)"

definition read_path :: "u64 \<Rightarrow> (machine, cstring) smon" where
  "read_path address = read_mmu (\<lambda>m. read_c_string m address 1048576)"

definition read_guest32 :: "u64 \<Rightarrow> (machine, u32) smon" where
  "read_guest32 address = read_mmu (\<lambda>m. read32 m address)"

text \<open>The common end of the reading calls: \<^verbatim>\<open>rc\<close> bytes of the buffer go to the guest.\<close>

definition deliver_buffer :: "u64 \<Rightarrow> nat \<Rightarrow> host_answer \<Rightarrow> (machine, u64) smon" where
  "deliver_buffer address n a =
     seq (copy_to_guest address (take (nat (ans_rc a)) (out_buffer a 0 (zeros n)))) (return_rc a)"

definition optional_sockaddr_from_guest :: "u64 \<Rightarrow> u64 \<Rightarrow> (machine, u8 list) smon" where
  "optional_sockaddr_from_guest address len =
     (if address = 0 \<or> len = 0 then return [] else read_guest address (unat (min len 4096)))"

definition copy_sockaddr_to_guest :: "u64 \<Rightarrow> u64 \<Rightarrow> u8 list \<Rightarrow> u32 \<Rightarrow> (machine, unit) smon" where
  "copy_sockaddr_to_guest address length_address buffer len =
     seq (when_do (address \<noteq> 0 \<and> len \<noteq> 0)
            (copy_to_guest address (take (min (length buffer) (unat len)) buffer)))
         (when_do (length_address \<noteq> 0) (write32 length_address len))"

fun write_guest_fds :: "os \<Rightarrow> u64 \<Rightarrow> int list \<Rightarrow> (machine, unit) smon" where
  "write_guest_fds h address [] = return ()"
| "write_guest_fds h address (fd # fds) =
     seq (write32 address (of_int fd))
    (seq (register_host_fd (os_host h) fd)
         (write_guest_fds h (address + 4) fds))"

text \<open>The common end of the calls that make a pair of file descriptors.\<close>

definition new_fd_pair :: "os \<Rightarrow> string \<Rightarrow> host_arg list \<Rightarrow> u64 \<Rightarrow> (machine, u64) smon" where
  "new_fd_pair h name args address = host_then h name args (\<lambda>a.
     seq (write_guest_fds h address [out_int a 0 0, out_int a 1 0]) (return 0))"

section \<open>Layouts\<close>

definition word_field :: "int \<Rightarrow> u8 list" where
  "word_field v = le_bytes 8 (of_int v :: u64)"

definition int_field :: "int \<Rightarrow> u8 list" where
  "int_field v = le_bytes 4 (of_int v :: u32)"

definition word_of_field :: "u8 list \<Rightarrow> nat \<Rightarrow> u64" where
  "word_of_field bytes i = le_word (take 8 (drop (8 * i) bytes))"

text \<open>
  \<^verbatim>\<open>convert_stat\<close>: the fields of the host's structure in the order dev, ino, nlink, mode, uid,
  gid, rdev, size, blksize, blocks, then seconds and nanoseconds of the three times.
\<close>

definition convert_stat :: "(nat \<Rightarrow> int) \<Rightarrow> u8 list" where
  "convert_stat st =
     word_field (st 0) @ word_field (st 1) @ word_field (st 2) @
     int_field (st 3) @ int_field (st 4) @ int_field (st 5) @ zeros 4 @
     concat (map (\<lambda>i. word_field (st i)) [6..<16]) @ zeros 24"

definition convert_statfs :: "(nat \<Rightarrow> int) \<Rightarrow> u8 list \<Rightarrow> u8 list" where
  "convert_statfs sf fsid =
     concat (map (\<lambda>i. word_field (sf i)) [0..<7]) @ fsid @
     concat (map (\<lambda>i. word_field (sf i)) [7..<10]) @ zeros 32"

definition time_bytes :: "int \<Rightarrow> int \<Rightarrow> u8 list" where
  "time_bytes sec sub = word_field sec @ word_field sub"

definition read_time :: "u64 \<Rightarrow> (machine, int \<times> int) smon" where
  "read_time address = bind (read_guest address 16) (\<lambda>bytes.
     return (sint (word_of_field bytes 0), sint (word_of_field bytes 1)))"

definition copy_capped :: "nat \<Rightarrow> u8 list \<Rightarrow> u8 list" where
  "copy_capped n source = overlay (zeros n) (take (n - 1) (c_string source))"

lemma length_le_fields [simp]: "length (word_field v) = 8" "length (int_field v) = 4"
  by (simp_all add: word_field_def int_field_def)

lemma length_convert_stat [simp]: "length (convert_stat st) = 144"
  by (simp add: convert_stat_def upt_rec)

lemma length_convert_statfs: "length fsid = 8 \<Longrightarrow> length (convert_statfs sf fsid) = 120"
  by (simp add: convert_statfs_def upt_rec)

lemma length_copy_capped [simp]: "length (copy_capped n source) = n"
  by (simp add: copy_capped_def)

end
