(* ===== verification/Sys_Files.thy ===== *)
theory Sys_Files
  imports Sys_Base
begin

text \<open>
  The calls of \<^verbatim>\<open>src/LinuxSyscalls.cpp\<close> about files, directories and descriptors: each handler
  reads its arguments from the guest, makes one request to the host, keeps the table of descriptor
  paths, and writes the answer to guest memory.
\<close>

section \<open>Reading and writing\<close>

definition sys_read :: "os \<Rightarrow> u64 \<Rightarrow> u64 \<Rightarrow> u64 \<Rightarrow> (machine, u64) smon" where
  "sys_read h arg1 arg2 arg3 =
     host_then h ''read'' [HInt (to_int arg1), HOut (unat arg3)] (deliver_buffer arg2 (unat arg3))"

definition sys_write :: "os \<Rightarrow> u64 \<Rightarrow> u64 \<Rightarrow> u64 \<Rightarrow> (machine, u64) smon" where
  "sys_write h arg1 arg2 arg3 =
     bind (read_guest arg2 (unat arg3)) (\<lambda>buffer.
     host_result h ''write'' [HInt (to_int arg1), HIn buffer])"

text \<open>The array of \<^verbatim>\<open>GuestIOVec\<close>: pairs of base and length.\<close>

definition iov_entries :: "nat \<Rightarrow> u8 list \<Rightarrow> (u64 \<times> u64) list" where
  "iov_entries n bytes =
     map (\<lambda>i. (word_of_field bytes (2 * i), word_of_field bytes (2 * i + 1))) [0..<n]"

fun scatter :: "(u64 \<times> u8 list) list \<Rightarrow> nat \<Rightarrow> (machine, unit) smon" where
  "scatter [] remaining = return ()"
| "scatter ((base, buffer) # rest) remaining =
     (if remaining = 0 then return ()
      else let to_copy = min remaining (length buffer) in
        seq (copy_to_guest base (take to_copy buffer)) (scatter rest (remaining - to_copy)))"

definition sys_readv :: "os \<Rightarrow> u64 \<Rightarrow> u64 \<Rightarrow> u64 \<Rightarrow> (machine, u64) smon" where
  "sys_readv h arg1 arg2 arg3 =
     (if arg3 > 1024 then return (syscall_error EINVAL)
      else
        bind (read_guest arg2 (unat arg3 * 16)) (\<lambda>bytes.
        let guest_iov = iov_entries (unat arg3) bytes in
        host_then h ''readv'' (HInt (to_int arg1) # map (\<lambda>(base, len). HOut (unat len)) guest_iov) (\<lambda>a.
        seq (scatter (map (\<lambda>(i, base, len). (base, out_buffer a i (zeros (unat len))))
               (enumerate 0 guest_iov)) (nat (ans_rc a)))
            (return_rc a))))"

fun gather :: "(u64 \<times> u64) list \<Rightarrow> (machine, u8 list list) smon" where
  "gather [] = return []"
| "gather ((base, len) # rest) =
     bind (read_guest base (unat len)) (\<lambda>buffer.
     bind (gather rest) (\<lambda>buffers. return (buffer # buffers)))"

definition sys_writev :: "os \<Rightarrow> u64 \<Rightarrow> u64 \<Rightarrow> u64 \<Rightarrow> (machine, u64) smon" where
  "sys_writev h arg1 arg2 arg3 =
     (if arg3 > 1024 then return (syscall_error EINVAL)
      else
        bind (read_guest arg2 (unat arg3 * 16)) (\<lambda>bytes.
        bind (gather (iov_entries (unat arg3) bytes)) (\<lambda>buffers.
        host_result h ''writev'' (HInt (to_int arg1) # map HIn buffers))))"

definition sys_pread64 :: "os \<Rightarrow> u64 \<Rightarrow> u64 \<Rightarrow> u64 \<Rightarrow> u64 \<Rightarrow> (machine, u64) smon" where
  "sys_pread64 h arg1 arg2 arg3 arg4 =
     host_then h ''pread'' [HInt (to_int arg1), HOut (unat arg3), HInt (to_long arg4)]
       (deliver_buffer arg2 (unat arg3))"

definition sys_pwrite64 :: "os \<Rightarrow> u64 \<Rightarrow> u64 \<Rightarrow> u64 \<Rightarrow> u64 \<Rightarrow> (machine, u64) smon" where
  "sys_pwrite64 h arg1 arg2 arg3 arg4 =
     bind (read_guest arg2 (unat arg3)) (\<lambda>buffer.
     host_result h ''pwrite'' [HInt (to_int arg1), HIn buffer, HInt (to_long arg4)])"

section \<open>Descriptors\<close>

definition sys_open :: "os \<Rightarrow> u64 \<Rightarrow> u64 \<Rightarrow> u64 \<Rightarrow> (machine, u64) smon" where
  "sys_open h arg1 arg2 arg3 =
     bind (read_path arg1) (\<lambda>path.
     host_then h ''open'' [HIn path, HInt (to_int arg2), HInt (to_unsigned arg3)] (\<lambda>a.
     seq (register_host_fd (os_host h) (ans_rc a)) (return_rc a)))"

definition sys_openat :: "os \<Rightarrow> u64 \<Rightarrow> u64 \<Rightarrow> u64 \<Rightarrow> u64 \<Rightarrow> (machine, u64) smon" where
  "sys_openat h arg1 arg2 arg3 arg4 =
     bind (read_path arg2) (\<lambda>path.
     host_then h ''openat'' [HInt (to_int arg1), HIn path, HInt (to_int arg3), HInt (to_unsigned arg4)] (\<lambda>a.
     seq (register_host_fd (os_host h) (ans_rc a)) (return_rc a)))"

definition sys_close :: "os \<Rightarrow> u64 \<Rightarrow> (machine, u64) smon" where
  "sys_close h arg1 =
     (let fd = to_int arg1 in
      host_then h ''close'' [HInt fd] (\<lambda>a. seq (upd_emu (unregister_host_fd fd)) (return 0)))"

definition sys_dup :: "os \<Rightarrow> u64 \<Rightarrow> (machine, u64) smon" where
  "sys_dup h arg1 = host_then h ''dup'' [HInt (to_int arg1)] (\<lambda>a.
     seq (register_host_fd (os_host h) (ans_rc a)) (return_rc a))"

definition sys_dup2 :: "os \<Rightarrow> u64 \<Rightarrow> u64 \<Rightarrow> (machine, u64) smon" where
  "sys_dup2 h arg1 arg2 = host_then h ''dup2'' [HInt (to_int arg1), HInt (to_int arg2)] (\<lambda>a.
     seq (register_host_fd (os_host h) (ans_rc a)) (return_rc a))"

definition sys_dup3 :: "os \<Rightarrow> u64 \<Rightarrow> u64 \<Rightarrow> u64 \<Rightarrow> (machine, u64) smon" where
  "sys_dup3 h arg1 arg2 arg3 =
     host_then h ''dup3'' [HInt (to_int arg1), HInt (to_int arg2), HInt (to_int arg3)] (\<lambda>a.
     seq (register_host_fd (os_host h) (ans_rc a)) (return_rc a))"

definition sys_pipe :: "os \<Rightarrow> u64 \<Rightarrow> (machine, u64) smon" where
  "sys_pipe h arg1 = new_fd_pair h ''pipe'' [HFields [0, 0]] arg1"

definition sys_pipe2 :: "os \<Rightarrow> u64 \<Rightarrow> u64 \<Rightarrow> (machine, u64) smon" where
  "sys_pipe2 h arg1 arg2 = new_fd_pair h ''pipe2'' [HFields [0, 0], HInt (to_int arg2)] arg1"

definition sys_fcntl :: "os \<Rightarrow> u64 \<Rightarrow> u64 \<Rightarrow> u64 \<Rightarrow> (machine, u64) smon" where
  "sys_fcntl h arg1 arg2 arg3 =
     host_then h ''fcntl'' [HInt (to_int arg1), HInt (to_int arg2), HInt (to_long arg3)] (\<lambda>a.
     seq (when_do (arg2 = 0 \<or> arg2 = 1030)
            (register_host_fd (os_host h) (sint (of_int (ans_rc a) :: u32))))
         (return_rc a))"

definition sys_lseek :: "os \<Rightarrow> u64 \<Rightarrow> u64 \<Rightarrow> u64 \<Rightarrow> (machine, u64) smon" where
  "sys_lseek h arg1 arg2 arg3 =
     host_result h ''lseek'' [HInt (to_int arg1), HInt (to_long arg2), HInt (to_int arg3)]"

section \<open>File status\<close>

definition stat_result :: "os \<Rightarrow> string \<Rightarrow> host_arg list \<Rightarrow> u64 \<Rightarrow> (machine, u64) smon" where
  "stat_result h name args address = host_then h name args (\<lambda>a.
     seq (copy_to_guest address (convert_stat (\<lambda>i. out_int a i 0))) (return 0))"

definition sys_stat :: "os \<Rightarrow> u64 \<Rightarrow> u64 \<Rightarrow> (machine, u64) smon" where
  "sys_stat h arg1 arg2 =
     bind (read_path arg1) (\<lambda>path. stat_result h ''stat'' [HIn path, HFields []] arg2)"

definition sys_lstat :: "os \<Rightarrow> u64 \<Rightarrow> u64 \<Rightarrow> (machine, u64) smon" where
  "sys_lstat h arg1 arg2 =
     bind (read_path arg1) (\<lambda>path. stat_result h ''lstat'' [HIn path, HFields []] arg2)"

definition sys_fstat :: "os \<Rightarrow> u64 \<Rightarrow> u64 \<Rightarrow> (machine, u64) smon" where
  "sys_fstat h arg1 arg2 = stat_result h ''fstat'' [HInt (to_int arg1), HFields []] arg2"

text \<open>A path that may be a null pointer.\<close>

definition read_optional_path :: "u64 \<Rightarrow> (machine, host_arg) smon" where
  "read_optional_path address =
     (if address \<noteq> 0 then bind (read_path address) (\<lambda>path. return (HIn path)) else return HNull)"

definition sys_newfstatat :: "os \<Rightarrow> u64 \<Rightarrow> u64 \<Rightarrow> u64 \<Rightarrow> u64 \<Rightarrow> (machine, u64) smon" where
  "sys_newfstatat h arg1 arg2 arg3 arg4 =
     bind (read_optional_path arg2) (\<lambda>path.
     stat_result h ''newfstatat'' [HInt (to_int arg1), path, HFields [], HInt (to_int arg4)] arg3)"

definition statfs_result :: "os \<Rightarrow> string \<Rightarrow> host_arg list \<Rightarrow> u64 \<Rightarrow> (machine, u64) smon" where
  "statfs_result h name args address = host_then h name args (\<lambda>a.
     seq (copy_to_guest address (convert_statfs (\<lambda>i. out_int a i 0) (out_buffer a 0 (zeros 8))))
         (return 0))"

definition sys_statfs :: "os \<Rightarrow> u64 \<Rightarrow> u64 \<Rightarrow> (machine, u64) smon" where
  "sys_statfs h arg1 arg2 =
     bind (read_path arg1) (\<lambda>path. statfs_result h ''statfs'' [HIn path, HFields []] arg2)"

definition sys_fstatfs :: "os \<Rightarrow> u64 \<Rightarrow> u64 \<Rightarrow> (machine, u64) smon" where
  "sys_fstatfs h arg1 arg2 = statfs_result h ''fstatfs'' [HInt (to_int arg1), HFields []] arg2"

definition sys_statx :: "os \<Rightarrow> u64 \<Rightarrow> u64 \<Rightarrow> u64 \<Rightarrow> u64 \<Rightarrow> u64 \<Rightarrow> (machine, u64) smon" where
  "sys_statx h arg1 arg2 arg3 arg4 arg5 =
     bind (read_optional_path arg2) (\<lambda>path.
     host_then h ''statx''
       [HInt (to_int arg1), path, HInt (to_int arg3), HInt (to_unsigned arg4), HOut 256] (\<lambda>a.
     seq (copy_to_guest arg5 (out_buffer a 0 (zeros 256))) (return 0)))"

definition sys_xattr :: "os \<Rightarrow> u64 \<Rightarrow> u64 \<Rightarrow> u64 \<Rightarrow> u64 \<Rightarrow> u64 \<Rightarrow> (machine, u64) smon" where
  "sys_xattr h number arg1 arg2 arg3 arg4 =
     bind (read_path arg2) (\<lambda>name.
     let n = unat arg4; value = (if n \<noteq> 0 then HOut n else HNull) in
     bind (if number = 193 then ask_host (os_host h) ''fgetxattr''
             [HInt (to_int arg1), HIn name, value, HInt (int n)]
           else bind (read_path arg1) (\<lambda>path.
             ask_host (os_host h) (if number = 192 then ''lgetxattr'' else ''getxattr'')
               [HIn path, HIn name, value, HInt (int n)])) (\<lambda>a.
     if ans_rc a < 0 then return (syscall_error (ans_errno a))
     else if n \<noteq> 0 \<and> ans_rc a > 0 then deliver_buffer arg3 n a
     else return_rc a))"

section \<open>Paths and directories\<close>

definition sys_getcwd :: "os \<Rightarrow> u64 \<Rightarrow> u64 \<Rightarrow> (machine, u64) smon" where
  "sys_getcwd h arg1 arg2 =
     host_then h ''getcwd'' [HOut (unat arg2)] (\<lambda>a.
     if arg2 = 0 then throw UndefinedBehaviour
     else let buffer = out_buffer a 0 (zeros (unat arg2)); n = length (c_string buffer) + 1 in
          seq (copy_to_guest arg1 (take n buffer)) (return (of_nat n)))"

definition sys_access :: "os \<Rightarrow> u64 \<Rightarrow> u64 \<Rightarrow> (machine, u64) smon" where
  "sys_access h arg1 arg2 =
     bind (read_path arg1) (\<lambda>path. host_result h ''access'' [HIn path, HInt (to_int arg2)])"

definition sys_faccessat :: "os \<Rightarrow> u64 \<Rightarrow> u64 \<Rightarrow> u64 \<Rightarrow> u64 \<Rightarrow> (machine, u64) smon" where
  "sys_faccessat h arg1 arg2 arg3 arg4 =
     bind (read_path arg2) (\<lambda>path.
     host_result h ''faccessat'' [HInt (to_int arg1), HIn path, HInt (to_int arg3), HInt (to_int arg4)])"

definition sys_readlink :: "os \<Rightarrow> u64 \<Rightarrow> u64 \<Rightarrow> u64 \<Rightarrow> (machine, u64) smon" where
  "sys_readlink h arg1 arg2 arg3 =
     bind (read_path arg1) (\<lambda>path.
     host_then h ''readlink'' [HIn path, HOut (unat arg3)] (deliver_buffer arg2 (unat arg3)))"

definition sys_getdents64 :: "os \<Rightarrow> u64 \<Rightarrow> u64 \<Rightarrow> u64 \<Rightarrow> (machine, u64) smon" where
  "sys_getdents64 h arg1 arg2 arg3 =
     host_then h ''getdents64'' [HInt (to_int arg1), HOut (unat arg3)]
       (deliver_buffer arg2 (unat arg3))"

end
