(* ===== verification/Sys_Events.thy ===== *)
theory Sys_Events
  imports Sys_Base
begin

text \<open>
  The calls of \<^verbatim>\<open>src/LinuxSyscalls.cpp\<close> about device control, waiting for events, time, process
  identity and limits.
\<close>

section \<open>Device control\<close>

text \<open>The number of bytes an \<^verbatim>\<open>ioctl\<close> request may read or write, by the legacy terminal
  requests or by the size field of the request.\<close>

definition ioctl_size :: "u64 \<Rightarrow> nat" where
  "ioctl_size request =
     (if request AND 0xff00 = 0x5400
      then (if request \<in> {0x5401, 0x5402, 0x5403, 0x5404} then 60
            else if request \<in> {0x5405, 0x5406, 0x5407, 0x5408} then 18
            else if request \<in> {0x5413, 0x5414} then 8
            else 60)
      else let n = unat (drop_bit 16 request AND 0x3fff) in if n = 0 then 8 else n)"

text \<open>\<^verbatim>\<open>copy_from_guest\<close> inside \<^verbatim>\<open>try\<close>: the bytes before the first fault have been copied.\<close>

fun readable_prefix :: "mmu \<Rightarrow> u64 \<Rightarrow> nat \<Rightarrow> exn + u8 list" where
  "readable_prefix m address 0 = Inr []"
| "readable_prefix m address (Suc n) =
     (case read8 m address of
        Inl (EmulatorError _) \<Rightarrow> Inr []
      | Inl e \<Rightarrow> Inl e
      | Inr b \<Rightarrow> sbind (readable_prefix m (address + 1) n) (\<lambda>bs. Inr (b # bs)))"

definition sys_ioctl :: "os \<Rightarrow> u64 \<Rightarrow> u64 \<Rightarrow> u64 \<Rightarrow> (machine, u64) smon" where
  "sys_ioctl h arg1 arg2 arg3 =
     (if arg3 = 0
      then host_result h ''ioctl'' [HInt (to_int arg1), HInt (uint arg2), HInt 0]
      else
        let copy_size = min 256 (ioctl_size arg2) in
        bind (gets (\<lambda>s. is_mapped (s_mmu s) arg3 1)) (\<lambda>mapped.
        bind (if mapped then read_mmu (\<lambda>m. readable_prefix m arg3 copy_size) else return []) (\<lambda>bytes.
        let scratch = overlay (zeros 256) bytes in
        host_then h ''ioctl'' [HInt (to_int arg1), HInt (uint arg2), HInOut scratch] (\<lambda>a.
        seq (catch_emulator_error
               (copy_to_guest arg3 (take copy_size (out_buffer a 0 scratch))) (return ()))
            (return_rc a)))))"

section \<open>Waiting\<close>

text \<open>The guest's array of poll entries with the \<^verbatim>\<open>revents\<close> of the host's array.\<close>

definition poll_entries :: "nat \<Rightarrow> u8 list \<Rightarrow> u8 list \<Rightarrow> u8 list" where
  "poll_entries n guest_fds host_fds =
     concat (map (\<lambda>i. take 6 (drop (8 * i) guest_fds) @ take 2 (drop (8 * i + 6) host_fds)) [0..<n])"

definition poll_result ::
  "os \<Rightarrow> string \<Rightarrow> u64 \<Rightarrow> nat \<Rightarrow> u8 list \<Rightarrow> host_arg \<Rightarrow> (machine, u64) smon" where
  "poll_result h name address n guest_fds timeout =
     host_then h name [HInOut guest_fds, HInt (int n), timeout] (\<lambda>a.
     seq (when_do (n \<noteq> 0)
            (copy_to_guest address (poll_entries n guest_fds (out_buffer a 0 guest_fds))))
         (return_rc a))"

definition sys_poll :: "os \<Rightarrow> u64 \<Rightarrow> u64 \<Rightarrow> u64 \<Rightarrow> (machine, u64) smon" where
  "sys_poll h arg1 arg2 arg3 =
     (if arg2 > 4096 then return (syscall_error EINVAL)
      else
        bind (if arg2 \<noteq> 0 then read_guest arg1 (unat arg2 * 8) else return []) (\<lambda>guest_fds.
        poll_result h ''poll'' arg1 (unat arg2) guest_fds (HInt (to_int arg3))))"

text \<open>A time that may be a null pointer.\<close>

definition read_optional_time :: "u64 \<Rightarrow> (machine, (int \<times> int) option) smon" where
  "read_optional_time address =
     (if address \<noteq> 0 then bind (read_time address) (\<lambda>t. return (Some t)) else return None)"

definition time_arg :: "(int \<times> int) option \<Rightarrow> host_arg" where
  "time_arg t = (case t of None \<Rightarrow> HNull | Some (sec, sub) \<Rightarrow> HFields [sec, sub])"

definition sys_ppoll :: "os \<Rightarrow> u64 \<Rightarrow> u64 \<Rightarrow> u64 \<Rightarrow> (machine, u64) smon" where
  "sys_ppoll h arg1 arg2 arg3 =
     (if arg2 > 4096 then return (syscall_error EINVAL)
      else
        bind (if arg2 \<noteq> 0 then read_guest arg1 (unat arg2 * 8) else return []) (\<lambda>guest_fds.
        bind (read_optional_time arg3) (\<lambda>timeout.
        poll_result h ''ppoll'' arg1 (unat arg2) guest_fds (time_arg timeout))))"

text \<open>The sets of \<^verbatim>\<open>select\<close>: an \<^verbatim>\<open>fd_set\<close> is 128 bytes.\<close>

definition read_fd_set :: "u64 \<Rightarrow> (machine, u8 list option) smon" where
  "read_fd_set address =
     (if address \<noteq> 0 then bind (read_guest address 128) (\<lambda>b. return (Some b)) else return None)"

definition fd_set_arg :: "u8 list option \<Rightarrow> host_arg" where
  "fd_set_arg b = (case b of None \<Rightarrow> HNull | Some bytes \<Rightarrow> HInOut bytes)"

definition write_fd_set :: "u64 \<Rightarrow> host_answer \<Rightarrow> nat \<Rightarrow> u8 list option \<Rightarrow> (machine, unit) smon" where
  "write_fd_set address a i b =
     (case b of None \<Rightarrow> return () | Some bytes \<Rightarrow> copy_to_guest address (out_buffer a i bytes))"

definition sys_select_with ::
  "string \<Rightarrow> os \<Rightarrow> u64 \<Rightarrow> u64 \<Rightarrow> u64 \<Rightarrow> u64 \<Rightarrow> u64 \<Rightarrow> (machine, u64) smon" where
  "sys_select_with name h arg1 arg2 arg3 arg4 arg5 =
     bind (read_fd_set arg2) (\<lambda>readfds.
     bind (read_fd_set arg3) (\<lambda>writefds.
     bind (read_fd_set arg4) (\<lambda>exceptfds.
     bind (read_optional_time arg5) (\<lambda>timeout.
     host_then h name [HInt (to_int arg1), fd_set_arg readfds, fd_set_arg writefds,
         fd_set_arg exceptfds, time_arg timeout] (\<lambda>a.
     seq (write_fd_set arg2 a 0 readfds)
    (seq (write_fd_set arg3 a 1 writefds)
    (seq (write_fd_set arg4 a 2 exceptfds)
    (seq (case timeout of None \<Rightarrow> return ()
          | Some (sec, sub) \<Rightarrow> copy_to_guest arg5 (time_bytes (out_int a 0 sec) (out_int a 1 sub)))
         (return_rc a)))))))))"

definition sys_select :: "os \<Rightarrow> u64 \<Rightarrow> u64 \<Rightarrow> u64 \<Rightarrow> u64 \<Rightarrow> u64 \<Rightarrow> (machine, u64) smon" where
  "sys_select = sys_select_with ''select''"

definition sys_pselect6 :: "os \<Rightarrow> u64 \<Rightarrow> u64 \<Rightarrow> u64 \<Rightarrow> u64 \<Rightarrow> u64 \<Rightarrow> (machine, u64) smon" where
  "sys_pselect6 = sys_select_with ''pselect6''"

definition sys_epoll_create1 :: "os \<Rightarrow> u64 \<Rightarrow> (machine, u64) smon" where
  "sys_epoll_create1 h arg1 = host_then h ''epoll_create1'' [HInt (to_int arg1)] (\<lambda>a.
     seq (register_host_fd (os_host h) (ans_rc a)) (return_rc a))"

definition sys_epoll_ctl :: "os \<Rightarrow> u64 \<Rightarrow> u64 \<Rightarrow> u64 \<Rightarrow> u64 \<Rightarrow> (machine, u64) smon" where
  "sys_epoll_ctl h arg1 arg2 arg3 arg4 =
     bind (if arg4 \<noteq> 0 then bind (read_guest arg4 12) (\<lambda>b. return (HIn b)) else return HNull) (\<lambda>event.
     host_result h ''epoll_ctl'' [HInt (to_int arg1), HInt (to_int arg2), HInt (to_int arg3), event])"

text \<open>The buffer of events: its size is computed in 64 bits and wraps.\<close>

definition epoll_wait_with :: "string \<Rightarrow> os \<Rightarrow> u64 \<Rightarrow> u64 \<Rightarrow> u64 \<Rightarrow> u64 \<Rightarrow> (machine, u64) smon" where
  "epoll_wait_with name h arg1 arg2 arg3 arg4 =
     (let n = unat (arg3 * 12) in
      host_then h name [HInt (to_int arg1), HOut n, HInt (to_int arg3), HInt (to_int arg4)] (\<lambda>a.
      seq (copy_to_guest arg2 (take (nat (ans_rc a) * 12) (out_buffer a 0 (zeros n)))) (return_rc a)))"

definition sys_epoll_wait :: "os \<Rightarrow> u64 \<Rightarrow> u64 \<Rightarrow> u64 \<Rightarrow> u64 \<Rightarrow> (machine, u64) smon" where
  "sys_epoll_wait = epoll_wait_with ''epoll_wait''"

definition sys_epoll_pwait :: "os \<Rightarrow> u64 \<Rightarrow> u64 \<Rightarrow> u64 \<Rightarrow> u64 \<Rightarrow> (machine, u64) smon" where
  "sys_epoll_pwait = epoll_wait_with ''epoll_pwait''"

section \<open>Time\<close>

definition sys_clock_gettime :: "os \<Rightarrow> u64 \<Rightarrow> u64 \<Rightarrow> (machine, u64) smon" where
  "sys_clock_gettime h arg1 arg2 =
     host_then h ''clock_gettime'' [HInt (to_int arg1), HFields [0, 0]] (\<lambda>a.
     seq (copy_to_guest arg2 (time_bytes (out_int a 0 0) (out_int a 1 0))) (return 0))"

text \<open>\<^verbatim>\<open>clock_nanosleep\<close> returns the error number itself.\<close>

definition sys_clock_nanosleep :: "os \<Rightarrow> u64 \<Rightarrow> u64 \<Rightarrow> u64 \<Rightarrow> u64 \<Rightarrow> (machine, u64) smon" where
  "sys_clock_nanosleep h arg1 arg2 arg3 arg4 =
     bind (read_time arg3) (\<lambda>(sec, nsec).
     bind (ask_host (os_host h) ''clock_nanosleep'' [HInt (to_int arg1), HInt (to_int arg2),
             HFields [sec, nsec], if arg4 \<noteq> 0 then HFields [0, 0] else HNull]) (\<lambda>a.
     if ans_rc a \<noteq> 0 then return (syscall_error (ans_rc a))
     else seq (when_do (arg4 \<noteq> 0)
                 (copy_to_guest arg4 (time_bytes (out_int a 0 0) (out_int a 1 0))))
              (return 0)))"

definition sys_gettimeofday :: "os \<Rightarrow> u64 \<Rightarrow> (machine, u64) smon" where
  "sys_gettimeofday h arg1 =
     host_then h ''gettimeofday'' [HFields [0, 0], HNull] (\<lambda>a.
     seq (when_do (arg1 \<noteq> 0)
            (copy_to_guest arg1 (time_bytes (out_int a 0 0) (out_int a 1 0))))
         (return 0))"

definition sys_nanosleep :: "os \<Rightarrow> u64 \<Rightarrow> u64 \<Rightarrow> (machine, u64) smon" where
  "sys_nanosleep h arg1 arg2 =
     bind (read_time arg1) (\<lambda>(sec, nsec).
     host_then h ''nanosleep''
       [HFields [sec, nsec], if arg2 \<noteq> 0 then HFields [0, 0] else HNull] (\<lambda>a.
     seq (when_do (arg2 \<noteq> 0)
            (copy_to_guest arg2 (time_bytes (out_int a 0 0) (out_int a 1 0))))
         (return 0)))"

definition sys_time :: "os \<Rightarrow> u64 \<Rightarrow> (machine, u64) smon" where
  "sys_time h arg1 =
     bind (ask_host (os_host h) ''time'' [HNull]) (\<lambda>a.
     if ans_rc a = -1 then return (syscall_error (ans_errno a))
     else seq (when_do (arg1 \<noteq> 0) (write64 arg1 (of_int (ans_rc a)))) (return_rc a))"

section \<open>Identity, limits and the system's name\<close>

text \<open>A call that cannot fail: its value is returned as it is.\<close>

definition host_value :: "os \<Rightarrow> string \<Rightarrow> (machine, u64) smon" where
  "host_value h name = bind (ask_host (os_host h) name []) return_rc"

definition sys_getpgid :: "os \<Rightarrow> u64 \<Rightarrow> (machine, u64) smon" where
  "sys_getpgid h arg1 = host_result h ''getpgid'' [HInt (to_int arg1)]"

definition sys_getrandom :: "os \<Rightarrow> u64 \<Rightarrow> u64 \<Rightarrow> u64 \<Rightarrow> (machine, u64) smon" where
  "sys_getrandom h arg1 arg2 arg3 =
     host_then h ''getrandom'' [HOut (unat arg2), HInt (to_unsigned arg3)]
       (deliver_buffer arg1 (unat arg2))"

text \<open>\<^verbatim>\<open>uname\<close>: the buffers are the host's sysname, nodename, release, version, domainname.\<close>

definition guest_utsname :: "host_answer \<Rightarrow> u8 list" where
  "guest_utsname a =
     (let name = (\<lambda>i. copy_capped 65 (out_buffer a i (zeros 65))) in
      name 0 @ name 1 @ name 2 @ name 3 @
      copy_capped 65 (bytes_of_string ''x86_64'' @ [0]) @ name 4)"

definition sys_uname :: "os \<Rightarrow> u64 \<Rightarrow> (machine, u64) smon" where
  "sys_uname h arg1 =
     host_then h ''uname'' [HFields []] (\<lambda>a. seq (copy_to_guest arg1 (guest_utsname a)) (return 0))"

definition sys_prlimit64 :: "os \<Rightarrow> u64 \<Rightarrow> u64 \<Rightarrow> u64 \<Rightarrow> u64 \<Rightarrow> (machine, u64) smon" where
  "sys_prlimit64 h arg1 arg2 arg3 arg4 =
     bind (if arg3 \<noteq> 0
           then bind (read_guest arg3 16) (\<lambda>b.
             return (HFields [uint (word_of_field b 0), uint (word_of_field b 1)]))
           else return HNull) (\<lambda>new_limit.
     host_then h ''prlimit64'' [HInt (to_int arg1), HInt (to_int arg2), new_limit,
         if arg4 \<noteq> 0 then HFields [0, 0] else HNull] (\<lambda>a.
     seq (when_do (arg4 \<noteq> 0)
            (copy_to_guest arg4 (time_bytes (out_int a 0 0) (out_int a 1 0))))
         (return 0)))"

end
