(* ===== verification/Sys_Sockets.thy ===== *)
theory Sys_Sockets
  imports Sys_Base
begin

text \<open>The socket calls of \<^verbatim>\<open>src/LinuxSyscalls.cpp\<close>.\<close>

section \<open>Addresses\<close>

text \<open>
  The value-result argument \<^verbatim>\<open>socklen_t* length\<close>: read from the guest when its address is not
  null, passed to the host, and what the host leaves in it.
\<close>

definition read_socklen :: "u64 \<Rightarrow> (machine, u32) smon" where
  "read_socklen address = (if address \<noteq> 0 then read_guest32 address else return 0)"

definition address_args :: "u64 \<Rightarrow> u64 \<Rightarrow> u32 \<Rightarrow> host_arg list" where
  "address_args address length_address len =
     [if address \<noteq> 0 then HOut (unat len) else HNull,
      if length_address \<noteq> 0 then HFields [uint len] else HNull]"

definition answered_socklen :: "host_answer \<Rightarrow> u64 \<Rightarrow> u32 \<Rightarrow> u32" where
  "answered_socklen a length_address len =
     (if length_address \<noteq> 0 then of_int (out_int a 0 (uint len)) else len)"

definition copy_answered_sockaddr ::
  "u64 \<Rightarrow> u64 \<Rightarrow> u32 \<Rightarrow> nat \<Rightarrow> host_answer \<Rightarrow> (machine, unit) smon" where
  "copy_answered_sockaddr address length_address len i a =
     copy_sockaddr_to_guest address length_address (out_buffer a i (zeros (unat len)))
       (answered_socklen a length_address len)"

section \<open>The calls\<close>

definition sys_socket :: "os \<Rightarrow> u64 \<Rightarrow> u64 \<Rightarrow> u64 \<Rightarrow> (machine, u64) smon" where
  "sys_socket h arg1 arg2 arg3 =
     host_then h ''socket'' [HInt (to_int arg1), HInt (to_int arg2), HInt (to_int arg3)] (\<lambda>a.
     seq (register_host_fd (os_host h) (ans_rc a)) (return_rc a))"

definition sys_socketpair :: "os \<Rightarrow> u64 \<Rightarrow> u64 \<Rightarrow> u64 \<Rightarrow> u64 \<Rightarrow> (machine, u64) smon" where
  "sys_socketpair h arg1 arg2 arg3 arg4 =
     new_fd_pair h ''socketpair''
       [HInt (to_int arg1), HInt (to_int arg2), HInt (to_int arg3), HFields [0, 0]] arg4"

definition sys_bind :: "os \<Rightarrow> u64 \<Rightarrow> u64 \<Rightarrow> u64 \<Rightarrow> (machine, u64) smon" where
  "sys_bind h arg1 arg2 arg3 =
     bind (optional_sockaddr_from_guest arg2 arg3) (\<lambda>address.
     host_result h ''bind'' [HInt (to_int arg1), HIn address])"

definition sys_listen :: "os \<Rightarrow> u64 \<Rightarrow> u64 \<Rightarrow> (machine, u64) smon" where
  "sys_listen h arg1 arg2 = host_result h ''listen'' [HInt (to_int arg1), HInt (to_int arg2)]"

definition accept_with ::
  "string \<Rightarrow> host_arg list \<Rightarrow> os \<Rightarrow> u64 \<Rightarrow> u64 \<Rightarrow> u64 \<Rightarrow> (machine, u64) smon" where
  "accept_with name flags h arg1 arg2 arg3 =
     bind (read_socklen arg3) (\<lambda>len.
     host_then h name (HInt (to_int arg1) # address_args arg2 arg3 len @ flags) (\<lambda>a.
     seq (register_host_fd (os_host h) (ans_rc a))
    (seq (copy_answered_sockaddr arg2 arg3 len 0 a)
         (return_rc a))))"

definition sys_accept :: "os \<Rightarrow> u64 \<Rightarrow> u64 \<Rightarrow> u64 \<Rightarrow> (machine, u64) smon" where
  "sys_accept = accept_with ''accept'' []"

definition sys_accept4 :: "os \<Rightarrow> u64 \<Rightarrow> u64 \<Rightarrow> u64 \<Rightarrow> u64 \<Rightarrow> (machine, u64) smon" where
  "sys_accept4 h arg1 arg2 arg3 arg4 =
     accept_with ''accept4'' [HInt (to_int arg4)] h arg1 arg2 arg3"

definition sys_connect :: "os \<Rightarrow> u64 \<Rightarrow> u64 \<Rightarrow> u64 \<Rightarrow> (machine, u64) smon" where
  "sys_connect h arg1 arg2 arg3 =
     bind (optional_sockaddr_from_guest arg2 arg3) (\<lambda>address.
     host_result h ''connect'' [HInt (to_int arg1), HIn address])"

definition socket_name_with :: "string \<Rightarrow> os \<Rightarrow> u64 \<Rightarrow> u64 \<Rightarrow> u64 \<Rightarrow> (machine, u64) smon" where
  "socket_name_with name h arg1 arg2 arg3 =
     bind (read_socklen arg3) (\<lambda>len.
     host_then h name (HInt (to_int arg1) # address_args arg2 arg3 len) (\<lambda>a.
     seq (copy_answered_sockaddr arg2 arg3 len 0 a) (return 0)))"

definition sys_getsockname :: "os \<Rightarrow> u64 \<Rightarrow> u64 \<Rightarrow> u64 \<Rightarrow> (machine, u64) smon" where
  "sys_getsockname = socket_name_with ''getsockname''"

definition sys_getpeername :: "os \<Rightarrow> u64 \<Rightarrow> u64 \<Rightarrow> u64 \<Rightarrow> (machine, u64) smon" where
  "sys_getpeername = socket_name_with ''getpeername''"

definition sys_setsockopt :: "os \<Rightarrow> u64 \<Rightarrow> u64 \<Rightarrow> u64 \<Rightarrow> u64 \<Rightarrow> u64 \<Rightarrow> (machine, u64) smon" where
  "sys_setsockopt h arg1 arg2 arg3 arg4 arg5 =
     bind (if arg4 \<noteq> 0 then read_guest arg4 (unat arg5) else return []) (\<lambda>v.
     host_result h ''setsockopt'' [HInt (to_int arg1), HInt (to_int arg2), HInt (to_int arg3), HIn v])"

definition sys_getsockopt :: "os \<Rightarrow> u64 \<Rightarrow> u64 \<Rightarrow> u64 \<Rightarrow> u64 \<Rightarrow> u64 \<Rightarrow> (machine, u64) smon" where
  "sys_getsockopt h arg1 arg2 arg3 arg4 arg5 =
     bind (read_socklen arg5) (\<lambda>len.
     host_then h ''getsockopt'' [HInt (to_int arg1), HInt (to_int arg2), HInt (to_int arg3),
         HOut (unat len), HFields [uint len]] (\<lambda>a.
     let v = out_buffer a 0 (zeros (unat len)); len' = of_int (out_int a 0 (uint len)) in
     seq (when_do (arg4 \<noteq> 0) (copy_to_guest arg4 (take (min (length v) (unat len')) v)))
    (seq (when_do (arg5 \<noteq> 0) (write32 arg5 len'))
         (return 0))))"

definition sys_sendto ::
  "os \<Rightarrow> u64 \<Rightarrow> u64 \<Rightarrow> u64 \<Rightarrow> u64 \<Rightarrow> u64 \<Rightarrow> u64 \<Rightarrow> (machine, u64) smon" where
  "sys_sendto h arg1 arg2 arg3 arg4 arg5 arg6 =
     bind (read_guest arg2 (unat arg3)) (\<lambda>buffer.
     bind (optional_sockaddr_from_guest arg5 arg6) (\<lambda>address.
     host_result h ''sendto'' [HInt (to_int arg1), HIn buffer, HInt (to_int arg4),
       if address = [] then HNull else HIn address]))"

definition sys_recvfrom ::
  "os \<Rightarrow> u64 \<Rightarrow> u64 \<Rightarrow> u64 \<Rightarrow> u64 \<Rightarrow> u64 \<Rightarrow> u64 \<Rightarrow> (machine, u64) smon" where
  "sys_recvfrom h arg1 arg2 arg3 arg4 arg5 arg6 =
     bind (read_socklen arg6) (\<lambda>len.
     host_then h ''recvfrom'' ([HInt (to_int arg1), HOut (unat arg3), HInt (to_int arg4)] @
         address_args arg5 arg6 len) (\<lambda>a.
     if ans_rc a > int (unat arg3) then throw UndefinedBehaviour
     else seq (copy_to_guest arg2 (take (nat (ans_rc a)) (out_buffer a 0 (zeros (unat arg3)))))
         (seq (copy_answered_sockaddr arg5 arg6 len 1 a)
              (return_rc a))))"

definition sys_shutdown :: "os \<Rightarrow> u64 \<Rightarrow> u64 \<Rightarrow> (machine, u64) smon" where
  "sys_shutdown h arg1 arg2 = host_result h ''shutdown'' [HInt (to_int arg1), HInt (to_int arg2)]"

end
