(* ===== verification/Syscalls.thy ===== *)
theory Syscalls
  imports Sys_Files Sys_Events Sys_Sockets
begin

text \<open>
  \<^verbatim>\<open>LinuxSyscalls::dispatch\<close> of \<^verbatim>\<open>src/LinuxSyscalls.cpp\<close>: the calls about memory, signals and
  the process, and the dispatcher over all calls. The numbers are those of x86-64 Linux.
\<close>

section \<open>Names\<close>

definition file_call_names :: "(u64 \<times> string) list" where
  "file_call_names = [
    (0, ''read''), (1, ''write''), (19, ''readv''), (20, ''writev''), (17, ''pread64''),
    (18, ''pwrite64''), (2, ''open''), (257, ''openat''), (3, ''close''), (32, ''dup''),
    (33, ''dup2''), (292, ''dup3''), (22, ''pipe''), (293, ''pipe2''), (72, ''fcntl''),
    (8, ''lseek''), (4, ''stat''), (6, ''lstat''), (5, ''fstat''), (262, ''newfstatat''),
    (137, ''statfs''), (138, ''fstatfs''), (332, ''statx''), (191, ''getxattr''),
    (192, ''lgetxattr''), (193, ''fgetxattr'')]"

definition process_call_names :: "(u64 \<times> string) list" where
  "process_call_names = [
    (9, ''mmap''), (11, ''munmap''), (10, ''mprotect''), (25, ''mremap''), (12, ''brk''),
    (158, ''arch_prctl''), (60, ''exit''), (231, ''exit_group''), (39, ''getpid''),
    (102, ''getuid''), (107, ''geteuid''), (104, ''getgid''), (108, ''getegid''),
    (186, ''gettid''), (110, ''getppid''), (121, ''getpgid''), (111, ''getpgrp''),
    (79, ''getcwd'')]"

definition event_call_names :: "(u64 \<times> string) list" where
  "event_call_names = [
    (16, ''ioctl''), (7, ''poll''), (271, ''ppoll''), (23, ''select''), (270, ''pselect6''),
    (291, ''epoll_create1''), (233, ''epoll_ctl''), (232, ''epoll_wait''),
    (281, ''epoll_pwait'')]"

definition socket_call_names :: "(u64 \<times> string) list" where
  "socket_call_names = [
    (41, ''socket''), (53, ''socketpair''), (49, ''bind''), (50, ''listen''), (43, ''accept''),
    (288, ''accept4''), (42, ''connect''), (51, ''getsockname''), (52, ''getpeername''),
    (54, ''setsockopt''), (55, ''getsockopt''), (44, ''sendto''), (45, ''recvfrom''),
    (48, ''shutdown'')]"

definition time_call_names :: "(u64 \<times> string) list" where
  "time_call_names = [
    (228, ''clock_gettime''), (230, ''clock_nanosleep''), (96, ''gettimeofday''),
    (35, ''nanosleep''), (201, ''time''), (318, ''getrandom''), (63, ''uname''),
    (21, ''access''), (269, ''faccessat''), (89, ''readlink''), (217, ''getdents64''),
    (302, ''prlimit64''), (218, ''set_tid_address''), (273, ''set_robust_list'')]"

definition signal_call_names :: "(u64 \<times> string) list" where
  "signal_call_names = [
    (15, ''rt_sigreturn''), (13, ''rt_sigaction''), (14, ''rt_sigprocmask''), (62, ''kill''),
    (200, ''tkill''), (234, ''tgkill''), (334, ''rseq''), (61, ''wait4''), (59, ''execve''),
    (56, ''clone''), (57, ''fork''), (58, ''vfork'')]"

definition syscall_names :: "(u64 \<times> string) list" where
  "syscall_names = file_call_names @ process_call_names @ event_call_names @ socket_call_names @
     time_call_names @ signal_call_names"

lemmas call_name_defs = syscall_names_def file_call_names_def process_call_names_def
  event_call_names_def socket_call_names_def time_call_names_def signal_call_names_def

definition syscall_name :: "u64 \<Rightarrow> string" where
  "syscall_name number =
     (case map_of syscall_names number of None \<Rightarrow> ''unknown'' | Some name \<Rightarrow> name)"

section \<open>Memory\<close>

definition prot_from_linux :: "u64 \<Rightarrow> u32" where
  "prot_from_linux prot =
     (if prot AND 1 \<noteq> 0 then ProtRead else 0) OR
     (if prot AND 2 \<noteq> 0 then ProtWrite else 0) OR
     (if prot AND 4 \<noteq> 0 then ProtExecute else 0)"

definition guest_range_is_mapped :: "mmu \<Rightarrow> u64 \<Rightarrow> u64 \<Rightarrow> bool" where
  "guest_range_is_mapped m address sz =
     (if sz = 0 then False
      else list_ex (\<lambda>i. is_mapped m (address + of_nat (4096 * i)) 1)
             [0..<(unat sz + 4095) div 4096]
           \<or> is_mapped m (address + sz - 1) 1)"

definition sys_mmap :: "os \<Rightarrow> u64 \<Rightarrow> u64 \<Rightarrow> u64 \<Rightarrow> u64 \<Rightarrow> u64 \<Rightarrow> u64 \<Rightarrow> (machine, u64) smon" where
  "sys_mmap h arg1 arg2 arg3 arg4 arg5 arg6 =
     (if arg2 = 0 then return (syscall_error EINVAL)
      else
        bind (gets s_emu) (\<lambda>e.
        bind (gets s_mmu) (\<lambda>m.
        let sz = page_align_up arg2; guest_prot = prot_from_linux arg3;
            fixed = arg4 AND 0x10 \<noteq> 0; fixed_noreplace = arg4 AND 0x100000 \<noteq> 0;
            anonymous = arg4 AND 0x20 \<noteq> 0; uninitialized = arg4 AND 0x4000000 \<noteq> 0;
            mapped_path = (if anonymous then None else path_for_fd e (to_int arg5));
            mapping_name = (case mapped_path of None \<Rightarrow> ''[mmap]'' | Some p \<Rightarrow> p) in
        if fixed_noreplace \<and> guest_range_is_mapped m (page_align_down arg1) sz
        then return (syscall_error EEXIST)
        else
          bind (if fixed \<or> fixed_noreplace
                then let address = page_align_down arg1 in
                  seq (on_mmu (unmap address sz))
                 (seq (on_mmu (map_mmap address sz (ProtRead OR ProtWrite) mapping_name
                         mapped_path arg6))
                      (return address))
                else on_mmu (allocate_mmap sz page_size (ProtRead OR ProtWrite) mapping_name
                       mapped_path arg6)) (\<lambda>address.
          bind (if anonymous then return None
                else
                  bind (ask_host (os_host h) ''pread''
                          [HInt (to_int arg5), HOut (unat sz), HInt (to_long arg6)]) (\<lambda>a.
                  if ans_rc a < 0
                  then seq (on_mmu (unmap address sz)) (return (Some (ans_errno a)))
                  else
                      seq (copy_to_guest address
                            (take (nat (ans_rc a)) (out_buffer a 0 (zeros (unat sz)))))
                     (bind (gets s_host_log) (\<lambda>calls.
                      seq (when_do (arg6 = 0) (upd_emu (\<lambda>e. case mapped_path of None \<Rightarrow> e
                              | Some p \<Rightarrow> register_mapped_file (os_files h calls) p address e)))
                          (return None))))) (\<lambda>failed.
          case failed of
            Some err \<Rightarrow> return (syscall_error err)
          | None \<Rightarrow>
              seq (when_do uninitialized (on_mmu (mark_initialized address (unat sz) False)))
             (seq (on_mmu (protect address sz guest_prot))
                  (return address)))))))"

definition copy_shadowed :: "u64 \<Rightarrow> u64 \<Rightarrow> nat \<Rightarrow> (machine, unit) smon" where
  "copy_shadowed dest source n =
     for_loop 0 n (\<lambda>i. bind (read8_with_shadow (source + of_nat i)) (\<lambda>byte.
       write8_with_shadow (dest + of_nat i) byte))"

definition sys_mremap :: "u64 \<Rightarrow> u64 \<Rightarrow> u64 \<Rightarrow> u64 \<Rightarrow> u64 \<Rightarrow> (machine, u64) smon" where
  "sys_mremap old_addr arg2 arg3 flags new_addr =
     (let old_size = page_align_up arg2; new_size = page_align_up arg3;
          may_move = flags AND 1 \<noteq> 0; fixed = flags AND 2 \<noteq> 0; dont_unmap = flags AND 4 \<noteq> 0;
          dest0 = page_align_down new_addr in
      bind (gets s_mmu) (\<lambda>m.
      if fixed \<and> \<not> may_move then return (syscall_error EINVAL)
      else if old_addr AND (page_size - 1) \<noteq> 0 then return (syscall_error EINVAL)
      else if \<not> is_mapped m old_addr (if old_size \<noteq> 0 then unat old_size else 1)
      then return (syscall_error EFAULT)
      else if new_size < old_size \<and> \<not> fixed
      then seq (on_mmu (unmap (old_addr + new_size) (old_size - new_size))) (return old_addr)
      else if new_size = old_size \<and> \<not> fixed then return old_addr
      else if fixed \<and> \<not> dont_unmap \<and> dest0 < old_addr + old_size \<and> dest0 + new_size > old_addr
      then return (syscall_error EINVAL)
      else if \<not> fixed \<and> \<not> may_move then return (syscall_error ENOMEM)
      else
        seq (when_do fixed (on_mmu (unmap dest0 new_size)))
       (bind (gets (\<lambda>s. find_region (s_mmu s) old_addr)) (\<lambda>src.
        case src of
          None \<Rightarrow> return (syscall_error EFAULT)
        | Some src_region \<Rightarrow>
            bind (if \<not> fixed
                  then on_mmu (allocate_mmap new_size page_size (r_prot src_region)
                         (r_name src_region) None 0)
                  else seq (on_mmu (map_mmap dest0 new_size (r_prot src_region)
                              (r_name src_region) None 0)) (return dest0)) (\<lambda>dest_addr.
            seq (copy_shadowed dest_addr old_addr (unat (min old_size new_size)))
           (seq (when_do (\<not> dont_unmap) (on_mmu (unmap old_addr old_size)))
                (return dest_addr)))))))"

definition sys_arch_prctl :: "u64 \<Rightarrow> u64 \<Rightarrow> (machine, u64) smon" where
  "sys_arch_prctl arg1 arg2 =
     (if arg1 = 0x1002 then seq (upd_cpu (\<lambda>c. c\<lparr>c_fs_base := arg2\<rparr>)) (return 0)
      else if arg1 = 0x1003 then bind (get_cpu c_fs_base) (\<lambda>v. seq (write64 arg2 v) (return 0))
      else if arg1 = 0x1001 then seq (upd_cpu (\<lambda>c. c\<lparr>c_gs_base := arg2\<rparr>)) (return 0)
      else if arg1 = 0x1004 then bind (get_cpu c_gs_base) (\<lambda>v. seq (write64 arg2 v) (return 0))
      else return (syscall_error EINVAL))"

section \<open>Signals\<close>

definition guest_deliver_signal :: "u64 \<Rightarrow> (machine, u64) smon" where
  "guest_deliver_signal arg =
     (if arg = 0 then return 0
      else (\<lambda>s. case deliver_signal (to_int arg) (s_emu s) of (rc, e) \<Rightarrow>
        (Inr (signed_result rc), s\<lparr>s_emu := e\<rparr>)))"

definition sys_rt_sigaction :: "u64 \<Rightarrow> u64 \<Rightarrow> u64 \<Rightarrow> u64 \<Rightarrow> (machine, u64) smon" where
  "sys_rt_sigaction arg1 arg2 arg3 arg4 =
     (if arg4 \<noteq> 8 then return (syscall_error EINVAL)
      else
        bind (if arg2 \<noteq> 0 then read_mmu (\<lambda>m. copy_from_guest m arg2 32)
              else return (replicate 32 0)) (\<lambda>action.
        let word = (\<lambda>i. le_word (take 8 (drop (8 * i) action))) in
        bind (set_signal_action (to_int arg1) (arg2 \<noteq> 0) (word 0) (word 1) (word 2) (word 3) arg3)
          (\<lambda>rc. return (signed_result rc))))"

definition sys_rt_sigprocmask :: "u64 \<Rightarrow> u64 \<Rightarrow> u64 \<Rightarrow> u64 \<Rightarrow> (machine, u64) smon" where
  "sys_rt_sigprocmask arg1 arg2 arg3 arg4 =
     (if arg4 \<noteq> 8 then return (syscall_error EINVAL)
      else bind (set_signal_mask (to_int arg1) arg2 arg3) (\<lambda>rc. return (signed_result rc)))"

definition sys_kill :: "os \<Rightarrow> u64 \<Rightarrow> u64 \<Rightarrow> (machine, u64) smon" where
  "sys_kill h arg1 arg2 =
     bind (if arg1 = 0 then return True
           else bind (ask_host (os_host h) ''getpid'' []) (\<lambda>a. return (to_int arg1 = ans_rc a))) (\<lambda>own.
     if \<not> own then return (syscall_error ESRCH) else guest_deliver_signal arg2)"

definition sys_tkill :: "os \<Rightarrow> u64 \<Rightarrow> u64 \<Rightarrow> (machine, u64) smon" where
  "sys_tkill h arg1 arg2 =
     bind (ask_host (os_host h) ''gettid'' []) (\<lambda>a.
     if to_int arg1 \<noteq> ans_rc a then return (syscall_error ESRCH) else guest_deliver_signal arg2)"

definition sys_tgkill :: "os \<Rightarrow> u64 \<Rightarrow> u64 \<Rightarrow> u64 \<Rightarrow> (machine, u64) smon" where
  "sys_tgkill h arg1 arg2 arg3 =
     bind (ask_host (os_host h) ''getpid'' []) (\<lambda>pid.
     if to_int arg1 \<noteq> ans_rc pid then return (syscall_error ESRCH)
     else
       bind (ask_host (os_host h) ''gettid'' []) (\<lambda>tid.
       if to_int arg2 \<noteq> ans_rc tid then return (syscall_error ESRCH)
       else guest_deliver_signal arg3))"

definition sys_futex :: "u64 \<Rightarrow> (machine, u64) smon" where
  "sys_futex arg2 =
     (let futex_op = arg2 AND 0x7f in
      if futex_op = 1 then return 0
      else if futex_op = 0 then return (syscall_error EAGAIN)
      else return (syscall_error ENOSYS))"

section \<open>Dispatch\<close>

text \<open>Files and descriptors.\<close>

definition dispatch_files ::
  "os \<Rightarrow> u64 \<Rightarrow> u64 \<Rightarrow> u64 \<Rightarrow> u64 \<Rightarrow> u64 \<Rightarrow> u64 \<Rightarrow> u64 \<Rightarrow> (machine, u64) smon \<Rightarrow>
   (machine, u64) smon" where
  "dispatch_files h number arg1 arg2 arg3 arg4 arg5 arg6 otherwise =
     (if number = 0 then sys_read h arg1 arg2 arg3
      else if number = 1 then sys_write h arg1 arg2 arg3
      else if number = 19 then sys_readv h arg1 arg2 arg3
      else if number = 20 then sys_writev h arg1 arg2 arg3
      else if number = 17 then sys_pread64 h arg1 arg2 arg3 arg4
      else if number = 18 then sys_pwrite64 h arg1 arg2 arg3 arg4
      else if number = 2 then sys_open h arg1 arg2 arg3
      else if number = 257 then sys_openat h arg1 arg2 arg3 arg4
      else if number = 3 then sys_close h arg1
      else if number = 32 then sys_dup h arg1
      else if number = 33 then sys_dup2 h arg1 arg2
      else if number = 292 then sys_dup3 h arg1 arg2 arg3
      else if number = 22 then sys_pipe h arg1
      else if number = 293 then sys_pipe2 h arg1 arg2
      else if number = 72 then sys_fcntl h arg1 arg2 arg3
      else if number = 8 then sys_lseek h arg1 arg2 arg3
      else if number = 4 then sys_stat h arg1 arg2
      else if number = 6 then sys_lstat h arg1 arg2
      else if number = 5 then sys_fstat h arg1 arg2
      else if number = 262 then sys_newfstatat h arg1 arg2 arg3 arg4
      else if number = 137 then sys_statfs h arg1 arg2
      else if number = 138 then sys_fstatfs h arg1 arg2
      else if number = 332 then sys_statx h arg1 arg2 arg3 arg4 arg5
      else if number \<in> {191, 192, 193} then sys_xattr h number arg1 arg2 arg3 arg4
      else otherwise)"

text \<open>Memory and process.\<close>

definition dispatch_process ::
  "os \<Rightarrow> u64 \<Rightarrow> u64 \<Rightarrow> u64 \<Rightarrow> u64 \<Rightarrow> u64 \<Rightarrow> u64 \<Rightarrow> u64 \<Rightarrow> (machine, u64) smon \<Rightarrow>
   (machine, u64) smon" where
  "dispatch_process h number arg1 arg2 arg3 arg4 arg5 arg6 otherwise =
     (if number = 9 then sys_mmap h arg1 arg2 arg3 arg4 arg5 arg6
      else if number = 11 then seq (on_mmu (unmap arg1 arg2)) (return 0)
      else if number = 10 then seq (on_mmu (protect arg1 arg2 (prot_from_linux arg3))) (return 0)
      else if number = 25 then sys_mremap arg1 arg2 arg3 arg4 arg5
      else if number = 12 then set_brk arg1
      else if number = 158 then sys_arch_prctl arg1 arg2
      else if number = 60 \<or> number = 231 then throw (GuestExit (to_int arg1))
      else if number = 39 then host_value h ''getpid''
      else if number = 186 then host_result h ''gettid'' []
      else if number = 110 then host_value h ''getppid''
      else if number = 121 then sys_getpgid h arg1
      else if number = 111 then host_value h ''getpgrp''
      else if number = 102 then host_value h ''getuid''
      else if number = 107 then host_value h ''geteuid''
      else if number = 104 then host_value h ''getgid''
      else if number = 108 then host_value h ''getegid''
      else if number = 79 then sys_getcwd h arg1 arg2
      else otherwise)"

text \<open>Device control and waiting.\<close>

definition dispatch_events ::
  "os \<Rightarrow> u64 \<Rightarrow> u64 \<Rightarrow> u64 \<Rightarrow> u64 \<Rightarrow> u64 \<Rightarrow> u64 \<Rightarrow> u64 \<Rightarrow> (machine, u64) smon \<Rightarrow>
   (machine, u64) smon" where
  "dispatch_events h number arg1 arg2 arg3 arg4 arg5 arg6 otherwise =
     (if number = 16 then sys_ioctl h arg1 arg2 arg3
      else if number = 7 then sys_poll h arg1 arg2 arg3
      else if number = 271 then sys_ppoll h arg1 arg2 arg3
      else if number = 23 then sys_select h arg1 arg2 arg3 arg4 arg5
      else if number = 270 then sys_pselect6 h arg1 arg2 arg3 arg4 arg5
      else if number = 291 then sys_epoll_create1 h arg1
      else if number = 233 then sys_epoll_ctl h arg1 arg2 arg3 arg4
      else if number = 232 then sys_epoll_wait h arg1 arg2 arg3 arg4
      else if number = 281 then sys_epoll_pwait h arg1 arg2 arg3 arg4
      else otherwise)"

text \<open>Sockets.\<close>

definition dispatch_sockets ::
  "os \<Rightarrow> u64 \<Rightarrow> u64 \<Rightarrow> u64 \<Rightarrow> u64 \<Rightarrow> u64 \<Rightarrow> u64 \<Rightarrow> u64 \<Rightarrow> (machine, u64) smon \<Rightarrow>
   (machine, u64) smon" where
  "dispatch_sockets h number arg1 arg2 arg3 arg4 arg5 arg6 otherwise =
     (if number = 41 then sys_socket h arg1 arg2 arg3
      else if number = 53 then sys_socketpair h arg1 arg2 arg3 arg4
      else if number = 49 then sys_bind h arg1 arg2 arg3
      else if number = 50 then sys_listen h arg1 arg2
      else if number = 43 then sys_accept h arg1 arg2 arg3
      else if number = 288 then sys_accept4 h arg1 arg2 arg3 arg4
      else if number = 42 then sys_connect h arg1 arg2 arg3
      else if number = 51 then sys_getsockname h arg1 arg2 arg3
      else if number = 52 then sys_getpeername h arg1 arg2 arg3
      else if number = 54 then sys_setsockopt h arg1 arg2 arg3 arg4 arg5
      else if number = 55 then sys_getsockopt h arg1 arg2 arg3 arg4 arg5
      else if number = 44 then sys_sendto h arg1 arg2 arg3 arg4 arg5 arg6
      else if number = 45 then sys_recvfrom h arg1 arg2 arg3 arg4 arg5 arg6
      else if number = 48 then sys_shutdown h arg1 arg2
      else otherwise)"

text \<open>Time, limits and paths.\<close>

definition dispatch_time ::
  "os \<Rightarrow> u64 \<Rightarrow> u64 \<Rightarrow> u64 \<Rightarrow> u64 \<Rightarrow> u64 \<Rightarrow> u64 \<Rightarrow> u64 \<Rightarrow> (machine, u64) smon \<Rightarrow>
   (machine, u64) smon" where
  "dispatch_time h number arg1 arg2 arg3 arg4 arg5 arg6 otherwise =
     (if number = 228 then sys_clock_gettime h arg1 arg2
      else if number = 230 then sys_clock_nanosleep h arg1 arg2 arg3 arg4
      else if number = 96 then sys_gettimeofday h arg1
      else if number = 35 then sys_nanosleep h arg1 arg2
      else if number = 201 then sys_time h arg1
      else if number = 318 then sys_getrandom h arg1 arg2 arg3
      else if number = 63 then sys_uname h arg1
      else if number = 21 then sys_access h arg1 arg2
      else if number = 269 then sys_faccessat h arg1 arg2 arg3 arg4
      else if number = 89 then sys_readlink h arg1 arg2 arg3
      else if number = 217 then sys_getdents64 h arg1 arg2 arg3
      else if number = 302 then sys_prlimit64 h arg1 arg2 arg3 arg4
      else if number = 218 then host_result h ''gettid'' []
      else if number = 273 then return 0
      else otherwise)"

text \<open>Signals and what is refused.\<close>

definition dispatch_signals ::
  "os \<Rightarrow> u64 \<Rightarrow> u64 \<Rightarrow> u64 \<Rightarrow> u64 \<Rightarrow> u64 \<Rightarrow> u64 \<Rightarrow> u64 \<Rightarrow> (machine, u64) smon \<Rightarrow>
   (machine, u64) smon" where
  "dispatch_signals h number arg1 arg2 arg3 arg4 arg5 arg6 otherwise =
     (if number = 15 then handle_sigreturn
      else if number = 13 then sys_rt_sigaction arg1 arg2 arg3 arg4
      else if number = 14 then sys_rt_sigprocmask arg1 arg2 arg3 arg4
      else if number = 62 then sys_kill h arg1 arg2
      else if number = 200 then sys_tkill h arg1 arg2
      else if number = 234 then sys_tgkill h arg1 arg2 arg3
      else if number = 61 then return (syscall_error ECHILD)
      else if number \<in> {59, 56, 57, 58, 334} then return (syscall_error ENOSYS)
      else if number = 202 then sys_futex arg2
      else otherwise)"

definition dispatch :: "os \<Rightarrow> u64 \<Rightarrow> (machine, u64) smon" where
  "dispatch h number =
     bind (gets s_cpu) (\<lambda>c.
     let arg1 = c_gpr c RDI; arg2 = c_gpr c RSI; arg3 = c_gpr c RDX;
         arg4 = c_gpr c R10; arg5 = c_gpr c R8; arg6 = c_gpr c R9 in
     seq (trace_message (TraceSyscall (syscall_name number) number arg1 arg2 arg3 arg4 arg5 arg6))
    (dispatch_files h number arg1 arg2 arg3 arg4 arg5 arg6
    (dispatch_process h number arg1 arg2 arg3 arg4 arg5 arg6
    (dispatch_events h number arg1 arg2 arg3 arg4 arg5 arg6
    (dispatch_sockets h number arg1 arg2 arg3 arg4 arg5 arg6
    (dispatch_time h number arg1 arg2 arg3 arg4 arg5 arg6
    (dispatch_signals h number arg1 arg2 arg3 arg4 arg5 arg6
    (throw (EmulatorError (UnimplementedSyscall number (syscall_name number)))))))))))"

end
