(* ===== verification/Dump.thy ===== *)
theory Dump
  imports Disassembler Emulator
begin

text \<open>
  What the emulator prints about itself: \<^verbatim>\<open>SoftCPU64::dump\<close>, \<^verbatim>\<open>SoftMMU::dump_regions\<close>,
  \<^verbatim>\<open>Emulator::describe_address\<close>, backtraces and \<^verbatim>\<open>dump_state\<close>. The texts go to
  \<^verbatim>\<open>std::cerr\<close> as \<open>PrintText\<close>.
\<close>

definition newline :: string where
  "newline = [CHR 0x0A]"

section \<open>Processor and memory\<close>

definition cpu_text :: "cpu \<Rightarrow> string" where
  "cpu_text c =
     ''rip='' @ hex_text 12 (c_rip c) @ '' rflags='' @ hex_text 0 (c_rflags c) @ newline @
     concat (map (\<lambda>i. register_name i @ ''='' @ hex_text 16 (c_gpr c (of_nat i)) @
         (if i mod 4 = 3 then newline else '' '')) [0..<16]) @
     ''fs_base='' @ hex_text 16 (c_fs_base c) @ '' gs_base='' @ hex_text 16 (c_gs_base c) @ newline"

definition kind_text :: "region_kind \<Rightarrow> string" where
  "kind_text k = (case k of SimpleRegion \<Rightarrow> ''simple'' | MmapRegion _ _ \<Rightarrow> ''mmap'')"

definition region_text :: "region \<Rightarrow> string" where
  "region_text r =
     hex_text 12 (r_base r) @ ''-'' @ hex_text 12 (region_end r) @ '' '' @
     (if r_prot r AND ProtRead \<noteq> 0 then ''r'' else ''-'') @
     (if r_prot r AND ProtWrite \<noteq> 0 then ''w'' else ''-'') @
     (if r_prot r AND ProtExecute \<noteq> 0 then ''x'' else ''-'') @
     '' '' @ kind_text (r_kind r) @ '' '' @ r_name r @ newline"

definition dump_regions :: "mmu \<Rightarrow> string" where
  "dump_regions m = concat (map region_text (m_regions m))"

section \<open>Addresses and backtraces\<close>

definition describe_address :: "emulator \<Rightarrow> u64 \<Rightarrow> string" where
  "describe_address e address =
     (case image_containing e address of
        None \<Rightarrow> hex_text 0 address
      | Some img \<Rightarrow>
          hex_text 0 address @ '' ['' @ li_name img @ '']'' @
          (case symbol_containing img address of
             Some symbol \<Rightarrow>
               '': '' @ sr_name symbol @
               (let offset = address - sr_start symbol in
                if offset \<noteq> 0 then ''+'' @ hex_text 0 offset else [])
           | None \<Rightarrow> '': '' @ hex_text 0 (address - li_base img)))"

definition backtrace_text :: "emulator \<Rightarrow> u64 list \<Rightarrow> string" where
  "backtrace_text e backtrace =
     concat (map (\<lambda>address. ''  '' @ describe_address e address @ newline) backtrace)"

definition dump_backtrace :: "(machine, unit) smon" where
  "dump_backtrace =
     bind (lift_sum raw_backtrace) (\<lambda>backtrace.
     bind (gets s_emu) (\<lambda>e. print_err (PrintText (backtrace_text e backtrace))))"

definition dump_state :: "(machine, unit) smon" where
  "dump_state =
     seq (bind (gets s_cpu) (\<lambda>c. print_err (PrintText (cpu_text c))))
    (seq (print_err (PrintText (''backtrace:'' @ newline)))
    (seq dump_backtrace
    (seq (print_err (PrintText (''mapped regions:'' @ newline)))
         (bind (gets s_mmu) (\<lambda>m. print_err (PrintText (dump_regions m)))))))"

text \<open>The line of the option \<^verbatim>\<open>trace\<close> before an instruction and the registers after it.\<close>

definition trace_instruction :: "(machine, unit) smon" where
  "trace_instruction =
     bind (lift_sum (\<lambda>s. describe_current_instruction (s_mmu s) (c_rip (s_cpu s)))) (\<lambda>text.
     print_err (PrintText (''instruction: '' @ text @ newline)))"

definition trace_registers :: "(machine, unit) smon" where
  "trace_registers = bind (gets s_cpu) (\<lambda>c. print_err (PrintText (cpu_text c)))"

end
