(* ===== verification/Exec.thy ===== *)
theory Exec
  imports CPU_X87 CPU_Step Syscalls Dump
begin

text \<open>
  \<^verbatim>\<open>Emulator::exec\<close> of \<^verbatim>\<open>src/Emulator.cpp\<close>: the main loop, as a step relation in which the
  host's signals arrive between iterations, and its ends.
\<close>

section \<open>One iteration\<close>

text \<open>The processor with this program's floating-point units, on the host's arithmetic \<open>F\<close>, and its
  system calls.\<close>

definition guest_units :: "fpu \<Rightarrow> os \<Rightarrow> units" where
  "guest_units F h = \<lparr>u_x87 = execute_x87 F, u_sse_float = execute_sse_float F, u_syscall = dispatch h\<rparr>"

definition run_iteration :: "units \<Rightarrow> (machine, unit) smon" where
  "run_iteration u =
     seq (bind (get_emu e_options) (\<lambda>options.
            if opt_trace options then seq trace_instruction (seq (step u) trace_registers) else step u))
    (seq (bind (get_emu e_options) (\<lambda>options. when_do (opt_malloc_trace options) tracer_step))
    (seq collect_host_signals
         dispatch_pending_signal))"

inductive emulator_step :: "units \<Rightarrow> machine \<Rightarrow> machine \<Rightarrow> bool" for u where
  iterate: "run_iteration u s = (Inr (), t) \<Longrightarrow> emulator_step u s t"
| host_signal: "emulator_step u s (host_signal_handler signum s)"

inductive reachable :: "units \<Rightarrow> machine \<Rightarrow> machine \<Rightarrow> bool" for u s where
  start: "reachable u s s"
| step: "reachable u s t \<Longrightarrow> emulator_step u t t' \<Longrightarrow> reachable u s t'"

inductive_cases emulator_stepE: "emulator_step u s t"

section \<open>Running to the end\<close>

text \<open>
  The host's signals that arrive in the course of a run: \<open>arrivals n\<close> are those of the iteration
  \<open>n\<close>, in their order. A handler only sets the flags that the end of the iteration reads, so all may
  be taken to arrive at its beginning.
\<close>

type_synonym arrivals = "nat \<Rightarrow> int list"

definition signals_arrive :: "int list \<Rightarrow> machine \<Rightarrow> machine" where
  "signals_arrive signums = fold host_signal_handler signums"

text \<open>The loop; \<open>None\<close> is a guest that runs for ever.\<close>

partial_function (option) exec_loop :: "units \<Rightarrow> arrivals \<Rightarrow> machine \<Rightarrow> (exn \<times> machine) option" where
  "exec_loop u arrivals s =
     (case run_iteration u (signals_arrive (arrivals 0) s) of
        (Inl e, t) \<Rightarrow> Some (e, t)
      | (Inr _, t) \<Rightarrow> exec_loop u (\<lambda>n. arrivals (Suc n)) t)"

declare exec_loop.simps [code]

text \<open>
  The two \<^verbatim>\<open>catch\<close> blocks: the exit status, with the reports made. An exception that a
  report itself throws leaves \<^verbatim>\<open>exec\<close>, as does any other exception.
\<close>

definition leak_report_if_traced :: "(machine, unit) smon" where
  "leak_report_if_traced =
     bind (get_emu e_options) (\<lambda>options. when_do (opt_malloc_trace options) dump_leak_report)"

definition exit_backtrace :: "(machine, unit) smon" where
  "exit_backtrace =
     bind (gets s_emu) (\<lambda>e.
     if e_last_syscall_backtrace e \<noteq> [] then
       seq (print_err (PrintText (''guest exit backtrace (last non-exit syscall):'' @ newline)))
           (print_err (PrintText (backtrace_text e (e_last_syscall_backtrace e))))
     else
       seq (print_err (PrintText (''guest exit backtrace:'' @ newline))) dump_backtrace)"

definition finish_exec :: "exn \<Rightarrow> (machine, int) smon" where
  "finish_exec e =
     (case e of
        GuestExit status \<Rightarrow>
          seq leak_report_if_traced
         (seq (bind (get_emu e_options) (\<lambda>options. when_do (opt_backtrace_on_exit options) exit_backtrace))
              (return status))
      | EmulatorError error \<Rightarrow>
          seq leak_report_if_traced
         (seq (print_err (ReportEmulatorError error))
         (seq dump_state
              (return 127)))
      | _ \<Rightarrow> throw e)"

text \<open>All of \<^verbatim>\<open>exec\<close>, with a loader as argument; the outcome is missing if the guest runs for ever.\<close>

definition emulator_exec ::
  "(machine, unit) smon \<Rightarrow> units \<Rightarrow> arrivals \<Rightarrow> machine \<Rightarrow> ((exn + int) \<times> machine) option" where
  "emulator_exec load u arrivals s =
     (case load s of
        (Inl e, t) \<Rightarrow> Some (finish_exec e t)
      | (Inr _, t) \<Rightarrow> map_option (\<lambda>(e, t'). finish_exec e t') (exec_loop u arrivals t))"

end
