(* ===== verification/Mapping_Invariant.thy ===== *)
theory Mapping_Invariant
  imports Memory_Invariant Exec
begin

text \<open>
  The client of the address space's contract that also maps and unmaps: an invariant of the address
  space that the mapping operations keep is kept by every system call, by loading a program, by the
  main loop, and so by every reachable state.
\<close>

section \<open>The floating-point units\<close>

context memory_invariant
begin

lemma get_yields: "yields ok (sixteen typed) (get_xmm i)"
  unfolding get_xmm_def by (rule get_xmm_yields)

lemma upd_xmm_keeps:
  "(\<And>v. sixteen typed v \<Longrightarrow> sixteen typed (f v)) \<Longrightarrow> sound ok (upd_xmm i f)"
  by (simp add: sound_def upd_xmm_def monad_defs machine_ok_def sixteen_def xmm_rules)

lemma read_source_yields: "yields ok (sixteen typed) (read_source operand p)"
  unfolding read_source_def Let_def
  by (rule yields_if yields_bind [OF yields_any] yields_bind [OF read_bytes_yields] get_yields
      sound_rules yields_return | simp add: sixteen_def scalar_bytes_def)+

lemmas float_binds = xmm_binds sound_bind_yields [OF get_yields]
  sound_bind_yields [OF read_source_yields]

lemma float_helpers_keep [sound_rules]:
  "sound ok (get_xmm i)"
  "offset + n \<le> 16 \<Longrightarrow> sound ok (load_bytes dst offset address n)"
  "sound ok (store_bytes address bytes)"
  "sound ok (load_scalar F operand dbl)"
  using yields_sound [OF get_yields] unfolding load_bytes_def store_bytes_def load_scalar_def
  by (auto intro!: sound_rules upd_xmm_keeps simp: sixteen_def)

lemma half_source_yields:
  "yields ok (\<lambda>v. typed \<longrightarrow> 8 \<le> length v)
     (if op_is_register operand then get_xmm (op_reg operand)
      else bind (get_cpu (effective_address operand)) (\<lambda>address. read_bytes address 8))"
proof (rule yields_if)
  show "yields ok (\<lambda>v. typed \<longrightarrow> 8 \<le> length v) (get_xmm (op_reg operand))"
    using get_yields by (auto simp: yields_def sixteen_def)
  have "yields ok (\<lambda>v. typed \<longrightarrow> 8 \<le> length v) (read_bytes address 8)" for address
    using read_bytes_yields [of 8] by (auto simp: yields_def)
  then show "yields ok (\<lambda>v. typed \<longrightarrow> 8 \<le> length v)
      (bind (get_cpu (effective_address operand)) (\<lambda>address. read_bytes address 8))"
    by (rule yields_bind [OF yields_any [OF sound_getters(1)]])
qed

lemma sse_moves_keep [sound_rules]:
  "sound ok (sse_mov_load dst operand p)" "sound ok (sse_mov_store dst operand p)"
  "sound ok (sse_mov_low dst operand p)" "sound ok (sse_mov_high dst operand)"
  "sound ok (sse_store_half offset dst operand)"
  unfolding sse_mov_load_def sse_mov_store_def sse_mov_low_def sse_mov_high_def sse_store_half_def
  by ((rule float_binds sound_bind_yields [OF half_source_yields] set_xmm_sound upd_xmm_keeps
        sound_if sound_rules | assumption |
      simp add: sixteen_def xmm_rules scalar_bytes_def)+)[5]

lemma execute_sse_float_keeps: "sound ok (execute_sse_float F opcode p)"
  unfolding execute_sse_float_def Let_def
  by (rule float_binds set_xmm_sound upd_xmm_keeps sound_if sound_rules | assumption |
      simp add: sixteen_def xmm_rules)+

lemma x87_helpers_keep [sound_rules]:
  "sound ok (read_m80 address)"
  "sound ok (write_m32 F address v)"
  "sound ok (write_m64 F address v)"
  "sound ok (write_m80 address v)"
  "sound ok (store_int F address v bits toward_zero)"
  "sound ok (read_m32 F address)"
  "sound ok (read_m64 F address)"
  "sound ok (read_int16 F address)"
  "sound ok (read_int32 F address)"
  "sound ok (read_int64 F address)"
  unfolding read_m80_def write_m32_def write_m64_def write_m80_def store_int_def
    read_m32_def read_m64_def read_int16_def read_int32_def read_int64_def
  by (intro sound_rules)+

text \<open>An update computed from the processor as it is.\<close>

lemma snapshot_keeps:
  assumes "\<And>c c'. g c = Some c' \<Longrightarrow> xmm_typed c' = xmm_typed c" and "sound ok n"
    and "\<And>c. xmm_typed (after c) = xmm_typed c"
  shows "sound ok (bind (get_cpu g) (\<lambda>r. case r of None \<Rightarrow> n | Some c \<Rightarrow> upd_cpu (\<lambda>_. after c)))"
proof (rule sound_bind_yields)
  show "yields ok (\<lambda>r. \<forall>c. r = Some c \<longrightarrow> typed \<longrightarrow> xmm_typed c) (get_cpu g)"
    unfolding get_cpu_def by (rule yields_gets) (use assms(1) in \<open>auto simp: machine_ok_def\<close>)
  fix r assume r: "\<forall>c. r = Some c \<longrightarrow> typed \<longrightarrow> xmm_typed c"
  show "sound ok (case r of None \<Rightarrow> n | Some c \<Rightarrow> upd_cpu (\<lambda>_. after c))"
  proof (cases r)
    case (Some c)
    then show ?thesis using r assms(3)
      by (simp add: sound_def upd_cpu_def modify_def machine_ok_def)
  qed (simp add: assms(2))
qed

lemma push_store_keep [sound_rules]:
  "sound ok r \<Longrightarrow> sound ok (push_read r)"
  "(\<And>v. sound ok (w v)) \<Longrightarrow> sound ok (store_st0 w b)"
  unfolding push_read_def store_st0_def
  by (intro sound_rules | assumption | simp add: xmm_rules)+

lemma x87_snapshots_keep [sound_rules]:
  "(\<And>c. xmm_typed (after c) = xmm_typed c) \<Longrightarrow> sound ok (x87_arith_sti F msg opn i after)"
  "sound ok (x87_d9 F rb sti)"
  subgoal unfolding x87_arith_sti_def by (rule snapshot_keeps [OF xmm_typed_sti unsupported_keeps])
  subgoal unfolding x87_d9_def
    using snapshot_keeps [OF xmm_typed_unary unsupported_keeps refl]
    by (intro sound_if sound_upd_cpu; simp add: xmm_rules)
  done

lemma x87_register_keeps [sound_rules]: "sound ok (x87_register F opcode rb)"
  unfolding x87_register_def x87_db_def x87_dd_def x87_df_def x87_move_if_def Let_def
  by (intro sound_rules; simp add: xmm_rules)

lemma execute_x87_keeps: "sound ok (execute_x87 F opcode p)"
  unfolding execute_x87_def x87_memory_def Let_def by (intro sound_rules; simp add: xmm_rules)

end

section \<open>Checks that fail as expected\<close>

lemma readable_prefix_reads [sound_rules]: "reads (\<lambda>m. readable_prefix m a n)"
proof -
  have "as_expected (readable_prefix m a n)" if "mmu_wf m" for m
    using that
  proof (induction m a n rule: readable_prefix.induct)
    case (2 m a n)
    then show ?case using read8_expected [OF 2(2), of a]
      by (auto split: sum.split exn.split intro!: as_expected_sbind)
  qed simp
  then show ?thesis by (simp add: reads_def)
qed

lemma elf_checks_expected:
  "as_expected (read_file fs path)" "as_expected (reject_if b msg)"
  "as_expected (ehdr_at data off)" "as_expected (phdr_at data off)" "as_expected (check_ehdr data h)"
  by (auto simp: read_file_def reject_if_def bad_elf_def ehdr_at_def phdr_at_def object_at_def
      check_ehdr_def as_expected_def sbind_def split: option.split)

lemma elf_checks_sound [sound_rules]:
  "sound J (lift_sum (\<lambda>_. read_file fs path))" "sound J (lift_sum (\<lambda>_. reject_if b msg))"
  "sound J (lift_sum (\<lambda>_. ehdr_at data off))" "sound J (lift_sum (\<lambda>_. phdr_at data off))"
  "sound J (lift_sum (\<lambda>_. check_ehdr data h))"
  by (rule sound_lift_const, rule elf_checks_expected)+

section \<open>System calls that do not map\<close>

text \<open>All calls but those that map, unmap or protect.\<close>

definition mapping_calls :: "u64 set" where
  "mapping_calls = {9, 10, 11, 12, 25}"

context memory_invariant
begin

lemma guest_deliver_keeps [sound_rules]: "sound ok (guest_deliver_signal a)"
  by (auto simp: guest_deliver_signal_def sound_def return_def split: prod.split)

lemma ask_host_keeps [sound_rules]: "sound ok (ask_host h name args)"
  by (simp add: sound_def ask_host_def Let_def)

lemma register_host_fd_keeps [sound_rules]: "sound ok (register_host_fd h fd)"
  unfolding register_host_fd_def path_from_host_fd_def by (intro sound_rules; simp add: xmm_rules)

lemma host_helpers_keep [sound_rules]:
  "sound ok (host_result h name args)"
  "(\<And>a. sound ok (k a)) \<Longrightarrow> sound ok (host_then h name args k)"
  "sound ok (return_rc a)"
  "sound ok (read_guest address n)"
  "sound ok (read_path address)"
  "sound ok (read_guest32 address)"
  "sound ok (read_time address)"
  unfolding host_result_def host_then_def return_rc_def read_guest_def read_path_def
    read_guest32_def read_time_def
  by (intro sound_rules | assumption | simp add: xmm_rules)+

lemma write_guest_fds_keeps [sound_rules]: "sound ok (write_guest_fds h address fds)"
  by (induction h address fds rule: write_guest_fds.induct) (auto intro!: sound_rules)

lemma buffer_helpers_keep [sound_rules]:
  "sound ok (deliver_buffer address n a)"
  "sound ok (optional_sockaddr_from_guest address len)"
  "sound ok (copy_sockaddr_to_guest address la buffer l)"
  "sound ok (new_fd_pair h name args address)"
  unfolding deliver_buffer_def optional_sockaddr_from_guest_def copy_sockaddr_to_guest_def
    new_fd_pair_def
  by (intro sound_rules; simp add: xmm_rules)+

lemma scatter_keeps [sound_rules]: "sound ok (scatter bufs remaining)"
  by (induction bufs remaining rule: scatter.induct) (auto simp: Let_def intro!: sound_rules)

lemma gather_keeps [sound_rules]: "sound ok (gather iov)"
  by (induction iov rule: gather.induct) (auto intro!: sound_rules)

lemma file_calls_keep:
  "sound ok otherwise \<Longrightarrow>
     sound ok (dispatch_files h number arg1 arg2 arg3 arg4 arg5 arg6 otherwise)"
  unfolding dispatch_files_def sys_read_def sys_write_def sys_readv_def sys_writev_def
    sys_pread64_def sys_pwrite64_def sys_open_def sys_openat_def sys_close_def sys_dup_def
    sys_dup2_def sys_dup3_def sys_pipe_def sys_pipe2_def sys_fcntl_def sys_lseek_def sys_stat_def
    sys_lstat_def sys_fstat_def sys_newfstatat_def stat_result_def sys_statfs_def sys_fstatfs_def
    statfs_result_def sys_statx_def sys_xattr_def read_optional_path_def
  by (intro sound_rules | assumption | simp add: xmm_rules)+

lemma process_syscalls_keep [sound_rules]:
  "sound ok (sys_arch_prctl a1 a2)"
  "sound ok (sys_rt_sigaction a1 a2 a3 a4)"
  "sound ok (sys_rt_sigprocmask a1 a2 a3 a4)"
  "sound ok (sys_kill h a1 a2)"
  "sound ok (sys_tkill h a1 a2)"
  "sound ok (sys_tgkill h a1 a2 a3)"
  "sound ok (sys_futex a2)"
  "sound ok (sys_getpgid h a1)"
  "sound ok (sys_getcwd h a1 a2)"
  "sound ok (host_value h name)"
  unfolding sys_arch_prctl_def sys_rt_sigaction_def sys_rt_sigprocmask_def sys_kill_def
    sys_tkill_def sys_tgkill_def sys_futex_def sys_getpgid_def sys_getcwd_def host_value_def
  by (intro sound_rules; simp add: xmm_rules)+

lemma event_calls_keep:
  "sound ok otherwise \<Longrightarrow>
     sound ok (dispatch_events h number arg1 arg2 arg3 arg4 arg5 arg6 otherwise)"
  unfolding dispatch_events_def sys_ioctl_def sys_poll_def sys_ppoll_def poll_result_def
    sys_select_def sys_pselect6_def sys_select_with_def read_fd_set_def write_fd_set_def
    read_optional_time_def sys_epoll_create1_def sys_epoll_ctl_def sys_epoll_wait_def
    sys_epoll_pwait_def epoll_wait_with_def
  by (intro sound_rules | assumption | simp add: xmm_rules)+

lemma socket_calls_keep:
  "sound ok otherwise \<Longrightarrow>
     sound ok (dispatch_sockets h number arg1 arg2 arg3 arg4 arg5 arg6 otherwise)"
  unfolding dispatch_sockets_def sys_socket_def sys_socketpair_def sys_bind_def sys_listen_def
    sys_accept_def sys_accept4_def accept_with_def sys_connect_def sys_getsockname_def
    sys_getpeername_def socket_name_with_def sys_setsockopt_def sys_getsockopt_def sys_sendto_def
    sys_recvfrom_def sys_shutdown_def read_socklen_def copy_answered_sockaddr_def
  by (intro sound_rules | assumption | simp add: xmm_rules)+

lemma time_calls_keep:
  "sound ok otherwise \<Longrightarrow>
     sound ok (dispatch_time h number arg1 arg2 arg3 arg4 arg5 arg6 otherwise)"
  unfolding dispatch_time_def sys_clock_gettime_def sys_clock_nanosleep_def sys_gettimeofday_def
    sys_nanosleep_def sys_time_def sys_getrandom_def sys_uname_def sys_access_def sys_faccessat_def
    sys_readlink_def sys_getdents64_def sys_prlimit64_def
  by (intro sound_rules | assumption | simp add: xmm_rules)+

lemma signal_calls_keep:
  "sound ok otherwise \<Longrightarrow>
     sound ok (dispatch_signals h number arg1 arg2 arg3 arg4 arg5 arg6 otherwise)"
  unfolding dispatch_signals_def by (intro sound_rules | assumption | simp add: xmm_rules)+

lemma other_process_calls_keep:
  assumes "number \<notin> mapping_calls" and "sound ok otherwise"
  shows "sound ok
    (dispatch_process h number arg1 arg2 arg3 arg4 arg5 arg6 otherwise)"
proof -
  have "number \<noteq> 9" "number \<noteq> 10" "number \<noteq> 11" "number \<noteq> 12" "number \<noteq> 25"
    using assms(1) by (auto simp: mapping_calls_def)
  then show ?thesis unfolding dispatch_process_def by (simp only: if_False) (intro sound_rules assms(2))
qed

lemma other_calls_keep:
  assumes "number \<notin> mapping_calls"
  shows "sound ok (dispatch h number)"
  unfolding dispatch_def trace_message_def
  by (intro sound_rules file_calls_keep other_process_calls_keep [OF assms] event_calls_keep
      socket_calls_keep time_calls_keep signal_calls_keep)

end

section \<open>Invariants that mapping operations keep\<close>

locale mapping_invariant = memory_invariant I typed for I :: "mmu \<Rightarrow> bool" and typed :: bool +
  assumes unmap_keeps: "sound I (unmap base sz)"
    and protect_keeps: "sound I (protect base sz prot)"
    and map_zeroed_keeps: "sound I (map_zeroed base sz prot name)"
    and map_mmap_keeps: "sound I (map_mmap base sz prot name path off)"
    and map_bytes_keeps: "sound I (map_bytes base sz prot bytes off name)"
    and allocate_keeps: "sound I (allocate_mmap sz page_size prot name path off)"
begin

lemma on_mmu_keeps [sound_rules]:
  "sound ok (on_mmu (unmap base sz))"
  "sound ok (on_mmu (protect base sz prot))"
  "sound ok (on_mmu (map_zeroed base sz prot name))"
  "sound ok (on_mmu (map_mmap base sz prot name path off))"
  "sound ok (on_mmu (map_bytes base sz prot bytes off name))"
  "sound ok (on_mmu (allocate_mmap sz page_size prot name path off))"
  by (intro sound_on_mmu unmap_keeps protect_keeps map_zeroed_keeps map_mmap_keeps
      map_bytes_keeps allocate_keeps)+

lemma memory_syscalls_keep [sound_rules]:
  "sound ok (set_brk requested)"
  "sound ok (copy_shadowed d a n)"
  "sound ok (sys_mmap h a1 a2 a3 a4 a5 a6)"
  "sound ok (sys_mremap a1 a2 a3 a4 a5)"
  unfolding set_brk_def sys_mmap_def sys_mremap_def copy_shadowed_def
  by (intro sound_rules; simp add: xmm_rules)+

lemma process_calls_keep:
  "sound ok otherwise \<Longrightarrow>
     sound ok (dispatch_process h number arg1 arg2 arg3 arg4 arg5 arg6 otherwise)"
  unfolding dispatch_process_def by (intro sound_rules | assumption | simp add: xmm_rules)+

lemma dispatch_keeps: "sound ok (dispatch h number)"
  unfolding dispatch_def trace_message_def
  by (intro sound_rules file_calls_keep process_calls_keep event_calls_keep socket_calls_keep
      time_calls_keep signal_calls_keep)

lemma guest_units_keep: "units_keep I typed (guest_units F h)"
  using dispatch_keeps execute_x87_keeps execute_sse_float_keeps
  by (simp add: units_keep_def guest_units_def)

subsection \<open>Execution\<close>

lemma describe_keeps [sound_rules]:
  "sound ok
     (lift_sum (\<lambda>s :: machine. describe_current_instruction (s_mmu s) (c_rip (s_cpu s))))"
proof (rule sound_lift_sum, rule as_expected_sum)
  fix s :: machine and e
  assume I: "ok s" and "describe_current_instruction (s_mmu s) (c_rip (s_cpu s)) = Inl e"
  then show "expected e"
    using describe_current_instruction_cases [OF ok_well_formed [OF I], of "c_rip (s_cpu s)"] by auto
qed

lemma trace_keeps [sound_rules]:
  "sound ok trace_instruction"
  "sound ok trace_registers"
  unfolding trace_instruction_def trace_registers_def by (intro sound_rules; simp add: xmm_rules)+

lemma iteration_keeps:
  assumes "units_keep I typed u"
  shows "sound ok (run_iteration u)"
  unfolding run_iteration_def by (intro sound_rules step_keeps assms)

lemma emulator_step_keeps:
  assumes "units_keep I typed u" and "emulator_step u s t" and "ok s"
  shows "ok t"
  using assms(2)
proof cases
  case iterate
  then show ?thesis using iteration_keeps [OF assms(1)] assms(3)
    unfolding sound_def by (metis snd_conv)
next
  case (host_signal signum)
  then show ?thesis using assms(3) by (simp add: host_signal_handler_def)
qed

lemma reachable_keeps:
  assumes "units_keep I typed u" and "reachable u s t" and "ok s"
  shows "ok t"
  using assms(2,3) by (induction rule: reachable.induct) (auto intro: emulator_step_keeps [OF assms(1)])

subsection \<open>Loading a program\<close>

lemma load_headers_keeps [sound_rules]: "sound I (load_headers data path h i n object)"
proof (induction n arbitrary: i object)
  case (Suc n)
  have "sound I (load_header data path h object ph)" for ph object
    unfolding load_header_def load_segment_def by (intro sound_rules map_bytes_keeps)
  then show ?case by (auto intro!: sound_rules Suc.IH)
qed (auto intro: sound_rules)

lemma elf_load_keeps [sound_rules]: "sound I (elf_load fs path)"
  unfolding elf_load_def load_object_def by (intro sound_rules; simp add: xmm_rules)

lemma push_keeps [sound_rules]:
  "sound ok (emu_push64 v)"
  "sound ok (push_bytes bytes)"
  "sound ok (push_string str)"
  unfolding emu_push64_def push_string_def push_bytes_def by (intro sound_rules; simp add: xmm_rules)+

lemma push_lists_keep [sound_rules]:
  "sound ok (push_strings strs)"
  "sound ok (push_words ws)"
  by (induction strs) (auto intro!: sound_rules, induction ws, auto intro!: sound_rules)

lemma emulator_load_keeps: "sound ok (emulator_load fs path args env h)"
  unfolding emulator_load_def setup_stack_def setup_signal_trampoline_def
  by (intro sound_rules sound_on_mmu; simp add: xmm_rules)

end

section \<open>The operations of the address space\<close>

lemma clone_slice_expected: "as_expected (clone_slice r base off sz)"
  by (auto simp: clone_slice_def simple_clone_slice_def mmap_clone_slice_def
      new_simple_region_bytes_def new_mmap_region_bytes_def split: region_kind.split)

lemma split_regions_expected: "as_expected (split_regions base stop rs)"
proof (induction rs)
  case (Cons r rs)
  have "as_expected (split_region base stop r)"
    by (auto simp: split_region_def Let_def intro!: as_expected_sbind clone_slice_expected)
  then show ?case using Cons.IH by (auto intro!: as_expected_sbind)
qed simp

lemma overlap_check_expected: "as_expected (ensure_no_overlap rs base sz)"
  by (auto simp: ensure_no_overlap_def Let_def split: option.split)

lemma new_region_expected: "as_expected (new_simple_region_bytes base sz prot name bytes)"
  by (simp add: new_simple_region_bytes_def)

text \<open>Their exceptions, in any address space.\<close>

lemma mapping_exceptions:
  "sound (\<lambda>_. True) (unmap base sz)" "sound (\<lambda>_. True) (protect base sz prot)"
  "sound (\<lambda>_. True) (map_zeroed base sz prot name)"
  "sound (\<lambda>_. True) (map_mmap base sz prot name path off)"
  "sound (\<lambda>_. True) (map_bytes base sz prot bytes off name)"
  unfolding unmap_def protect_def split_around_def map_zeroed_def map_mmap_def map_bytes_def
  by (intro sound_rules sound_lift_sum sound_modify TrueI split_regions_expected
      overlap_check_expected new_region_expected)+

lemma sound_of_preserves: "preserves J f \<Longrightarrow> sound (\<lambda>_. True) f \<Longrightarrow> sound J f"
  by (simp add: sound_def preserves_def)

lemma allocate_mmap_sound: "sound mmu_wf (allocate_mmap sz page_size prot name path off)"
proof (rule soundI)
  fix m assume m: "mmu_wf m"
  obtain res m' where run: "allocate_mmap sz page_size prot name path off m = (res, m')" by fastforce
  from allocate_mmap_run [OF m order_refl run]
  show "mmu_wf (snd (allocate_mmap sz page_size prot name path off m))"
    "as_expected (fst (allocate_mmap sz page_size prot name path off m))"
    by (auto simp: run split: sum.splits)
qed

interpretation wf_mapping: mapping_invariant mmu_wf True
  by unfold_locales (rule allocate_mmap_sound sound_of_preserves [OF _ mapping_exceptions(1)]
      sound_of_preserves [OF _ mapping_exceptions(2)] sound_of_preserves [OF _ mapping_exceptions(3)]
      sound_of_preserves [OF _ mapping_exceptions(4)] sound_of_preserves [OF _ mapping_exceptions(5)];
      rule pres)+

end
