(* ===== verification/Machine_Laws.thy ===== *)
theory Machine_Laws
  imports Mapping_Invariant MMU_Laws
begin

text \<open>
  Properties of the whole machine: what one instruction may do to memory, and the invariant of
  every state the emulator reaches.
\<close>

section \<open>One instruction\<close>

text \<open>
  The units of the program with the mapping calls answered by nothing. An instruction that does
  not find one of those numbers in \<open>rax\<close> runs the same on them.
\<close>

definition without_mapping :: "units \<Rightarrow> units" where
  "without_mapping u =
     u\<lparr>u_syscall := \<lambda>n. if n \<in> mapping_calls then return 0 else u_syscall u n\<rparr>"

lemma without_mapping_simps [simp]:
  "u_x87 (without_mapping u) = u_x87 u" "u_sse_float (without_mapping u) = u_sse_float u"
  "n \<notin> mapping_calls \<Longrightarrow> u_syscall (without_mapping u) n = u_syscall u n"
  by (simp_all add: without_mapping_def)

context memory_invariant
begin

lemma without_mapping_keep: "units_keep I typed (without_mapping (guest_units F h))"
  using other_calls_keep execute_x87_keeps execute_sse_float_keeps
  by (auto simp: units_keep_def guest_units_def without_mapping_def intro: sound_rules)

end

lemma fetch8_gpr: "c_gpr (s_cpu (snd (fetch8 s))) = c_gpr (s_cpu s)"
  by (auto simp: fetch8_def set_decode_pc_def mem_read8_def monad_defs split: prod.splits sum.splits)

lemma read_prefixes_gpr: "c_gpr (s_cpu (snd (read_prefixes s))) = c_gpr (s_cpu s)"
  by (auto simp: read_prefixes_def split: option.splits prod.splits)

lemma begin_step_gpr: "c_gpr (s_cpu (snd (begin_step s))) = c_gpr (s_cpu s)"
  by (simp add: begin_step_def monad_defs)

lemma bind_agree:
  assumes "\<And>v. fst (f s) = Inr v \<Longrightarrow> g v (snd (f s)) = g' v (snd (f s))"
  shows "bind f g s = bind f g' s"
  using assms by (auto simp: bind_def split: prod.splits sum.splits)

lemma bind_first_agree: "f s = f' s \<Longrightarrow> bind f g s = bind f' g s"
  by (simp add: bind_def)

lemma if_agree:
  "(b \<Longrightarrow> f s = f' s) \<Longrightarrow> (\<not> b \<Longrightarrow> g s = g' s) \<Longrightarrow>
     (if b then f else g) s = (if b then f' else g') s"
  by simp

lemma exec_syscall_agree:
  assumes "d (c_gpr (s_cpu s) RAX) = d' (c_gpr (s_cpu s) RAX)"
  shows "exec_syscall d s = exec_syscall d' s"
proof -
  have "handle_syscall d (c_gpr (s_cpu s) RAX) = handle_syscall d' (c_gpr (s_cpu s) RAX)"
    using assms by (simp add: handle_syscall_def)
  then show ?thesis by (simp add: exec_syscall_def monad_defs RAX_def RCX_def R11_def)
qed

lemma execute_0f_agree:
  assumes "d (c_gpr (s_cpu s) RAX) = d' (c_gpr (s_cpu s) RAX)"
  shows "execute_0f f d p s = execute_0f f d' p s"
  unfolding execute_0f_def
  by (rule bind_agree) (intro if_agree refl exec_syscall_agree, simp add: fetch8_gpr assms)

lemma execute_opcode_agree:
  assumes "c_gpr (s_cpu s) RAX \<notin> mapping_calls"
  shows "execute_opcode u opcode p s = execute_opcode (without_mapping u) opcode p s"
  using assms unfolding execute_opcode_def exec_switch_def without_mapping_simps(1,2)
  by (intro if_agree refl execute_0f_agree) simp

lemma step_agree:
  assumes "c_gpr (s_cpu s) RAX \<notin> mapping_calls"
  shows "step u s = step (without_mapping u) s"
proof -
  let ?s = "snd (begin_step s)"
  have rax: "c_gpr (s_cpu (snd (fetch8 (snd (read_prefixes ?s))))) RAX \<notin> mapping_calls"
    using assms by (simp add: fetch8_gpr read_prefixes_gpr begin_step_gpr)
  show ?thesis
    unfolding step_def seq_def
    by (rule bind_agree, rule bind_agree, rule bind_agree, rule bind_first_agree)
      (rule execute_opcode_agree [OF rax])
qed

text \<open>
  C1. Memory safety of one instruction: whatever the bytes at the instruction pointer are, and
  whether the instruction completes, faults or ends the program, the address space stays well
  formed with the same regions and protections, and every byte that the guest may not write keeps
  its value. This covers every integer, vector and floating-point instruction, and the system
  calls with whatever the host answers: the only exceptions are the five calls that map, unmap or
  protect memory, whose numbers \<open>rax\<close> must not hold.
\<close>

theorem guest_memory_safety:
  assumes "mmu_wf (s_mmu s)" and "c_gpr (s_cpu s) RAX \<notin> mapping_calls"
  shows "memory_frame (s_mmu s) (s_mmu (snd (step (guest_units F h) s)))"
  by (subst step_agree [OF assms(2)])
    (rule sound_frame [OF frame_memory.step_keeps [OF frame_memory.without_mapping_keep] assms(1)])

definition code_machine :: machine where
  "code_machine = (initial_machine
     \<lparr>opt_trace = False, opt_trace_syscalls = False, opt_backtrace_on_exit = False,
      opt_malloc_trace = False\<rparr> (\<lambda>_. 0))\<lparr>s_mmu := three_pages\<rparr>"

lemma code_machine_rax: "c_gpr (s_cpu code_machine) RAX = 0"
  by (simp add: code_machine_def initial_machine_def initial_cpu_def)

theorem guest_memory_safety_witness:
  "\<forall>F h. memory_frame three_pages (s_mmu (snd (step (guest_units F h) code_machine)))"
  using guest_memory_safety [of code_machine] three_pages_wf code_machine_rax
  by (simp add: code_machine_def mapping_calls_def)

section \<open>Every reachable state\<close>

lemma initial_machine_ok: "machine_ok mmu_wf True (initial_machine options clock)"
  by (simp add: machine_ok_def xmm_typed_def initial_machine_def initial_cpu_def initial_mmu_wf)

text \<open>The machine after a load, also one that failed.\<close>

abbreviation loaded_machine ::
  "files \<Rightarrow> string \<Rightarrow> string list \<Rightarrow> string list \<Rightarrow> host_info \<Rightarrow> emulator_options \<Rightarrow> (nat \<Rightarrow> u64) \<Rightarrow>
   machine" where
  "loaded_machine fs path args env info options clock \<equiv>
     snd (emulator_load fs path args env info (initial_machine options clock))"

lemma reachable_ok:
  assumes "reachable (guest_units F h) (loaded_machine fs path args env info options clock) t"
  shows "machine_ok mmu_wf True t"
  using wf_mapping.reachable_keeps [OF wf_mapping.guest_units_keep assms]
    soundD(1) [OF wf_mapping.emulator_load_keeps initial_machine_ok] by blast

text \<open>
  C2. The invariant of every reachable state: load a program (or fail to), then run instructions
  and system calls, on any arithmetic and any answers of the host, with the host's signals arriving
  between them in any order; the regions of the address space are always disjoint, page aligned,
  sorted by address, below the end of the address space, with one byte and one shadow bit for each
  address.
\<close>

theorem reachable_address_space:
  assumes "reachable (guest_units F h)
      (snd (emulator_load fs path args env info (initial_machine options clock))) t"
  shows "mmu_wf (s_mmu t)"
  using reachable_ok [OF assms] by (rule machine_ok_memory)

theorem reachable_address_space_witness:
  "\<forall>(F :: fpu) (h :: os) info. mmu_wf (s_mmu (host_signal_handler 2 (snd (emulator_load (\<lambda>_. None) ''a'' [''a''] [] info
     (initial_machine \<lparr>opt_trace = False, opt_trace_syscalls = False, opt_backtrace_on_exit = False,
        opt_malloc_trace = False\<rparr> (\<lambda>_. 0))))))"
proof (intro allI)
  fix F :: fpu and h :: os and info
  let ?s = "snd (emulator_load (\<lambda>_. None) ''a'' [''a''] [] info (initial_machine
    \<lparr>opt_trace = False, opt_trace_syscalls = False, opt_backtrace_on_exit = False,
     opt_malloc_trace = False\<rparr> (\<lambda>_. 0)))"
  have "reachable (guest_units F h) ?s (host_signal_handler 2 ?s)"
    by (rule reachable.step [OF reachable.start emulator_step.host_signal])
  then show "mmu_wf (s_mmu (host_signal_handler 2 ?s))"
    by (rule reachable_address_space)
qed

end
