(* ===== verification/Exec_Laws.thy ===== *)
theory Exec_Laws
  imports Machine_Laws
begin

text \<open>
  The main loop and its ends: which exceptions a run can meet, when the loop ends and with what
  status, and how a report made at the end can itself fail.
\<close>

section \<open>Reports\<close>

lemma region_word_expected:
  assumes "region_wf r" and "offset + 8 \<le> unat (r_size r)"
  shows "as_expected (region_word r offset)"
proof -
  have len: "length (r_bytes r) = unat (r_size r)" using assms(1) by (simp add: region_wf_def)
  have "as_expected (fold (\<lambda>b acc. sbind acc (\<lambda>v. sbind (read_offset r (of_nat (offset + b)))
      (\<lambda>byte. Inr (v OR push_bit (b * 8) (ucast byte :: u64))))) bs acc)"
    if "\<forall>b \<in> set bs. b < 8" "as_expected acc" for bs acc
    using that
  proof (induction bs arbitrary: acc)
    case (Cons b bs)
    have "offset + b < unat (r_size r)" using Cons.prems assms(2) by simp
    moreover have "unat (r_size r) < 2 ^ 64" using unsigned_less [of "r_size r"] by simp
    ultimately have "unat (of_nat (offset + b) :: u64) < length (r_bytes r)"
      using len by (simp only: unat_of_nat) (simp add: take_bit_nat_eq_self)
    then have "as_expected (read_offset r (of_nat (offset + b)))" by (simp add: read_offset_def)
    then have "as_expected (sbind acc (\<lambda>v. sbind (read_offset r (of_nat (offset + b)))
        (\<lambda>byte. Inr (v OR push_bit (b * 8) (ucast byte :: u64)))))"
      using Cons.prems(2) by (auto intro!: as_expected_sbind simp del: of_nat_add)
    moreover have "\<forall>b \<in> set bs. b < 8" using Cons.prems(1) by simp
    ultimately show ?case unfolding fold_Cons comp_def by (intro Cons.IH)
  qed simp
  then show ?thesis unfolding region_word_def by simp
qed

lemma scan_words_expected:
  "region_wf r \<Longrightarrow> \<forall>off \<in> set offs. off + 8 \<le> unat (r_size r) \<Longrightarrow>
     as_expected (scan_region_words m r offs acc)"
  by (induction m r offs acc rule: scan_region_words.induct)
    (auto intro!: as_expected_sbind region_word_expected)

lemma scan_regions_expected:
  "(\<And>r. r \<in> set rs \<Longrightarrow> region_wf r) \<Longrightarrow> as_expected (scan_regions m rs acc)"
proof (induction m rs acc rule: scan_regions.induct)
  case (2 m r rs acc)
  then show ?case
    by (auto intro!: as_expected_sbind scan_words_expected simp: word_offsets_def)
qed simp

lemma reach_loop_expected: "mmu_wf mem \<Longrightarrow> as_expected (reach_loop m mem acc)"
proof (induction m mem acc rule: reach_loop.induct)
  case (2 m mem reachable base worklist)
  then show ?case using scan_block_expected [of mem m base]
    by (auto split: option.split sum.split simp: as_expected_def)
qed simp

lemma reachable_allocations_expected:
  "mmu_wf (s_mmu s) \<Longrightarrow> as_expected (compute_reachable_allocations s)"
  unfolding compute_reachable_allocations_def Let_def
  by (auto simp: mmu_wf_def regions_wf_def intro!: as_expected_sbind scan_regions_expected
      reach_loop_expected)

lemma reports_sound:
  "sound (machine_ok mmu_wf True) dump_leak_report" "sound (machine_ok mmu_wf True) dump_state"
  "sound (machine_ok mmu_wf True) exit_backtrace"
proof -
  have "sound (machine_ok mmu_wf True) (lift_sum compute_reachable_allocations)"
    by (rule sound_lift_sum) (rule reachable_allocations_expected, simp add: machine_ok_def)
  then show "sound (machine_ok mmu_wf True) dump_leak_report"
    unfolding dump_leak_report_def by (intro sound_rules | assumption)+
  show "sound (machine_ok mmu_wf True) dump_state" "sound (machine_ok mmu_wf True) exit_backtrace"
    unfolding dump_state_def exit_backtrace_def dump_backtrace_def
    by (intro sound_rules wf_memory.backtrace_keeps)+
qed

lemma finish_exec_sound: "expected e \<Longrightarrow> sound (machine_ok mmu_wf True) (finish_exec e)"
  unfolding finish_exec_def leak_report_if_traced_def
  by (cases e; simp) (intro sound_rules reports_sound)+

text \<open>A report leaves memory alone, and in a well-formed one it fails only with a memory fault.\<close>

definition reports :: "(machine, 'a) smon \<Rightarrow> bool" where
  "reports f \<longleftrightarrow> (\<forall>s r t. f s = (r, t) \<longrightarrow> s_mmu t = s_mmu s \<and>
     (mmu_wf (s_mmu s) \<longrightarrow> (\<forall>e. r = Inl e \<longrightarrow> memory_fault e)))"

lemma reportsD:
  "reports f \<Longrightarrow> f s = (r, t) \<Longrightarrow> s_mmu t = s_mmu s \<and>
     (mmu_wf (s_mmu s) \<longrightarrow> (\<forall>e. r = Inl e \<longrightarrow> memory_fault e))"
  by (simp add: reports_def)

lemma reports_bind: "reports f \<Longrightarrow> (\<And>x. reports (g x)) \<Longrightarrow> reports (bind f g)"
  unfolding reports_def bind_def by (auto split: prod.splits sum.splits)

lemma reports_seq: "reports f \<Longrightarrow> reports g \<Longrightarrow> reports (seq f g)"
  unfolding seq_def by (rule reports_bind)

lemma reports_basic:
  "reports (return x)" "reports (gets g)" "reports (get_emu h)" "reports (print_err msg)"
  by (simp_all add: reports_def monad_defs)

lemma reports_when: "reports f \<Longrightarrow> reports (when_do b f)"
  by (simp add: when_do_def reports_basic)

lemma reports_if: "reports f \<Longrightarrow> reports g \<Longrightarrow> reports (if b then f else g)"
  by simp

lemma reports_for_loop: "(\<And>i. reports (body i)) \<Longrightarrow> reports (for_loop i n body)"
  by (induction n arbitrary: i) (auto simp: reports_basic intro: reports_seq)

lemma reports_lift_sum:
  "(\<And>s e. mmu_wf (s_mmu s) \<Longrightarrow> r s = Inl e \<Longrightarrow> memory_fault e) \<Longrightarrow> reports (lift_sum r)"
  by (auto simp: reports_def lift_sum_def split: sum.splits)

lemmas reports_rules = reports_bind reports_seq reports_basic reports_when reports_if reports_for_loop

lemma read64_fault: "mmu_wf m \<Longrightarrow> read64 m a = Inl e \<Longrightarrow> memory_fault e"
  unfolding read64_def by (rule read_loop_fault)

lemma walk_frames_fault: "mmu_wf m \<Longrightarrow> walk_frames m n bt frame = Inl e \<Longrightarrow> memory_fault e"
  by (induction m n bt frame rule: walk_frames.induct)
    (auto simp: sbind_def Let_def dest: read64_fault split: if_splits sum.splits)

lemma scan_block_fault: "mmu_wf mem \<Longrightarrow> scan_block m mem base offs acc = Inl e \<Longrightarrow> memory_fault e"
  by (induction m mem base offs acc rule: scan_block.induct)
    (auto simp: sbind_def dest: read64_fault split: sum.splits)

lemma reach_loop_fault: "mmu_wf mem \<Longrightarrow> reach_loop m mem acc = Inl e \<Longrightarrow> memory_fault e"
  by (induction m mem acc rule: reach_loop.induct)
    (auto dest: scan_block_fault split: option.splits sum.splits)

lemma region_word_range:
  assumes "region_word r offset = Inl e"
  shows "e = OutOfRange"
proof -
  have "\<forall>e. fold (\<lambda>b acc. sbind acc (\<lambda>v. sbind (read_offset r (of_nat (offset + b)))
      (\<lambda>byte. Inr (v OR push_bit (b * 8) (ucast byte :: u64))))) bs acc = Inl e \<longrightarrow> e = OutOfRange"
    if "\<forall>e. acc = Inl e \<longrightarrow> e = OutOfRange" for bs acc
    using that
    by (induction bs arbitrary: acc) (auto simp: sbind_def read_offset_def split: sum.splits)
  from this [of "Inr 0"] assms show ?thesis unfolding region_word_def by simp
qed

lemma scan_words_range: "scan_region_words m r offs acc = Inl e \<Longrightarrow> e = OutOfRange"
  by (induction m r offs acc rule: scan_region_words.induct)
    (auto simp: sbind_def Let_def dest: region_word_range split: if_splits sum.splits)

lemma scan_regions_range: "scan_regions m rs acc = Inl e \<Longrightarrow> e = OutOfRange"
  by (induction m rs acc rule: scan_regions.induct)
    (auto simp: sbind_def dest: scan_words_range split: if_splits sum.splits)

lemma reachable_allocations_fault:
  assumes "mmu_wf (s_mmu s)" and "compute_reachable_allocations s = Inl e"
  shows "memory_fault e"
proof -
  have "e \<noteq> OutOfRange"
    using reachable_allocations_expected [OF assms(1)] assms(2) by (auto simp: as_expected_def)
  then show ?thesis
    using assms unfolding compute_reachable_allocations_def Let_def
    by (auto simp: sbind_def dest: scan_regions_range reach_loop_fault split: if_splits sum.splits)
qed

lemma reports_made: "reports leak_report_if_traced" "reports dump_state" "reports exit_backtrace"
proof -
  have leak: "reports (lift_sum compute_reachable_allocations)"
    by (rule reports_lift_sum) (rule reachable_allocations_fault)
  show "reports leak_report_if_traced"
    unfolding leak_report_if_traced_def dump_leak_report_def Let_def case_prod_beta
    by (intro reports_rules leak)
  have "reports (lift_sum raw_backtrace)"
    by (rule reports_lift_sum) (simp add: raw_backtrace_def walk_frames_fault)
  then show "reports dump_state" "reports exit_backtrace"
    unfolding dump_state_def exit_backtrace_def dump_backtrace_def
    by (intro reports_rules | assumption)+
qed

text \<open>So after the guest's exit or an error, only a memory fault of a report leaves \<^verbatim>\<open>exec\<close>.\<close>

lemma finish_exec_report:
  "e = GuestExit status \<or> e = EmulatorError err \<Longrightarrow> reports (finish_exec e)"
  unfolding finish_exec_def by (auto intro!: reports_rules reports_made)

section \<open>The loop\<close>

text \<open>The state after \<open>n\<close> iterations that do not throw, with the signals that arrive.\<close>

primrec iterate :: "units \<Rightarrow> arrivals \<Rightarrow> nat \<Rightarrow> machine \<Rightarrow> machine option" where
  "iterate u arrivals 0 s = Some s"
| "iterate u arrivals (Suc n) s =
     (case run_iteration u (signals_arrive (arrivals 0) s) of
        (Inl _, _) \<Rightarrow> None
      | (Inr _, t) \<Rightarrow> iterate u (\<lambda>k. arrivals (Suc k)) n t)"

lemma exec_loop_ends:
  "iterate u arrivals n s = Some s' \<Longrightarrow> run_iteration u (signals_arrive (arrivals n) s') = (Inl e, t) \<Longrightarrow>
     exec_loop u arrivals s = Some (e, t)"
proof (induction n arbitrary: arrivals s)
  case (Suc n)
  then obtain s1 where "run_iteration u (signals_arrive (arrivals 0) s) = (Inr (), s1)"
    "iterate u (\<lambda>k. arrivals (Suc k)) n s1 = Some s'" by (auto split: prod.splits sum.splits)
  then show ?case using Suc by (subst exec_loop.simps) simp
qed (subst exec_loop.simps, simp)

lemma exec_loop_throws:
  assumes "exec_loop u arrivals s = Some x"
  shows "\<exists>n s'. iterate u arrivals n s = Some s' \<and>
    run_iteration u (signals_arrive (arrivals n) s') = (Inl (fst x), snd x)"
proof (rule exec_loop.raw_induct [OF _ assms, where P = "\<lambda>u arrivals s x. \<exists>n s'. iterate u arrivals n s = Some s' \<and>
      run_iteration u (signals_arrive (arrivals n) s') = (Inl (fst x), snd x)"])
  fix loop u arrivals s x
  assume IH: "\<And>u arrivals s x. loop u arrivals s = Some x \<Longrightarrow> \<exists>n s'. iterate u arrivals n s = Some s' \<and>
      run_iteration u (signals_arrive (arrivals n) s') = (Inl (fst x), snd x)"
    and body: "(case run_iteration u (signals_arrive (arrivals 0) s) of (Inl e, t) \<Rightarrow> Some (e, t)
      | (Inr _, t) \<Rightarrow> loop u (\<lambda>n. arrivals (Suc n)) t) = Some x"
  obtain r s1 where r: "run_iteration u (signals_arrive (arrivals 0) s) = (r, s1)" by fastforce
  show "\<exists>n s'. iterate u arrivals n s = Some s' \<and>
      run_iteration u (signals_arrive (arrivals n) s') = (Inl (fst x), snd x)"
  proof (cases r)
    case (Inl e)
    then show ?thesis using body r by (intro exI [of _ 0] exI [of _ s]) auto
  next
    case (Inr y)
    then obtain n s' where "iterate u (\<lambda>n. arrivals (Suc n)) n s1 = Some s' \<and>
        run_iteration u (signals_arrive (arrivals (Suc n)) s') = (Inl (fst x), snd x)"
      using IH [of u "\<lambda>n. arrivals (Suc n)" s1 x] body r by auto
    then show ?thesis using r Inr by (intro exI [of _ "Suc n"] exI [of _ s']) simp
  qed
qed

lemma signals_arrive_reachable: "reachable u r s \<Longrightarrow> reachable u r (signals_arrive signums s)"
  unfolding signals_arrive_def
  by (induction signums arbitrary: s) (auto intro: reachable.step emulator_step.host_signal)

lemma iterate_reachable:
  "iterate u arrivals n s = Some s' \<Longrightarrow> reachable u r s \<Longrightarrow> reachable u r s'"
proof (induction n arbitrary: arrivals s)
  case (Suc n)
  then obtain t where t: "run_iteration u (signals_arrive (arrivals 0) s) = (Inr (), t)"
    "iterate u (\<lambda>k. arrivals (Suc k)) n t = Some s'" by (auto split: prod.splits sum.splits)
  have "reachable u r t"
    by (rule reachable.step [OF signals_arrive_reachable [OF Suc.prems(2)] emulator_step.iterate [OF t(1)]])
  then show ?case by (rule Suc.IH [OF t(2)])
qed simp

section \<open>Exceptions of reachable states\<close>

text \<open>
  C3. The emulator's own code never fails: loading a program, and every iteration of the main loop
  from every reachable state, with any arithmetic, answers and signals of the host, meets no index
  outside a vector and no loop of the emulator that does not end. An instruction that is wrong or
  faults ends with an error of the guest, its exit, or one of the operations that C++ leaves
  undefined.
\<close>

theorem reachable_exceptions:
  assumes "reachable (guest_units F h) (loaded_machine fs path args env info options clock) t"
  shows "fst (emulator_load fs path args env info (initial_machine options clock))
      \<notin> {Inl OutOfRange, Inl Diverges} \<and>
    fst (run_iteration (guest_units F h) t) \<notin> {Inl OutOfRange, Inl Diverges}"
  using soundD(2) [OF wf_mapping.emulator_load_keeps initial_machine_ok]
    soundD(2) [OF wf_mapping.iteration_keeps [OF wf_mapping.guest_units_keep] reachable_ok [OF assms]]
  by (fastforce simp: as_expected_def expected_def)

lemma reachable_after_signal:
  "reachable u (loaded_machine fs path args env info options clock)
     (host_signal_handler signum (loaded_machine fs path args env info options clock))"
  by (rule reachable.step [OF reachable.start emulator_step.host_signal])

theorem reachable_exceptions_witness:
  "\<forall>F h info options clock. fst (run_iteration (guest_units F h)
      (host_signal_handler 2 (loaded_machine (\<lambda>_. None) ''a'' [''a''] [] info options clock)))
    \<notin> {Inl OutOfRange, Inl Diverges}"
  using reachable_exceptions [OF reachable_after_signal] by blast

text \<open>The vector registers keep their type in every reachable state.\<close>

lemma vector_registers_typed:
  "reachable (guest_units F h) (loaded_machine fs path args env info options clock) t \<Longrightarrow>
     length (c_xmm (s_cpu t) i) = 16"
  by (drule reachable_ok) (simp add: machine_ok_def xmm_typed_def)

section \<open>How a run ends\<close>

text \<open>The exception \<open>e\<close> ends the run of a program, in the state \<open>s\<close>.\<close>

definition run_throws ::
  "(machine, unit) smon \<Rightarrow> units \<Rightarrow> arrivals \<Rightarrow> machine \<Rightarrow> exn \<Rightarrow> machine \<Rightarrow> bool" where
  "run_throws load u arrivals s0 e s \<longleftrightarrow>
     load s0 = (Inl e, s) \<or>
     (\<exists>t n s'. load s0 = (Inr (), t) \<and> iterate u arrivals n t = Some s' \<and>
        run_iteration u (signals_arrive (arrivals n) s') = (Inl e, s))"

lemma exec_by_exception:
  "emulator_exec load u arrivals s0 = Some x \<longleftrightarrow>
     (\<exists>e s. run_throws load u arrivals s0 e s \<and> x = finish_exec e s)"
proof -
  obtain r t where r: "load s0 = (r, t)" by fastforce
  show ?thesis
  proof (cases r)
    case (Inl e)
    then show ?thesis using r by (auto simp: emulator_exec_def run_throws_def)
  next
    case (Inr y)
    have "exec_loop u arrivals t = Some (e, s) \<longleftrightarrow> run_throws load u arrivals s0 e s" for e s
      using r Inr exec_loop_ends exec_loop_throws [of u arrivals t "(e, s)"]
      by (auto simp: run_throws_def)
    then show ?thesis using r Inr by (auto simp: emulator_exec_def)
  qed
qed

lemma iterate_None:
  "iterate u arrivals n t = None \<Longrightarrow> \<exists>m s' e s. iterate u arrivals m t = Some s' \<and>
     run_iteration u (signals_arrive (arrivals m) s') = (Inl e, s)"
proof (induction n arbitrary: arrivals t)
  case (Suc n)
  obtain r t' where r: "run_iteration u (signals_arrive (arrivals 0) t) = (r, t')" by fastforce
  show ?case
  proof (cases r)
    case (Inl e)
    then show ?thesis using r by (intro exI [of _ 0]) auto
  next
    case (Inr x)
    then obtain m s' e s where "iterate u (\<lambda>k. arrivals (Suc k)) m t' = Some s' \<and>
        run_iteration u (signals_arrive (arrivals (Suc m)) s') = (Inl e, s)"
      using Suc r by fastforce
    then show ?thesis using r Inr by (intro exI [of _ "Suc m"]) auto
  qed
qed simp

lemma run_throws_ok:
  assumes "run_throws (emulator_load fs path args env info) (guest_units F h) arrivals
      (initial_machine options clock) e s"
  shows "machine_ok mmu_wf True s" and "expected e"
proof -
  let ?load = "emulator_load fs path args env info" and ?u = "guest_units F h"
  let ?s0 = "initial_machine options clock"
  have load: "sound (machine_ok mmu_wf True) ?load" by (rule wf_mapping.emulator_load_keeps)
  have run: "sound (machine_ok mmu_wf True) (run_iteration ?u)"
    by (rule wf_mapping.iteration_keeps [OF wf_mapping.guest_units_keep])
  have "machine_ok mmu_wf True s \<and> expected e"
  proof (cases "?load ?s0 = (Inl e, s)")
    case True
    then show ?thesis using soundD [OF load initial_machine_ok, of options clock] by simp
  next
    case False
    with assms obtain t n s' where t: "?load ?s0 = (Inr (), t)" "iterate ?u arrivals n t = Some s'"
      "run_iteration ?u (signals_arrive (arrivals n) s') = (Inl e, s)"
      unfolding run_throws_def by blast
    have "reachable ?u (snd (?load ?s0)) t" using t(1) by (simp add: reachable.start)
    from reachable_ok [OF signals_arrive_reachable [OF iterate_reachable [OF t(2) this]]]
    have ok: "machine_ok mmu_wf True (signals_arrive (arrivals n) s')" .
    show ?thesis using soundD [OF run ok] t(3) by simp
  qed
  then show "machine_ok mmu_wf True s" and "expected e" by auto
qed

lemma finish_exec_cases:
  assumes "finish_exec e s = (r, t)" and "mmu_wf (s_mmu s)" and "expected e"
  shows "case r of
      Inr status \<Rightarrow> e = GuestExit status \<or> status = 127 \<and> (\<exists>err. e = EmulatorError err)
    | Inl x \<Rightarrow> e = UndefinedBehaviour \<and> x = UndefinedBehaviour \<or>
        ((\<exists>status. e = GuestExit status) \<or> (\<exists>err. e = EmulatorError err)) \<and> memory_fault x"
proof (cases e)
  case (EmulatorError err)
  have "reports (finish_exec e)" using EmulatorError by (rule_tac finish_exec_report) blast
  from reportsD [OF this assms(1)] show ?thesis
    using assms(1,2) EmulatorError
    by (auto simp: finish_exec_def return_def split: sum.split elim!: seq_InrE)
next
  case (GuestExit status)
  have "reports (finish_exec e)" using GuestExit by (rule_tac finish_exec_report) blast
  from reportsD [OF this assms(1)] show ?thesis
    using assms(1,2) GuestExit
    by (auto simp: finish_exec_def return_def split: sum.split elim!: seq_InrE)
next
  case UndefinedBehaviour
  then show ?thesis using assms(1) by (auto simp: finish_exec_def throw_def)
qed (use assms(3) in \<open>simp_all add: expected_def\<close>)

text \<open>
  C4. The ends of a run, for any program, arithmetic and host, and any signals that arrive. If
  \<^verbatim>\<open>exec\<close> does not return, the program was loaded and every iteration of the loop completed,
  for ever. Otherwise the first exception of the loader or of an iteration ended it. After the
  guest's exit its status is returned, after an error 127, unless a report made at the end throws
  in its turn: then, and only by a memory fault, \<^verbatim>\<open>exec\<close> is left with an exception. The one other way
  to stop is an operation that C++ leaves undefined.
\<close>

theorem run_outcome:
  "case emulator_exec (emulator_load fs path args env info) (guest_units F h) arrivals
       (initial_machine options clock) of
     None \<Rightarrow> \<exists>t. emulator_load fs path args env info (initial_machine options clock) = (Inr (), t) \<and>
       (\<forall>n. \<exists>s'. iterate (guest_units F h) arrivals n t = Some s')
   | Some (r, t) \<Rightarrow> \<exists>e s. run_throws (emulator_load fs path args env info) (guest_units F h) arrivals
         (initial_machine options clock) e s \<and> finish_exec e s = (r, t) \<and>
       (case r of
          Inr status \<Rightarrow> e = GuestExit status \<or> status = 127 \<and> (\<exists>err. e = EmulatorError err)
        | Inl x \<Rightarrow> e = UndefinedBehaviour \<and> x = UndefinedBehaviour \<or>
            ((\<exists>status. e = GuestExit status) \<or> (\<exists>err. e = EmulatorError err)) \<and> memory_fault x)"
proof -
  let ?load = "emulator_load fs path args env info" and ?u = "guest_units F h"
  let ?s0 = "initial_machine options clock"
  show ?thesis
  proof (cases "emulator_exec ?load ?u arrivals ?s0")
    case None
    then have never: "\<not> run_throws ?load ?u arrivals ?s0 e s" for e s
      using exec_by_exception [of ?load ?u arrivals ?s0 "finish_exec e s"] by auto
    obtain x t where t: "?load ?s0 = (x, t)" by fastforce
    with never have x: "x = Inr ()" by (cases x) (auto simp: run_throws_def)
    have "iterate ?u arrivals n t \<noteq> None" for n
      using iterate_None [of ?u arrivals n t] never t x unfolding run_throws_def by blast
    then show ?thesis using None t x by auto
  next
    case (Some y)
    then obtain e s where e: "run_throws ?load ?u arrivals ?s0 e s" "y = finish_exec e s"
      using exec_by_exception [of ?load ?u arrivals ?s0 y] by auto
    have wf: "mmu_wf (s_mmu s)" using run_throws_ok(1) [OF e(1)] by (simp add: machine_ok_def)
    obtain r t where y: "y = (r, t)" by fastforce
    have run: "finish_exec e s = (r, t)" using e(2) y by simp
    from finish_exec_cases [OF run wf run_throws_ok(2) [OF e(1)]] e(1) run
    show ?thesis unfolding Some y option.case prod.case by blast
  qed
qed

section \<open>The exit of the guest\<close>

text \<open>The two bytes of \<^verbatim>\<open>syscall\<close> are the next instruction.\<close>

definition at_syscall :: "machine \<Rightarrow> bool" where
  "at_syscall s \<longleftrightarrow> read8 (s_mmu s) (c_rip (s_cpu s)) = Inr 0x0f \<and>
     read8 (s_mmu s) (c_rip (s_cpu s) + 1) = Inr 0x05"

lemma dispatch_exit:
  assumes "number = 60 \<or> number = 231"
  shows "\<exists>t. dispatch h number s = (Inl (GuestExit (to_int (c_gpr (s_cpu s) RDI))), t) \<and>
    s_emu t = s_emu s \<and> s_mmu t = s_mmu s"
  using assms
  by (auto simp: dispatch_def dispatch_files_def dispatch_process_def trace_message_def monad_defs
      Let_def)

lemma fetch8_run:
  "read8 (s_mmu s) (c_decode_pc (s_cpu s)) = Inr b \<Longrightarrow>
     fetch8 s = (Inr b, s\<lparr>s_cpu := (s_cpu s)\<lparr>c_decode_pc := c_decode_pc (s_cpu s) + 1\<rparr>\<rparr>)"
  by (simp add: fetch8_def set_decode_pc_def mem_read8_def monad_defs)

lemma exec_syscall_exit:
  assumes "c_gpr (s_cpu s) RAX = 60 \<or> c_gpr (s_cpu s) RAX = 231"
  shows "\<exists>t. exec_syscall (dispatch h) s =
      (Inl (GuestExit (to_int (c_gpr (s_cpu s) RDI))), t) \<and> s_emu t = s_emu s \<and> s_mmu t = s_mmu s"
proof -
  let ?c = "s_cpu s"
  let ?s = "s\<lparr>s_cpu := ?c\<lparr>c_gpr := (c_gpr ?c)(RCX := c_decode_pc ?c, R11 := c_rflags ?c),
    c_gpr_shadow := (c_gpr_shadow ?c)(RCX := 0, R11 := 0)\<rparr>\<rparr>"
  obtain t where "dispatch h (c_gpr ?c RAX) ?s = (Inl (GuestExit (to_int (c_gpr ?c RDI))), t) \<and>
      s_emu t = s_emu s \<and> s_mmu t = s_mmu s"
    using dispatch_exit [OF assms, of h ?s] by (auto simp: register_defs)
  then show ?thesis using assms
    by (auto simp: exec_syscall_def handle_syscall_def is_exit_syscall_def monad_defs register_defs)
qed

lemma step_exit:
  assumes "at_syscall s" and "c_gpr (s_cpu s) RAX = 60 \<or> c_gpr (s_cpu s) RAX = 231"
  shows "\<exists>t. step (guest_units F h) s = (Inl (GuestExit (to_int (c_gpr (s_cpu s) RDI))), t) \<and>
    s_emu t = s_emu s \<and> s_mmu t = s_mmu s"
proof -
  let ?rip = "c_rip (s_cpu s)"
  define s1 where "s1 = snd (begin_step s)"
  have s1: "begin_step s = (Inr (), s1)" "s_mmu s1 = s_mmu s" "c_decode_pc (s_cpu s1) = ?rip"
    "c_gpr (s_cpu s1) = c_gpr (s_cpu s)" "s_emu s1 = s_emu s"
    by (simp_all add: s1_def begin_step_def monad_defs)
  have "prefix_loop (s_mmu s) ?rip no_prefixes = Some (Inr no_prefixes, ?rip)"
    using assms(1) by (subst prefix_loop.simps) (simp add: at_syscall_def apply_prefix_def)
  then have prefixes: "read_prefixes s1 = (Inr no_prefixes, s1)"
    using s1 by (simp add: read_prefixes_def)
  have "read8 (s_mmu s1) (c_decode_pc (s_cpu s1)) = Inr 0x0f"
    using assms(1) s1 by (simp add: at_syscall_def)
  note fetch = fetch8_run [OF this]
  define s2 where "s2 = snd (fetch8 s1)"
  have s2: "fetch8 s1 = (Inr 0x0f, s2)" "s_mmu s2 = s_mmu s" "c_decode_pc (s_cpu s2) = ?rip + 1"
    "c_gpr (s_cpu s2) = c_gpr (s_cpu s)" "s_emu s2 = s_emu s"
    using fetch s1 by (simp_all add: s2_def)
  have "read8 (s_mmu s2) (c_decode_pc (s_cpu s2)) = Inr 0x05"
    using assms(1) s2 by (simp add: at_syscall_def)
  note fetch' = fetch8_run [OF this]
  define s3 where "s3 = snd (fetch8 s2)"
  have s3: "fetch8 s2 = (Inr 0x05, s3)" "c_gpr (s_cpu s3) = c_gpr (s_cpu s)" "s_emu s3 = s_emu s"
    "s_mmu s3 = s_mmu s"
    using fetch' s2 by (simp_all add: s3_def)
  obtain t where t: "exec_syscall (dispatch h) s3 = (Inl (GuestExit (to_int (c_gpr (s_cpu s) RDI))), t)"
    "s_emu t = s_emu s" "s_mmu t = s_mmu s"
    using exec_syscall_exit [of s3 h] assms(2) s3 by auto
  have "execute_opcode (guest_units F h) 0x0f no_prefixes s2 =
      execute_0f (execute_sse_float F) (dispatch h) no_prefixes s2"
    by (simp add: execute_opcode_def exec_switch_def guest_units_def)
  also have "\<dots> = exec_syscall (dispatch h) s3"
    by (simp add: execute_0f_def bind_Inr [where m = fetch8 and s = s2, OF s3(1)])
  finally show ?thesis
    using s1(1) prefixes s2(1) t by (simp add: step_def seq_def bind_def)
qed

lemma trace_syscall:
  assumes "at_syscall s"
  shows "\<exists>msg. trace_instruction s = (Inr (), s\<lparr>s_stderr := s_stderr s @ [msg]\<rparr>)"
proof -
  let ?m = "s_mmu s" and ?rip = "c_rip (s_cpu s)"
  have code: "read8 ?m ?rip = Inr 0x0f" "read8 ?m (?rip + 1) = Inr 0x05"
    using assms by (simp_all add: at_syscall_def)
  have "describe_prefixes ?m ?rip no_prefixes = Some (Inr no_prefixes, ?rip)"
    using code(1) by (subst describe_prefixes.simps) (simp add: describe_prefix_def)
  moreover have "bind (cursor8 ?m) (describe_opcode ?m no_prefixes) ?rip = (Inr ''syscall'', ?rip + 2)"
    using code
    by (simp add: monad_defs cursor8_def advance_def describe_opcode_def describe_short_def
        describe_switch_def describe_0f_def)
  moreover have "\<exists>text. with_prefixes ?m no_prefixes ?rip (?rip + 2) ''syscall'' = Inr text"
  proof -
    have "[0..<2] = [0, 1 :: nat]" by (simp add: upt_rec)
    then have "\<exists>bytes. format_hex_bytes ?m ?rip 2 = Inr bytes"
      using code by (simp add: format_hex_bytes_def sbind_def)
    then show ?thesis by (auto simp: with_prefixes_def)
  qed
  ultimately show ?thesis
    by (auto simp: trace_instruction_def describe_current_instruction_def monad_defs)
qed

lemma signals_arrive_frame:
  "s_mmu (signals_arrive signums s) = s_mmu s" "s_cpu (signals_arrive signums s) = s_cpu s"
  "s_emu (signals_arrive signums s) = s_emu s"
  by (induction signums arbitrary: s) (simp_all add: signals_arrive_def host_signal_handler_def)

lemma iteration_exit:
  assumes "at_syscall s" and "c_gpr (s_cpu s) RAX \<in> {60, 231}"
  shows "\<exists>t. run_iteration (guest_units F h) s =
      (Inl (GuestExit (to_int (c_gpr (s_cpu s) RDI))), t) \<and> s_emu t = s_emu s \<and> s_mmu t = s_mmu s"
proof (cases "opt_trace (e_options (s_emu s))")
  case True
  obtain msg where msg: "trace_instruction s = (Inr (), s\<lparr>s_stderr := s_stderr s @ [msg]\<rparr>)"
    using trace_syscall [OF assms(1)] by blast
  let ?s = "s\<lparr>s_stderr := s_stderr s @ [msg]\<rparr>"
  have "at_syscall ?s" using assms(1) by (simp add: at_syscall_def)
  from step_exit [OF this, of F h] assms(2) True msg show ?thesis
    by (auto simp: run_iteration_def monad_defs)
next
  case False
  with step_exit [OF assms(1), of F h] assms(2) show ?thesis
    by (auto simp: run_iteration_def monad_defs)
qed

text \<open>
  C5. A guest that reaches its exit ends: when the program, after any number of iterations and whatever
  signals arrive, is about to execute \<^verbatim>\<open>syscall\<close> with the number of \<^verbatim>\<open>exit\<close> or
  \<^verbatim>\<open>exit_group\<close>, the run is over. Without the options that report at the end, and with them
  whenever the reports succeed, the emulator returns the low 32 bits of \<^verbatim>\<open>rdi\<close> as a signed number;
  with them a report may throw instead, in a well-formed memory only a memory fault.
\<close>

theorem exit_ends_run:
  assumes "load s0 = (Inr (), s)" and "iterate (guest_units F h) arrivals n s = Some s'"
    and "at_syscall s'" and "c_gpr (s_cpu s') RAX \<in> {60, 231}"
  shows "\<exists>r t. emulator_exec load (guest_units F h) arrivals s0 = Some (r, t) \<and>
    (case r of
       Inr status \<Rightarrow> status = to_int (c_gpr (s_cpu s') RDI)
     | Inl x \<Rightarrow> (opt_malloc_trace (e_options (s_emu s')) \<or> opt_backtrace_on_exit (e_options (s_emu s'))) \<and>
         (mmu_wf (s_mmu s') \<longrightarrow> memory_fault x))"
proof -
  let ?s = "signals_arrive (arrivals n) s'" and ?status = "to_int (c_gpr (s_cpu s') RDI)"
  have "at_syscall ?s" using assms(3) by (simp add: at_syscall_def signals_arrive_frame)
  from iteration_exit [OF this, of F h] assms(4) obtain t where
    t: "run_iteration (guest_units F h) ?s = (Inl (GuestExit ?status), t)" "s_emu t = s_emu s'" "s_mmu t = s_mmu s'"
    by (auto simp: signals_arrive_frame)
  obtain r t' where r: "finish_exec (GuestExit ?status) t = (r, t')" by fastforce
  have "emulator_exec load (guest_units F h) arrivals s0 = Some (r, t')"
    using assms(1) exec_loop_ends [OF assms(2) t(1)] r by (simp add: emulator_exec_def)
  moreover have "reports (finish_exec (GuestExit ?status))" by (rule finish_exec_report) simp
  note reportsD [OF this r]
  moreover have "r = Inr ?status"
    if "\<not> opt_malloc_trace (e_options (s_emu s'))" "\<not> opt_backtrace_on_exit (e_options (s_emu s'))"
    using r that t(2) by (simp add: finish_exec_def leak_report_if_traced_def monad_defs)
  moreover have "status = ?status" if "r = Inr status" for status
    using r that by (auto simp: finish_exec_def return_def elim!: seq_InrE)
  ultimately show ?thesis using t(3) by (intro exI [of _ r] exI [of _ t']) (auto split: sum.split)
qed

text \<open>A program of one instruction.\<close>

definition exit_machine :: machine where
  "exit_machine = code_machine\<lparr>
     s_mmu := snd (map_bytes 0x10000 0x1000 5 [0x0f, 0x05] 0 ''code'' initial_mmu),
     s_cpu := initial_cpu\<lparr>c_rip := 0x10000, c_gpr := (\<lambda>_. 0)(RAX := 60, RDI := 0xFFFFFFF9)\<rparr>\<rparr>"

lemma exit_machine_code:
  "m_regions (s_mmu exit_machine) =
     [\<lparr>r_base = 0x10000, r_size = 0x1000, r_prot = 5, r_name = ''code'', r_kind = SimpleRegion,
       r_bytes = 0x0f # 0x05 # replicate 4094 0, r_init = replicate 4096 True\<rparr>]"
  by (simp add: exit_machine_def map_bytes_def Let_def monad_defs pages_eval page_align_down_def
      page_align_up_def page_size_def ensure_no_overlap_def initial_mmu_def
      new_simple_region_bytes_def insert_region_def sort_regions_def)

theorem exit_ends_run_witness:
  "\<forall>F h arrivals. \<exists>t. emulator_exec (return ()) (guest_units F h) arrivals exit_machine = Some (Inr (- 7), t)"
proof (intro allI)
  fix F :: fpu and h :: os and arrivals :: arrivals
  have "at_syscall exit_machine"
    by (simp add: at_syscall_def read8_def region_for_def find_region_def exit_machine_code
        region_contains_def region_end_def read_offset_def ProtRead_def)
      (simp add: exit_machine_def)
  moreover have "c_gpr (s_cpu exit_machine) RAX \<in> {60, 231}"
    "to_int (c_gpr (s_cpu exit_machine) RDI) = - 7"
    "\<not> opt_malloc_trace (e_options (s_emu exit_machine))"
    "\<not> opt_backtrace_on_exit (e_options (s_emu exit_machine))"
    by (simp_all add: exit_machine_def code_machine_def initial_machine_def initial_emulator_def
        register_defs to_int_def)
  ultimately show "\<exists>t. emulator_exec (return ()) (guest_units F h) arrivals exit_machine = Some (Inr (- 7), t)"
    using exit_ends_run [of "return ()" exit_machine exit_machine F h arrivals 0 exit_machine]
    by (simp add: return_def split: sum.splits) (metis sum.exhaust)
qed

section \<open>A report that fails\<close>

text \<open>
  C12. A backtrace is not safe to take: it checks that the frame pointer is mapped, not that it can be
  read. With the frame pointer in a page without read permission the backtrace throws; so after an
  error of the guest the dump of the state throws a second error out of the handler, and
  \<^verbatim>\<open>exec\<close> does not return 127 but leaves with an exception that nothing catches.
\<close>

theorem unreadable_frame_report:
  assumes "frame = c_gpr (s_cpu s) RBP" and "frame \<noteq> 0" and "is_mapped (s_mmu s) frame 16"
    and "read8 (s_mmu s) frame = Inl (EmulatorError (PermissionFault frame))"
    and "\<not> opt_malloc_trace (e_options (s_emu s))"
  shows "raw_backtrace s = Inl (EmulatorError (PermissionFault frame)) \<and>
    fst (finish_exec (EmulatorError err) s) = Inl (EmulatorError (PermissionFault frame))"
proof -
  have "read64 (s_mmu s) frame = Inl (EmulatorError (PermissionFault frame))"
    using assms(4) by (simp add: read64_def numeral_eq_Suc)
  then have walk: "walk_frames (s_mmu s) 127 bt frame = Inl (EmulatorError (PermissionFault frame))" for bt
    using assms(2,3) by (simp add: numeral_eq_Suc)
  then have "raw_backtrace t = Inl (EmulatorError (PermissionFault frame))"
    if "s_mmu t = s_mmu s" "s_cpu t = s_cpu s" for t
    using that assms(1) by (simp add: raw_backtrace_def)
  then show ?thesis using assms(5)
    by (simp add: finish_exec_def leak_report_if_traced_def dump_state_def dump_backtrace_def monad_defs)
qed

theorem unreadable_frame_report_witness:
  "fst (finish_exec (EmulatorError (DivideByZero 0)) (code_machine\<lparr>
      s_mmu := snd (protect 0x11000 0x1000 0 three_pages),
      s_cpu := initial_cpu\<lparr>c_gpr := (\<lambda>_. 0)(RBP := 0x11000)\<rparr>\<rparr>)) =
     Inl (EmulatorError (PermissionFault 0x11000))"
proof -
  obtain m where m: "protect 0x11000 0x1000 0 three_pages = (Inr (), m)" "mmu_wf m"
    "\<forall>a. cell_at m a = (if in_pages 0x11000 0x1000 a
       then map_option (set_cell_prot 0) (cell_at three_pages a) else cell_at three_pages a)"
    using protect_run [OF three_pages_wf, of "0x1000" "0x11000" 0]
    by (auto simp: three_pages_simps)
  have cell: "cell_at m (0x11000 + of_nat i) = Some (Cell 0 True 0)" if "i < 16" for i
    using m(3) that of_nat_unat_u64 [of i] unat_add_u64 [of "0x11000" "of_nat i"]
    by (simp add: three_pages_simps set_cell_prot_def u64_order)
  then have "find_region m (0x11000 + of_nat i) \<noteq> None" if "i < 16" for i
    using that unfolding cell_at_def by fastforce
  then have mapped: "is_mapped m 0x11000 16" by (auto simp: is_mapped_def list_all_iff)
  have read: "read8 m 0x11000 = Inl (EmulatorError (PermissionFault 0x11000))"
    using read8_cell [of m "0x11000"] m(2) cell [of 0]
    by (simp add: mmu_wf_def cell_allows_def ProtRead_def)
  show ?thesis
    using unreadable_frame_report [of "0x11000" "code_machine\<lparr>s_mmu := m,
        s_cpu := initial_cpu\<lparr>c_gpr := (\<lambda>_. 0)(RBP := 0x11000)\<rparr>\<rparr>" "DivideByZero 0"] m(1) mapped read
    by (simp add: code_machine_def initial_machine_def initial_emulator_def)
qed

end
