(* ===== verification/Guest_Laws.thy ===== *)
theory Guest_Laws
  imports GuestMemory MMU_Laws
begin

text \<open>
  The machine as a memory of bytes: with the malloc tracer off, \<^verbatim>\<open>write8\<close> and
  \<^verbatim>\<open>read8\<close> of \<^verbatim>\<open>src/SoftMMU.cpp\<close> satisfy the interface \<open>byte_memory\<close>, which
  gives the multi-byte accesses and sequences of them.
\<close>

definition untraced :: "machine \<Rightarrow> bool" where
  "untraced s \<longleftrightarrow> \<not> opt_malloc_trace (e_options (s_emu s))"

lemma write8_untraced:
  assumes "untraced s"
  shows "write8 a b s = on_mmu (store8 a b True) s"
proof -
  have "store8 a b True m = (Inl e, m)" if "region_for m a ProtWrite = Inl e" for e m
    using that by (simp add: store8_def with_region_def monad_defs)
  then show ?thesis
    using assms by (auto simp: write8_def write8_with_shadow_def observe_def untraced_def monad_defs
        vs_initialized_def is_initialized_def split: sum.splits)
qed

text \<open>Everything of the machine but the bytes.\<close>

definition outside_memory :: "machine \<Rightarrow> machine" where
  "outside_memory s = s\<lparr>s_mmu := initial_mmu\<rparr>"

definition quiet_wf :: "machine \<Rightarrow> bool" where
  "quiet_wf s \<longleftrightarrow> mmu_wf (s_mmu s) \<and> untraced s"

interpretation guest_bytes: byte_memory "\<lambda>s. read8 (s_mmu s)" write8 quiet_wf
  "\<lambda>s. open_byte (s_mmu s)" "\<lambda>s. (mmu_layout (s_mmu s), outside_memory s)"
proof unfold_locales
  fix s a b assume "quiet_wf s" and o: "open_byte (s_mmu s) a"
  then have wf: "mmu_wf (s_mmu s)" and u: "untraced s" by (auto simp: quiet_wf_def)
  from store8_byte_memory [OF wf o, of b True] obtain m' where
    m': "store8 a b True (s_mmu s) = (Inr (), m')" "mmu_wf m'" "open_byte m' = open_byte (s_mmu s)"
      "mmu_layout m' = mmu_layout (s_mmu s)" "read8 m' = (read8 (s_mmu s))(a := Inr b)" by blast
  then show "\<exists>s'. write8 a b s = (Inr (), s') \<and> quiet_wf s' \<and>
      open_byte (s_mmu s') = open_byte (s_mmu s) \<and>
      (mmu_layout (s_mmu s'), outside_memory s') = (mmu_layout (s_mmu s), outside_memory s) \<and>
      read8 (s_mmu s') = (read8 (s_mmu s))(a := Inr b)"
    using u by (intro exI [of _ "s\<lparr>s_mmu := m'\<rparr>"])
      (simp add: write8_untraced on_mmu_def quiet_wf_def untraced_def outside_memory_def)
qed

lemma seq_return [simp]: "seq f (return ()) = f"
  by (rule ext) (auto simp: seq_def bind_def return_def split: prod.splits sum.splits)

lemma write64_store_words: "write64 a v = store_words write8 a [v]"
  by (simp add: write64_def word_byte_def)

lemma seq_write64_words: "seq (write64 a v) (store_words write8 (a + 8) ws) = store_words write8 a (v # ws)"
  by (simp add: write64_def word_byte_def)

text \<open>A word lies in memory.\<close>

definition word_at :: "machine \<Rightarrow> u64 \<Rightarrow> u64 \<Rightarrow> bool" where
  "word_at s a v \<longleftrightarrow> (\<forall>j < 8. read8 (s_mmu s) (a + of_nat j) = Inr (word_byte v j))"

lemma word_at_read64: "word_at s a v \<Longrightarrow> read64 (s_mmu s) a = Inr v"
  by (rule read64_bytes) (simp add: word_at_def)

lemma mem_read64_word [simp]: "word_at s a v \<Longrightarrow> mem_read64 a s = (Inr v, s)"
  by (simp add: mem_read64_def monad_defs word_at_read64)

lemma same_memory_word_at: "s_mmu t = s_mmu s \<Longrightarrow> word_at t a v = word_at s a v"
  by (simp add: word_at_def)

lemma store_words_guest:
  assumes "quiet_wf s" and "\<And>j. j < 8 * length ws \<Longrightarrow> open_byte (s_mmu s) (a + of_nat j)"
    and "8 * length ws < 18446744073709551608"
  shows "\<exists>s'. store_words write8 a ws s = (Inr (), s') \<and> quiet_wf s' \<and>
    open_byte (s_mmu s') = open_byte (s_mmu s) \<and> mmu_layout (s_mmu s') = mmu_layout (s_mmu s) \<and>
    outside_memory s' = outside_memory s \<and>
    (\<forall>i < length ws. word_at s' (a + 8 * of_nat i) (ws ! i)) \<and>
    (\<forall>x. 8 * length ws \<le> unat (x - a) \<longrightarrow> read8 (s_mmu s') x = read8 (s_mmu s) x)"
proof -
  from guest_bytes.store_words_run [OF assms] obtain s' where
    s': "store_words write8 a ws s = (Inr (), s')" "quiet_wf s'"
      "open_byte (s_mmu s') = open_byte (s_mmu s)"
      "mmu_layout (s_mmu s') = mmu_layout (s_mmu s)" "outside_memory s' = outside_memory s"
      "read8 (s_mmu s') = (\<lambda>x. let j = unat (x - a) in
        if j < 8 * length ws then Inr (word_byte (ws ! (j div 8)) (j mod 8))
        else read8 (s_mmu s) x)" by auto
  have "word_at s' (a + 8 * of_nat i) (ws ! i)" if "i < length ws" for i
    unfolding word_at_def
  proof (intro allI impI)
    fix j :: nat assume j: "j < 8"
    then have "8 * i + j < 8 * length ws" using that by simp
    moreover from this have "unat (of_nat (8 * i + j) :: u64) = 8 * i + j"
      using assms(3) by (intro of_nat_unat_u64) simp
    then have "unat (a + 8 * of_nat i + of_nat j - a) = 8 * i + j" by (simp add: algebra_simps)
    ultimately show "read8 (s_mmu s') (a + 8 * of_nat i + of_nat j) = Inr (word_byte (ws ! i) j)"
      using j by (simp add: s'(6) Let_def)
  qed
  then show ?thesis using s' by (intro exI [of _ s']) (auto simp: Let_def)
qed

text \<open>
  Store and load: with the tracer off, \<^verbatim>\<open>write64\<close> to eight bytes that may be read and
  written succeeds, \<^verbatim>\<open>read64\<close> then returns the value written, every byte outside the word
  reads as before, and nothing but memory changes. The word may lie across a page or region
  boundary, and may wrap round the end of the address space.
\<close>

lemma store_load_64:
  assumes "mmu_wf (s_mmu s)" and "untraced s"
    and "\<And>j. j < 8 \<Longrightarrow> open_byte (s_mmu s) (a + of_nat j)"
  shows "\<exists>s'. write64 a v s = (Inr (), s') \<and> read64 (s_mmu s') a = Inr v \<and>
    (\<forall>x. 8 \<le> unat (x - a) \<longrightarrow> read8 (s_mmu s') x = read8 (s_mmu s) x) \<and>
    mmu_wf (s_mmu s') \<and> mmu_layout (s_mmu s') = mmu_layout (s_mmu s) \<and>
    s'\<lparr>s_mmu := s_mmu s\<rparr> = s"
proof -
  have q: "quiet_wf s" using assms(1,2) by (simp add: quiet_wf_def)
  from store_words_guest [OF q, of "[v]" a] assms(3) obtain s' where
    s': "write64 a v s = (Inr (), s')" "quiet_wf s'" "mmu_layout (s_mmu s') = mmu_layout (s_mmu s)"
      "outside_memory s' = outside_memory s" "word_at s' a v"
      "\<forall>x. 8 \<le> unat (x - a) \<longrightarrow> read8 (s_mmu s') x = read8 (s_mmu s) x"
    unfolding write64_store_words by auto
  have "s' = (outside_memory s')\<lparr>s_mmu := s_mmu s'\<rparr>" by (simp add: outside_memory_def)
  then have "s' = s\<lparr>s_mmu := s_mmu s'\<rparr>" unfolding s'(4) by (simp add: outside_memory_def)
  then have "s'\<lparr>s_mmu := s_mmu s\<rparr> = s" by (rule ssubst) simp
  then show ?thesis using s' by (intro exI [of _ s']) (simp add: word_at_read64 quiet_wf_def)
qed

definition quiet_machine :: machine where
  "quiet_machine = (initial_machine
     \<lparr>opt_trace = False, opt_trace_syscalls = False, opt_backtrace_on_exit = False,
      opt_malloc_trace = False\<rparr> (\<lambda>_. 0))\<lparr>s_mmu := three_pages\<rparr>"

lemma quiet_machine_open: "in_pages 0x10000 0x3000 a \<Longrightarrow> open_byte (s_mmu quiet_machine) a"
  by (simp add: quiet_machine_def open_byte_def accessible_def three_pages_cells cell_allows_def
      ProtRead_def ProtWrite_def)

lemma quiet_machine_wf: "mmu_wf (s_mmu quiet_machine)" "untraced quiet_machine"
  by (simp_all add: quiet_machine_def three_pages_wf untraced_def initial_machine_def
      initial_emulator_def)

lemma store_load_64_example:
  "\<exists>s'. write64 0x10FFC 0x1122334455667788 quiet_machine = (Inr (), s') \<and>
     read64 (s_mmu s') 0x10FFC = Inr 0x1122334455667788"
proof -
  have "open_byte (s_mmu quiet_machine) (0x10FFC + of_nat j)" if "j < 8" for j
    using that of_nat_unat_u64 [of j] unat_add_u64 [of "0x10FFC" "of_nat j"]
    by (intro quiet_machine_open) (simp add: in_pages_def pages_eval)
  then show ?thesis
    using store_load_64 [OF quiet_machine_wf, of "0x10FFC" "0x1122334455667788"] by blast
qed

section \<open>What a store leaves alone, with the tracer on or off\<close>

lemma core_prims:
  "preserves (\<lambda>s. (s_cpu s, s_emu s) = core) (upd_tracer g)"
  "preserves (\<lambda>s. (s_cpu s, s_emu s) = core) (print_err msg)"
  "preserves (\<lambda>s. (s_cpu s, s_emu s) = core) (on_mmu f)"
  "preserves J (get_tracer g')" "preserves J (get_emu h)" "preserves J (read_mmu k)"
  by (auto simp: preserves_def monad_defs split: prod.splits)

lemma core_write_observer: "preserves (\<lambda>s. (s_cpu s, s_emu s) = core) (on_memory_write a)"
  unfolding on_memory_write_def report_use_after_free_def report_heap_overflow_def report_once_def
  by (intro pres core_prims)

lemma core_write8: "preserves (\<lambda>s. (s_cpu s, s_emu s) = core) (write8 a v)"
  unfolding write8_def write8_with_shadow_def observe_def
  by (intro pres core_prims core_write_observer)

lemma core_write64 [pres]: "preserves (\<lambda>s. (s_cpu s, s_emu s) = core) (write64 a v)"
  unfolding write64_def by (intro pres core_write8)

lemma core_copy_to_guest [pres]: "preserves (\<lambda>s. (s_cpu s, s_emu s) = core) (copy_to_guest a bytes)"
  unfolding copy_to_guest_def by (intro pres core_write8)

lemma write64_core: "write64 a v s = (res, s') \<Longrightarrow> s_cpu s' = s_cpu s \<and> s_emu s' = s_emu s"
  using preservesD [OF core_write64 [of "(s_cpu s, s_emu s)" a v], of s] by simp

lemma copy_to_guest_core: "copy_to_guest a bytes s = (res, s') \<Longrightarrow> s_cpu s' = s_cpu s \<and> s_emu s' = s_emu s"
  using preservesD [OF core_copy_to_guest [of "(s_cpu s, s_emu s)" a bytes], of s] by simp

end
