(* ===== verification/Syscall_Laws.thy ===== *)
theory Syscall_Laws
  imports Mapping_Invariant Guest_Laws
begin

text \<open>
  The properties of the system calls (\<^verbatim>\<open>src/LinuxSyscalls.cpp\<close>): what a call may do to memory,
  anonymous mappings, data moved between the host and the guest, structure layouts, the table of
  descriptors and the error paths. The host is arbitrary throughout.
\<close>

section \<open>Calls and memory\<close>

text \<open>
  C8. Of all system calls, known or not, only \<^verbatim>\<open>mmap\<close>, \<^verbatim>\<open>mprotect\<close>, \<^verbatim>\<open>munmap\<close>,
  \<^verbatim>\<open>brk\<close> and \<^verbatim>\<open>mremap\<close> can change the layout of memory, a protection, or a byte the
  guest itself may not write, whatever the host answers and however the call ends.
\<close>

theorem other_calls_safe:
  assumes "mmu_wf (s_mmu s)" and "number \<notin> {9, 10, 11, 12, 25}"
  shows "memory_frame (s_mmu s) (s_mmu (snd (dispatch h number s)))"
  using frame_memory.other_calls_keep [of number "s_mmu s" h] assms
  unfolding mapping_calls_def by (intro sound_frame)

definition silent_host :: os where
  "silent_host = \<lparr>os_host = (\<lambda>_ _. \<lparr>ans_rc = 0, ans_errno = 0, ans_bufs = [], ans_ints = []\<rparr>),
     os_files = (\<lambda>_ _. None)\<rparr>"

theorem other_calls_safe_witness:
  "memory_frame three_pages (s_mmu (snd (dispatch silent_host 0 quiet_machine)))"
  using other_calls_safe [of quiet_machine 0 silent_host] quiet_machine_wf
  by (simp add: quiet_machine_def)


lemma page_up_idem: "page_align_up (page_align_up z) = page_align_up z"
  by (simp add: page_align_up_aligned)

lemma pages_up [simp]: "in_pages c (page_align_up z) = in_pages c z"
  "pages_fit c (page_align_up z) = pages_fit c z"
  by (auto simp: in_pages_def pages_fit_def page_up_idem fun_eq_iff)





section \<open>Data from the host\<close>

text \<open>Guest bytes hold a list.\<close>

definition holds_bytes :: "machine \<Rightarrow> u64 \<Rightarrow> u8 list \<Rightarrow> bool" where
  "holds_bytes s a bytes \<longleftrightarrow>
     (\<forall>j < length bytes. read8 (s_mmu s) (a + of_nat j) = Inr (bytes ! j))"

lemma copy_to_guest_run:
  assumes "quiet_wf s" and "\<And>j. j < length bytes \<Longrightarrow> open_byte (s_mmu s) (a + of_nat j)"
    and "length bytes \<le> 18446744073709551616"
  shows "\<exists>s'. copy_to_guest a bytes s = (Inr (), s') \<and> quiet_wf s' \<and>
    mmu_layout (s_mmu s') = mmu_layout (s_mmu s) \<and> outside_memory s' = outside_memory s \<and>
    holds_bytes s' a bytes \<and>
    (\<forall>x. length bytes \<le> unat (x - a) \<longrightarrow> read8 (s_mmu s') x = read8 (s_mmu s) x)"
proof -
  have "open_byte (s_mmu s) (a + of_nat j)" if "0 \<le> j" "j < 0 + length bytes" for j
    using assms(2) that by simp
  from guest_bytes.wr_loop_run [OF assms(1), where i = 0 and n = "length bytes" and a = a
      and f = "\<lambda>j. bytes ! j", OF this] assms(3) obtain s' where
    s': "copy_to_guest a bytes s = (Inr (), s')" "quiet_wf s'"
      "mmu_layout (s_mmu s') = mmu_layout (s_mmu s)" "outside_memory s' = outside_memory s"
      "read8 (s_mmu s') = (\<lambda>x. let j = unat (x - a) in
        if j < length bytes then Inr (bytes ! j) else read8 (s_mmu s) x)"
    by (auto simp: copy_to_guest_def)
  have "holds_bytes s' a bytes"
    using assms(3) by (simp add: holds_bytes_def s'(5) of_nat_unat_u64 Let_def)
  then show ?thesis using s' by (intro exI [of _ s']) (auto simp: Let_def not_less)
qed

text \<open>The request as it is logged, and its answer.\<close>

abbreviation answer :: "os \<Rightarrow> machine \<Rightarrow> string \<Rightarrow> host_arg list \<Rightarrow> host_answer" where
  "answer h s name args \<equiv> os_host h (s_host_log s) (HostCall name args)"

abbreviation logged :: "machine \<Rightarrow> string \<Rightarrow> host_arg list \<Rightarrow> machine" where
  "logged s name args \<equiv> s\<lparr>s_host_log := s_host_log s @ [HostCall name args]\<rparr>"

lemma host_then_run:
  "host_then h name args k s =
     (if ans_rc (answer h s name args) < 0
      then (Inr (syscall_error (ans_errno (answer h s name args))), logged s name args)
      else k (answer h s name args) (logged s name args))"
  by (simp add: host_then_def monad_defs Let_def)

lemma deliver_buffer_run:
  assumes "quiet_wf t" and "0 \<le> ans_rc a" and "n = nat (ans_rc a)" and "n \<le> unat (count :: u64)"
    and "\<And>j. j < n \<Longrightarrow> open_byte (s_mmu t) (dest + of_nat j)"
  shows "\<exists>s'. deliver_buffer dest (unat count) a t = (Inr (of_nat n), s') \<and>
    holds_bytes s' dest (take n (out_buffer a 0 (zeros (unat count)))) \<and>
    (\<forall>x. n \<le> unat (x - dest) \<longrightarrow> read8 (s_mmu s') x = read8 (s_mmu t) x) \<and>
    mmu_layout (s_mmu s') = mmu_layout (s_mmu t) \<and> s_cpu s' = s_cpu t \<and> s_emu s' = s_emu t"
proof -
  define bytes where "bytes = take n (out_buffer a 0 (zeros (unat count)))"
  have len: "length bytes = n" "n \<le> 18446744073709551616"
    using assms(4) u64_bound [of count] by (simp_all add: bytes_def)
  have o: "open_byte (s_mmu t) (dest + of_nat j)" if "j < length bytes" for j
    using assms(5) that len(1) by simp
  from copy_to_guest_run [OF assms(1) o] len obtain s' where
    s': "copy_to_guest dest bytes t = (Inr (), s')"
      "mmu_layout (s_mmu s') = mmu_layout (s_mmu t)" "holds_bytes s' dest bytes"
      "\<forall>x. n \<le> unat (x - dest) \<longrightarrow> read8 (s_mmu s') x = read8 (s_mmu t) x" by auto
  have "deliver_buffer dest (unat count) a t = (Inr (of_int (ans_rc a)), s')"
    using s'(1) unfolding deliver_buffer_def return_rc_def assms(3) [symmetric] bytes_def [symmetric]
    by (simp add: seq_def bind_def return_def)
  moreover have "(of_int (ans_rc a) :: u64) = of_nat n" using assms(2,3) by simp
  ultimately show ?thesis
    using s' copy_to_guest_core [OF s'(1)] by (intro exI [of _ s']) (simp add: bytes_def)
qed

text \<open>
  C10. \<^verbatim>\<open>read\<close>, with the tracer off: one request goes to the host with the descriptor and the
  size. When the host fails, the negated \<^verbatim>\<open>errno\<close> is returned and nothing else changes. When
  it answers with \<open>n\<close> bytes, at most the size asked for, and the guest may access that many
  bytes at the buffer's address, then \<open>n\<close> is returned, the guest's buffer holds the host's
  bytes, and all other bytes of memory are as they were.
\<close>

theorem read_call_spec:
  assumes "quiet_wf s" and "a = answer h s ''read'' [HInt (to_int fd), HOut (unat count)]"
    and "n = nat (ans_rc a)" and "ans_rc a \<le> uint count"
    and "\<And>j. j < n \<Longrightarrow> open_byte (s_mmu s) (dest + of_nat j)"
  shows "if ans_rc a < 0
    then sys_read h fd dest count s =
      (Inr (of_int (- ans_errno a)), logged s ''read'' [HInt (to_int fd), HOut (unat count)])
    else \<exists>s'. sys_read h fd dest count s = (Inr (of_nat n), s') \<and>
      holds_bytes s' dest (take n (out_buffer a 0 (zeros (unat count)))) \<and>
      (\<forall>x. n \<le> unat (x - dest) \<longrightarrow> read8 (s_mmu s') x = read8 (s_mmu s) x) \<and>
      mmu_layout (s_mmu s') = mmu_layout (s_mmu s) \<and> s_cpu s' = s_cpu s \<and> s_emu s' = s_emu s"
proof -
  let ?t = "logged s ''read'' [HInt (to_int fd), HOut (unat count)]"
  let ?bytes = "take n (out_buffer a 0 (zeros (unat count)))"
  have run: "sys_read h fd dest count s = (if ans_rc a < 0 then (Inr (syscall_error (ans_errno a)), ?t)
      else deliver_buffer dest (unat count) a ?t)"
    unfolding assms(2) sys_read_def by (rule host_then_run)
  show ?thesis
  proof (cases "ans_rc a < 0")
    case False
    have q: "quiet_wf ?t" using assms(1) by (simp add: quiet_wf_def untraced_def)
    have n: "n \<le> unat count" using nat_mono [OF assms(4)] by (simp add: assms(3))
    have o: "open_byte (s_mmu ?t) (dest + of_nat j)" if "j < n" for j using assms(5) that by simp
    from deliver_buffer_run [OF q _ assms(3) n o] False show ?thesis by (simp add: run)
  qed (simp add: run syscall_error_def)
qed

definition two_bytes_host :: os where
  "two_bytes_host = \<lparr>os_host = (\<lambda>_ _. \<lparr>ans_rc = 2, ans_errno = 0, ans_bufs = [[7, 9]], ans_ints = []\<rparr>),
     os_files = (\<lambda>_ _. None)\<rparr>"

theorem read_call_spec_witness:
  "\<exists>s'. sys_read two_bytes_host 0 0x10FFF 4 quiet_machine = (Inr 2, s') \<and>
     read8 (s_mmu s') 0x10FFF = Inr 7 \<and> read8 (s_mmu s') 0x11000 = Inr 9"
proof -
  have q: "quiet_wf quiet_machine" using quiet_machine_wf by (simp add: quiet_wf_def)
  have o: "open_byte (s_mmu quiet_machine) (0x10FFF + of_nat j)" if "j < 2" for j
    using that by (intro quiet_machine_open) (auto simp: in_pages_def pages_eval less_2_cases_iff)
  have four: "zeros 4 = [0, 0, 0, 0]" by (simp add: numeral_eq_Suc)
  let ?a = "answer two_bytes_host quiet_machine ''read'' [HInt (to_int 0), HOut (unat (4 :: u64))]"
  have a: "ans_rc ?a = 2" "out_buffer ?a 0 (zeros (unat (4 :: u64))) = [7, 9, 0, 0]"
    by (simp_all add: two_bytes_host_def out_buffer_def overlay_def four)
  from read_call_spec [OF q refl refl, of two_bytes_host 0 4 "0x10FFF"] o a obtain s' where
    "sys_read two_bytes_host 0 0x10FFF 4 quiet_machine = (Inr 2, s')" "holds_bytes s' 0x10FFF [7, 9]"
    by auto
  then show ?thesis by (auto simp: holds_bytes_def All_less_Suc numeral_2_eq_2)
qed

section \<open>Scattered reads\<close>

definition store_pieces :: "(u64 \<times> u8 list) list \<Rightarrow> (machine, unit) smon" where
  "store_pieces pieces = foldr (\<lambda>(a, d) k. seq (copy_to_guest a d) k) pieces (return ())"

fun cut_pieces :: "(u64 \<times> u8 list) list \<Rightarrow> nat \<Rightarrow> (u64 \<times> u8 list) list" where
  "cut_pieces [] n = []"
| "cut_pieces ((a, d) # rest) n =
     (if n = 0 then [] else (a, take n d) # cut_pieces rest (n - length d))"

lemma scatter_pieces: "scatter bufs n = store_pieces (cut_pieces bufs n)"
  by (induction bufs n rule: scatter.induct)
    (auto simp: store_pieces_def Let_def min_def not_le less_imp_le)

lemma concat_cut: "concat (map snd (cut_pieces bufs n)) = take n (concat (map snd bufs))"
  by (induction bufs n rule: cut_pieces.induct) auto

lemma cut_addresses:
  "map fst (cut_pieces bufs n) = take (length (cut_pieces bufs n)) (map fst bufs) \<and>
     (\<forall>i. Suc i < length (cut_pieces bufs n) \<longrightarrow> cut_pieces bufs n ! i = bufs ! i)"
proof (induction bufs n rule: cut_pieces.induct)
  case (2 a d rest n)
  show ?case
  proof (cases "n = 0")
    case False
    have "take n d = d" if "cut_pieces rest (n - length d) \<noteq> []"
      using that by (cases rest) (auto split: if_splits)
    then show ?thesis using 2 [OF False] False by (auto simp: nth_Cons split: nat.splits)
  qed simp
qed simp

text \<open>
  C29. \<^verbatim>\<open>readv\<close>'s copy loop: it stores, buffer after buffer from the first, exactly the bytes
  the host delivered: the stored pieces put together are the first \<open>n\<close> bytes of all the buffers
  put together, each goes to the address of its own buffer, and every piece but the last is its
  whole buffer.
\<close>

theorem scatter_spec:
  "\<exists>pieces. scatter bufs n = store_pieces pieces \<and>
     concat (map snd pieces) = take n (concat (map snd bufs)) \<and>
     map fst pieces = take (length pieces) (map fst bufs) \<and>
     (\<forall>i. Suc i < length pieces \<longrightarrow> pieces ! i = bufs ! i)"
  using scatter_pieces concat_cut cut_addresses by blast

theorem scatter_spec_witness:
  "\<exists>pieces. scatter [(0x1000, [1, 2]), (0x2000, []), (0x3000, [3, 4, 5])] 4 = store_pieces pieces \<and>
     concat (map snd pieces) = [1, 2, 3, 4]"
  using scatter_spec [of "[(0x1000, [1, 2]), (0x2000, []), (0x3000, [3, 4, 5])]" 4] by auto

section \<open>Layouts\<close>

text \<open>
  C30. The \<^verbatim>\<open>stat\<close> structure handed to the guest: every field the host reported is found, cut
  to its width, at the offset of the x86-64 ABI.
\<close>

theorem stat_layout:
  "length (convert_stat st) = 144 \<and>
   (\<forall>i < 3. word_of_field (convert_stat st) i = of_int (st i)) \<and>
   (\<forall>i < 3. le_word (take 4 (drop (24 + 4 * i) (convert_stat st))) = (of_int (st (3 + i)) :: u32)) \<and>
   (\<forall>i. 5 \<le> i \<and> i < 15 \<longrightarrow> word_of_field (convert_stat st) i = of_int (st (Suc i)))"
proof -
  have w: "le_word (word_field v) = (of_int v :: u64)" "le_word (int_field v) = (of_int v :: u32)" for v
    by (simp_all add: word_field_def int_field_def le_word_le_bytes
        take_bit_length_eq [where 'a = 64, simplified] take_bit_length_eq [where 'a = 32, simplified])
  have bytes: "convert_stat st =
      word_field (st 0) @ word_field (st 1) @ word_field (st 2) @ int_field (st 3) @ int_field (st 4) @
      int_field (st 5) @ zeros 4 @ word_field (st 6) @ word_field (st 7) @ word_field (st 8) @
      word_field (st 9) @ word_field (st 10) @ word_field (st 11) @ word_field (st 12) @
      word_field (st 13) @ word_field (st 14) @ word_field (st 15) @ zeros 24"
    by (simp add: convert_stat_def upt_rec)
  have "word_of_field (convert_stat st) i = of_int (st i)" if "i < 3" for i
  proof -
    have "i = 0 \<or> i = 1 \<or> i = 2" using that by auto
    then show ?thesis by (auto simp: word_of_field_def bytes w)
  qed
  moreover have "le_word (take 4 (drop (24 + 4 * i) (convert_stat st))) = (of_int (st (3 + i)) :: u32)"
    if "i < 3" for i
  proof -
    have "i = 0 \<or> i = 1 \<or> i = 2" using that by auto
    then show ?thesis by (auto simp: bytes w)
  qed
  moreover have "word_of_field (convert_stat st) i = of_int (st (Suc i))" if "5 \<le> i" "i < 15" for i
  proof -
    have "i = 5 \<or> i = 6 \<or> i = 7 \<or> i = 8 \<or> i = 9 \<or> i = 10 \<or> i = 11 \<or> i = 12 \<or> i = 13 \<or> i = 14"
      using that by presburger
    then show ?thesis by (auto simp: word_of_field_def bytes w)
  qed
  ultimately show ?thesis by simp
qed

theorem stat_layout_witness:
  "length (convert_stat int) = 144 \<and> word_of_field (convert_stat int) 6 = 7 \<and>
   le_word (take 4 (drop 28 (convert_stat int))) = (4 :: u32)"
proof -
  from stat_layout [of int] have
    "length (convert_stat int) = 144"
    "\<forall>i < 3. le_word (take 4 (drop (24 + 4 * i) (convert_stat int))) = (of_int (int (3 + i)) :: u32)"
    "\<forall>i. 5 \<le> i \<and> i < 15 \<longrightarrow> word_of_field (convert_stat int) i = of_int (int (Suc i))" by blast+
  from this(1) this(2) [rule_format, of 1] this(3) [rule_format, of 6] show ?thesis by simp
qed

lemma take_chunk:
  assumes "\<And>i. i < n \<Longrightarrow> length (f i) = k" and "i < n"
  shows "take k (drop (k * i) (concat (map f [0..<n]))) = f i"
  using assms
proof (induction n)
  case (Suc n)
  have len: "length (concat (map f [0..<n])) = k * n"
    using Suc.prems(1) by (induction n) (auto simp: algebra_simps)
  show ?case
  proof (cases "i = n")
    case False
    then have i: "i < n" using Suc.prems(2) by simp
    then have "k * i + k \<le> k * n" using mult_le_mono2 [of "Suc i" n k] by (simp add: algebra_simps)
    then show ?thesis using Suc.IH [OF Suc.prems(1) i] len by simp
  qed (use Suc.prems(1) [of n] len in simp)
qed simp

text \<open>
  \<^verbatim>\<open>poll\<close>: in the array copied back, every entry has the guest's own descriptor and
  requested events, and the returned events of the host.
\<close>

lemma poll_entries_spec:
  assumes "length guest_fds = 8 * n" and "length host_fds = 8 * n" and "i < n"
  shows "take 6 (drop (8 * i) (poll_entries n guest_fds host_fds)) = take 6 (drop (8 * i) guest_fds) \<and>
    take 2 (drop (8 * i + 6) (poll_entries n guest_fds host_fds)) = take 2 (drop (8 * i + 6) host_fds)"
proof -
  let ?f = "\<lambda>i. take 6 (drop (8 * i) guest_fds) @ take 2 (drop (8 * i + 6) host_fds)"
  have len: "length (?f j) = 8" if "j < n" for j
  proof -
    have "8 * Suc j \<le> 8 * n" using that by simp
    then show ?thesis using assms(1,2) by simp
  qed
  have chunk: "take 8 (drop (8 * i) (poll_entries n guest_fds host_fds)) = ?f i"
    unfolding poll_entries_def by (rule take_chunk [OF len assms(3)])
  have six: "length (take 6 (drop (8 * i) guest_fds)) = 6" using assms(1,3) by (simp add: min_def)
  have "take 6 (drop (8 * i) (poll_entries n guest_fds host_fds)) = take 6 (?f i)"
    unfolding chunk [symmetric] by simp
  moreover have "take 2 (drop (8 * i + 6) (poll_entries n guest_fds host_fds)) = drop 6 (?f i)"
    unfolding chunk [symmetric] by (simp add: drop_take add.commute)
  ultimately show ?thesis using six by simp
qed

lemma poll_entries_spec_witness:
  "take 2 (drop 6 (poll_entries 1 [3, 0, 0, 0, 1, 0, 0, 0] [9, 9, 9, 9, 9, 9, 4, 0])) = [4, 0]"
  using poll_entries_spec [of "[3, 0, 0, 0, 1, 0, 0, 0]" 1 "[9, 9, 9, 9, 9, 9, 4, 0]" 0] by simp

section \<open>Descriptors\<close>

text \<open>
  The path of a descriptor as the host knows it: it asks for the link in \<^verbatim>\<open>/proc/self/fd\<close>,
  and without an answer keeps what it had.
\<close>

definition registered :: "os \<Rightarrow> int \<Rightarrow> machine \<Rightarrow> machine" where
  "registered h fd s =
     (let link = [HIn (bytes_of_string (''/proc/self/fd/'' @ decimal fd)), HOut 4095];
          a = answer h s ''readlink'' link; paths = e_fd_paths (s_emu s) in
      (logged s ''readlink'' link)\<lparr>s_emu := (s_emu s)\<lparr>e_fd_paths :=
        (if ans_rc a < 0 then paths
         else paths(fd \<mapsto> string_of_bytes (c_string (take (nat (ans_rc a)) (out_buffer a 0 (zeros 4095))))))\<rparr>\<rparr>)"

definition makes_descriptor :: "os \<Rightarrow> string \<Rightarrow> host_arg list \<Rightarrow> machine \<Rightarrow> (exn + u64) \<times> machine" where
  "makes_descriptor h name args s =
     (let a = answer h s name args; t = logged s name args in
      if ans_rc a < 0 then (Inr (of_int (- ans_errno a)), t)
      else (Inr (of_int (ans_rc a)), registered h (ans_rc a) t))"

lemma register_run: "register_host_fd (os_host h) fd s = (Inr (), registered h fd s)"
  by (simp add: register_host_fd_def path_from_host_fd_def registered_def monad_defs Let_def)

lemma make_run:
  "host_then h name args (\<lambda>a. seq (register_host_fd (os_host h) (ans_rc a)) (return_rc a)) s =
     makes_descriptor h name args s"
  by (simp add: host_then_run makes_descriptor_def register_run seq_def bind_def return_rc_def return_def
      syscall_error_def Let_def)

text \<open>What registering looks at and changes is not touched by stores to guest memory.\<close>

definition table_state :: "machine \<Rightarrow> emulator \<times> host_call list" where
  "table_state s = (s_emu s, s_host_log s)"

lemma table_prims:
  "preserves (\<lambda>s. table_state s = core) (upd_tracer g)"
  "preserves (\<lambda>s. table_state s = core) (print_err msg)"
  "preserves (\<lambda>s. table_state s = core) (on_mmu f)"
  "preserves J (get_tracer g')" "preserves J (get_emu k)" "preserves J (read_mmu k')"
  by (auto simp: preserves_def monad_defs table_state_def split: prod.splits)

lemma table_write8: "preserves (\<lambda>s. table_state s = core) (write8 a v)"
  unfolding write8_def write8_with_shadow_def observe_def on_memory_write_def
    report_use_after_free_def report_heap_overflow_def report_once_def
  by (intro pres table_prims)

lemma table_stores:
  "preserves (\<lambda>s. table_state s = core) (write32 a v)"
  "preserves (\<lambda>s. table_state s = core) (copy_to_guest a bytes)"
  unfolding write32_def copy_to_guest_def by (intro pres table_write8)+

lemma table_sockaddr: "preserves (\<lambda>s. table_state s = core) (copy_answered_sockaddr a la len i ans)"
  unfolding copy_answered_sockaddr_def copy_sockaddr_to_guest_def by (intro pres table_stores)

lemma preserves_run: "preserves (\<lambda>s. f s = f s0) m \<Longrightarrow> m s0 = (r, t) \<Longrightarrow> f t = f s0"
  by (drule preservesD [of _ m s0]) auto

lemma registered_same:
  "table_state s = table_state t \<Longrightarrow> table_state (registered h fd s) = table_state (registered h fd t)"
  by (simp add: registered_def table_state_def Let_def)

lemma registered_fold_same:
  "table_state s = table_state t \<Longrightarrow>
     table_state (fold (registered h) fds s) = table_state (fold (registered h) fds t)"
proof (induction fds arbitrary: s t)
  case (Cons fd fds)
  show ?case unfolding fold_Cons comp_def by (intro Cons.IH registered_same Cons.prems)
qed simp

lemma write_fds_run:
  "write_guest_fds h address fds s = (Inr (), t) \<Longrightarrow>
     table_state t = table_state (fold (registered h) fds s)"
proof (induction h address fds arbitrary: s rule: write_guest_fds.induct)
  case (2 h address fd fds)
  obtain r1 s1 where w: "write32 address (of_int fd) s = (r1, s1)" by fastforce
  then have r1: "r1 = Inr ()" and rest: "write_guest_fds h (address + 4) fds (registered h fd s1) = (Inr (), t)"
    using 2(2) by (auto simp: seq_def bind_def register_run split: sum.splits)
  have "table_state s1 = table_state s"
    by (rule preserves_run [where f = table_state, OF table_stores(1) w])
  then have "table_state (fold (registered h) fds (registered h fd s1)) =
      table_state (fold (registered h) fds (registered h fd s))"
    by (intro registered_fold_same registered_same)
  with 2(1) [OF rest] show ?case unfolding fold_Cons comp_def by (rule trans)
qed (simp add: return_def)

lemma pair_run:
  fixes h s name args
  defines "a \<equiv> answer h s name args" and "u \<equiv> logged s name args"
  shows "(ans_rc a < 0 \<longrightarrow> new_fd_pair h name args address s = (Inr (of_int (- ans_errno a)), u)) \<and>
    (\<forall>v t. ans_rc a \<ge> 0 \<and> new_fd_pair h name args address s = (Inr v, t) \<longrightarrow>
       v = 0 \<and> table_state t = table_state (registered h (out_int a 1 0) (registered h (out_int a 0 0) u)))"
proof -
  have "new_fd_pair h name args address s =
      (if ans_rc a < 0 then (Inr (of_int (- ans_errno a)), u)
       else seq (write_guest_fds h address [out_int a 0 0, out_int a 1 0]) (return 0) u)"
    unfolding new_fd_pair_def host_then_run a_def u_def by (simp add: syscall_error_def)
  moreover have "v = 0 \<and> table_state t = table_state (registered h (out_int a 1 0) (registered h (out_int a 0 0) u))"
    if "seq (write_guest_fds h address [out_int a 0 0, out_int a 1 0]) (return 0) u = (Inr v, t)" for v :: u64 and t
    using that write_fds_run [of h address "[out_int a 0 0, out_int a 1 0]" u]
    by (auto simp: seq_def bind_def return_def simp del: write_guest_fds.simps split: prod.splits sum.splits)
  ultimately show ?thesis by (simp del: write_guest_fds.simps)
qed

lemma accept_run:
  fixes h name flags s arg1 arg2 arg3 len
  assumes "if arg3 = 0 then len = 0 else read32 (s_mmu s) arg3 = Inr len"
  defines "args \<equiv> HInt (to_int arg1) # address_args arg2 arg3 len @ flags"
  defines "a \<equiv> answer h s name args" and "u \<equiv> logged s name args"
  shows "(ans_rc a < 0 \<longrightarrow> accept_with name flags h arg1 arg2 arg3 s = (Inr (of_int (- ans_errno a)), u)) \<and>
    (\<forall>r t. ans_rc a \<ge> 0 \<and> accept_with name flags h arg1 arg2 arg3 s = (r, t) \<longrightarrow>
       (\<forall>v. r = Inr v \<longrightarrow> v = of_int (ans_rc a)) \<and> table_state t = table_state (registered h (ans_rc a) u))"
proof -
  have "read_socklen arg3 s = (Inr len, s)"
    using assms(1) by (simp add: read_socklen_def read_guest32_def monad_defs split: if_splits)
  then have run: "accept_with name flags h arg1 arg2 arg3 s =
      (if ans_rc a < 0 then (Inr (of_int (- ans_errno a)), u)
       else seq (copy_answered_sockaddr arg2 arg3 len 0 a) (return_rc a) (registered h (ans_rc a) u))"
    unfolding accept_with_def bind_def [of "read_socklen arg3"] a_def u_def args_def
    by (simp add: host_then_run syscall_error_def seq_def bind_def register_run)
  have "(\<forall>v. r = Inr v \<longrightarrow> v = of_int (ans_rc a)) \<and> table_state t = table_state (registered h (ans_rc a) u)"
    if "seq (copy_answered_sockaddr arg2 arg3 len 0 a) (return_rc a) (registered h (ans_rc a) u) = (r, t)" for r t
  proof -
    obtain r1 t1 where c: "copy_answered_sockaddr arg2 arg3 len 0 a (registered h (ans_rc a) u) = (r1, t1)"
      by fastforce
    have "table_state t1 = table_state (registered h (ans_rc a) u)"
      by (rule preserves_run [where f = table_state, OF table_sockaddr c])
    then show ?thesis using that c
      by (auto simp: seq_def bind_def return_rc_def return_def split: sum.splits)
  qed
  with run show ?thesis by simp
qed

lemma fcntl_run:
  fixes h s arg1 arg2 arg3
  defines "args \<equiv> [HInt (to_int arg1), HInt (to_int arg2), HInt (to_long arg3)]"
  defines "a \<equiv> answer h s ''fcntl'' args"
  assumes "ans_rc a < 2147483648"
  shows "sys_fcntl h arg1 arg2 arg3 s =
    (if arg2 = 0 \<or> arg2 = 1030 then makes_descriptor h ''fcntl'' args s
     else (Inr (syscall_result a), logged s ''fcntl'' args))"
proof -
  have "sint (of_int (ans_rc a) :: u32) = ans_rc a" if "0 \<le> ans_rc a"
    using that assms(3) by (simp add: signed_of_int signed_take_bit_int_eq_self)
  then show ?thesis
    unfolding sys_fcntl_def host_then_run a_def args_def
    by (auto simp: makes_descriptor_def register_run seq_def bind_def return_rc_def return_def when_do_def
        syscall_error_def syscall_result_def Let_def)
qed

text \<open>
  What a caller sees of a call that makes two descriptors, and of one that accepts a connection: on
  an error nothing but the log changes; a result that is not a fault tells the new descriptors,
  whose paths are in the table.
\<close>

definition makes_pair ::
  "os \<Rightarrow> string \<Rightarrow> host_arg list \<Rightarrow> machine \<Rightarrow> (exn + u64) \<times> machine \<Rightarrow> bool" where
  "makes_pair h name args s result =
     (let a = answer h s name args; t = logged s name args in
      if ans_rc a < 0 then result = (Inr (of_int (- ans_errno a)), t)
      else \<forall>v. fst result = Inr v \<longrightarrow> v = 0 \<and>
        table_state (snd result) = table_state (registered h (out_int a 1 0) (registered h (out_int a 0 0) t)))"

definition makes_connection ::
  "os \<Rightarrow> string \<Rightarrow> host_arg list \<Rightarrow> machine \<Rightarrow> (exn + u64) \<times> machine \<Rightarrow> bool" where
  "makes_connection h name args s result =
     (let a = answer h s name args; t = logged s name args in
      if ans_rc a < 0 then result = (Inr (of_int (- ans_errno a)), t)
      else table_state (snd result) = table_state (registered h (ans_rc a) t) \<and>
        (\<forall>v. fst result = Inr v \<longrightarrow> v = of_int (ans_rc a)))"

lemma makes_pair_run: "makes_pair h name args s (new_fd_pair h name args address s)"
  using pair_run [of h s name args address]
  by (cases "new_fd_pair h name args address s") (auto simp: makes_pair_def Let_def)

lemma makes_connection_run:
  assumes "if arg3 = 0 then len = 0 else read32 (s_mmu s) arg3 = Inr len"
  shows "makes_connection h name (HInt (to_int arg1) # address_args arg2 arg3 len @ flags) s
    (accept_with name flags h arg1 arg2 arg3 s)"
  using accept_run [OF assms, of h name arg1 arg2 flags]
  by (cases "accept_with name flags h arg1 arg2 arg3 s") (auto simp: makes_connection_def Let_def)

lemma read_path_run: "read_c_string (s_mmu s) a 1048576 = Inr path \<Longrightarrow> bind (read_path a) k s = k path s"
  by (simp add: read_path_def monad_defs)

text \<open>What each handler that makes or closes descriptors does.\<close>

lemma descriptor_handlers:
  "read_c_string (s_mmu s) arg1 1048576 = Inr path \<Longrightarrow> sys_open h arg1 arg2 arg3 s =
     makes_descriptor h ''open'' [HIn path, HInt (to_int arg2), HInt (to_unsigned arg3)] s"
  "read_c_string (s_mmu s) arg2 1048576 = Inr path \<Longrightarrow> sys_openat h arg1 arg2 arg3 arg4 s =
     makes_descriptor h ''openat''
       [HInt (to_int arg1), HIn path, HInt (to_int arg3), HInt (to_unsigned arg4)] s"
  "sys_dup h arg1 s = makes_descriptor h ''dup'' [HInt (to_int arg1)] s"
  "sys_dup2 h arg1 arg2 s = makes_descriptor h ''dup2'' [HInt (to_int arg1), HInt (to_int arg2)] s"
  "sys_dup3 h arg1 arg2 arg3 s =
     makes_descriptor h ''dup3'' [HInt (to_int arg1), HInt (to_int arg2), HInt (to_int arg3)] s"
  "sys_socket h arg1 arg2 arg3 s =
     makes_descriptor h ''socket'' [HInt (to_int arg1), HInt (to_int arg2), HInt (to_int arg3)] s"
  "sys_epoll_create1 h arg1 s = makes_descriptor h ''epoll_create1'' [HInt (to_int arg1)] s"
  "makes_pair h ''pipe'' [HFields [0, 0]] s (sys_pipe h arg1 s)"
  "makes_pair h ''pipe2'' [HFields [0, 0], HInt (to_int arg2)] s (sys_pipe2 h arg1 arg2 s)"
  "makes_pair h ''socketpair''
     [HInt (to_int arg1), HInt (to_int arg2), HInt (to_int arg3), HFields [0, 0]] s
     (sys_socketpair h arg1 arg2 arg3 arg4 s)"
  "if arg3 = 0 then len = 0 else read32 (s_mmu s) arg3 = Inr len \<Longrightarrow>
     makes_connection h ''accept'' (HInt (to_int arg1) # address_args arg2 arg3 len) s
       (sys_accept h arg1 arg2 arg3 s)"
  "if arg3 = 0 then len = 0 else read32 (s_mmu s) arg3 = Inr len \<Longrightarrow>
     makes_connection h ''accept4'' (HInt (to_int arg1) # address_args arg2 arg3 len @ [HInt (to_int arg4)]) s
       (sys_accept4 h arg1 arg2 arg3 arg4 s)"
  unfolding sys_open_def sys_openat_def sys_dup_def sys_dup2_def sys_dup3_def sys_socket_def
    sys_epoll_create1_def sys_pipe_def sys_pipe2_def sys_socketpair_def sys_accept_def sys_accept4_def
  by (simp_all only: make_run read_path_run makes_pair_run makes_connection_run
      makes_connection_run [where flags = "[]", unfolded append_Nil2])

lemma close_run:
  "sys_close h arg1 s =
     (let fd = to_int arg1; a = answer h s ''close'' [HInt fd]; t = logged s ''close'' [HInt fd] in
      if ans_rc a < 0 then (Inr (of_int (- ans_errno a)), t)
      else (Inr 0, t\<lparr>s_emu := (s_emu s)\<lparr>e_fd_paths := (e_fd_paths (s_emu s))(fd := None)\<rparr>\<rparr>))"
  by (simp add: sys_close_def host_then_run syscall_error_def unregister_host_fd_def monad_defs Let_def)

text \<open>With the trace of calls off, dispatching only selects the handler.\<close>

lemma dispatch_untraced:
  assumes "\<not> opt_trace_syscalls (e_options (s_emu s))"
  shows "dispatch h number s =
    (let c = s_cpu s; arg1 = c_gpr c RDI; arg2 = c_gpr c RSI; arg3 = c_gpr c RDX;
         arg4 = c_gpr c R10; arg5 = c_gpr c R8; arg6 = c_gpr c R9 in
     (dispatch_files h number arg1 arg2 arg3 arg4 arg5 arg6
     (dispatch_process h number arg1 arg2 arg3 arg4 arg5 arg6
     (dispatch_events h number arg1 arg2 arg3 arg4 arg5 arg6
     (dispatch_sockets h number arg1 arg2 arg3 arg4 arg5 arg6
     (dispatch_time h number arg1 arg2 arg3 arg4 arg5 arg6
     (dispatch_signals h number arg1 arg2 arg3 arg4 arg5 arg6
     (throw (EmulatorError (UnimplementedSyscall number (syscall_name number)))))))))) s)"
  using assms by (simp add: dispatch_def trace_message_def monad_defs Let_def)

lemma dispatch_descriptors:
  assumes "\<not> opt_trace_syscalls (e_options (s_emu s))"
  shows "dispatch h 2 s = sys_open h (c_gpr (s_cpu s) RDI) (c_gpr (s_cpu s) RSI) (c_gpr (s_cpu s) RDX) s"
    and "dispatch h 257 s = sys_openat h (c_gpr (s_cpu s) RDI) (c_gpr (s_cpu s) RSI) (c_gpr (s_cpu s) RDX)
      (c_gpr (s_cpu s) R10) s"
    and "dispatch h 3 s = sys_close h (c_gpr (s_cpu s) RDI) s"
    and "dispatch h 32 s = sys_dup h (c_gpr (s_cpu s) RDI) s"
    and "dispatch h 33 s = sys_dup2 h (c_gpr (s_cpu s) RDI) (c_gpr (s_cpu s) RSI) s"
    and "dispatch h 292 s = sys_dup3 h (c_gpr (s_cpu s) RDI) (c_gpr (s_cpu s) RSI) (c_gpr (s_cpu s) RDX) s"
    and "dispatch h 22 s = sys_pipe h (c_gpr (s_cpu s) RDI) s"
    and "dispatch h 293 s = sys_pipe2 h (c_gpr (s_cpu s) RDI) (c_gpr (s_cpu s) RSI) s"
    and "dispatch h 72 s = sys_fcntl h (c_gpr (s_cpu s) RDI) (c_gpr (s_cpu s) RSI) (c_gpr (s_cpu s) RDX) s"
  unfolding dispatch_untraced [OF assms] by (simp_all add: dispatch_files_def Let_def)

lemma dispatch_socket_descriptors:
  assumes "\<not> opt_trace_syscalls (e_options (s_emu s))"
  shows "dispatch h 291 s = sys_epoll_create1 h (c_gpr (s_cpu s) RDI) s"
    and "dispatch h 41 s = sys_socket h (c_gpr (s_cpu s) RDI) (c_gpr (s_cpu s) RSI) (c_gpr (s_cpu s) RDX) s"
    and "dispatch h 53 s = sys_socketpair h (c_gpr (s_cpu s) RDI) (c_gpr (s_cpu s) RSI) (c_gpr (s_cpu s) RDX)
      (c_gpr (s_cpu s) R10) s"
    and "dispatch h 43 s = sys_accept h (c_gpr (s_cpu s) RDI) (c_gpr (s_cpu s) RSI) (c_gpr (s_cpu s) RDX) s"
    and "dispatch h 288 s = sys_accept4 h (c_gpr (s_cpu s) RDI) (c_gpr (s_cpu s) RSI) (c_gpr (s_cpu s) RDX)
      (c_gpr (s_cpu s) R10) s"
  unfolding dispatch_untraced [OF assms]
  by (simp_all add: dispatch_files_def dispatch_process_def dispatch_events_def dispatch_sockets_def Let_def)

text \<open>
  C27. With the trace of calls off, dispatching each call that makes descriptors asks the host once
  and, if the host does not fail, records the path of every new descriptor, the name the link in
  \<^verbatim>\<open>/proc/self/fd\<close> then has, under its number: \<^verbatim>\<open>open\<close> and \<^verbatim>\<open>openat\<close> once their path is read,
  \<^verbatim>\<open>dup\<close>, \<^verbatim>\<open>dup2\<close>, \<^verbatim>\<open>dup3\<close>, \<^verbatim>\<open>socket\<close>, \<^verbatim>\<open>epoll_create1\<close>, the two of \<^verbatim>\<open>pipe\<close>, \<^verbatim>\<open>pipe2\<close> and
  \<^verbatim>\<open>socketpair\<close> when storing the numbers does not fault, \<^verbatim>\<open>accept\<close> and \<^verbatim>\<open>accept4\<close> once the length
  of the address is read, even if storing the address then faults, and \<^verbatim>\<open>fcntl\<close> with the commands
  \<^verbatim>\<open>F_DUPFD\<close> and \<^verbatim>\<open>F_DUPFD_CLOEXEC\<close> only. \<^verbatim>\<open>close\<close> forgets the path. A host error is handed to the
  guest as its negated number, and the table is left alone.
\<close>

theorem descriptor_table:
  assumes off: "\<not> opt_trace_syscalls (e_options (s_emu s))"
  shows "let arg1 = c_gpr (s_cpu s) RDI; arg2 = c_gpr (s_cpu s) RSI;
      arg3 = c_gpr (s_cpu s) RDX; arg4 = c_gpr (s_cpu s) R10 in
    (\<forall>path. read_c_string (s_mmu s) arg1 1048576 = Inr path \<longrightarrow>
       dispatch h 2 s = makes_descriptor h ''open'' [HIn path, HInt (to_int arg2), HInt (to_unsigned arg3)] s) \<and>
    (\<forall>path. read_c_string (s_mmu s) arg2 1048576 = Inr path \<longrightarrow>
       dispatch h 257 s = makes_descriptor h ''openat''
         [HInt (to_int arg1), HIn path, HInt (to_int arg3), HInt (to_unsigned arg4)] s) \<and>
    dispatch h 32 s = makes_descriptor h ''dup'' [HInt (to_int arg1)] s \<and>
    dispatch h 33 s = makes_descriptor h ''dup2'' [HInt (to_int arg1), HInt (to_int arg2)] s \<and>
    dispatch h 292 s = makes_descriptor h ''dup3'' [HInt (to_int arg1), HInt (to_int arg2), HInt (to_int arg3)] s \<and>
    dispatch h 41 s = makes_descriptor h ''socket'' [HInt (to_int arg1), HInt (to_int arg2), HInt (to_int arg3)] s \<and>
    dispatch h 291 s = makes_descriptor h ''epoll_create1'' [HInt (to_int arg1)] s \<and>
    makes_pair h ''pipe'' [HFields [0, 0]] s (dispatch h 22 s) \<and>
    makes_pair h ''pipe2'' [HFields [0, 0], HInt (to_int arg2)] s (dispatch h 293 s) \<and>
    makes_pair h ''socketpair'' [HInt (to_int arg1), HInt (to_int arg2), HInt (to_int arg3), HFields [0, 0]] s
      (dispatch h 53 s) \<and>
    (\<forall>len. (if arg3 = 0 then len = 0 else read32 (s_mmu s) arg3 = Inr len) \<longrightarrow>
       makes_connection h ''accept'' (HInt (to_int arg1) # address_args arg2 arg3 len) s (dispatch h 43 s) \<and>
       makes_connection h ''accept4'' (HInt (to_int arg1) # address_args arg2 arg3 len @ [HInt (to_int arg4)]) s
         (dispatch h 288 s)) \<and>
    (let args = [HInt (to_int arg1), HInt (to_int arg2), HInt (to_long arg3)]; a = answer h s ''fcntl'' args in
     ans_rc a < 2147483648 \<longrightarrow> dispatch h 72 s =
       (if arg2 = 0 \<or> arg2 = 1030 then makes_descriptor h ''fcntl'' args s
        else (Inr (syscall_result a), logged s ''fcntl'' args))) \<and>
    (let fd = to_int arg1; a = answer h s ''close'' [HInt fd]; t = logged s ''close'' [HInt fd] in
     dispatch h 3 s =
       (if ans_rc a < 0 then (Inr (of_int (- ans_errno a)), t)
        else (Inr 0, t\<lparr>s_emu := (s_emu s)\<lparr>e_fd_paths := (e_fd_paths (s_emu s))(fd := None)\<rparr>\<rparr>)))"
  unfolding Let_def dispatch_descriptors [OF off] dispatch_socket_descriptors [OF off]
  by (intro conjI allI impI descriptor_handlers fcntl_run close_run [unfolded Let_def]) assumption+

theorem descriptor_table_witness:
  "\<exists>t. dispatch two_bytes_host 32 quiet_machine = (Inr 2, t) \<and>
     e_fd_paths (s_emu t) = [2 \<mapsto> string_of_bytes [7, 9]]"
proof -
  have off: "\<not> opt_trace_syscalls (e_options (s_emu quiet_machine))"
    by (simp add: quiet_machine_def initial_machine_def initial_emulator_def)
  have paths: "e_fd_paths (s_emu quiet_machine) = Map.empty"
    by (simp add: quiet_machine_def initial_machine_def initial_emulator_def)
  have "dispatch two_bytes_host 32 quiet_machine = makes_descriptor two_bytes_host ''dup''
      [HInt (to_int (c_gpr (s_cpu quiet_machine) RDI))] quiet_machine"
    using descriptor_table [OF off, of two_bytes_host] unfolding Let_def by simp
  then show ?thesis
    by (simp add: makes_descriptor_def registered_def two_bytes_host_def out_buffer_def overlay_def paths
        c_string_def Let_def)
qed

section \<open>Unknown calls\<close>

text \<open>
  C28. A call the emulator does not know raises an error that names its number and changes nothing
  but the trace; the name in the message is always \<^verbatim>\<open>unknown\<close>. The calls it knows are those in
  the table of names and \<^verbatim>\<open>futex\<close>, which the table lacks.
\<close>

theorem unknown_call:
  assumes "number \<notin> fst ` set syscall_names" and "number \<noteq> 202"
  shows "\<exists>s'. dispatch h number s =
      (Inl (EmulatorError (UnimplementedSyscall number ''unknown'')), s') \<and>
    s'\<lparr>s_stderr := s_stderr s\<rparr> = s \<and> syscall_name 202 = ''unknown''"
proof -
  have "map_of syscall_names number = None" using assms(1) by (simp add: map_of_eq_None_iff)
  then have name: "syscall_name number = ''unknown''" by (simp add: syscall_name_def)
  have futex: "syscall_name 202 = ''unknown''" by (simp add: syscall_name_def call_name_defs)
  note n = assms [unfolded call_name_defs, simplified]
  have fall: "dispatch_files h number a1 a2 a3 a4 a5 a6 k1 = k1"
    "dispatch_process h number a1 a2 a3 a4 a5 a6 k2 = k2"
    "dispatch_events h number a1 a2 a3 a4 a5 a6 k3 = k3"
    "dispatch_sockets h number a1 a2 a3 a4 a5 a6 k4 = k4"
    "dispatch_time h number a1 a2 a3 a4 a5 a6 k5 = k5"
    "dispatch_signals h number a1 a2 a3 a4 a5 a6 k6 = k6" for a1 a2 a3 a4 a5 a6 k1 k2 k3 k4 k5 k6
    using n by (simp_all add: dispatch_files_def dispatch_process_def dispatch_events_def
        dispatch_sockets_def dispatch_time_def dispatch_signals_def)
  show ?thesis
    by (simp add: dispatch_def fall name futex trace_message_def monad_defs Let_def)
qed

theorem unknown_call_witness:
  "fst (dispatch silent_host 435 quiet_machine) =
     Inl (EmulatorError (UnimplementedSyscall 435 ''unknown''))"
  using unknown_call [of 435 silent_host quiet_machine] by (auto simp: call_name_defs)

end
