(* ===== verification/Shadow_Laws.thy ===== *)
theory Shadow_Laws
  imports Guest_Laws
begin

text \<open>
  The memory of bytes with their initialisation bits: what a store with a shadow leaves and a load
  with a shadow finds (\<^verbatim>\<open>src/SoftMMU.cpp\<close>). Memory keeps one bit per byte, so a shadow comes
  back widened to whole bytes.
\<close>

section \<open>Shadows in whole bytes\<close>

definition smear_bytes :: "'a::len word \<Rightarrow> 'a word" where
  "smear_bytes sh = foldr (\<lambda>i acc. (if word_byte sh i \<noteq> 0 then push_bit (i * 8) 0xff else 0) OR acc)
     [0..<LENGTH('a) div 8] 0"

lemma bit_ff: "bit (0xff :: 'a::len word) n \<longleftrightarrow> n < 8 \<and> n < LENGTH('a)"
proof -
  have "(0xff :: 'a word) = mask 8" by (simp add: mask_eq_exp_minus_1)
  then show ?thesis by (simp only: bit_mask_iff) auto
qed

lemma bit_byte_ff: "bit (push_bit (i * 8) 0xff :: 'a::len word) n \<longleftrightarrow> n < LENGTH('a) \<and> n div 8 = i"
  unfolding bit_push_bit_iff bit_ff by (cases "n < i * 8") auto

lemma bit_smear_fold:
  "bit (foldr (\<lambda>i acc. (if P i then push_bit (i * 8) 0xff else 0) OR acc) ks 0 :: 'a::len word) n \<longleftrightarrow>
     n < LENGTH('a) \<and> n div 8 \<in> set ks \<and> P (n div 8)"
  by (induction ks) (auto simp: bit_or_iff bit_byte_ff)

lemma bit_smear:
  fixes sh :: "'a::len word"
  assumes "8 dvd LENGTH('a)"
  shows "bit (smear_bytes sh) n \<longleftrightarrow> n < LENGTH('a) \<and> word_byte sh (n div 8) \<noteq> 0"
proof -
  from assms obtain k where k: "LENGTH('a) = 8 * k" by (rule dvdE)
  then have "n < LENGTH('a) \<Longrightarrow> n div 8 < LENGTH('a) div 8" by simp
  then show ?thesis unfolding smear_bytes_def bit_smear_fold by auto
qed

section \<open>Bytes with their initialisation\<close>

definition shadowed :: "u8 \<times> bool \<Rightarrow> u8 value_with_shadow" where
  "shadowed b = (if snd b then vs_initialized (fst b) else vs_uninitialized (fst b))"

definition read_cell :: "mmu \<Rightarrow> u64 \<Rightarrow> exn + u8 \<times> bool" where
  "read_cell m a =
    (case cell_at m a of
       None \<Rightarrow> Inl (EmulatorError (UnmappedMemory a))
     | Some c \<Rightarrow>
         if cell_allows ProtRead c then Inr (cell_byte c, cell_init c)
         else Inl (EmulatorError (PermissionFault a)))"

definition write_cell :: "u64 \<Rightarrow> u8 \<times> bool \<Rightarrow> (machine, unit) smon" where
  "write_cell a b = write8_with_shadow a (shadowed b)"

lemma write_shadow_cell: "write8_with_shadow a v = write_cell a (vs_value v, is_initialized v)"
  by (simp add: write_cell_def write8_with_shadow_def shadowed_def)

lemma read_shadow_cell:
  assumes "quiet_wf s"
  shows "read8_with_shadow a s =
    (case read_cell (s_mmu s) a of Inl e \<Rightarrow> Inl e | Inr b \<Rightarrow> Inr (shadowed b), s)"
proof (cases "find_region (s_mmu s) a")
  case None
  then show ?thesis
    by (simp add: read8_with_shadow_def region_for_def read_cell_def cell_at_def monad_defs)
next
  case (Some r)
  from assms have wf: "regions_wf (m_regions (s_mmu s))" by (simp add: quiet_wf_def mmu_wf_def)
  show ?thesis
    using assms Some find_region_wf [OF wf Some] region_index(2,3) [of r a]
    by (auto simp: read8_with_shadow_def region_for_def read_cell_def cell_at_def region_cell_def
        cell_allows_def read_offset_with_shadow_def read_offset_def is_offset_initialized_def
        observe_def quiet_wf_def untraced_def shadowed_def monad_defs)
qed

lemma write_cell_untraced: "untraced s \<Longrightarrow> write_cell a b s = on_mmu (store8 a (fst b) (snd b)) s"
  using write8_untraced
  by (auto simp: write_cell_def shadowed_def write8_with_shadow_def observe_def untraced_def
      store8_def with_region_def monad_defs split: sum.splits prod.splits)

interpretation guest_cells: cell_memory "\<lambda>s. read_cell (s_mmu s)" write_cell quiet_wf
  "\<lambda>s. open_byte (s_mmu s)" "\<lambda>s. (mmu_layout (s_mmu s), outside_memory s)"
proof unfold_locales
  fix s a b assume q: "quiet_wf s" and o: "open_byte (s_mmu s) a"
  then have wf: "mmu_wf (s_mmu s)" and w: "accessible (s_mmu s) ProtWrite a" and u: "untraced s"
    by (auto simp: quiet_wf_def open_byte_def)
  from store8_run [OF wf w, of "fst b" "snd b"] obtain m' where
    m': "store8 a (fst b) (snd b) (s_mmu s) = (Inr (), m')" "mmu_wf m'" "mmu_layout m' = mmu_layout (s_mmu s)"
      "cell_at m' = (cell_at (s_mmu s))(a := map_option (set_cell_value (fst b) (snd b)) (cell_at (s_mmu s) a))"
    by blast
  have "accessible m' prot x = accessible (s_mmu s) prot x" for prot x
    by (auto simp: accessible_def m'(4) set_cell_value_def cell_allows_def split: option.split)
  then have "open_byte m' = open_byte (s_mmu s)" by (simp add: open_byte_def fun_eq_iff)
  moreover have "read_cell m' x = ((read_cell (s_mmu s))(a := Inr b)) x" for x
    using o by (auto simp: read_cell_def m'(4) open_byte_def accessible_def set_cell_value_def
        cell_allows_def split: option.splits)
  then have "read_cell m' = (read_cell (s_mmu s))(a := Inr b)" by (rule ext)
  ultimately show "\<exists>s'. write_cell a b s = (Inr (), s') \<and> quiet_wf s' \<and>
      open_byte (s_mmu s') = open_byte (s_mmu s) \<and>
      (mmu_layout (s_mmu s'), outside_memory s') = (mmu_layout (s_mmu s), outside_memory s) \<and>
      read_cell (s_mmu s') = (read_cell (s_mmu s))(a := Inr b)"
    using m' u by (intro exI [of _ "s\<lparr>s_mmu := m'\<rparr>"])
      (simp add: write_cell_untraced on_mmu_def quiet_wf_def untraced_def outside_memory_def)
qed

section \<open>Words\<close>

lemma read_shadow_bits:
  fixes v sh :: "'a::len word"
  assumes "quiet_wf s" and "8 dvd LENGTH('a)" and "8 * (i + n) \<le> LENGTH('a)"
    and "\<And>j. i \<le> j \<Longrightarrow> j < i + n \<Longrightarrow>
      read_cell (s_mmu s) (a + of_nat j) = Inr (word_byte v j, word_byte sh j = 0)"
  shows "read_shadow_loop a i n (take_bit (8 * i) v) (take_bit (8 * i) (smear_bytes sh)) s =
    (Inr \<lparr>vs_value = take_bit (8 * (i + n)) v,
          vs_shadow = take_bit (8 * (i + n)) (smear_bytes sh)\<rparr>, s)"
  using assms
proof (induction n arbitrary: i)
  case 0
  then show ?case by (simp add: return_def)
next
  case (Suc n)
  have i: "8 * Suc i \<le> LENGTH('a)" using Suc.prems(3) by simp
  have val: "take_bit (8 * i) v OR push_bit (i * 8) (ucast (word_byte v i)) = take_bit (8 * Suc i) v"
    using i by (intro bit_eqI) (auto simp: bit_simps word_byte_def mult.commute)
  have range: "n < 8 * Suc i \<longleftrightarrow> n < 8 * i \<or> n div 8 = i" for n :: nat by auto
  have shadow: "(if word_byte sh i = 0 then take_bit (8 * i) (smear_bytes sh)
      else take_bit (8 * i) (smear_bytes sh) OR push_bit (i * 8) 0xff) = take_bit (8 * Suc i) (smear_bytes sh)"
    by (rule bit_eqI)
      (auto simp: bit_take_bit_iff bit_or_iff bit_byte_ff bit_smear [OF Suc.prems(2)] range simp del: mult_Suc_right)
  have "read8_with_shadow (a + of_nat i) s = (Inr (shadowed (word_byte v i, word_byte sh i = 0)), s)"
    using Suc.prems(4) [of i] by (simp add: read_shadow_cell [OF Suc.prems(1)])
  moreover have "read_shadow_loop a (Suc i) n (take_bit (8 * Suc i) v)
      (take_bit (8 * Suc i) (smear_bytes sh)) s =
    (Inr \<lparr>vs_value = take_bit (8 * (Suc i + n)) v,
          vs_shadow = take_bit (8 * (Suc i + n)) (smear_bytes sh)\<rparr>, s)"
    using Suc.prems by (intro Suc.IH) auto
  ultimately show ?case
    using val shadow
    by (cases "word_byte sh i = 0") (simp_all add: bind_def shadowed_def del: mult_Suc_right)
qed

lemma read8_cell_value: "quiet_wf s \<Longrightarrow> read8 (s_mmu s) a = (case read_cell (s_mmu s) a of Inl e \<Rightarrow> Inl e | Inr b \<Rightarrow> Inr (fst b))"
  by (auto simp: read8_cell quiet_wf_def mmu_wf_def read_cell_def split: option.split)

lemma write64_as_shadow: "write64 a w = write64_with_shadow a (vs_initialized w)"
  by (simp add: write64_def write64_with_shadow_def write_shadow_loop_def write8_def vs_initialized_def)

text \<open>
  C18. Store and load: with the tracer off, storing a 64-bit value with its shadow to eight bytes
  that may be read and written succeeds; loading it with its shadow gives the value back, and a
  shadow that marks exactly the bytes of which some bit was uninitialised; a plain load gives the
  value. Every byte outside the word reads as before, with its initialisation, and nothing but
  memory changes. The word may lie across a page or region boundary and may wrap round the end of the
  address space. A plain store is the store of an initialised value.
\<close>

theorem store_load_shadow:
  assumes "mmu_wf (s_mmu s)" and "untraced s"
    and "\<And>j. j < 8 \<Longrightarrow> open_byte (s_mmu s) (a + of_nat j)"
  shows "(\<exists>s'. write64_with_shadow a v s = (Inr (), s') \<and>
      read64_with_shadow a s' =
        (Inr \<lparr>vs_value = vs_value v, vs_shadow = smear_bytes (vs_shadow v)\<rparr>, s') \<and>
      read64 (s_mmu s') a = Inr (vs_value v) \<and>
      (\<forall>x. 8 \<le> unat (x - a) \<longrightarrow> fst (read8_with_shadow x s') = fst (read8_with_shadow x s)) \<and>
      mmu_wf (s_mmu s') \<and> mmu_layout (s_mmu s') = mmu_layout (s_mmu s) \<and>
      s'\<lparr>s_mmu := s_mmu s\<rparr> = s) \<and>
    write64 a w = write64_with_shadow a (vs_initialized w)"
proof -
  have q: "quiet_wf s" using assms(1,2) by (simp add: quiet_wf_def)
  let ?b = "\<lambda>j. (word_byte (vs_value v) j, word_byte (vs_shadow v) j = 0)"
  have run: "write64_with_shadow a v = for_loop 0 8 (\<lambda>j. write_cell (a + of_nat j) (?b j))"
    unfolding write64_with_shadow_def write_shadow_loop_def write_shadow_cell
    by (simp add: is_initialized_def word_byte_def)
  from guest_cells.wr_loop_run [OF q, where a = a and i = 0 and n = 8 and f = ?b] obtain s' where
    s': "write64_with_shadow a v s = (Inr (), s')" "quiet_wf s'"
      "mmu_layout (s_mmu s') = mmu_layout (s_mmu s)" "outside_memory s' = outside_memory s"
    and cells: "read_cell (s_mmu s') =
      (\<lambda>x. let j = unat (x - a) in if j < 8 then Inr (?b j) else read_cell (s_mmu s) x)"
    using assms(3) unfolding run by (auto simp: Let_def)
  have bytes: "read_cell (s_mmu s') (a + of_nat j) = Inr (?b j)" if "j < 8" for j
    using that by (simp add: cells of_nat_unat_u64 Let_def)
  have full: "take_bit 64 x = x" for x :: u64 using take_bit_length_eq [where 'a = 64] by simp
  have "read64_with_shadow a s' = (Inr \<lparr>vs_value = vs_value v, vs_shadow = smear_bytes (vs_shadow v)\<rparr>, s')"
    using read_shadow_bits [OF s'(2), of 0 8 a "vs_value v" "vs_shadow v"] bytes
    by (simp add: read64_with_shadow_def full)
  moreover have "read64 (s_mmu s') a = Inr (vs_value v)"
    using bytes by (intro read64_bytes) (simp add: read8_cell_value [OF s'(2)])
  moreover have "fst (read8_with_shadow x s') = fst (read8_with_shadow x s)" if "8 \<le> unat (x - a)" for x
    using that by (simp add: read_shadow_cell s'(2) q cells Let_def)
  moreover have "s'\<lparr>s_mmu := s_mmu s\<rparr> = s"
  proof -
    have "s' = (outside_memory s')\<lparr>s_mmu := s_mmu s'\<rparr>" by (simp add: outside_memory_def)
    then have "s' = s\<lparr>s_mmu := s_mmu s'\<rparr>" unfolding s'(4) by (simp add: outside_memory_def)
    then show ?thesis by (rule ssubst) simp
  qed
  ultimately show ?thesis
    using s'(1,2,3) write64_as_shadow by (intro conjI exI [of _ s']) (simp_all add: quiet_wf_def)
qed

text \<open>A word of which one bit is uninitialised, across a page boundary.\<close>

theorem store_load_shadow_witness:
  "\<exists>s'. write64_with_shadow 0x10FFC \<lparr>vs_value = 0x1122334455667788, vs_shadow = 0x0100\<rparr>
       quiet_machine = (Inr (), s') \<and>
     read64_with_shadow 0x10FFC s' =
       (Inr \<lparr>vs_value = 0x1122334455667788, vs_shadow = 0xFF00\<rparr>, s')"
proof -
  have "open_byte (s_mmu quiet_machine) (0x10FFC + of_nat j)" if "j < 8" for j
    using that of_nat_unat_u64 [of j] unat_add_u64 [of "0x10FFC" "of_nat j"]
    by (intro quiet_machine_open) (simp add: in_pages_def pages_eval)
  moreover have "smear_bytes (0x0100 :: u64) = 0xFF00"
    by code_simp
  ultimately show ?thesis
    using store_load_shadow [OF quiet_machine_wf, of "0x10FFC"
        "\<lparr>vs_value = 0x1122334455667788, vs_shadow = 0x0100\<rparr>"] by fastforce
qed

end
