(* ===== verification/CPU_Laws.thy ===== *)
theory CPU_Laws
  imports CPU_Step
begin

text \<open>
  What the processor's arithmetic, flags and registers mean: \<open>add\<close> and \<open>sub\<close> over the natural
  and the signed values of their operands, the condition codes after a comparison, and the
  register file as an array of overlapping 8-, 16-, 32- and 64-bit registers.
\<close>

section \<open>Flags as independent bits\<close>

lemma flag_set_same: "f \<noteq> 0 \<Longrightarrow> flag f (set_flag f v c) = v"
proof -
  assume "f \<noteq> 0"
  moreover have "(x OR f) AND f = f" and "(x AND NOT f) AND f = 0" for x :: u64
    by (rule bit_eqI; auto simp: bit_simps)+
  ultimately show ?thesis by (simp add: flag_def set_flag_def)
qed

lemma flag_set_other: "f AND g = 0 \<Longrightarrow> flag g (set_flag f v c) = flag g c"
proof -
  assume fg: "f AND g = 0"
  have dis: "\<not> (bit f i \<and> bit g i)" for i using fg by (metis bit_and_iff bit_0_eq bot_apply bot_bool_def)
  have "(x OR f) AND g = x AND g" and "(x AND NOT f) AND g = x AND g" for x :: u64
    using dis by (auto simp: bit_simps intro!: bit_eqI)
  then show ?thesis by (simp add: flag_def set_flag_def)
qed

lemma flag_taint [simp]: "flag f (update_flags_taint c) = flag f c"
  by (simp add: flag_def update_flags_taint_def)

lemmas flag_simps = flag_set_same flag_set_other flag_defs

section \<open>Widths\<close>

definition operand_size :: "nat \<Rightarrow> bool" where
  "operand_size w \<longleftrightarrow> w = 8 \<or> w = 16 \<or> w = 32 \<or> w = 64"

definition nat_value :: "nat \<Rightarrow> u64 \<Rightarrow> nat" where
  "nat_value w x = unat x mod 2 ^ w"

definition signed_value :: "nat \<Rightarrow> u64 \<Rightarrow> int" where
  "signed_value w x =
     (if nat_value w x \<ge> 2 ^ (w - 1) then int (nat_value w x) - 2 ^ w else int (nat_value w x))"

lemma mask_for_width_mask: "w \<le> 64 \<Longrightarrow> mask_for_width w = mask w"
proof (cases "w = 64")
  case True
  have "mask 64 = (- 1 :: u64)" using mask_eq_exp_minus_1 [of 64, where 'a = "64 word"] by simp
  with True show ?thesis by (simp add: mask_for_width_def)
qed (simp add: mask_for_width_def mask_eq_exp_minus_1)

lemma unat_and_mask: "w \<le> 64 \<Longrightarrow> unat (x AND mask_for_width w) = nat_value w x"
  by (simp add: mask_for_width_mask take_bit_eq_mask [symmetric] unsigned_take_bit_eq nat_value_def)
     (simp add: take_bit_eq_mod)

lemma unat_mask_for_width: "operand_size w \<Longrightarrow> unat (mask_for_width w) = 2 ^ w - 1"
  by (auto simp: operand_size_def mask_for_width_def unsigned_minus_1_eq_mask mask_eq_exp_minus_1)

lemma nat_value_less: "nat_value w x < 2 ^ w"
  by (simp add: nat_value_def)

lemma sign_bit_iff:
  assumes "0 < w" "w \<le> 64"
  shows "x AND sign_bit_for_width w \<noteq> 0 \<longleftrightarrow> bit x (w - 1)"
proof -
  have "x AND push_bit (w - 1) 1 = (if bit x (w - 1) then push_bit (w - 1) 1 else 0)"
    by (rule bit_eqI) (auto simp: bit_simps)
  moreover have "push_bit (w - 1) (1 :: u64) \<noteq> 0"
    using assms by simp
  ultimately show ?thesis by (simp add: sign_bit_for_width_def)
qed

lemma bit_top_iff:
  assumes "0 < w"
  shows "bit x (w - 1) \<longleftrightarrow> nat_value w x \<ge> 2 ^ (w - 1)"
proof -
  have "bit x (w - 1) \<longleftrightarrow> odd (unat x div 2 ^ (w - 1))"
    using bit_iff_odd [of "unat x" "w - 1"] by (simp add: bit_unsigned_iff)
  moreover have "nat_value w x = unat x mod 2 ^ (w - 1) + 2 ^ (w - 1) * (unat x div 2 ^ (w - 1) mod 2)"
    using assms mod_mult2_eq [of "unat x" "2 ^ (w - 1)" 2]
    by (cases w) (simp_all add: nat_value_def mult.commute)
  moreover have "\<not> 2 ^ (w - 1) \<le> unat x mod 2 ^ (w - 1)" by (simp add: not_le)
  ultimately show ?thesis
    by (cases "odd (unat x div 2 ^ (w - 1))") (simp_all add: odd_iff_mod_2_eq_one even_iff_mod_2_eq_zero)
qed

lemma signed_value_neg: "signed_value w x < 0 \<longleftrightarrow> nat_value w x \<ge> 2 ^ (w - 1)"
proof -
  have "int (nat_value w x) < int (2 ^ w)" using nat_value_less [of w x] by (simp only: of_nat_less_iff)
  then show ?thesis by (simp add: signed_value_def)
qed

lemma sign_iff: "0 < w \<Longrightarrow> w \<le> 64 \<Longrightarrow> x AND sign_bit_for_width w \<noteq> 0 \<longleftrightarrow> signed_value w x < 0"
  by (simp only: sign_bit_iff bit_top_iff signed_value_neg)


section \<open>Addition and subtraction\<close>

definition to_signed :: "nat \<Rightarrow> nat \<Rightarrow> int" where
  "to_signed h a = (if a \<ge> h then int a - 2 * int h else int a)"

lemma signed_value_to_signed: "0 < w \<Longrightarrow> signed_value w x = to_signed (2 ^ (w - 1)) (nat_value w x)"
  by (cases w) (simp_all add: signed_value_def to_signed_def)

lemma mod_double: "k < 4 * h \<Longrightarrow> k mod (2 * h) = (if k < 2 * h then k else k - 2 * (h::nat))"
  by (simp add: mod_if)

lemma add_overflow:
  assumes "a < 2 * h" "b < 2 * h" "k \<le> 1" and "r = (a + b + k) mod (2 * h)"
  shows "(a \<ge> h \<longleftrightarrow> b \<ge> h) \<and> (a \<ge> h \<longleftrightarrow> \<not> r \<ge> h) \<longleftrightarrow>
    to_signed h a + to_signed h b + int k < - int h \<or> to_signed h a + to_signed h b + int k \<ge> int h"
proof -
  have "r = (if a + b + k < 2 * h then a + b + k else a + b + k - 2 * h)"
    using assms by (simp only: mod_double)
  then show ?thesis using assms(1-3) by (simp add: to_signed_def split: if_splits) linarith+
qed

lemma sub_overflow:
  assumes "a < 2 * h" "b < 2 * h" "k \<le> 1" and "r = (a + 2 * h - (b + k)) mod (2 * h)"
  shows "(a \<ge> h \<longleftrightarrow> \<not> b \<ge> h) \<and> (a \<ge> h \<longleftrightarrow> \<not> r \<ge> h) \<longleftrightarrow>
    to_signed h a - to_signed h b - int k < - int h \<or> to_signed h a - to_signed h b - int k \<ge> int h"
proof -
  have "r = (if a + 2 * h - (b + k) < 2 * h then a + 2 * h - (b + k) else a - (b + k))"
    using assms by (simp add: mod_double)
  then show ?thesis using assms(1-3) by (simp add: to_signed_def split: if_splits) linarith+
qed

lemma operand_size_pos: "operand_size w \<Longrightarrow> 0 < w \<and> w \<le> 64"
  by (auto simp: operand_size_def)

lemma nat_value_double: "operand_size w \<Longrightarrow> nat_value w x < 2 * 2 ^ (w - 1) \<and> 2 ^ w = 2 * 2 ^ (w - 1)"
  using nat_value_less [of w x] by (cases w) (auto simp: operand_size_def)

lemma nat_value_of_masked: "operand_size w \<Longrightarrow> nat_value w (x AND mask_for_width w) = nat_value w x"
  using unat_and_mask [of w x] nat_value_less [of w x] by (auto simp: nat_value_def operand_size_def)

definition carry_in :: "bool \<Rightarrow> cpu \<Rightarrow> nat" where
  "carry_in used c = (if used \<and> flag CF c then 1 else 0)"

lemma nat_value_add_mod:
  assumes "operand_size w"
  shows "nat_value w x = (unat x mod 18446744073709551616) mod 2 ^ w"
  using u64_bound [of x] by (simp add: nat_value_def)

lemma mod_64_width:
  assumes "operand_size w"
  shows "(k mod 18446744073709551616) mod 2 ^ w = (k::nat) mod 2 ^ w"
  using assms by (auto simp: operand_size_def mod_mod_cancel)

lemma add_result:
  assumes w: "operand_size w"
  shows "unat (fst (add lhs rhs w carry c)) =
    (nat_value w lhs + nat_value w rhs + carry_in carry c) mod 2 ^ w"
proof -
  let ?k = "nat_value w lhs + nat_value w rhs + carry_in carry c"
  let ?full = "(lhs AND mask_for_width w) + (rhs AND mask_for_width w) +
     (if carry \<and> flag CF c then 1 else 0)"
  have "unat ?full = ?k mod 18446744073709551616"
    using w by (simp add: unat_word_ariths unat_and_mask operand_size_pos carry_in_def mod_simps)
  then have "nat_value w ?full = ?k mod 2 ^ w"
    using mod_64_width [OF w] by (simp add: nat_value_def)
  then show ?thesis using w by (simp add: add_def Let_def unat_and_mask operand_size_pos)
qed


lemma sub_result:
  assumes w: "operand_size w" and k: "nat_value w rhs + carry_in borrow c < 18446744073709551616"
  shows "unat (fst (sub lhs rhs w borrow c)) =
    (nat_value w lhs + 2 ^ w - (nat_value w rhs + carry_in borrow c)) mod 2 ^ w"
proof -
  let ?a = "nat_value w lhs" and ?b = "nat_value w rhs + carry_in borrow c"
  let ?l = "lhs AND mask_for_width w"
  let ?r = "(rhs AND mask_for_width w) + (if borrow \<and> flag CF c then 1 else 0)"
  have l: "unat ?l = ?a" using w by (simp add: unat_and_mask operand_size_pos)
  have r: "unat ?r = ?b"
    using w k by (auto simp: unat_add_u64 unat_and_mask operand_size_pos carry_in_def split: if_splits)
  have b: "?b \<le> 2 ^ w" using nat_value_less [of w rhs] by (simp add: carry_in_def)
  have dvd: "18446744073709551616 mod 2 ^ w = (0::nat)"
    using w by (auto simp: operand_size_def)
  have "unat (?l - ?r) mod 2 ^ w = (?a + 2 ^ w - ?b) mod 2 ^ w"
  proof (cases "?r \<le> ?l")
    case True
    then have le: "?b \<le> ?a" using l r by (simp add: u64_order)
    then have "unat (?l - ?r) = ?a - ?b" using True l r by (simp add: unat_sub_u64)
    moreover have "?a + 2 ^ w - ?b = (?a - ?b) + 2 ^ w" using le by simp
    ultimately show ?thesis by simp
  next
    case False
    then have lt: "?a < ?b" using l r by (simp add: u64_order)
    have "unat (?l - ?r) = ?a + 18446744073709551616 - ?b"
      using False l r unat_sub_wrap [of ?l ?r] by simp
    moreover obtain q where q: "18446744073709551616 = 2 ^ w * (q::nat)" "q \<ge> 1"
      using dvd by (metis One_nat_def Suc_leI dvd_eq_mod_eq_0 dvd_def gr0I mult_0_right zero_neq_numeral)
    then have "?a + 18446744073709551616 - ?b = (?a + 2 ^ w - ?b) + 2 ^ w * (q - 1)"
      using b lt by (cases q) (simp_all add: algebra_simps)
    ultimately show ?thesis by simp
  qed
  then show ?thesis using w by (simp add: sub_def Let_def unat_and_mask operand_size_pos nat_value_def)
qed

lemma xor_sign_bits:
  assumes w: "operand_size w"
  shows "NOT (x XOR y) AND (x XOR z) AND sign_bit_for_width w \<noteq> 0 \<longleftrightarrow>
      (bit x (w - 1) \<longleftrightarrow> bit y (w - 1)) \<and> (bit x (w - 1) \<longleftrightarrow> \<not> bit z (w - 1))"
    and "(x XOR y) AND (x XOR z) AND sign_bit_for_width w \<noteq> 0 \<longleftrightarrow>
      (bit x (w - 1) \<longleftrightarrow> \<not> bit y (w - 1)) \<and> (bit x (w - 1) \<longleftrightarrow> \<not> bit z (w - 1))"
proof -
  have lt: "w - 1 < 64" "0 < w" "w \<le> 64" using w by (auto simp: operand_size_def)
  have "u AND sign_bit_for_width w \<noteq> 0 \<longleftrightarrow> bit u (w - 1)" for u :: u64
    using sign_bit_iff lt by blast
  then show "NOT (x XOR y) AND (x XOR z) AND sign_bit_for_width w \<noteq> 0 \<longleftrightarrow>
      (bit x (w - 1) \<longleftrightarrow> bit y (w - 1)) \<and> (bit x (w - 1) \<longleftrightarrow> \<not> bit z (w - 1))"
    and "(x XOR y) AND (x XOR z) AND sign_bit_for_width w \<noteq> 0 \<longleftrightarrow>
      (bit x (w - 1) \<longleftrightarrow> \<not> bit y (w - 1)) \<and> (bit x (w - 1) \<longleftrightarrow> \<not> bit z (w - 1))"
    using lt by (auto simp: and.assoc [symmetric] bit_simps)
qed

lemma add_flags:
  "flag CF (snd (add lhs rhs w carry c)) \<longleftrightarrow>
     (lhs AND mask_for_width w) + (rhs AND mask_for_width w) +
       (if carry \<and> flag CF c then 1 else 0) > mask_for_width w"
  "flag ZF (snd (add lhs rhs w carry c)) \<longleftrightarrow> fst (add lhs rhs w carry c) = 0"
  "flag SF (snd (add lhs rhs w carry c)) \<longleftrightarrow>
     fst (add lhs rhs w carry c) AND sign_bit_for_width w \<noteq> 0"
  "flag OF (snd (add lhs rhs w carry c)) \<longleftrightarrow>
     NOT (lhs XOR rhs) AND (lhs XOR fst (add lhs rhs w carry c)) AND sign_bit_for_width w \<noteq> 0"
  by (simp_all add: add_def Let_def flag_simps)

lemma sub_flags:
  "flag CF (snd (sub lhs rhs w borrow c)) \<longleftrightarrow>
     (lhs AND mask_for_width w) <
       (rhs AND mask_for_width w) + (if borrow \<and> flag CF c then 1 else 0)"
  "flag ZF (snd (sub lhs rhs w borrow c)) \<longleftrightarrow> fst (sub lhs rhs w borrow c) = 0"
  "flag SF (snd (sub lhs rhs w borrow c)) \<longleftrightarrow>
     fst (sub lhs rhs w borrow c) AND sign_bit_for_width w \<noteq> 0"
  "flag OF (snd (sub lhs rhs w borrow c)) \<longleftrightarrow>
     (lhs XOR rhs) AND (lhs XOR fst (sub lhs rhs w borrow c)) AND sign_bit_for_width w \<noteq> 0"
  "flag PF (snd (sub lhs rhs w borrow c)) \<longleftrightarrow> parity_even (ucast (fst (sub lhs rhs w borrow c)))"
  by (simp_all add: sub_def Let_def flag_simps)

lemma nat_value_result: "unat r < 2 ^ w \<Longrightarrow> nat_value w r = unat r"
  by (simp add: nat_value_def)

lemma add_overflow_flag:
  assumes w: "operand_size w"
  shows "flag OF (snd (add lhs rhs w carry c)) \<longleftrightarrow>
    (let i = signed_value w lhs + signed_value w rhs + int (carry_in carry c) in
     i < - (2 ^ (w - 1)) \<or> i \<ge> 2 ^ (w - 1))"
proof -
  let ?h = "2 ^ (w - 1) :: nat" and ?r = "fst (add lhs rhs w carry c)"
  have w0: "0 < w" "w \<le> 64" and pw: "(2::nat) ^ w = 2 * ?h"
    using operand_size_pos [OF w] nat_value_double [OF w] by auto
  have r: "nat_value w ?r = (nat_value w lhs + nat_value w rhs + carry_in carry c) mod (2 * ?h)"
    using add_result [OF w, of lhs rhs carry c] by (simp add: nat_value_def pw)
  have le: "carry_in carry c \<le> 1" by (simp add: carry_in_def)
  have h: "int ?h = 2 ^ (w - 1)" by simp
  note small = conjunct1 [OF nat_value_double [OF w]]
  from add_overflow [OF small small le r] show ?thesis
    unfolding add_flags(4) xor_sign_bits(1) [OF w] bit_top_iff [OF w0(1)]
      signed_value_to_signed [OF w0(1)] Let_def h .
qed

lemma sub_overflow_flag:
  assumes w: "operand_size w" and k: "nat_value w rhs + carry_in borrow c < 18446744073709551616"
  shows "flag OF (snd (sub lhs rhs w borrow c)) \<longleftrightarrow>
    (let i = signed_value w lhs - signed_value w rhs - int (carry_in borrow c) in
     i < - (2 ^ (w - 1)) \<or> i \<ge> 2 ^ (w - 1))"
proof -
  let ?h = "2 ^ (w - 1) :: nat" and ?r = "fst (sub lhs rhs w borrow c)"
  have w0: "0 < w" "w \<le> 64" and pw: "(2::nat) ^ w = 2 * ?h"
    using operand_size_pos [OF w] nat_value_double [OF w] by auto
  have r: "nat_value w ?r =
      (nat_value w lhs + 2 * ?h - (nat_value w rhs + carry_in borrow c)) mod (2 * ?h)"
    using sub_result [OF w k, of lhs] by (simp add: nat_value_def pw)
  have le: "carry_in borrow c \<le> 1" by (simp add: carry_in_def)
  have h: "int ?h = 2 ^ (w - 1)" by simp
  note small = conjunct1 [OF nat_value_double [OF w]]
  from sub_overflow [OF small small le r] show ?thesis
    unfolding sub_flags(4) xor_sign_bits(2) [OF w] bit_top_iff [OF w0(1)]
      signed_value_to_signed [OF w0(1)] Let_def h .
qed

lemma add_carry_flag:
  assumes w: "operand_size w"
  shows "flag CF (snd (add lhs rhs w carry c)) \<longleftrightarrow>
    w \<noteq> 64 \<and> nat_value w lhs + nat_value w rhs + carry_in carry c \<ge> 2 ^ w"
proof (cases "w = 64")
  case True
  then show ?thesis by (simp add: add_flags(1) mask_for_width_def)
next
  case False
  have m: "unat (lhs AND mask_for_width w) = nat_value w lhs"
    "unat (rhs AND mask_for_width w) = nat_value w rhs"
    using w by (simp_all add: unat_and_mask operand_size_pos)
  have "nat_value w lhs < 4294967296" "nat_value w rhs < 4294967296"
    using False w nat_value_less [of w lhs] nat_value_less [of w rhs]
    by (auto simp: operand_size_def)
  then have "unat ((lhs AND mask_for_width w) + (rhs AND mask_for_width w) +
       (if carry \<and> flag CF c then 1 else 0)) = nat_value w lhs + nat_value w rhs + carry_in carry c"
    by (auto simp: unat_add_u64 m carry_in_def)
  moreover have "(0::nat) < 2 ^ w" by simp
  ultimately show ?thesis
    using False unat_mask_for_width [OF w] unfolding add_flags(1) u64_order by linarith
qed

lemma sub_borrow_flag:
  assumes w: "operand_size w" and k: "nat_value w rhs + carry_in borrow c < 18446744073709551616"
  shows "flag CF (snd (sub lhs rhs w borrow c)) \<longleftrightarrow>
    nat_value w lhs < nat_value w rhs + carry_in borrow c"
proof -
  have "unat ((rhs AND mask_for_width w) + (if borrow \<and> flag CF c then 1 else 0)) =
      nat_value w rhs + carry_in borrow c"
    using w k by (auto simp: unat_add_u64 unat_and_mask operand_size_pos carry_in_def split: if_splits)
  then show ?thesis
    using w unfolding sub_flags(1) u64_order by (simp add: unat_and_mask operand_size_pos)
qed


section \<open>The parity flag\<close>

definition ones :: "u8 \<Rightarrow> nat" where
  "ones b = length (filter (bit b) [0..<8])"

lemma u8_cases: "(\<forall>b \<in> set (map of_nat [0..<256]). P b) \<Longrightarrow> P (b :: u8)"
proof -
  assume all: "\<forall>b \<in> set (map of_nat [0..<256]). P (b :: u8)"
  have "unat b < 256" using unsigned_less [of b] by simp
  moreover have "b = of_nat (unat b)" by simp
  ultimately have "b \<in> set (map of_nat [0..<256])" by (metis atLeast_upt image_eqI lessThan_iff set_map)
  with all show ?thesis by blast
qed

text \<open>
  \<^verbatim>\<open>parity_even\<close> answers the opposite of its name: it holds for the bytes with an odd
  number of ones, so the flag PF is the complement of the processor's.
\<close>

lemma parity_even_is_odd: "parity_even b \<longleftrightarrow> odd (ones b)"
proof (rule u8_cases)
  show "\<forall>b \<in> set (map of_nat [0..<256]). parity_even b \<longleftrightarrow> odd (ones b)"
    unfolding parity_even_def ones_def by code_simp
qed

section \<open>Comparing and branching\<close>

lemma sub_less_flags:
  assumes "a < 2 * h" "b < 2 * h" and "r = (a + 2 * h - b) mod (2 * h)"
  shows "(r \<ge> h) \<noteq> (to_signed h a - to_signed h b < - int h \<or> to_signed h a - to_signed h b \<ge> int h)
     \<longleftrightarrow> to_signed h a < to_signed h b"
    and "r = 0 \<longleftrightarrow> a = b" and "a = b \<longleftrightarrow> to_signed h a = to_signed h b"
proof -
  have r: "r = (if a + 2 * h - b < 2 * h then a + 2 * h - b else a - b)"
    using assms by (simp add: mod_double)
  show "(r \<ge> h) \<noteq> (to_signed h a - to_signed h b < - int h \<or> to_signed h a - to_signed h b \<ge> int h)
     \<longleftrightarrow> to_signed h a < to_signed h b"
    unfolding r using assms(1,2) by (simp add: to_signed_def split: if_splits) linarith+
  show "r = 0 \<longleftrightarrow> a = b" unfolding r using assms(1,2) by (simp split: if_splits; linarith)
  show "a = b \<longleftrightarrow> to_signed h a = to_signed h b"
    using assms(1,2) by (simp add: to_signed_def split: if_splits; linarith)
qed

lemma compare_flags:
  assumes w: "operand_size w"
  shows "flag ZF (snd (sub lhs rhs w False c)) \<longleftrightarrow> nat_value w lhs = nat_value w rhs"
    and "flag CF (snd (sub lhs rhs w False c)) \<longleftrightarrow> nat_value w lhs < nat_value w rhs"
    and "flag SF (snd (sub lhs rhs w False c)) \<noteq> flag OF (snd (sub lhs rhs w False c)) \<longleftrightarrow>
      signed_value w lhs < signed_value w rhs"
    and "nat_value w lhs = nat_value w rhs \<longleftrightarrow> signed_value w lhs = signed_value w rhs"
    and "flag OF (snd (sub lhs rhs w False c)) \<longleftrightarrow>
      signed_value w lhs - signed_value w rhs < - (2 ^ (w - 1)) \<or>
      signed_value w lhs - signed_value w rhs \<ge> 2 ^ (w - 1)"
    and "flag SF (snd (sub lhs rhs w False c)) \<longleftrightarrow>
      2 ^ (w - 1) \<le> (nat_value w lhs + 2 ^ w - nat_value w rhs) mod 2 ^ w"
    and "flag PF (snd (sub lhs rhs w False c)) \<longleftrightarrow>
      odd (ones (of_nat ((nat_value w lhs + 2 ^ w - nat_value w rhs) mod 2 ^ w)))"
proof -
  let ?h = "2 ^ (w - 1) :: nat" and ?r = "fst (sub lhs rhs w False c)"
  have w0: "0 < w" "w \<le> 64" and pw: "(2::nat) ^ w = 2 * ?h"
    using operand_size_pos [OF w] nat_value_double [OF w] by auto
  have k: "nat_value w rhs + carry_in False c < 18446744073709551616"
    using w nat_value_less [of w rhs] by (auto simp: operand_size_def carry_in_def)
  have c0: "carry_in False c = 0" by (simp add: carry_in_def)
  have ur: "unat ?r = (nat_value w lhs + 2 * ?h - nat_value w rhs) mod (2 * ?h)"
    using sub_result [OF w k, of lhs] by (simp add: pw c0)
  then have r: "nat_value w ?r = (nat_value w lhs + 2 * ?h - nat_value w rhs) mod (2 * ?h)"
    by (simp add: nat_value_def pw)
  note S = sub_less_flags [OF conjunct1 [OF nat_value_double [OF w]]
      conjunct1 [OF nat_value_double [OF w]] r]
  have h: "int ?h = 2 ^ (w - 1)" by simp
  show "flag ZF (snd (sub lhs rhs w False c)) \<longleftrightarrow> nat_value w lhs = nat_value w rhs"
    unfolding sub_flags(2) using S(2) r ur by (metis unat_eq_zero)
  show "flag CF (snd (sub lhs rhs w False c)) \<longleftrightarrow> nat_value w lhs < nat_value w rhs"
    using sub_borrow_flag [OF w k] by (simp add: c0)
  show "nat_value w lhs = nat_value w rhs \<longleftrightarrow> signed_value w lhs = signed_value w rhs"
    using S(3) by (simp add: signed_value_to_signed w0)
  show "flag OF (snd (sub lhs rhs w False c)) \<longleftrightarrow>
      signed_value w lhs - signed_value w rhs < - (2 ^ (w - 1)) \<or>
      signed_value w lhs - signed_value w rhs \<ge> 2 ^ (w - 1)"
    using sub_overflow_flag [OF w k, of lhs] by (simp add: c0 Let_def)
  have sf: "flag SF (snd (sub lhs rhs w False c)) \<longleftrightarrow> nat_value w ?r \<ge> ?h"
    by (simp only: sub_flags(3) sign_bit_iff [OF w0] bit_top_iff [OF w0(1)])
  then show "flag SF (snd (sub lhs rhs w False c)) \<longleftrightarrow>
      2 ^ (w - 1) \<le> (nat_value w lhs + 2 ^ w - nat_value w rhs) mod 2 ^ w"
    unfolding r pw .
  have "ucast ?r = (of_nat (unat ?r) :: u8)" by simp
  then show "flag PF (snd (sub lhs rhs w False c)) \<longleftrightarrow>
      odd (ones (of_nat ((nat_value w lhs + 2 ^ w - nat_value w rhs) mod 2 ^ w)))"
    unfolding sub_flags(5) parity_even_is_odd ur pw by (simp only:)
  note sf
  moreover have "flag OF (snd (sub lhs rhs w False c)) \<longleftrightarrow>
      to_signed ?h (nat_value w lhs) - to_signed ?h (nat_value w rhs) < - int ?h \<or>
      to_signed ?h (nat_value w lhs) - to_signed ?h (nat_value w rhs) \<ge> int ?h"
    using sub_overflow_flag [OF w k, of lhs]
    by (simp add: c0 Let_def signed_value_to_signed w0)
  ultimately show "flag SF (snd (sub lhs rhs w False c)) \<noteq> flag OF (snd (sub lhs rhs w False c)) \<longleftrightarrow>
      signed_value w lhs < signed_value w rhs"
    using S(1) by (simp only: signed_value_to_signed [OF w0(1)])
qed

lemma condition_simps:
  "condition 0 c = flag OF c" "condition 1 c = (\<not> flag OF c)"
  "condition 8 c = flag SF c" "condition 9 c = (\<not> flag SF c)"
  "condition 10 c = flag PF c" "condition 11 c = (\<not> flag PF c)"
  "condition 2 c = flag CF c" "condition 3 c = (\<not> flag CF c)"
  "condition 4 c = flag ZF c" "condition 5 c = (\<not> flag ZF c)"
  "condition 6 c = (flag CF c \<or> flag ZF c)" "condition 7 c = (\<not> flag CF c \<and> \<not> flag ZF c)"
  "condition 12 c = (flag SF c \<noteq> flag OF c)" "condition 13 c = (flag SF c = flag OF c)"
  "condition 14 c = (flag ZF c \<or> flag SF c \<noteq> flag OF c)"
  "condition 15 c = (\<not> flag ZF c \<and> flag SF c = flag OF c)"
  by (simp_all add: condition_def condition_code.simps)

text \<open>
  C7. Compare and branch: after \<^verbatim>\<open>cmp lhs, rhs\<close>, at every operand size, the ten comparison
  conditions of the jump, set and conditional-move instructions hold exactly when the corresponding
  unsigned or signed relation of the operands does; 0 and 1 say whether the signed difference
  overflows, 8 and 9 whether the difference cut to the operand size reads as negative. The two
  conditions of the parity flag are exchanged: 10 (parity even) holds when the low byte of the
  difference has an odd number of ones.
\<close>

theorem compare_then_condition:
  assumes "operand_size w"
  shows "let c' = snd (sub lhs rhs w False c); a = nat_value w lhs; b = nat_value w rhs;
             i = signed_value w lhs; j = signed_value w rhs; d = (a + 2 ^ w - b) mod 2 ^ w;
             overflow = (i - j < - (2 ^ (w - 1)) \<or> i - j \<ge> 2 ^ (w - 1)) in
    (condition 0 c' \<longleftrightarrow> overflow) \<and> (condition 1 c' \<longleftrightarrow> \<not> overflow) \<and>
    (condition 2 c' \<longleftrightarrow> a < b) \<and> (condition 3 c' \<longleftrightarrow> a \<ge> b) \<and>
    (condition 4 c' \<longleftrightarrow> a = b) \<and> (condition 5 c' \<longleftrightarrow> a \<noteq> b) \<and>
    (condition 6 c' \<longleftrightarrow> a \<le> b) \<and> (condition 7 c' \<longleftrightarrow> a > b) \<and>
    (condition 8 c' \<longleftrightarrow> 2 ^ (w - 1) \<le> d) \<and> (condition 9 c' \<longleftrightarrow> d < 2 ^ (w - 1)) \<and>
    (condition 10 c' \<longleftrightarrow> odd (ones (of_nat d))) \<and> (condition 11 c' \<longleftrightarrow> even (ones (of_nat d))) \<and>
    (condition 12 c' \<longleftrightarrow> i < j) \<and> (condition 13 c' \<longleftrightarrow> i \<ge> j) \<and>
    (condition 14 c' \<longleftrightarrow> i \<le> j) \<and> (condition 15 c' \<longleftrightarrow> i > j)"
proof -
  note flags = compare_flags(1-3) [OF assms, of lhs rhs c] compare_flags(4) [OF assms, of lhs rhs]
    compare_flags(5-7) [OF assms, of lhs rhs c]
  show ?thesis
    unfolding Let_def condition_simps flags(1,2,5-7)
    using flags(3,4) unfolding flags(5,6) by auto
qed

theorem compare_then_condition_witness:
  "condition 12 (snd (sub 0xFF 0x01 8 False initial_cpu)) \<and>
   \<not> condition 2 (snd (sub 0xFF 0x01 8 False initial_cpu))"
  using compare_then_condition [where w = 8 and lhs = "0xFF" and rhs = 1 and c = initial_cpu]
  by (simp add: operand_size_def Let_def signed_value_def nat_value_def)


section \<open>What addition and subtraction compute\<close>

text \<open>
  C31. \<open>add\<close> with or without carry: the result is the sum modulo the operand size; ZF, SF and OF
  say that it is zero, negative, and that the signed sum does not fit. CF is the carry out at 8,
  16 and 32 bits, but is never set at 64 bits, where the comparison with the mask cannot
  succeed.
\<close>

theorem add_meaning:
  assumes "operand_size w"
  shows "case add lhs rhs w carry c of (r, c') \<Rightarrow>
    let k = nat_value w lhs + nat_value w rhs + carry_in carry c;
        i = signed_value w lhs + signed_value w rhs + int (carry_in carry c) in
    unat r = k mod 2 ^ w \<and>
    (flag CF c' \<longleftrightarrow> w \<noteq> 64 \<and> k \<ge> 2 ^ w) \<and> (flag ZF c' \<longleftrightarrow> k mod 2 ^ w = 0) \<and>
    (flag SF c' \<longleftrightarrow> signed_value w r < 0) \<and>
    (flag OF c' \<longleftrightarrow> i < - (2 ^ (w - 1)) \<or> i \<ge> 2 ^ (w - 1))"
proof (cases "add lhs rhs w carry c")
  case (Pair r c')
  then have r: "r = fst (add lhs rhs w carry c)" and c': "c' = snd (add lhs rhs w carry c)" by simp_all
  have zf: "flag ZF c' \<longleftrightarrow> unat r = 0" unfolding c' r add_flags(2) by (simp add: unat_eq_zero)
  have sf: "flag SF c' \<longleftrightarrow> signed_value w r < 0"
    unfolding c' add_flags(3) r using sign_iff operand_size_pos [OF assms] by blast
  show ?thesis
    unfolding Pair prod.case Let_def
    using add_result [OF assms, of lhs rhs carry c] add_carry_flag [OF assms, of lhs rhs carry c]
      add_overflow_flag [OF assms, of lhs rhs carry c] zf sf
    unfolding r c' Let_def by simp
qed

theorem add_meaning_witness:
  "unat (fst (add 0xFFFFFFFF 1 32 False initial_cpu)) = 0 \<and>
   flag CF (snd (add 0xFFFFFFFF 1 32 False initial_cpu))"
  using add_meaning [where w = 32 and lhs = "0xFFFFFFFF" and rhs = 1 and carry = False
      and c = initial_cpu]
  by (simp add: operand_size_def nat_value_def carry_in_def Let_def split: prod.splits)

text \<open>
  \<open>sub\<close> with or without borrow, except where the subtrahend plus borrow leaves 64 bits: the
  result is the difference modulo the operand size, CF the borrow, ZF, SF and OF as for addition.
\<close>

lemma sub_meaning:
  assumes "operand_size w" and "nat_value w rhs + carry_in borrow c < 2 ^ 64"
  shows "case sub lhs rhs w borrow c of (r, c') \<Rightarrow>
    let a = nat_value w lhs; b = nat_value w rhs + carry_in borrow c;
        i = signed_value w lhs - signed_value w rhs - int (carry_in borrow c) in
    unat r = (a + 2 ^ w - b) mod 2 ^ w \<and>
    (flag CF c' \<longleftrightarrow> a < b) \<and> (flag ZF c' \<longleftrightarrow> (a + 2 ^ w - b) mod 2 ^ w = 0) \<and>
    (flag SF c' \<longleftrightarrow> signed_value w r < 0) \<and>
    (flag OF c' \<longleftrightarrow> i < - (2 ^ (w - 1)) \<or> i \<ge> 2 ^ (w - 1))"
proof (cases "sub lhs rhs w borrow c")
  case (Pair r c')
  then have r: "r = fst (sub lhs rhs w borrow c)" and c': "c' = snd (sub lhs rhs w borrow c)"
    by simp_all
  have k: "nat_value w rhs + carry_in borrow c < 18446744073709551616" using assms(2) by simp
  have zf: "flag ZF c' \<longleftrightarrow> unat r = 0" unfolding c' r sub_flags(2) by (simp add: unat_eq_zero)
  have sf: "flag SF c' \<longleftrightarrow> signed_value w r < 0"
    unfolding c' sub_flags(3) r using sign_iff operand_size_pos [OF assms(1)] by blast
  show ?thesis
    unfolding Pair prod.case Let_def
    using sub_result [OF assms(1) k, of lhs] sub_borrow_flag [OF assms(1) k, of lhs]
      sub_overflow_flag [OF assms(1) k, of lhs] zf sf
    unfolding r c' Let_def by simp
qed

lemma sub_meaning_example:
  "unat (fst (sub 0 1 16 False initial_cpu)) = 65535 \<and> flag CF (snd (sub 0 1 16 False initial_cpu))"
  using sub_meaning [where w = 16 and lhs = 0 and rhs = 1 and borrow = False and c = initial_cpu]
  by (simp add: operand_size_def nat_value_def carry_in_def Let_def split: prod.splits)

end
