(* ===== verification/Register_Laws.thy ===== *)
theory Register_Laws
  imports CPU_Laws
begin

text \<open>
  The register file as overlapping 8-, 16-, 32- and 64-bit registers, sign extension, shifts and
  the bit-string addressing of the BT family.
\<close>

section \<open>Registers\<close>

text \<open>
  Where a register operand lives: the 64-bit register, and the position of its lowest bit (8 for
  \<^verbatim>\<open>ah\<close>, \<^verbatim>\<open>ch\<close>, \<^verbatim>\<open>dh\<close>, \<^verbatim>\<open>bh\<close>, which a byte operand without REX prefix means by 4..7).
\<close>

definition register_slot :: "nat \<Rightarrow> nat \<Rightarrow> prefixes \<Rightarrow> regidx \<times> nat" where
  "register_slot i w p =
     (if w = 8 \<and> legacy_high_byte (i mod 16) p then (of_nat (i mod 16 - 4), 8)
      else (of_nat (i mod 16), 0))"

definition slot_mask :: "nat \<Rightarrow> nat \<Rightarrow> u64" where
  "slot_mask w pos = push_bit pos (mask_for_width w)"

lemma mask_values:
  "mask_for_width 8 = 0xff" "mask_for_width 16 = 0xffff" "mask_for_width 32 = 0xffffffff"
  "mask_for_width 64 = - 1"
  by (simp_all add: mask_for_width_def)

lemma gpr_value_slot:
  assumes "operand_size w"
  shows "gpr_value i w p c =
    (case register_slot i w p of (r, pos) \<Rightarrow> drop_bit pos (c_gpr c r) AND mask_for_width w)"
  using assms
  by (auto simp: operand_size_def gpr_value_def register_slot_def Let_def mask_values)

lemma write_gpr_slot:
  assumes "operand_size w"
  shows "c_gpr (write_gpr i w v p c) =
    (case register_slot i w p of (r, pos) \<Rightarrow>
       (c_gpr c)(r :=
          (if w \<ge> 32 then v AND mask_for_width w
           else (c_gpr c r AND NOT (slot_mask w pos)) OR push_bit pos (v AND mask_for_width w))))"
  using assms
  by (auto simp: operand_size_def write_gpr_def set_gpr_shadow_def register_slot_def Let_def
      mask_values slot_mask_def)

lemma insert_field:
  assumes "pos + w \<le> 64"
  shows "drop_bit pos ((x AND NOT (push_bit pos (mask w))) OR push_bit pos (v AND mask w)) AND mask w
    = (v AND mask w :: u64)"
  using assms by (intro bit_eqI) (auto simp: bit_simps)

lemma write_gpr_effect:
  assumes "operand_size w"
  shows "gpr_value i w p (write_gpr i w v p c) = v AND mask_for_width w \<and>
    (case register_slot i w p of (r, pos) \<Rightarrow>
       (\<forall>q. q \<noteq> r \<longrightarrow> c_gpr (write_gpr i w v p c) q = c_gpr c q) \<and>
       (w \<ge> 32 \<longrightarrow> c_gpr (write_gpr i w v p c) r = v AND mask_for_width w) \<and>
       (w < 32 \<longrightarrow> c_gpr (write_gpr i w v p c) r AND NOT (slot_mask w pos) =
                  c_gpr c r AND NOT (slot_mask w pos)))"
proof -
  obtain r pos where slot: "register_slot i w p = (r, pos)" by fastforce
  have pos: "pos + w \<le> 64" "w \<ge> 32 \<Longrightarrow> pos = 0"
    using slot assms by (auto simp: register_slot_def operand_size_def split: if_splits)
  have m: "mask_for_width w = mask w" using assms by (simp add: mask_for_width_mask operand_size_pos)
  have keep: "((x AND NOT (push_bit pos (mask w))) OR push_bit pos (v AND mask w))
      AND NOT (push_bit pos (mask w)) = x AND NOT (push_bit pos (mask w))" for x :: u64
    by (rule bit_eqI) (auto simp: bit_simps)
  have twice: "(v AND mask w) AND mask w = v AND mask w" by (rule bit_eqI) (auto simp: bit_simps)
  show ?thesis
    using pos insert_field [OF pos(1)] keep twice
    by (auto simp: gpr_value_slot [OF assms] write_gpr_slot [OF assms] slot slot_mask_def m)
qed

text \<open>
  C34. Reading back a register: after \<open>write_gpr\<close>, the same operand reads as the value written,
  cut to its width; a 32- or 64-bit write determines the whole register (a 32-bit write clears
  the upper half), an 8- or 16-bit write keeps the other bits, and no other register changes.
\<close>

theorem register_write_read:
  assumes "operand_size w"
  shows "gpr_value i w p (write_gpr i w v p c) = v AND mask_for_width w \<and>
    (case register_slot i w p of (r, pos) \<Rightarrow>
       (\<forall>q. q \<noteq> r \<longrightarrow> c_gpr (write_gpr i w v p c) q = c_gpr c q) \<and>
       (w \<ge> 32 \<longrightarrow> c_gpr (write_gpr i w v p c) r = v AND mask_for_width w) \<and>
       (w < 32 \<longrightarrow> c_gpr (write_gpr i w v p c) r AND NOT (slot_mask w pos) =
                  c_gpr c r AND NOT (slot_mask w pos)))"
  using assms by (rule write_gpr_effect)

theorem register_write_read_witness:
  "gpr_value 4 8 no_prefixes (write_gpr 4 8 0x1AB no_prefixes initial_cpu) = 0xAB"
  using register_write_read [where w = 8 and i = 4 and p = no_prefixes and v = "0x1AB"
      and c = initial_cpu]
  by (simp add: operand_size_def mask_values)

section \<open>Sign extension and shifts\<close>

lemma sint_u64: "sint (x :: u64) = to_signed 9223372036854775808 (unat x)"
proof -
  have s: "sint x = (int (unat x) + 9223372036854775808) mod 18446744073709551616 - 9223372036854775808"
    by (simp add: sint_uint signed_take_bit_eq_take_bit_shift take_bit_eq_mod)
  have r: "int (unat x) < 18446744073709551616" using u64_bound [of x] by linarith
  show ?thesis
  proof (cases "unat x \<ge> 9223372036854775808")
    case True
    then have "(int (unat x) + 9223372036854775808) mod 18446744073709551616 =
        (int (unat x) + 9223372036854775808 - 18446744073709551616) mod 18446744073709551616"
      by (simp only: minus_mod_self2)
    also have "\<dots> = int (unat x) + 9223372036854775808 - 18446744073709551616"
      using True r by (intro mod_pos_pos_trivial) linarith+
    finally show ?thesis using True unfolding s to_signed_def by simp
  next
    case False
    then have "(int (unat x) + 9223372036854775808) mod 18446744073709551616 =
        int (unat x) + 9223372036854775808"
      by (intro mod_pos_pos_trivial) linarith+
    then show ?thesis using False unfolding s to_signed_def by simp
  qed
qed

lemma xor_sign_nat:
  assumes w: "operand_size w"
  shows "(v AND mask_for_width w) XOR sign_bit_for_width w =
    (if nat_value w v \<ge> 2 ^ (w - 1) then (v AND mask_for_width w) - sign_bit_for_width w
     else (v AND mask_for_width w) + sign_bit_for_width w)"
proof -
  let ?v = "v AND mask_for_width w" and ?s = "sign_bit_for_width w"
  have w0: "0 < w" "w \<le> 64" using operand_size_pos [OF w] by auto
  have "w - Suc 0 < 64" using w0 by simp
  then have bit: "bit ?v (w - 1) \<longleftrightarrow> nat_value w v \<ge> 2 ^ (w - 1)"
    using w0 bit_top_iff [OF w0(1), of v] by (auto simp: mask_for_width_mask bit_simps)
  show ?thesis
  proof (cases "bit ?v (w - 1)")
    case True
    have split: "(?v XOR ?s) AND ?s = 0"
      using True by (auto simp: sign_bit_for_width_def bit_simps intro!: bit_eqI)
    have "(?v XOR ?s) + ?s = (?v XOR ?s) OR ?s" using split by (rule disjunctive_add_eq_or)
    also have "\<dots> = ?v" using True by (auto simp: sign_bit_for_width_def bit_simps intro!: bit_eqI)
    finally show ?thesis using True bit by (simp add: eq_diff_eq)
  next
    case False
    have "?v + ?s = ?v OR ?s"
      using False by (intro disjunctive_add_eq_or)
        (auto simp: sign_bit_for_width_def bit_simps intro!: bit_eqI)
    also have "\<dots> = ?v XOR ?s"
      using False by (auto simp: sign_bit_for_width_def bit_simps intro!: bit_eqI)
    finally show ?thesis using False bit by simp
  qed
qed


lemma sign_extend_value:
  assumes w: "operand_size w"
  shows "sint (sign_extend v w) = signed_value w v"
proof -
  let ?v = "v AND mask_for_width w" and ?s = "sign_bit_for_width w" and ?a = "nat_value w v"
  have w0: "0 < w" "w \<le> 64" using operand_size_pos [OF w] by auto
  have v: "unat ?v = ?a" using w0 by (simp add: unat_and_mask)
  have s: "unat ?s = 2 ^ (w - 1)" using w by (auto simp: operand_size_def sign_bit_for_width_def)
  have small: "?a < 2 * 2 ^ (w - 1)" "(2::nat) ^ (w - 1) \<le> 9223372036854775808"
    "(2::nat) ^ w = 2 * 2 ^ (w - 1)"
    using nat_value_double [OF w] w by (auto simp: operand_size_def)
  have dbl: "?s + ?s + (?v - ?s - ?s) = ?v" by simp
  show ?thesis
  proof (cases "?a \<ge> 2 ^ (w - 1)")
    case True
    then have "sign_extend v w = ?v - ?s - ?s"
      unfolding sign_extend_def Let_def xor_sign_nat [OF w] by simp
    moreover have "unat (?v - ?s) = ?a - 2 ^ (w - 1)"
      using True v s by (simp add: unat_sub_u64 u64_order)
    moreover have "?a - 2 ^ (w - 1) < 2 ^ (w - 1)" using small by simp
    then have "unat (?v - ?s - ?s) = ?a - 2 ^ (w - 1) + 18446744073709551616 - 2 ^ (w - 1)"
      using unat_sub_wrap [of "?v - ?s" ?s] calculation(2) s by (simp add: u64_order)
    ultimately show ?thesis
      using True small unfolding sint_u64 signed_value_to_signed [OF w0(1)]
      by (simp add: to_signed_def) linarith
  next
    case False
    then have "sign_extend v w = ?v" unfolding sign_extend_def Let_def xor_sign_nat [OF w] by simp
    then show ?thesis
      using False small v unfolding sint_u64 signed_value_to_signed [OF w0(1)]
      by (simp add: to_signed_def)
  qed
qed

lemma unat_sign_extend: "operand_size w \<Longrightarrow> int (unat (sign_extend v w)) = take_bit 64 (signed_value w v)"
proof -
  assume w: "operand_size w"
  have "uint (sign_extend v w) = take_bit 64 (sint (sign_extend v w))" by (simp add: uint_sint)
  then show ?thesis by (simp add: sign_extend_value [OF w])
qed

lemma unat_drop_u64: "unat (drop_bit n (x :: u64)) = unat x div 2 ^ n"
  unfolding unsigned_drop_bit_eq unfolding drop_bit_eq_div take_bit_eq_mod
  using u64_bound [of x] by simp

lemma to_signed_mod:
  assumes "- int h \<le> j" "j < int h" "int a = j mod (2 * int h)"
  shows "to_signed h a = j"
proof (cases "j < 0")
  case True
  then have "j mod (2 * int h) = (j + 2 * int h) mod (2 * int h)" by simp
  also have "\<dots> = j + 2 * int h" using assms True by (intro mod_pos_pos_trivial) linarith+
  finally have "int a = j + 2 * int h" using assms(3) by simp
  then show ?thesis using assms True by (simp add: to_signed_def)
next
  case False
  then have "j mod (2 * int h) = j" using assms by (intro mod_pos_pos_trivial) linarith+
  then show ?thesis using assms False by (simp add: to_signed_def)
qed

lemma signed_value_range:
  assumes "operand_size w"
  shows "- int (2 ^ (w - 1)) \<le> signed_value w v \<and> signed_value w v < int (2 ^ (w - 1))"
proof -
  have "int (nat_value w v) < 2 * int (2 ^ (w - 1))"
    using nat_value_double [OF assms, of v] by (metis of_nat_less_iff of_nat_mult of_nat_numeral)
  then show ?thesis
    using operand_size_pos [OF assms] by (simp add: signed_value_to_signed to_signed_def)
qed

lemma div_power_range:
  assumes "- int h \<le> i" "i < int h"
  shows "- int h \<le> i div 2 ^ n \<and> i div 2 ^ n < int h"
proof -
  have h: "0 \<le> int h" by simp
  have p: "(1::int) \<le> 2 ^ n" by simp
  have lower: "i div 2 ^ n \<ge> (- int h) div 2 ^ n" using assms(1) by (intro zdiv_mono1) simp_all
  have "- int h * 2 ^ n \<le> - int h" using h p by (simp add: mult_le_cancel_left1)
  then have "(- int h * 2 ^ n) div 2 ^ n \<le> (- int h) div 2 ^ n" by (intro zdiv_mono1) simp_all
  moreover have "(- int h * 2 ^ n) div 2 ^ n = - int h" by (rule nonzero_mult_div_cancel_right) simp
  ultimately have "- int h \<le> (- int h) div 2 ^ n" by linarith
  moreover have "i div 2 ^ n \<le> (int h - 1) div 2 ^ n" using assms(2) by (intro zdiv_mono1) simp_all
  moreover have "(int h - 1) div 2 ^ n < int h"
  proof (cases "h = 0")
    case False
    then have "(int h - 1) div 2 ^ n \<le> (int h - 1) div 1"
      using p by (intro zdiv_mono2) simp_all
    then show ?thesis by simp
  qed (use assms in simp)
  ultimately show ?thesis using lower by linarith
qed

lemma sar_value:
  assumes w: "operand_size w" and n: "n < w"
  shows "(w < 64 \<longrightarrow> signed_value w (drop_bit n (sign_extend v w) AND mask_for_width w)
           = signed_value w v div 2 ^ n) \<and>
    (w = 64 \<longrightarrow> unat (drop_bit n (sign_extend v w) AND mask_for_width w) = nat_value w v div 2 ^ n)"
proof -
  let ?i = "signed_value w v" and ?r = "drop_bit n (sign_extend v w) AND mask_for_width w"
  let ?h = "2 ^ (w - 1) :: nat"
  have w0: "0 < w" "w \<le> 64" and pw: "(2::nat) ^ w = 2 * ?h"
    using operand_size_pos [OF w] nat_value_double [OF w] by auto
  have "unat ?r = take_bit w (drop_bit n (unat (sign_extend v w)))"
    using w0 u64_bound [of "sign_extend v w"]
    by (simp add: unat_and_mask nat_value_def unsigned_drop_bit_eq take_bit_eq_mod)
  then have "int (unat ?r) = take_bit w (drop_bit n (take_bit 64 ?i))"
    using unat_sign_extend [OF w, of v] by (simp add: of_nat_take_bit of_nat_drop_bit)
  moreover have "take_bit w (drop_bit n (take_bit 64 ?i)) = take_bit w (drop_bit n ?i)" if "w < 64"
    using that n w by (intro bit_eqI) (auto simp: bit_simps operand_size_def)
  ultimately have sh: "int (unat ?r) = ?i div 2 ^ n mod (2 * int ?h)" if "w < 64"
    using that pw by (simp add: take_bit_eq_mod drop_bit_eq_div)
      (metis of_nat_mult of_nat_numeral of_nat_power)
  have "nat_value w ?r = unat ?r" using nat_value_of_masked [OF w] w0 by (simp add: unat_and_mask)
  then have sv: "signed_value w ?r = to_signed ?h (unat ?r)"
    using signed_value_to_signed [OF w0(1)] by simp
  have range: "- int ?h \<le> ?i div 2 ^ n" "?i div 2 ^ n < int ?h"
    using div_power_range [OF signed_value_range [OF w, of v, THEN conjunct1]
        signed_value_range [OF w, of v, THEN conjunct2], of n] by simp_all
  have "w < 64 \<longrightarrow> signed_value w ?r = ?i div 2 ^ n"
    unfolding sv using to_signed_mod [OF range sh] by blast
  moreover have "unat ?r = nat_value w v div 2 ^ n" if "w = 64"
  proof -
    have "int (unat (sign_extend v w)) = int (nat_value w v)"
      unfolding unat_sign_extend [OF w] using that nat_value_less [of w v]
      by (auto simp: signed_value_def take_bit_eq_mod)
    then have "unat (sign_extend v w) = nat_value w v" by linarith
    moreover have "?r = drop_bit n (sign_extend v w)" using that by (simp add: mask_values)
    ultimately show ?thesis by (simp only: unat_drop_u64)
  qed
  ultimately show ?thesis by blast
qed

text \<open>
  C35. Shifts by a count below the operand size: SHL multiplies by a power of two modulo the
  operand size and SHR divides; SAR divides the signed value rounding down at 8, 16 and 32 bits,
  but at 64 bits it shifts in zeros, which is wrong for every negative value.
\<close>

theorem shift_meaning:
  assumes "operand_size w" and "0 < n" "n < w" and "v = v AND mask_for_width w"
  shows "(\<exists>r. shift_result 4 v n w = Inr (Some r) \<and> unat r = (unat v * 2 ^ n) mod 2 ^ w) \<and>
    (\<exists>r. shift_result 5 v n w = Inr (Some r) \<and> unat r = unat v div 2 ^ n) \<and>
    (\<exists>r. shift_result 7 v n w = Inr (Some r) \<and>
       (w < 64 \<longrightarrow> signed_value w r = signed_value w v div 2 ^ n) \<and>
       (w = 64 \<longrightarrow> unat r = unat v div 2 ^ n))"
proof -
  have w0: "0 < w" "w \<le> 64" using operand_size_pos [OF assms(1)] by auto
  have a: "unat v = nat_value w v" using assms(4) w0 by (metis unat_and_mask)
  then have lt: "unat v < 2 ^ w" using nat_value_less [of w v] by simp
  have "unat (push_bit n v) = (unat v * 2 ^ n) mod 18446744073709551616"
    unfolding unsigned_push_bit_eq unfolding take_bit_eq_mod push_bit_eq_mult by simp
  then have "unat (push_bit n v AND mask_for_width w) = (unat v * 2 ^ n) mod 2 ^ w"
    using mod_64_width [OF assms(1), of "unat v * 2 ^ n"] w0
    by (simp add: unat_and_mask nat_value_def)
  moreover note unat_drop_u64 [of n v]
  then have "unat (drop_bit n v AND mask_for_width w) = unat v div 2 ^ n"
    using lt w0 le_less_trans [OF div_le_dividend [of "unat v" "2 ^ n"] lt]
    by (simp add: unat_and_mask nat_value_def)
  moreover note sar_value [OF assms(1) assms(3), of v]
  ultimately show ?thesis using a by (simp add: shift_result_def Let_def)
qed

theorem shift_meaning_witness:
  "\<exists>r. shift_result 7 0xF0 4 8 = Inr (Some r) \<and> signed_value 8 r = - 1"
  using shift_meaning [where w = 8 and n = 4 and v = "0xF0"]
  by (auto simp: operand_size_def mask_values signed_value_def nat_value_def)

end
