(* ===== verification/Muldiv_Laws.thy ===== *)
theory Muldiv_Laws
  imports Register_Laws
begin

text \<open>
  Division by the accumulator: the dividend is the pair of registers 2 and 0, the quotient and the
  remainder come back in them, and what does not fit is an error.
\<close>

definition wide :: "nat \<Rightarrow> bool" where
  "wide w \<longleftrightarrow> w = 16 \<or> w = 32 \<or> w = 64"

lemma wide_size: "wide w \<Longrightarrow> operand_size w \<and> w \<noteq> 8"
  by (auto simp: wide_def operand_size_def)

text \<open>The dividends of \<^verbatim>\<open>div\<close> and \<^verbatim>\<open>idiv\<close>.\<close>

definition pair_value :: "nat \<Rightarrow> prefixes \<Rightarrow> cpu \<Rightarrow> nat" where
  "pair_value w p c = unat (gpr_value 2 w p c) * 2 ^ w + unat (gpr_value 0 w p c)"

definition signed_pair :: "nat \<Rightarrow> prefixes \<Rightarrow> cpu \<Rightarrow> int" where
  "signed_pair w p c = signed_value w (gpr_value 2 w p c) * 2 ^ w + int (unat (gpr_value 0 w p c))"

lemma do_read_gpr_run:
  "\<exists>s'. do_read_gpr i w p s = (Inr (gpr_value i w p (s_cpu s)), s') \<and>
     c_gpr (s_cpu s') = c_gpr (s_cpu s) \<and>
     c_instruction_start (s_cpu s') = c_instruction_start (s_cpu s)"
  by (simp add: do_read_gpr_def cpu_call_def read_gpr_def)

lemma gpr_value_same: "c_gpr c = c_gpr c' \<Longrightarrow> gpr_value i w p c = gpr_value i w p c'"
  by (simp only: gpr_value_def)

lemma gpr_value_masked: "operand_size w \<Longrightarrow> gpr_value i w p c AND mask_for_width w = gpr_value i w p c"
  by (auto simp: gpr_value_slot split: prod.split)

lemma gpr_value_small: "operand_size w \<Longrightarrow> unat (gpr_value i w p c) < 2 ^ w"
  using nat_value_less [of w "gpr_value i w p c"] unat_and_mask [of w "gpr_value i w p c"]
  by (simp add: gpr_value_masked operand_size_pos)

lemma or_shifted:
  fixes low :: "'a :: {linordered_euclidean_semiring_bit_operations}"
  assumes "take_bit w low = low"
  shows "push_bit w high OR low = high * 2 ^ w + low"
proof -
  have "push_bit w high AND low = 0"
    by (subst assms [symmetric], rule bit_eqI) (auto simp: bit_simps)
  then have "push_bit w high OR low = push_bit w high + low" by (rule disjunctive_add_eq_or [symmetric])
  then show ?thesis by (simp add: push_bit_eq_mult)
qed

lemma gpr_after_write:
  assumes "wide w" and "i \<in> {0, 2}" and "j \<in> {0, 2}"
  shows "gpr_value i w p (write_gpr j w v p c) =
    (if i = j then v AND mask_for_width w else gpr_value i w p c)"
proof (cases "i = j")
  case True
  then show ?thesis using write_gpr_effect [of w i p v c] wide_size [OF assms(1)] by simp
next
  case False
  have w: "operand_size w" "w \<noteq> 8" using wide_size [OF assms(1)] by auto
  then have slot: "register_slot n w p = (of_nat (n mod 16), 0)" for n by (simp add: register_slot_def)
  have "(of_nat i :: regidx) \<noteq> of_nat j" using False assms(2,3) by auto
  then have "c_gpr (write_gpr j w v p c) (of_nat i) = c_gpr c (of_nat i)"
    using write_gpr_effect [OF w(1), of j p v c] assms(3) by (auto simp: slot)
  then show ?thesis using False assms(2) by (auto simp: gpr_value_slot [OF w(1)] slot)
qed

lemma write_pair_run:
  assumes "wide w"
  shows "\<exists>s'. seq (do_write_gpr 0 w x p) (do_write_gpr 2 w y p) s = (Inr (), s') \<and>
    gpr_value 0 w p (s_cpu s') = x AND mask_for_width w \<and>
    gpr_value 2 w p (s_cpu s') = y AND mask_for_width w"
  using gpr_after_write [OF assms]
  by (simp add: do_write_gpr_def monad_defs)

lemma wide_mask_nat: "wide w \<Longrightarrow> unat (of_nat n AND mask_for_width w) = n mod 2 ^ w"
  by (auto simp: unat_and_mask wide_def nat_value_def unat_of_nat take_bit_eq_mod mod_mod_cancel)

lemma read_pair_run:
  "\<exists>s'. bind (do_read_gpr 2 w p) (\<lambda>rdx. bind (do_read_gpr 0 w p) (f rdx)) s =
       f (gpr_value 2 w p (s_cpu s)) (gpr_value 0 w p (s_cpu s)) s' \<and>
     c_gpr (s_cpu s') = c_gpr (s_cpu s) \<and>
     c_instruction_start (s_cpu s') = c_instruction_start (s_cpu s)"
proof -
  obtain s1 where 1: "do_read_gpr 2 w p s = (Inr (gpr_value 2 w p (s_cpu s)), s1)"
    "c_gpr (s_cpu s1) = c_gpr (s_cpu s)" "c_instruction_start (s_cpu s1) = c_instruction_start (s_cpu s)"
    using do_read_gpr_run by metis
  obtain s2 where 2: "do_read_gpr 0 w p s1 = (Inr (gpr_value 0 w p (s_cpu s1)), s2)"
    "c_gpr (s_cpu s2) = c_gpr (s_cpu s1)" "c_instruction_start (s_cpu s2) = c_instruction_start (s_cpu s1)"
    using do_read_gpr_run by metis
  have "gpr_value 0 w p (s_cpu s1) = gpr_value 0 w p (s_cpu s)" using 1(2) by (rule gpr_value_same)
  then show ?thesis using 1 2 by (intro exI [of _ s2]) (simp add: bind_def)
qed

lemma divide_error_run:
  "fst (divide_error kind s) = Inl (EmulatorError (kind (c_instruction_start (s_cpu s))))"
  by (simp add: divide_error_def monad_defs)

lemma unsigned_division:
  assumes w: "wide w" and v: "v AND mask_for_width w = v" "v \<noteq> 0"
  shows "case execute_div w v p s of (res, s') \<Rightarrow>
    if pair_value w p (s_cpu s) < unat v * 2 ^ w
    then res = Inr () \<and> unat (gpr_value 2 w p (s_cpu s')) < unat v \<and>
      pair_value w p (s_cpu s) =
        unat (gpr_value 0 w p (s_cpu s')) * unat v + unat (gpr_value 2 w p (s_cpu s'))
    else res = Inl (EmulatorError (DivideOverflow (c_instruction_start (s_cpu s))))"
proof -
  let ?c = "s_cpu s"
  have sz: "operand_size w" "w \<noteq> 8" using wide_size [OF w] by auto
  define N where "N = pair_value w p ?c"
  define d where "d = unat v"
  have d: "0 < d" "d < 2 ^ w"
    using v(2) unat_and_mask [of w v] nat_value_less [of w v] operand_size_pos [OF sz(1)]
    unfolding d_def by (simp add: unat_gt_0, simp add: v(1))
  have N: "push_bit w (unat (gpr_value 2 w p ?c)) OR unat (gpr_value 0 w p ?c) = N"
    using gpr_value_small [OF sz(1), of 0 p ?c]
    by (subst or_shifted) (auto simp: take_bit_nat_eq_self N_def pair_value_def)
  have mask: "unat (mask_for_width w) = 2 ^ w - 1" by (rule unat_mask_for_width [OF sz(1)])
  obtain s1 where s1: "execute_div w v p s =
      (if N div d > 2 ^ w - 1 then divide_error DivideOverflow
       else seq (do_write_gpr 0 w (of_nat (N div d)) p) (do_write_gpr 2 w (of_nat (N mod d)) p)) s1"
    "c_instruction_start (s_cpu s1) = c_instruction_start ?c"
    using read_pair_run [of w p "\<lambda>rdx rax. let dividend = push_bit w (unat rdx) OR unat rax;
            quotient = dividend div unat v; remainder = dividend mod unat v in
        if quotient > unat (mask_for_width w) then divide_error DivideOverflow
        else seq (do_write_gpr 0 w (of_nat quotient) p) (do_write_gpr 2 w (of_nat remainder) p)" s]
      v(2) sz(2) unfolding execute_div_def Let_def N mask d_def by auto
  have bound: "N div d < 2 ^ w \<longleftrightarrow> N < d * 2 ^ w" using d(1) by (simp add: div_less_iff_less_mult mult.commute)
  show ?thesis
  proof (cases "N < d * 2 ^ w")
    case True
    then have q: "N div d < 2 ^ w" by (simp add: bound)
    have r: "N mod d < d" "N mod d < 2 ^ w" using d by (auto intro: less_trans [OF mod_less_divisor])
    have "\<not> 2 ^ w - 1 < N div d" using q by linarith
    then have small: "execute_div w v p s =
        seq (do_write_gpr 0 w (of_nat (N div d)) p) (do_write_gpr 2 w (of_nat (N mod d)) p) s1"
      unfolding s1(1) by (simp only: if_False)
    obtain s2 where s2: "execute_div w v p s = (Inr (), s2)"
      "gpr_value 0 w p (s_cpu s2) = of_nat (N div d) AND mask_for_width w"
      "gpr_value 2 w p (s_cpu s2) = of_nat (N mod d) AND mask_for_width w"
      using write_pair_run [OF w, of "of_nat (N div d)" p "of_nat (N mod d)" s1] unfolding small by blast
    have "unat (gpr_value 0 w p (s_cpu s2)) = N div d" "unat (gpr_value 2 w p (s_cpu s2)) = N mod d"
      using s2(2,3) q r(2) by (simp_all add: wide_mask_nat [OF w])
    then show ?thesis using True s2(1) r(1) unfolding N_def d_def by simp
  next
    case False
    then have "2 ^ w \<le> N div d" using bound by simp
    moreover have "0 < (2 :: nat) ^ w" by simp
    ultimately have "N div d > 2 ^ w - 1" by linarith
    then show ?thesis
      using False s1 divide_error_run [of DivideOverflow s1] unfolding N_def d_def by (simp add: case_prod_beta)
  qed
qed

lemma wide_mask_signed:
  assumes "wide w" and "- (2 ^ (w - 1)) \<le> i" and "i \<le> 2 ^ (w - 1) - 1"
  shows "signed_value w (of_int i AND mask_for_width w) = i"
proof -
  have sz: "operand_size w" and w: "0 < w" "w \<le> 64" using wide_size [OF assms(1)] operand_size_pos by auto
  have "int (nat_value w (of_int i AND mask_for_width w)) = i mod 2 ^ w"
    using assms(1) w
    by (simp add: nat_value_of_masked [OF sz])
      (auto simp: nat_value_def wide_def unat_eq_nat_uint uint_word_of_int zmod_int mod_mod_cancel)
  moreover have "(2 :: int) ^ w = 2 * int (2 ^ (w - 1))" using w by (cases w) auto
  ultimately show ?thesis
    using assms(2,3) w by (subst signed_value_to_signed) (auto intro!: to_signed_mod)
qed

lemma smod_bound: "d \<noteq> 0 \<Longrightarrow> \<bar>n smod d\<bar> < \<bar>d :: int\<bar>"
  by (simp add: smod_int_alt_def abs_mult sgn_if)

lemma signed_division:
  assumes w: "wide w" and d: "signed_value w v \<noteq> 0"
    and fits: "\<not> (signed_pair w p (s_cpu s) = - (2 ^ 127) \<and> signed_value w v = - 1)"
  shows "case execute_idiv w v p s of (res, s') \<Rightarrow>
    if - (2 ^ (w - 1)) \<le> signed_pair w p (s_cpu s) sdiv signed_value w v \<and>
       signed_pair w p (s_cpu s) sdiv signed_value w v < 2 ^ (w - 1)
    then res = Inr () \<and>
      signed_value w (gpr_value 0 w p (s_cpu s')) = signed_pair w p (s_cpu s) sdiv signed_value w v \<and>
      signed_value w (gpr_value 2 w p (s_cpu s')) = signed_pair w p (s_cpu s) smod signed_value w v
    else res = Inl (EmulatorError (DivideOverflow (c_instruction_start (s_cpu s))))"
proof -
  let ?c = "s_cpu s"
  have sz: "operand_size w" "w \<noteq> 8" using wide_size [OF w] by auto
  define N where "N = signed_pair w p ?c"
  define D where "D = signed_value w v"
  have D: "sint (sign_extend v w) = D" unfolding D_def by (rule sign_extend_value [OF sz(1)])
  have "int (unat (gpr_value 0 w p ?c)) < 2 ^ w"
    using gpr_value_small [OF sz(1), of 0 p ?c] by (metis of_nat_less_iff of_nat_numeral of_nat_power)
  then have N: "push_bit w (sint (sign_extend (gpr_value 2 w p ?c) w)) OR int (unat (gpr_value 0 w p ?c)) = N"
    by (subst or_shifted) (auto simp: take_bit_int_eq_self N_def signed_pair_def sign_extend_value [OF sz(1)])
  obtain s1 where s1: "execute_idiv w v p s =
      (if N sdiv D < - (2 ^ (w - 1)) \<or> N sdiv D > 2 ^ (w - 1) - 1 then divide_error DivideOverflow
       else seq (do_write_gpr 0 w (of_int (N sdiv D)) p) (do_write_gpr 2 w (of_int (N smod D)) p)) s1"
    "c_instruction_start (s_cpu s1) = c_instruction_start ?c"
    using read_pair_run [of w p "\<lambda>rdx rax. let high = sint (sign_extend rdx w); low = int (unat rax);
            dividend = push_bit w high OR low in
        if dividend = - (2 ^ 127) \<and> D = - 1 then throw UndefinedBehaviour
        else let quotient = dividend sdiv D; remainder = dividend smod D in
          if quotient < - (2 ^ (w - 1)) \<or> quotient > 2 ^ (w - 1) - 1 then divide_error DivideOverflow
          else seq (do_write_gpr 0 w (of_int quotient) p) (do_write_gpr 2 w (of_int remainder) p)" s]
      d fits sz(2) unfolding execute_idiv_def Let_def N D D_def [symmetric] N_def [symmetric] by auto
  show ?thesis
  proof (cases "- (2 ^ (w - 1)) \<le> N sdiv D \<and> N sdiv D < 2 ^ (w - 1)")
    case True
    have range: "\<bar>D\<bar> \<le> 2 ^ (w - 1)" using signed_value_range [OF sz(1), of v] by (auto simp: D_def abs_le_iff)
    have r: "- (2 ^ (w - 1)) \<le> N smod D" "N smod D \<le> 2 ^ (w - 1) - 1"
      using smod_bound [of D N] d range by (auto simp: D_def)
    obtain s2 where s2: "execute_idiv w v p s = (Inr (), s2)"
      "gpr_value 0 w p (s_cpu s2) = of_int (N sdiv D) AND mask_for_width w"
      "gpr_value 2 w p (s_cpu s2) = of_int (N smod D) AND mask_for_width w"
      using write_pair_run [OF w, of "of_int (N sdiv D)" p "of_int (N smod D)" s1] s1 True by auto
    then show ?thesis
      using True wide_mask_signed [OF w r] wide_mask_signed [OF w, of "N sdiv D"]
      unfolding N_def D_def by simp
  next
    case False
    then show ?thesis
      using s1 divide_error_run [of DivideOverflow s1] unfolding N_def D_def by (auto simp: case_prod_beta)
  qed
qed

text \<open>
  C32. Division at 16, 32 and 64 bits. \<^verbatim>\<open>div\<close> leaves the quotient in register 0 and the remainder in
  register 2 with dividend = quotient * divisor + remainder and remainder < divisor, exactly when the
  quotient fits, that is when the dividend is below divisor * 2^w; \<^verbatim>\<open>idiv\<close> does the same on signed
  numbers, rounding towards zero. A zero divisor and a quotient that does not fit are errors that
  name the instruction. (The one signed division that C++ leaves undefined is the third hypothesis.)
\<close>

theorem division_spec:
  assumes "w \<in> {16, 32, 64}" and "v AND mask_for_width w = v"
    and "\<not> (signed_pair w p (s_cpu s) = - (2 ^ 127) \<and> signed_value w v = - 1)"
  shows "(case execute_div w v p s of (res, s') \<Rightarrow>
      if v = 0 then res = Inl (EmulatorError (DivideByZero (c_instruction_start (s_cpu s))))
      else if pair_value w p (s_cpu s) < unat v * 2 ^ w
      then res = Inr () \<and> unat (gpr_value 2 w p (s_cpu s')) < unat v \<and>
        pair_value w p (s_cpu s) =
          unat (gpr_value 0 w p (s_cpu s')) * unat v + unat (gpr_value 2 w p (s_cpu s'))
      else res = Inl (EmulatorError (DivideOverflow (c_instruction_start (s_cpu s))))) \<and>
    (case execute_idiv w v p s of (res, s') \<Rightarrow>
      if v = 0 then res = Inl (EmulatorError (DivideByZero (c_instruction_start (s_cpu s))))
      else if - (2 ^ (w - 1)) \<le> signed_pair w p (s_cpu s) sdiv signed_value w v \<and>
        signed_pair w p (s_cpu s) sdiv signed_value w v < 2 ^ (w - 1)
      then res = Inr () \<and>
        signed_value w (gpr_value 0 w p (s_cpu s')) = signed_pair w p (s_cpu s) sdiv signed_value w v \<and>
        signed_value w (gpr_value 2 w p (s_cpu s')) = signed_pair w p (s_cpu s) smod signed_value w v
      else res = Inl (EmulatorError (DivideOverflow (c_instruction_start (s_cpu s)))))"
proof (cases "v = 0")
  case True
  have w: "wide w" using assms(1) by (auto simp: wide_def)
  have "sint (sign_extend v w) = 0"
    using sign_extend_value [of w v] wide_size [OF w] True by (simp add: signed_value_def nat_value_def)
  then show ?thesis
    using True divide_error_run [of DivideByZero s]
    by (simp add: execute_div_def execute_idiv_def case_prod_beta)
next
  case False
  have w: "wide w" using assms(1) by (auto simp: wide_def)
  have "unat v = nat_value w v" using unat_and_mask [of w v] assms(1,2) by auto
  moreover have "0 < unat v" using False by (simp add: unat_gt_0)
  ultimately have "signed_value w v \<noteq> 0"
    using nat_value_less [of w v] by (auto simp: signed_value_def)
  from signed_division [OF w this assms(3)] unsigned_division [OF w assms(2) False]
  show ?thesis unfolding if_not_P [OF False] by (rule conjI [rotated])
qed

text \<open>- 17 divided by 5.\<close>

definition dividing_machine :: machine where
  "dividing_machine = (initial_machine
     \<lparr>opt_trace = False, opt_trace_syscalls = False, opt_backtrace_on_exit = False,
      opt_malloc_trace = False\<rparr> (\<lambda>_. 0))\<lparr>s_cpu := initial_cpu\<lparr>c_gpr :=
        (\<lambda>_. 0)(0 := 0xFFFFFFEF, 2 := 0xFFFFFFFF)\<rparr>\<rparr>"

theorem division_spec_witness:
  "\<exists>s'. execute_idiv 32 5 no_prefixes dividing_machine = (Inr (), s') \<and>
     signed_value 32 (gpr_value 0 32 no_prefixes (s_cpu s')) = - 3 \<and>
     signed_value 32 (gpr_value 2 32 no_prefixes (s_cpu s')) = - 2"
proof -
  have pair: "signed_pair 32 no_prefixes (s_cpu dividing_machine) = - 17"
    by (simp add: signed_pair_def gpr_value_def dividing_machine_def initial_cpu_def
        signed_value_def nat_value_def)
  have five: "signed_value 32 5 = 5" by (simp add: signed_value_def nat_value_def)
  have "(- 17 :: int) sdiv 5 = - 3" "(- 17 :: int) smod 5 = - 2"
    by (simp_all add: signed_divide_int_def smod_int_alt_def)
  then show ?thesis
    using division_spec [of 32 5 no_prefixes dividing_machine] pair five
    by (auto simp: mask_values split: prod.splits)
qed

end
