(* ===== verification/String_Laws.thy ===== *)
theory String_Laws
  imports CPU_ALU Guest_Laws
begin

text \<open>
  The string instructions of \<^verbatim>\<open>SoftCPU64::execute_string_instruction\<close>
  (\<^verbatim>\<open>src/SoftCPU64.cpp\<close>), with or without the repeat prefix: two nested loops against a copy of
  bytes in ascending order and against a filled range.
\<close>

section \<open>Copying in ascending order\<close>

definition forward_copy :: "(u64 \<Rightarrow> 'v) \<Rightarrow> u64 \<Rightarrow> u64 \<Rightarrow> nat \<Rightarrow> u64 \<Rightarrow> 'v" where
  "forward_copy f from to n = fold (\<lambda>i g. g(to + of_nat i := g (from + of_nat i))) [0..<n] f"

lemma forward_copy_simps [simp]:
  "forward_copy f from to 0 = f"
  "forward_copy f from to (Suc n) =
     (forward_copy f from to n)(to + of_nat n := forward_copy f from to n (from + of_nat n))"
  by (simp_all add: forward_copy_def)

lemma forward_copy_append:
  "forward_copy (forward_copy f from to n) (from + of_nat n) (to + of_nat n) k = forward_copy f from to (n + k)"
  by (induction k) (simp_all add: algebra_simps)

text \<open>When the destination does not begin inside the source, the bytes arrive as they were.\<close>

lemma forward_copy_apart:
  assumes "n \<le> unat (to - from)"
  shows "forward_copy f from to n x = (if unat (x - to) < n then f (from + (x - to)) else f x)"
  using assms
proof (induction n arbitrary: x)
  case (Suc n)
  have n: "unat (of_nat n :: u64) = n"
    using Suc.prems u64_bound [of "to - from"] by (intro of_nat_unat_u64) simp
  have hit: "x = to + of_nat n \<longleftrightarrow> unat (x - to) = n"
  proof
    assume "unat (x - to) = n"
    then have "unat (x - to) = unat (of_nat n :: u64)" using n by simp
    then have "x - to = of_nat n" by (simp only: word_unat_eq_iff)
    then show "x = to + of_nat n" by (simp add: algebra_simps)
  qed (use n in simp)
  have "unat (from + of_nat n - to) \<ge> n"
  proof -
    have "unat (of_nat n - (to - from)) = n + 18446744073709551616 - unat (to - from)"
      using unat_sub_wrap [of "of_nat n" "to - from"] Suc.prems n by (simp add: u64_order)
    moreover have "of_nat n - (to - from) = from + of_nat n - to" by (simp add: algebra_simps)
    ultimately show ?thesis using u64_bound [of "to - from"] by simp
  qed
  then show ?case using Suc.IH Suc.prems n by (auto simp: hit less_Suc_eq)
qed simp

lemma forward_copy_keeps:
  "\<forall>j < n. Q (f (from + of_nat j)) \<Longrightarrow> Q (f x) \<Longrightarrow> Q (forward_copy f from to n x)"
  by (induction n arbitrary: x) auto

section \<open>Loops\<close>

lemma for_loop_run:
  assumes "P i s"
    and "\<And>k t. i \<le> k \<Longrightarrow> k < i + n \<Longrightarrow> P k t \<Longrightarrow> \<exists>t'. body k t = (Inr (), t') \<and> P (Suc k) t'"
  shows "\<exists>t. for_loop i n body s = (Inr (), t) \<and> P (i + n) t"
  using assms
proof (induction n arbitrary: i s)
  case (Suc n)
  from Suc.prems(2) [of i s] Suc.prems(1) obtain t where t: "body i s = (Inr (), t)" "P (Suc i) t" by auto
  have "\<exists>u. for_loop (Suc i) n body t = (Inr (), u) \<and> P (Suc i + n) u"
    using t(2) Suc.prems(2) by (intro Suc.IH) auto
  then show ?case using t(1) by (auto simp: monad_defs)
qed (simp add: return_def)

text \<open>The same machine but for bytes of memory and the registers given.\<close>

definition moved :: "machine \<Rightarrow> cpu \<Rightarrow> machine \<Rightarrow> bool" where
  "moved s c t \<longleftrightarrow> quiet_wf t \<and> open_byte (s_mmu t) = open_byte (s_mmu s) \<and>
     mmu_layout (s_mmu t) = mmu_layout (s_mmu s) \<and> t = s\<lparr>s_mmu := s_mmu t, s_cpu := c\<rparr>"

lemma moved_refl: "quiet_wf s \<Longrightarrow> moved s (s_cpu s) s"
  by (simp add: moved_def)

lemma moved_cpu: "moved s c t \<Longrightarrow> s_cpu t = c"
  unfolding moved_def by (elim conjE) (drule arg_cong [where f = s_cpu and x = t], simp)

lemma moved_trans:
  assumes "moved s c t" and "moved t c' u"
  shows "moved s c' u"
proof -
  have t: "t = s\<lparr>s_mmu := s_mmu t, s_cpu := c\<rparr>" and u: "u = t\<lparr>s_mmu := s_mmu u, s_cpu := c'\<rparr>"
    using assms by (simp_all add: moved_def)
  have "u = s\<lparr>s_mmu := s_mmu u, s_cpu := c'\<rparr>" by (subst u, subst t) simp
  then show ?thesis using assms by (simp add: moved_def)
qed

lemma moved_outside: "quiet_wf t \<Longrightarrow> open_byte (s_mmu t) = open_byte (s_mmu s) \<Longrightarrow>
  mmu_layout (s_mmu t) = mmu_layout (s_mmu s) \<Longrightarrow> outside_memory t = outside_memory s \<Longrightarrow>
  moved s (s_cpu s) t"
proof -
  assume t: "outside_memory t = outside_memory s"
  have "t = (outside_memory t)\<lparr>s_mmu := s_mmu t\<rparr>" by (simp add: outside_memory_def)
  then have "t = s\<lparr>s_mmu := s_mmu t\<rparr>" unfolding t by (simp add: outside_memory_def)
  moreover have "s_cpu t = s_cpu s" using arg_cong [OF t, of s_cpu] by (simp add: outside_memory_def)
  ultimately have "t = s\<lparr>s_mmu := s_mmu t, s_cpu := s_cpu s\<rparr>" by (metis machine.surjective machine.update_convs(2))
  moreover assume "quiet_wf t" "open_byte (s_mmu t) = open_byte (s_mmu s)"
    "mmu_layout (s_mmu t) = mmu_layout (s_mmu s)"
  ultimately show ?thesis unfolding moved_def by blast
qed

lemma moved_upd_cpu: "moved s c t \<Longrightarrow> \<exists>u. upd_cpu f t = (Inr (), u) \<and> moved s (f c) u \<and> s_mmu u = s_mmu t"
proof -
  assume m: "moved s c t"
  let ?u = "t\<lparr>s_cpu := f c\<rparr>"
  have "upd_cpu f t = (Inr (), ?u)" using moved_cpu [OF m] by (simp add: monad_defs)
  moreover have "moved t (f c) ?u" using m by (simp add: moved_def quiet_wf_def untraced_def)
  then have "moved s (f c) ?u" by (rule moved_trans [OF m])
  ultimately show ?thesis by auto
qed

section \<open>Moves\<close>

definition reads_at :: "machine \<Rightarrow> u64 \<Rightarrow> bool" where
  "reads_at s a \<longleftrightarrow> (\<exists>b. read8 (s_mmu s) a = Inr b)"

lemma copy_byte_run:
  assumes "quiet_wf s" and "reads_at s a" and "open_byte (s_mmu s) d"
  shows "\<exists>t. bind (mem_read8 a) (write8 d) s = (Inr (), t) \<and> moved s (s_cpu s) t \<and>
    read8 (s_mmu t) = (read8 (s_mmu s))(d := read8 (s_mmu s) a)"
proof -
  from assms(2) obtain b where b: "read8 (s_mmu s) a = Inr b" by (auto simp: reads_at_def)
  from guest_bytes.wr_run [OF assms(1,3), of b] show ?thesis
    by (auto simp: mem_read8_def b moved_outside monad_defs)
qed

lemma copy_bytes_run:
  assumes s: "quiet_wf s" and src: "\<And>j. j < n \<Longrightarrow> reads_at s (a + of_nat j)"
    and dst: "\<And>j. j < n \<Longrightarrow> open_byte (s_mmu s) (d + of_nat j)"
  shows "\<exists>t. for_loop 0 n (\<lambda>b. bind (mem_read8 (a + of_nat b)) (write8 (d + of_nat b))) s = (Inr (), t) \<and>
    moved s (s_cpu s) t \<and> read8 (s_mmu t) = forward_copy (read8 (s_mmu s)) a d n"
proof -
  let ?P = "\<lambda>k t. moved s (s_cpu s) t \<and> read8 (s_mmu t) = forward_copy (read8 (s_mmu s)) a d k"
  have "\<exists>t'. bind (mem_read8 (a + of_nat k)) (write8 (d + of_nat k)) t = (Inr (), t') \<and> ?P (Suc k) t'"
    if k: "k < n" and t: "?P k t" for k t
  proof -
    have "reads_at t (a + of_nat k)"
      using t k src forward_copy_keeps [of k "\<lambda>r. \<exists>b. r = Inr b" "read8 (s_mmu s)" a "a + of_nat k" d]
      by (auto simp: reads_at_def)
    moreover have "open_byte (s_mmu t) (d + of_nat k)" "quiet_wf t" using t dst [OF k] by (auto simp: moved_def)
    ultimately show ?thesis
      using copy_byte_run [of t "a + of_nat k" "d + of_nat k"] t moved_cpu [of s "s_cpu s" t]
        moved_trans [of s "s_cpu s" t]
      by auto
  qed
  with for_loop_run [of ?P 0 s n "\<lambda>b. bind (mem_read8 (a + of_nat b)) (write8 (d + of_nat b))"] s
  show ?thesis by (simp add: moved_refl)
qed

text \<open>The size of an element, the start of the source, and the registers after \<open>n\<close> bytes.\<close>

definition element_size :: "u8 \<Rightarrow> prefixes \<Rightarrow> nat" where
  "element_size opcode p =
     (if opcode AND 1 = 0 then 1 else if rex_w p then 8 else if p_operand16 p then 2 else 4)"

definition repetitions :: "prefixes \<Rightarrow> cpu \<Rightarrow> nat" where
  "repetitions p c = (if p_repz p then unat (c_gpr c RCX) else 1)"

definition segment_base :: "prefixes \<Rightarrow> cpu \<Rightarrow> u64" where
  "segment_base p c = (if p_segment p = 64 then c_fs_base c else if p_segment p = 65 then c_gs_base c else 0)"

definition move_registers :: "regidx list \<Rightarrow> nat \<Rightarrow> cpu \<Rightarrow> cpu" where
  "move_registers rs n c = c\<lparr>c_gpr := (\<lambda>r. if r \<in> set rs then c_gpr c r + of_nat n else c_gpr c r)\<rparr>"

definition clear_counter :: "prefixes \<Rightarrow> cpu \<Rightarrow> cpu" where
  "clear_counter p c = (if p_repz p then set_shadow RCX 0 (set_gpr RCX 0 c) else c)"

lemma move_registers_simps [simp]:
  "move_registers rs 0 c = c" "move_registers rs k (move_registers rs n c) = move_registers rs (n + k) c"
  "c_fs_base (move_registers rs n c) = c_fs_base c" "c_gs_base (move_registers rs n c) = c_gs_base c"
  "flag f (move_registers rs n c) = flag f c"
  "segment_base p (move_registers rs n c) = segment_base p c"
  "c_gpr (move_registers rs n c) r = (if r \<in> set rs then c_gpr c r + of_nat n else c_gpr c r)"
  by (simp_all add: move_registers_def flag_def segment_base_def fun_eq_iff algebra_simps)

lemma move_registers_set:
  "set_gpr RDI (c_gpr c RDI + of_nat n) (set_gpr RSI (c_gpr c RSI + of_nat n) c) = move_registers [RDI, RSI] n c"
  "set_gpr RDI (c_gpr c RDI + of_nat n) c = move_registers [RDI] n c"
  by (auto simp: set_gpr_def move_registers_def fun_eq_iff intro!: cpu.equality)

lemma seq_run: "f s = (Inr (), t) \<Longrightarrow> seq f g s = g t"
  by (simp add: seq_def bind_def)

lemma bind_gets: "bind (gets f) g s = g (f s) s"
  by (simp add: bind_def gets_def)

lemma move_iteration:
  assumes "opcode = 0xa4 \<or> opcode = 0xa5"
  shows "string_iteration opcode p w d s =
    seq (for_loop 0 w (\<lambda>b. bind (mem_read8 (c_gpr (s_cpu s) RSI + segment_base p (s_cpu s) + of_nat b))
           (write8 (c_gpr (s_cpu s) RDI + of_nat b))))
      (upd_cpu (\<lambda>c. set_gpr RDI (c_gpr c RDI + d) (set_gpr RSI (c_gpr c RSI + d) c))) s"
  using assms unfolding string_iteration_def segment_base_def
  by (simp only: if_True bind_gets Let_def)

lemma move_run:
  assumes "quiet_wf s" and "opcode = 0xa4 \<or> opcode = 0xa5" and c: "s_cpu s = c"
    and "\<And>j. j < w \<Longrightarrow> reads_at s (c_gpr c RSI + segment_base p c + of_nat j)"
    and "\<And>j. j < w \<Longrightarrow> open_byte (s_mmu s) (c_gpr c RDI + of_nat j)"
  shows "\<exists>t. string_iteration opcode p w (of_nat w) s = (Inr (), t) \<and>
    moved s (move_registers [RDI, RSI] w c) t \<and>
    read8 (s_mmu t) = forward_copy (read8 (s_mmu s)) (c_gpr c RSI + segment_base p c) (c_gpr c RDI) w"
proof -
  from copy_bytes_run [OF assms(1,4,5)] obtain t where
    t: "for_loop 0 w (\<lambda>b. bind (mem_read8 (c_gpr c RSI + segment_base p c + of_nat b))
        (write8 (c_gpr c RDI + of_nat b))) s = (Inr (), t)" "moved s c t"
      "read8 (s_mmu t) = forward_copy (read8 (s_mmu s)) (c_gpr c RSI + segment_base p c) (c_gpr c RDI) w"
    using c by auto
  from moved_upd_cpu [OF t(2), of "\<lambda>c. set_gpr RDI (c_gpr c RDI + of_nat w)
      (set_gpr RSI (c_gpr c RSI + of_nat w) c)"] obtain u where
    u: "upd_cpu (\<lambda>c. set_gpr RDI (c_gpr c RDI + of_nat w)
      (set_gpr RSI (c_gpr c RSI + of_nat w) c)) t = (Inr (), u)" "moved s (move_registers [RDI, RSI] w c) u"
      "s_mmu u = s_mmu t"
    unfolding move_registers_set by blast
  have "string_iteration opcode p w (of_nat w) s = (Inr (), u)"
    unfolding move_iteration [OF assms(2)] c by (simp add: seq_run t(1) u(1))
  then show ?thesis using u(2,3) t(3) by auto
qed

lemma string_run:
  assumes "for_loop 0 (repetitions p c) (\<lambda>_. string_iteration opcode p (element_size opcode p)
      (of_nat (element_size opcode p))) s = (Inr (), t)"
    and "s_cpu s = c" and "\<not> flag DF c" and "opcode \<in> {0xa4, 0xa5, 0xaa, 0xab}" and "moved s c' t"
  shows "\<exists>u. execute_string_instruction opcode p s = (Inr (), u) \<and> moved s (clear_counter p c') u \<and>
    s_mmu u = s_mmu t"
proof -
  have width: "(if opcode = 0xa5 \<or> opcode = 0xab then if rex_w p then 8 else if p_operand16 p then 2 else 4 else 1) =
      element_size opcode p"
    using assms(4) by (auto simp: element_size_def)
  have count: "unat (if p_repz p then c_gpr c RCX else 1) = repetitions p c" by (simp add: repetitions_def)
  from moved_upd_cpu [OF assms(5), of "\<lambda>c. set_shadow RCX 0 (set_gpr RCX 0 c)"]
  obtain u where u: "when_do (p_repz p) (upd_cpu (\<lambda>c. set_shadow RCX 0 (set_gpr RCX 0 c))) t = (Inr (), u)"
    "moved s (clear_counter p c') u" "s_mmu u = s_mmu t"
    using assms(5) by (cases "p_repz p") (auto simp: when_do_def return_def clear_counter_def)
  have "execute_string_instruction opcode p s = (Inr (), u)"
    unfolding execute_string_instruction_def Let_def width bind_gets assms(2) count
    using assms(1,3) u(1) by (simp add: seq_run)
  then show ?thesis using u(2,3) by blast
qed

lemma element_bound: "k < r \<Longrightarrow> j < w \<Longrightarrow> k * w + j < r * (w :: nat)"
  using mult_le_mono1 [of "Suc k" r w] by simp

lemma moves_run:
  fixes p
  assumes q: "quiet_wf s" and op: "opcode = 0xa4 \<or> opcode = 0xa5" and c: "s_cpu s = c"
    and src: "\<And>j. j < r * w \<Longrightarrow> reads_at s (c_gpr c RSI + segment_base p c + of_nat j)"
    and dst: "\<And>j. j < r * w \<Longrightarrow> open_byte (s_mmu s) (c_gpr c RDI + of_nat j)"
  shows "\<exists>t. for_loop 0 r (\<lambda>_. string_iteration opcode p w (of_nat w)) s = (Inr (), t) \<and>
    moved s (move_registers [RDI, RSI] (r * w) c) t \<and>
    read8 (s_mmu t) = forward_copy (read8 (s_mmu s)) (c_gpr c RSI + segment_base p c) (c_gpr c RDI) (r * w)"
proof -
  let ?f = "read8 (s_mmu s)" and ?a = "c_gpr c RSI + segment_base p c" and ?d = "c_gpr c RDI"
  let ?P = "\<lambda>k t. moved s (move_registers [RDI, RSI] (k * w) c) t \<and> read8 (s_mmu t) = forward_copy ?f ?a ?d (k * w)"
  have "\<exists>t'. string_iteration opcode p w (of_nat w) t = (Inr (), t') \<and> ?P (Suc k) t'"
    if k: "k < r" and t: "?P k t" for k t
  proof -
    let ?c = "move_registers [RDI, RSI] (k * w) c"
    have q': "quiet_wf t" and o: "open_byte (s_mmu t) = open_byte (s_mmu s)" using t by (simp_all add: moved_def)
    have at: "c_gpr ?c RSI + segment_base p ?c = ?a + of_nat (k * w)" "c_gpr ?c RDI = ?d + of_nat (k * w)"
      by simp_all
    have before: "\<forall>j < k * w. \<exists>b. ?f (?a + of_nat j) = Inr b"
    proof (intro allI impI)
      fix j assume "j < k * w"
      moreover have "k * w \<le> r * w" using k by (intro mult_le_mono1) simp
      ultimately have "j < r * w" by (rule less_le_trans)
      from src [OF this] show "\<exists>b. ?f (?a + of_nat j) = Inr b" by (simp add: reads_at_def)
    qed
    have "reads_at t (?a + of_nat (k * w) + of_nat j)" if "j < w" for j
      using forward_copy_keeps [of "k * w" "\<lambda>r. \<exists>b. r = Inr b" ?f ?a, OF before]
        src [OF element_bound [OF k that]] t
      by (simp add: reads_at_def add.assoc)
    moreover have "open_byte (s_mmu t) (?d + of_nat (k * w) + of_nat j)" if "j < w" for j
      using dst [OF element_bound [OF k that]] by (simp add: o add.assoc)
    ultimately obtain t' where t': "string_iteration opcode p w (of_nat w) t = (Inr (), t')"
      "moved t (move_registers [RDI, RSI] w ?c) t'"
      "read8 (s_mmu t') = forward_copy (read8 (s_mmu t)) (?a + of_nat (k * w)) (?d + of_nat (k * w)) w"
      using move_run [OF q' op, of ?c w p] moved_cpu t unfolding at by blast
    moreover have "read8 (s_mmu t') = forward_copy ?f ?a ?d (Suc k * w)"
      using t t'(3) forward_copy_append [of ?f ?a ?d "k * w" w] by (simp add: add.commute)
    moreover have "moved s (move_registers [RDI, RSI] (Suc k * w) c) t'"
      using moved_trans [OF conjunct1 [OF t] t'(2)] by (simp add: add.commute)
    ultimately show ?thesis by blast
  qed
  with for_loop_run [of ?P 0 s r "\<lambda>_. string_iteration opcode p w (of_nat w)"] moved_refl [OF q]
  show ?thesis by (simp add: c)
qed

text \<open>
  C33. The move instructions with the direction flag clear, with or without the repeat prefix, copy
  bytes one by one in ascending order, whatever the size of an element: after \<open>n\<close> bytes the two
  index registers have advanced by \<open>n\<close> and the counter is zero, and nothing else of the machine has
  changed. If the destination does not begin inside the source, the bytes arrive as they were
  before the instruction; otherwise the beginning repeats, also within an element.
\<close>

theorem string_copy:
  fixes opcode p s
  defines "c \<equiv> s_cpu s"
  defines "source \<equiv> c_gpr c RSI + segment_base p c" and "target \<equiv> c_gpr c RDI"
    and "n \<equiv> repetitions p c * element_size opcode p"
  assumes "mmu_wf (s_mmu s)" and "untraced s" and "opcode \<in> {0xa4, 0xa5}" and "\<not> flag DF c"
    and "\<And>j. j < n \<Longrightarrow> reads_at s (source + of_nat j)"
    and "\<And>j. j < n \<Longrightarrow> open_byte (s_mmu s) (target + of_nat j)"
  shows "\<exists>t. execute_string_instruction opcode p s = (Inr (), t) \<and>
    read8 (s_mmu t) = forward_copy (read8 (s_mmu s)) source target n \<and>
    (n \<le> unat (target - source) \<longrightarrow> (\<forall>x. read8 (s_mmu t) x =
       (if unat (x - target) < n then read8 (s_mmu s) (source + (x - target)) else read8 (s_mmu s) x))) \<and>
    mmu_wf (s_mmu t) \<and> mmu_layout (s_mmu t) = mmu_layout (s_mmu s) \<and>
    t = s\<lparr>s_mmu := s_mmu t, s_cpu := clear_counter p (move_registers [RDI, RSI] n c)\<rparr>"
proof -
  have q: "quiet_wf s" using assms(5,6) by (simp add: quiet_wf_def)
  from moves_run [OF q, of opcode c "repetitions p c" "element_size opcode p" p] assms(7,9,10)
  obtain t where t: "for_loop 0 (repetitions p c)
      (\<lambda>_. string_iteration opcode p (element_size opcode p) (of_nat (element_size opcode p))) s = (Inr (), t)"
    "moved s (move_registers [RDI, RSI] n c) t" "read8 (s_mmu t) = forward_copy (read8 (s_mmu s)) source target n"
    unfolding c_def n_def source_def target_def by auto
  from string_run [OF t(1) _ assms(8) _ t(2)] assms(7) obtain u where
    u: "execute_string_instruction opcode p s = (Inr (), u)"
      "moved s (clear_counter p (move_registers [RDI, RSI] n c)) u" "s_mmu u = s_mmu t" by (auto simp: c_def)
  have "n \<le> unat (target - source) \<longrightarrow> (\<forall>x. read8 (s_mmu u) x =
       (if unat (x - target) < n then read8 (s_mmu s) (source + (x - target)) else read8 (s_mmu s) x))"
    using forward_copy_apart [of n target source "read8 (s_mmu s)"] by (simp add: u(3) t(3))
  then show ?thesis
    using u t(3) unfolding moved_def quiet_wf_def by (intro exI [of _ u]) simp
qed

text \<open>MOVSQ with the destination one byte after the source: the first byte is copied eight times.\<close>

definition copying_machine :: machine where
  "copying_machine = quiet_machine\<lparr>s_mmu := snd (store8 0x10FFC 7 True three_pages),
     s_cpu := initial_cpu\<lparr>c_gpr := (\<lambda>_. 0)(RSI := 0x10FFC, RDI := 0x10FFD)\<rparr>\<rparr>"

lemma copying_machine_memory:
  "mmu_wf (s_mmu copying_machine)" "open_byte (s_mmu copying_machine) = open_byte three_pages"
  "read8 (s_mmu copying_machine) = (read8 three_pages)(0x10FFC := Inr 7)"
proof -
  have "open_byte three_pages 0x10FFC"
    using quiet_machine_open [of "0x10FFC"] by (simp add: quiet_machine_def in_pages_def pages_eval)
  from store8_byte_memory [OF three_pages_wf this, of 7 True]
  show "mmu_wf (s_mmu copying_machine)" "open_byte (s_mmu copying_machine) = open_byte three_pages"
    "read8 (s_mmu copying_machine) = (read8 three_pages)(0x10FFC := Inr 7)"
    by (auto simp: copying_machine_def)
qed

theorem string_copy_witness:
  "\<exists>t. execute_string_instruction 0xa5 (no_prefixes\<lparr>p_rex := 0x48\<rparr>) copying_machine = (Inr (), t) \<and>
     (\<forall>j < 8. read8 (s_mmu t) (0x10FFD + of_nat j) = Inr 7) \<and> c_gpr (s_cpu t) RSI = 0x11004"
proof -
  let ?p = "no_prefixes\<lparr>p_rex := 0x48\<rparr>" and ?s = copying_machine
  have regs: "segment_base ?p (s_cpu ?s) = 0" "c_gpr (s_cpu ?s) RDI = 0x10FFD" "c_gpr (s_cpu ?s) RSI = 0x10FFC"
    by (simp_all add: copying_machine_def segment_base_def no_prefixes_def register_defs)
  have n: "repetitions ?p (s_cpu ?s) * element_size 0xa5 ?p = 8"
    by (simp add: repetitions_def element_size_def rex_w_def no_prefixes_def)
  have o: "open_byte three_pages (a + of_nat j)" if "j < 8" "a = 0x10FFC \<or> a = 0x10FFD" for a and j :: nat
    using that of_nat_unat_u64 [of j] unat_add_u64 [of a "of_nat j"] quiet_machine_open [of "a + of_nat j"]
    by (auto simp: in_pages_def pages_eval quiet_machine_def)
  have r: "\<exists>b. read8 three_pages a = Inr b" if "open_byte three_pages a" for a
    using that three_pages_wf
    by (auto simp: open_byte_def accessible_def read8_cell mmu_wf_def split: option.splits)
  have u: "untraced ?s" and df: "\<not> flag DF (s_cpu ?s)"
    using quiet_machine_wf(2) by (simp_all add: copying_machine_def untraced_def flag_def DF_def initial_cpu_def)
  have src: "reads_at ?s (0x10FFC + of_nat j)" if "j < 8" for j
    using r [OF o [OF that]] by (auto simp: reads_at_def copying_machine_memory)
  have dst: "open_byte (s_mmu ?s) (0x10FFD + of_nat j)" if "j < 8" for j
    using o [OF that] by (simp add: copying_machine_memory)
  from string_copy [where opcode = "0xa5" and p = ?p and s = ?s, unfolded regs n add_0_right,
      OF copying_machine_memory(1) u _ df src dst]
  obtain t where t: "execute_string_instruction 0xa5 ?p ?s = (Inr (), t)"
      "read8 (s_mmu t) = forward_copy (read8 (s_mmu ?s)) 0x10FFC 0x10FFD 8"
      "t = ?s\<lparr>s_mmu := s_mmu t, s_cpu := clear_counter ?p (move_registers [RDI, RSI] 8 (s_cpu ?s))\<rparr>" by auto
  have "s_cpu t = clear_counter ?p (move_registers [RDI, RSI] 8 (s_cpu ?s))" by (subst t(3)) simp
  then have "c_gpr (s_cpu t) RSI = 0x11004" by (simp add: clear_counter_def no_prefixes_def regs)
  moreover have "read8 (s_mmu t) (0x10FFD + of_nat j) = Inr 7" if "j < 8" for j
    using that unfolding t(2) copying_machine_memory(3)
    by (auto simp: numeral_eq_Suc less_Suc_eq)
  ultimately show ?thesis using t(1) by blast
qed

end
