(* ===== verification/Signal_Laws.thy ===== *)
theory Signal_Laws
  imports Emulator Guest_Laws
begin

text \<open>
  The properties of the guest's signals and of the program break (\<^verbatim>\<open>src/Emulator.cpp\<close>): the
  frame pushed for a handler is what \<^verbatim>\<open>handle_sigreturn\<close> reads back, signals are taken in
  numerical order, and the break maps what it promises.
\<close>

section \<open>The signal frame as consecutive words\<close>

definition frame_words :: "u64 \<Rightarrow> u64 \<Rightarrow> cpu \<Rightarrow> u64 list" where
  "frame_words restorer mask0 c =
     [restorer, signal_frame_magic, mask0, c_rip c, c_rflags c] @
     map (\<lambda>i. c_gpr c (of_nat i)) [0..<16] @ [c_fs_base c, c_gs_base c]"

lemma seq_assoc: "seq (seq f g) h = seq f (seq g h)"
  by (rule ext) (auto simp: seq_def bind_def split: prod.splits sum.splits)

lemma seq_loop_words:
  "seq (for_loop i n (\<lambda>k. write64 (b + of_nat k * 8) (f k)))
       (store_words write8 (b + of_nat (i + n) * 8) ws) =
   store_words write8 (b + of_nat i * 8) (map f [i..<i + n] @ ws)"
proof (induction n arbitrary: i)
  case 0
  then show ?case by (rule ext) (simp add: monad_defs)
next
  case (Suc n)
  have "seq (for_loop i (Suc n) (\<lambda>k. write64 (b + of_nat k * 8) (f k)))
       (store_words write8 (b + of_nat (i + Suc n) * 8) ws) =
     seq (write64 (b + of_nat i * 8) (f i))
       (store_words write8 (b + of_nat (Suc i) * 8) (map f [Suc i..<Suc i + n] @ ws))"
    using Suc.IH [of "Suc i"] by (simp add: seq_assoc)
  also have "b + of_nat (Suc i) * 8 = b + of_nat i * 8 + 8" by (simp add: algebra_simps)
  also have "seq (write64 (b + of_nat i * 8) (f i)) (store_words write8 (b + of_nat i * 8 + 8)
      (map f [Suc i..<Suc i + n] @ ws)) =
    store_words write8 (b + of_nat i * 8) (f i # map f [Suc i..<Suc i + n] @ ws)"
    by (rule seq_write64_words)
  also have "f i # map f [Suc i..<Suc i + n] @ ws = map f [i..<i + Suc n] @ ws"
    using upt_rec [of i "i + Suc n"] by (simp del: upt_Suc)
  finally show ?case .
qed

lemma write_signal_frame_words:
  "write_signal_frame (frame - 8) frame restorer s =
     store_words write8 (frame - 8) (frame_words restorer (e_signal_mask (s_emu s)) (s_cpu s)) s"
proof -
  let ?c = "s_cpu s"
  let ?gpr = "map (\<lambda>i. c_gpr ?c (of_nat i)) [0..<16]" and ?base = "[c_fs_base ?c, c_gs_base ?c]"
  have bases: "seq (write64 (frame + 160) (c_fs_base ?c)) (write64 (frame + 168) (c_gs_base ?c)) =
      store_words write8 (frame + 160) ?base"
    using seq_write64_words [of "frame + 160" "c_fs_base ?c" "[c_gs_base ?c]"]
    by (simp add: write64_store_words add.commute)
  have regs: "seq (for_loop 0 16 (\<lambda>i. write64 (frame + 32 + of_nat i * 8) (c_gpr ?c (of_nat i))))
      (store_words write8 (frame + 160) ?base) = store_words write8 (frame + 32) (?gpr @ ?base)"
    using seq_loop_words [of 0 16 "frame + 32" "\<lambda>i. c_gpr ?c (of_nat i)" ?base]
    by (simp del: store_words.simps add: add.commute)
  have w: "seq (write64 a v) (store_words write8 b ws) = store_words write8 a (v # ws)"
    if "b = a + 8" for a b v ws using seq_write64_words that by simp
  have links: "seq (write64 (frame + 24) v) (store_words write8 (frame + 32) ws) = store_words write8 (frame + 24) (v # ws)"
    "seq (write64 (frame + 16) v) (store_words write8 (frame + 24) ws) = store_words write8 (frame + 16) (v # ws)"
    "seq (write64 (frame + 8) v) (store_words write8 (frame + 16) ws) = store_words write8 (frame + 8) (v # ws)"
    "seq (write64 frame v) (store_words write8 (frame + 8) ws) = store_words write8 frame (v # ws)"
    "seq (write64 (frame - 8) v) (store_words write8 frame ws) = store_words write8 (frame - 8) (v # ws)"
    for v ws by (rule w, simp)+
  have "write_signal_frame (frame - 8) frame restorer s =
      seq (write64 (frame - 8) restorer) (seq (write64 frame signal_frame_magic)
     (seq (write64 (frame + 8) (e_signal_mask (s_emu s))) (seq (write64 (frame + 16) (c_rip ?c))
     (seq (write64 (frame + 24) (c_rflags ?c))
     (seq (for_loop 0 16 (\<lambda>i. write64 (frame + 32 + of_nat i * 8) (c_gpr ?c (of_nat i))))
     (seq (write64 (frame + 160) (c_fs_base ?c)) (write64 (frame + 168) (c_gs_base ?c)))))))) s"
    by (simp add: write_signal_frame_def get_emu_def gets_def bind_def signal_frame_defs add.assoc)
  also have "\<dots> = store_words write8 (frame - 8)
      (restorer # signal_frame_magic # e_signal_mask (s_emu s) # c_rip ?c # c_rflags ?c # ?gpr @ ?base) s"
    unfolding bases regs by (simp only: links)
  finally show ?thesis by (simp only: frame_words_def append_Cons append_Nil)
qed


lemma word_at_outside [simp]:
  "word_at (s\<lparr>s_cpu := c\<rparr>) a v = word_at s a v" "word_at (s\<lparr>s_emu := e\<rparr>) a v = word_at s a v"
  by (simp_all add: word_at_def)


section \<open>Entering a handler and returning from it\<close>

lemma signal_bit_and: "1 \<le> k \<Longrightarrow> k < 64 \<Longrightarrow> x AND signal_bit (int k) \<noteq> 0 \<longleftrightarrow> bit x (k - 1)"
  by (simp add: signal_bit_def nat_diff_distrib bit_iff_and_push_bit_not_eq_0)

definition signal_frame_address :: "machine \<Rightarrow> u64" where
  "signal_frame_address s = (c_gpr (s_cpu s) RSP - signal_frame_size - 128) AND NOT 0xf"

definition restorer_of :: "machine \<Rightarrow> signal_action \<Rightarrow> u64" where
  "restorer_of s action =
     (if sa_restorer action \<noteq> 0 then sa_restorer action else e_signal_trampoline (s_emu s))"

lemma outside_memory_eqD:
  "outside_memory s' = outside_memory s \<Longrightarrow> s_cpu s' = s_cpu s \<and> s_emu s' = s_emu s"
  by (metis outside_memory_def machine.select_convs(2,4) machine.surjective machine.update_convs(1))

text \<open>The registers and the mask as the handler starts.\<close>

definition handler_cpu :: "nat \<Rightarrow> signal_action \<Rightarrow> machine \<Rightarrow> cpu" where
  "handler_cpu signum action s = (s_cpu s)\<lparr>
     c_gpr := (c_gpr (s_cpu s))(RDI := of_nat signum, RSI := 0, RDX := 0,
                RSP := signal_frame_address s - 8),
     c_rip := sa_handler action,
     c_call_stack := c_call_stack (s_cpu s) @ [restorer_of s action]\<rparr>"

definition handler_mask :: "nat \<Rightarrow> signal_action \<Rightarrow> machine \<Rightarrow> u64" where
  "handler_mask signum action s =
     (e_signal_mask (s_emu s) OR sa_mask action) OR signal_bit (int signum)"

lemma enter_signal_handler_run:
  assumes "quiet_wf s"
    and "\<And>j. j < 184 \<Longrightarrow> open_byte (s_mmu s) (signal_frame_address s - 8 + of_nat j)"
  shows "\<exists>s'. enter_signal_handler signum action s = (Inr (), s') \<and>
    s_cpu s' = handler_cpu signum action s \<and> e_signal_mask (s_emu s') = handler_mask signum action s \<and>
    (\<forall>i < 23. word_at s' (signal_frame_address s - 8 + 8 * of_nat i)
       (frame_words (restorer_of s action) (e_signal_mask (s_emu s)) (s_cpu s) ! i))"
proof -
  let ?f = "signal_frame_address s"
  let ?ws = "frame_words (restorer_of s action) (e_signal_mask (s_emu s)) (s_cpu s)"
  have len: "length ?ws = 23" by (simp add: frame_words_def)
  from store_words_guest [OF assms(1), of ?ws "?f - 8"] assms(2) len obtain s1 where
    s1: "store_words write8 (?f - 8) ?ws s = (Inr (), s1)" "outside_memory s1 = outside_memory s"
      "\<forall>i < 23. word_at s1 (?f - 8 + 8 * of_nat i) (?ws ! i)" by auto
  note core = outside_memory_eqD [OF s1(2)]
  have "write_signal_frame (?f - 8) ?f (restorer_of s action) s = (Inr (), s1)"
    using s1(1) by (simp add: write_signal_frame_words)
  then show ?thesis
    using core s1(3)
    by (intro exI [of _ "s1\<lparr>s_emu := (s_emu s1)\<lparr>e_signal_mask := handler_mask signum action s\<rparr>,
          s_cpu := handler_cpu signum action s\<rparr>"])
      (simp add: enter_signal_handler_def signal_frame_address_def restorer_of_def get_emu_def
        gets_def bind_def seq_def upd_emu_def upd_cpu_def modify_def handler_cpu_def
        handler_mask_def Let_def)
qed


definition signal_machine :: machine where
  "signal_machine = quiet_machine\<lparr>s_cpu := (s_cpu quiet_machine)\<lparr>c_gpr := (\<lambda>i. ucast i)(RSP := 0x12000)\<rparr>\<rparr>"

lemma signal_machine_frame:
  "signal_frame_address signal_machine = 0x11ED0"
  "j < 184 \<Longrightarrow> open_byte (s_mmu signal_machine) (0x11EC8 + of_nat j)"
proof -
  show "signal_frame_address signal_machine = 0x11ED0"
    by (simp add: signal_frame_address_def signal_machine_def signal_frame_size_def)
  show "open_byte (s_mmu signal_machine) (0x11EC8 + of_nat j)" if "j < 184" for j
    using that of_nat_unat_u64 [of j] unat_add_u64 [of "0x11EC8" "of_nat j"] quiet_machine_open
    by (simp add: signal_machine_def in_pages_def pages_eval)
qed


text \<open>
  C24. Taking a handler's signal adds the action's mask and the signal itself to the blocked
  signals. The action's mask is used as the guest gave it, so a handler whose \<^verbatim>\<open>sa_mask\<close>
  names SIGKILL (bit 8) or SIGSTOP (bit 18) runs with them blocked.
\<close>

theorem handler_entry_mask:
  assumes "mmu_wf (s_mmu s)" and "untraced s"
    and "\<And>j. j < 184 \<Longrightarrow> open_byte (s_mmu s) (signal_frame_address s - 8 + of_nat j)"
    and "1 \<le> signum" "signum < 64"
  shows "\<exists>s'. enter_signal_handler signum action s = (Inr (), s') \<and>
    (\<forall>k \<in> {1..63}. is_signal_blocked (s_emu s') (int k) \<longleftrightarrow>
       is_signal_blocked (s_emu s) (int k) \<or> k = signum \<or> bit (sa_mask action) (k - 1))"
proof -
  have q: "quiet_wf s" using assms(1,2) by (simp add: quiet_wf_def)
  from enter_signal_handler_run [OF q assms(3), of signum action] obtain s' where
    s': "enter_signal_handler signum action s = (Inr (), s')"
      "e_signal_mask (s_emu s') = handler_mask signum action s" by blast
  have "bit (signal_bit (int signum)) (k - 1) \<longleftrightarrow> k = signum" if "k \<in> {1..63}" for k
    using that assms(4,5) by (auto simp: signal_bit_def bit_simps nat_diff_distrib)
  with s' show ?thesis
    by (intro exI [of _ s']) (auto simp: is_signal_blocked_def handler_mask_def bit_or_iff signal_bit_and)
qed

theorem handler_entry_mask_witness:
  "\<exists>s'. enter_signal_handler 10 \<lparr>sa_handler = 0x401000, sa_flags = 0, sa_restorer = 0, sa_mask = 0x100\<rparr>
       signal_machine = (Inr (), s') \<and> is_signal_blocked (s_emu s') SIGKILL"
proof -
  have wf: "mmu_wf (s_mmu signal_machine)" "untraced signal_machine"
    using quiet_machine_wf by (simp_all add: signal_machine_def untraced_def)
  have op: "open_byte (s_mmu signal_machine) (signal_frame_address signal_machine - 8 + of_nat j)"
    if "j < 184" for j using signal_machine_frame that by simp
  have "bit (0x100 :: u64) 8" by (simp add: bit_iff_odd drop_bit_eq_div [symmetric])
  then show ?thesis
    using handler_entry_mask [OF wf op, of 10
        "\<lparr>sa_handler = 0x401000, sa_flags = 0, sa_restorer = 0, sa_mask = 0x100\<rparr>"]
    by (force simp: SIGKILL_def dest: bspec [where x = 9])
qed

section \<open>Which signal is taken\<close>

definition deliverable :: "emulator \<Rightarrow> nat \<Rightarrow> bool" where
  "deliverable e n \<longleftrightarrow> 1 \<le> n \<and> n < 64 \<and> bit (e_pending_signals e) (n - 1) \<and> \<not> bit (e_signal_mask e) (n - 1)"

lemma signal_deliverable_iff: "1 \<le> n \<Longrightarrow> n < 64 \<Longrightarrow> signal_deliverable e n \<longleftrightarrow> deliverable e n"
  by (simp add: signal_deliverable_def deliverable_def is_signal_blocked_def signal_bit_and)

lemma find_upt:
  "find P [a..<b] = Some n \<longleftrightarrow> a \<le> n \<and> n < b \<and> P n \<and> (\<forall>k \<in> {a..<n}. \<not> P k)"
proof -
  have "find P [a..<b] = Some n \<longleftrightarrow>
      (\<exists>i < b - a. P (a + i) \<and> n = a + i \<and> (\<forall>j < i. \<not> P (a + j)))"
    by (auto simp: find_Some_iff)
  also have "\<dots> \<longleftrightarrow> a \<le> n \<and> n < b \<and> P n \<and> (\<forall>k \<in> {a..<n}. \<not> P k)"
    by (auto 0 3 intro!: exI [of _ "n - a"] dest: le_Suc_ex)
  finally show ?thesis .
qed

text \<open>
  C23. \<^verbatim>\<open>dispatch_pending_signal\<close> takes at most one signal, the lowest-numbered one that is
  pending and not blocked: its pending bit and no other is cleared, and its disposition is
  applied: ignored, default (ignored for SIGCHLD, SIGURG and SIGWINCH, otherwise the guest exits
  with 128 plus the number), or the handler. With nothing deliverable nothing happens.
\<close>

theorem dispatch_lowest_signal:
  "((\<forall>n. \<not> deliverable (s_emu s) n) \<longrightarrow> dispatch_pending_signal s = (Inr (), s)) \<and>
   (deliverable (s_emu s) n \<and> (\<forall>k < n. \<not> deliverable (s_emu s) k) \<longrightarrow>
    (let handler = sa_handler (e_signal_actions (s_emu s) n);
         s1 = s\<lparr>s_emu := (s_emu s)\<lparr>e_pending_signals :=
                unset_bit (n - 1) (e_pending_signals (s_emu s))\<rparr>\<rparr> in
     dispatch_pending_signal s =
       (if handler = 1 \<or> handler = 0 \<and> n \<in> {17, 23, 28} then (Inr (), s1)
        else if handler = 0 then (Inl (GuestExit (128 + int n)), s1)
        else enter_signal_handler n (e_signal_actions (s_emu s) n) s1)))"
proof -
  let ?e = "s_emu s"
  have none: "find (signal_deliverable ?e) [1..<64] = None" if "\<forall>n. \<not> deliverable ?e n"
    using that signal_deliverable_iff by (auto simp: find_None_iff)
  have some: "find (signal_deliverable ?e) [1..<64] = Some n"
    if "deliverable ?e n" "\<forall>k < n. \<not> deliverable ?e k"
    using that signal_deliverable_iff unfolding find_upt by (auto simp: deliverable_def)
  have clear: "x AND NOT (signal_bit (int n)) = unset_bit (n - 1) x" if "deliverable ?e n" for x
    using that by (simp add: deliverable_def signal_bit_def nat_diff_distrib unset_bit_eq_and_not)
  have dfl: "default_signal_is_ignored (int n) \<longleftrightarrow> n \<in> {17, 23, 28}"
    by (auto simp: default_signal_is_ignored_def signal_defs)
  show ?thesis
    using none some clear
    by (auto simp: dispatch_pending_signal_def monad_defs dfl Let_def)
qed

theorem dispatch_lowest_signal_witness:
  "let s = quiet_machine\<lparr>s_emu := (s_emu quiet_machine)\<lparr>e_pending_signals := 0x4004\<rparr>\<rparr> in
   fst (dispatch_pending_signal s) = Inl (GuestExit 131)"
proof -
  let ?s = "quiet_machine\<lparr>s_emu := (s_emu quiet_machine)\<lparr>e_pending_signals := 0x4004\<rparr>\<rparr>"
  have e: "e_signal_mask (s_emu ?s) = 0" "e_signal_actions (s_emu ?s) 3 = \<lparr>sa_handler = 0, sa_flags = 0, sa_restorer = 0, sa_mask = 0\<rparr>"
    by (simp_all add: quiet_machine_def initial_machine_def initial_emulator_def)
  have b: "bit (0x4004 :: u64) 2" "\<not> bit (0x4004 :: u64) 0" "\<not> bit (0x4004 :: u64) 1"
    by (simp_all add: bit_iff_odd drop_bit_eq_div [symmetric])
  have "k < 3 \<Longrightarrow> \<not> deliverable (s_emu ?s) k" for k
    using b by (auto simp: deliverable_def numeral_3_eq_3 less_Suc_eq)
  moreover have "deliverable (s_emu ?s) 3" using b e by (simp add: deliverable_def)
  ultimately show ?thesis
    using dispatch_lowest_signal [of ?s 3] e by (simp add: Let_def)
qed

section \<open>The signal mask\<close>

text \<open>
  C25. \<^verbatim>\<open>rt_sigprocmask\<close>: the set the guest names in memory, without SIGKILL and
  SIGSTOP, is blocked, unblocked or installed; any other operation is answered by
  \<^verbatim>\<open>-EINVAL\<close>; with no set, or when memory cannot be accessed, the mask stays. So this
  call never blocks the two signals, in contrast to \<^verbatim>\<open>sa_mask\<close>. Where the guest names a place
  for the old mask, with the tracer off and the place accessible, the old mask is there afterwards,
  whatever the rest of the call does, and every other byte is as before; where it names none, memory
  does not change. The set is read after the old mask has been stored: with the two places the same,
  the call reads back the old mask instead of the guest's set.
\<close>

theorem set_signal_mask_spec:
  assumes "set_signal_mask how set_address old_address s = (res, s')"
  shows "(let old = e_signal_mask (s_emu s); new = e_signal_mask (s_emu s') in
    (case res of
       Inl _ \<Rightarrow> new = old
     | Inr rc \<Rightarrow>
         if set_address = 0 then rc = 0 \<and> new = old
         else \<exists>w. read64 (s_mmu s') set_address = Inr w \<and>
           (let sigs = unset_bit 18 (unset_bit 8 w) in
            if how = 0 then rc = 0 \<and> new = old OR sigs
            else if how = 1 then rc = 0 \<and> new = old AND NOT sigs
            else if how = 2 then rc = 0 \<and> new = sigs
            else rc = - 22 \<and> new = old))) \<and>
    (old_address = 0 \<longrightarrow> s_mmu s' = s_mmu s) \<and>
    (old_address \<noteq> 0 \<and> quiet_wf s \<and> (\<forall>j < 8. open_byte (s_mmu s) (old_address + of_nat j)) \<longrightarrow>
       read64 (s_mmu s') old_address = Inr (e_signal_mask (s_emu s)) \<and>
       (\<forall>x. 8 \<le> unat (x - old_address) \<longrightarrow> read8 (s_mmu s') x = read8 (s_mmu s) x))"
proof -
  have bits: "(w AND NOT (signal_bit SIGKILL)) AND NOT (signal_bit SIGSTOP) = unset_bit 18 (unset_bit 8 w)"
    for w by (simp add: signal_bit_def signal_defs unset_bit_eq_and_not)
  obtain r1 s1 where store: "(if old_address = 0 then (Inr (), s)
      else write64 old_address (e_signal_mask (s_emu s)) s) = (r1, s1)" by fastforce
  have emu: "s_emu s1 = s_emu s" using store write64_core by (auto split: if_splits)
  have "let old = e_signal_mask (s_emu s); new = e_signal_mask (s_emu s') in
    (case res of
       Inl _ \<Rightarrow> new = old
     | Inr rc \<Rightarrow>
         if set_address = 0 then rc = 0 \<and> new = old
         else \<exists>w. read64 (s_mmu s') set_address = Inr w \<and>
           (let sigs = unset_bit 18 (unset_bit 8 w) in
            if how = 0 then rc = 0 \<and> new = old OR sigs
            else if how = 1 then rc = 0 \<and> new = old AND NOT sigs
            else if how = 2 then rc = 0 \<and> new = sigs
            else rc = - 22 \<and> new = old))"
    using assms store emu bits
    by (auto simp: set_signal_mask_def monad_defs mem_read64_def signal_defs(1) Let_def
        split: sum.splits if_splits prod.splits)
  moreover have mmu: "s_mmu s' = s_mmu s1"
    using assms store
    by (auto simp: set_signal_mask_def monad_defs mem_read64_def Let_def
        split: sum.splits if_splits prod.splits)
  moreover have "s_mmu s1 = s_mmu s" if "old_address = 0" using store that by simp
  moreover have "read64 (s_mmu s1) old_address = Inr (e_signal_mask (s_emu s)) \<and>
      (\<forall>x. 8 \<le> unat (x - old_address) \<longrightarrow> read8 (s_mmu s1) x = read8 (s_mmu s) x)"
    if "old_address \<noteq> 0 \<and> quiet_wf s \<and> (\<forall>j < 8. open_byte (s_mmu s) (old_address + of_nat j))"
    using store that store_load_64 [of s old_address "e_signal_mask (s_emu s)"]
    by (auto simp: quiet_wf_def)
  ultimately show ?thesis by simp
qed

text \<open>The old mask, 4, replaces the guest's set at the same address, and is installed again.\<close>

theorem set_signal_mask_spec_witness:
  "let s = quiet_machine\<lparr>s_emu := (s_emu quiet_machine)\<lparr>e_signal_mask := 4\<rparr>\<rparr>;
       s' = snd (set_signal_mask 2 0x10000 0x10000 s) in
     read64 (s_mmu s') 0x10000 = Inr 4 \<and> e_signal_mask (s_emu s') = 4"
proof -
  let ?s = "quiet_machine\<lparr>s_emu := (s_emu quiet_machine)\<lparr>e_signal_mask := 4\<rparr>\<rparr>"
  obtain res s' where run: "set_signal_mask 2 0x10000 0x10000 ?s = (res, s')" by fastforce
  have q: "quiet_wf ?s" using quiet_machine_wf by (simp add: quiet_wf_def untraced_def)
  have "open_byte (s_mmu quiet_machine) (0x10000 + of_nat j)" if "j < 8" for j
    using that of_nat_unat_u64 [of j] unat_add_u64 [of "0x10000" "of_nat j"]
    by (intro quiet_machine_open) (simp add: in_pages_def pages_eval)
  with set_signal_mask_spec [OF run] q run show ?thesis
    by (auto simp: Let_def unset_bit_eq_and_not split: sum.splits)
qed

section \<open>The program break\<close>

lemma set_brk_run:
  "set_brk requested s =
    (let e = s_emu s; top = page_align_up requested in
     if requested = 0 \<or> requested < e_brk_start e then (Inr (e_brk e), s)
     else if requested > e_brk_region_end e \<and> top > e_brk_region_end e
     then (case map_zeroed (e_brk_region_end e) (top - e_brk_region_end e) 3 ''[brk]'' (s_mmu s) of
             (Inl x, m) \<Rightarrow> (Inl x, s\<lparr>s_mmu := m\<rparr>)
           | (Inr _, m) \<Rightarrow> (Inr requested,
               s\<lparr>s_mmu := m, s_emu := e\<lparr>e_brk_region_end := top, e_brk := requested\<rparr>\<rparr>))
     else (Inr requested, s\<lparr>s_emu := e\<lparr>e_brk := requested\<rparr>\<rparr>))"
  by (auto simp: set_brk_def monad_defs Let_def ProtRead_def ProtWrite_def split: prod.split sum.split)

lemma page_align_up_le: "v \<le> b \<Longrightarrow> page_aligned b \<Longrightarrow> page_align_up v \<le> b"
proof -
  assume v: "v \<le> b" and b: "page_aligned b"
  from b obtain k where k: "unat b = 4096 * k" by (auto simp: page_aligned_iff)
  have "(unat v + 4095) div 4096 \<le> k" using v k by (simp add: u64_order)
  then show ?thesis using k by (simp add: u64_order unat_page_align_up)
qed

text \<open>
  C26. \<^verbatim>\<open>brk\<close>: a request of 0 or below the start is answered with the current break. Any
  other request becomes the break; the heap's pages up to it, rounded up, are then mapped as
  initialised zeros, and everything else is unchanged; growing into an existing mapping raises
  an error and changes nothing. The rounding is \<^verbatim>\<open>page_align_up\<close>, which gives 0 in the last
  page of the address space, so a request there becomes the break with nothing mapped for it.
\<close>

theorem set_brk_spec:
  assumes "mmu_wf (s_mmu s)" and "page_aligned (e_brk_region_end (s_emu s))"
    and "set_brk requested s = (res, s')"
  shows "let e = s_emu s; e' = s_emu s' in
    (case res of
       Inl _ \<Rightarrow> s' = s \<and> requested > e_brk_region_end e
     | Inr v \<Rightarrow> v = e_brk e' \<and> mmu_wf (s_mmu s') \<and>
         (if requested = 0 \<or> requested < e_brk_start e then s' = s
          else v = requested \<and>
            e_brk_region_end e' = max (e_brk_region_end e) (page_align_up requested) \<and>
            (\<forall>a. cell_at (s_mmu s') a =
               (if e_brk_region_end e \<le> a \<and> a < e_brk_region_end e'
                then Some (Cell 0 True 3) else cell_at (s_mmu s) a))))"
proof -
  let ?e = "s_emu s" and ?stop = "e_brk_region_end (s_emu s)" and ?top = "page_align_up requested"
  consider (same) "requested = 0 \<or> requested < e_brk_start ?e"
    | (inside) "requested \<noteq> 0" "\<not> requested < e_brk_start ?e" "?top \<le> ?stop"
        "\<not> (requested > ?stop \<and> ?top > ?stop)"
    | (grow) "requested \<noteq> 0" "\<not> requested < e_brk_start ?e" "requested > ?stop" "?top > ?stop"
    using page_align_up_le [OF _ assms(2), of requested] by fastforce
  then show ?thesis
  proof cases
    case same
    then show ?thesis using assms(1,3) by (auto simp: set_brk_run Let_def)
  next
    case inside
    moreover have "\<not> (x \<le> a \<and> a < x)" for x a :: u64 by auto
    ultimately show ?thesis using assms(1,3) by (auto simp: set_brk_run Let_def max_def)
  next
    case grow
    obtain r m where run: "map_zeroed ?stop (?top - ?stop) 3 ''[brk]'' (s_mmu s) = (r, m)" by fastforce
    have sz: "page_align_up (?top - ?stop) = ?top - ?stop" "page_align_down ?stop = ?stop"
      using assms(2) grow(4) by (simp_all add: page_align_up_aligned page_aligned_diff page_align_down_aligned)
    have rng: "in_pages ?stop (?top - ?stop) a \<longleftrightarrow> ?stop \<le> a \<and> a < ?top" for a
      using grow(4) by (auto simp: in_pages_def sz u64_order unat_sub_u64)
    have eq: "set_brk requested s = (case r of Inl x \<Rightarrow> (Inl x, s\<lparr>s_mmu := m\<rparr>)
        | Inr _ \<Rightarrow> (Inr requested,
            s\<lparr>s_mmu := m, s_emu := ?e\<lparr>e_brk_region_end := ?top, e_brk := requested\<rparr>\<rparr>))"
      using grow run by (simp add: set_brk_run Let_def split: sum.split)
    have le: "max ?stop ?top = ?top" using grow(4) by (intro max.absorb2) simp
    show ?thesis
    proof (cases r)
      case (Inl x)
      then have "res = Inl x" "s' = s"
        using map_zeroed_run [OF assms(1) run] assms(3) eq by simp_all
      then show ?thesis using grow(3) by simp
    next
      case (Inr u)
      then have "mmu_wf m" "cell_at m a = (if ?stop \<le> a \<and> a < ?top then Some (Cell 0 True 3)
          else cell_at (s_mmu s) a)" for a
        using map_zeroed_run [OF assms(1) run] rng by (simp_all add: maps_range_def)
      moreover have "s' = s\<lparr>s_mmu := m, s_emu := ?e\<lparr>e_brk_region_end := ?top, e_brk := requested\<rparr>\<rparr>"
        "res = Inr requested" using assms(3) eq Inr by auto
      ultimately show ?thesis using grow(1,2) le by (simp add: Let_def)
    qed
  qed
qed

theorem set_brk_spec_witness:
  "let s = quiet_machine\<lparr>s_emu := (s_emu quiet_machine)\<lparr>e_brk_start := 0x13000, e_brk := 0x13000,
         e_brk_region_end := 0x13000\<rparr>\<rparr>;
       (res, s') = set_brk 0x13001 s in
     res = Inr 0x13001 \<and> cell_at (s_mmu s') 0x13FFF = Some (Cell 0 True 3)"
proof -
  let ?s = "quiet_machine\<lparr>s_emu := (s_emu quiet_machine)\<lparr>e_brk_start := 0x13000, e_brk := 0x13000,
         e_brk_region_end := 0x13000\<rparr>\<rparr>"
  obtain res s' where run: "set_brk 0x13001 ?s = (res, s')" by fastforce
  have "fst (map_zeroed 0x13000 0x1000 3 ''[brk]'' three_pages) = Inr ()"
    by (simp add: map_zeroed_def Let_def monad_defs ensure_no_overlap_def three_pages_regions
        ranges_overlap_def region_end_def page_align_down_def page_align_up_def page_size_def
        new_simple_region_def)
  then have "res = Inr 0x13001"
    using run by (auto simp: set_brk_run quiet_machine_def page_align_up_def page_size_def Let_def
        split: prod.splits sum.splits)
  moreover have "mmu_wf (s_mmu ?s)" "page_aligned (e_brk_region_end (s_emu ?s))"
    using quiet_machine_wf by (simp_all add: page_aligned_iff)
  ultimately show ?thesis
    using set_brk_spec [of ?s, OF _ _ run] unfolding run Let_def
    by (auto simp: page_align_up_def page_size_def max_def)
qed

end
