(* ===== verification/Stack_Laws.thy ===== *)
theory Stack_Laws
  imports Signal_Laws
begin

text \<open>
  The initial stack of \<^verbatim>\<open>Emulator::setup_stack\<close> (\<^verbatim>\<open>src/Emulator.cpp\<close>): the strings,
  the table a Linux program finds at its stack pointer, and the alignment of that pointer. Pushing
  is followed with \<open>pushed n s s'\<close>: the stack grew down by \<open>n\<close> bytes and nothing at or above
  the old top changed.
\<close>

section \<open>Pushing\<close>

abbreviation stack_top :: "machine \<Rightarrow> u64" where
  "stack_top s \<equiv> e_stack_top (s_emu s)"

text \<open>At least \<open>n\<close> accessible bytes below the top.\<close>

definition stack_room :: "machine \<Rightarrow> nat \<Rightarrow> bool" where
  "stack_room s n \<longleftrightarrow> quiet_wf s \<and> n \<le> unat (stack_top s) \<and>
     (\<forall>x. unat x < unat (stack_top s) \<and> unat (stack_top s) \<le> unat x + n \<longrightarrow> open_byte (s_mmu s) x)"

definition pushed :: "nat \<Rightarrow> machine \<Rightarrow> machine \<Rightarrow> bool" where
  "pushed n s s' \<longleftrightarrow> quiet_wf s' \<and> unat (stack_top s') + n = unat (stack_top s) \<and>
     open_byte (s_mmu s') = open_byte (s_mmu s) \<and>
     (\<forall>x. unat (stack_top s) \<le> unat x \<longrightarrow> read8 (s_mmu s') x = read8 (s_mmu s) x)"

definition bytes_at :: "machine \<Rightarrow> u64 \<Rightarrow> u8 list \<Rightarrow> bool" where
  "bytes_at s a bs \<longleftrightarrow> unat (stack_top s) \<le> unat a \<and> unat a + length bs < 18446744073709551616 \<and>
     (\<forall>j < length bs. read8 (s_mmu s) (a + of_nat j) = Inr (bs ! j))"

lemma pushed_refl: "quiet_wf s \<Longrightarrow> pushed 0 s s"
  by (simp add: pushed_def)

lemma pushed_trans: "pushed n s t \<Longrightarrow> pushed k t u \<Longrightarrow> pushed (n + k) s u"
  by (auto simp: pushed_def)

lemma room_pushed: "stack_room s (n + k) \<Longrightarrow> pushed n s s' \<Longrightarrow> stack_room s' k"
  by (auto simp: stack_room_def pushed_def)

lemma unat_above: "unat a + j < 18446744073709551616 \<Longrightarrow> unat (a + of_nat j :: u64) = unat a + j"
  using of_nat_unat_u64 [of j] by (simp add: unat_add_u64)

lemma bytes_at_pushed: "bytes_at s a bs \<Longrightarrow> pushed n s s' \<Longrightarrow> bytes_at s' a bs"
  by (auto simp: bytes_at_def pushed_def unat_above)

lemma unat_below: "n \<le> unat t \<Longrightarrow> unat (t - of_nat n :: u64) = unat t - n"
  using of_nat_unat_u64 [of n] u64_bound [of t] by (simp add: unat_sub_u64 u64_order)

lemma room_open:
  assumes "stack_room s (n + k)" and "j < n"
  shows "open_byte (s_mmu s) (stack_top s - of_nat n + of_nat j)"
proof -
  have "unat (stack_top s - of_nat n) = unat (stack_top s) - n"
    using assms(1) by (intro unat_below) (simp add: stack_room_def)
  moreover from this have "unat (stack_top s - of_nat n + of_nat j) = unat (stack_top s) - n + j"
    using assms u64_bound [of "stack_top s"] by (subst unat_above) (auto simp: stack_room_def)
  ultimately show ?thesis using assms by (auto simp: stack_room_def)
qed

text \<open>A store loop into the room just made, with the new top in the emulator's state.\<close>

lemma push_loop:
  assumes room: "stack_room s (n + k)" and n: "n < 18446744073709551616"
  shows "\<exists>s'. for_loop 0 n (\<lambda>j. write8 (stack_top s - of_nat n + of_nat j) (f j))
      (s\<lparr>s_emu := (s_emu s)\<lparr>e_stack_top := stack_top s - of_nat n\<rparr>\<rparr>) = (Inr (), s') \<and>
    pushed n s s' \<and> stack_top s' = stack_top s - of_nat n \<and>
    (\<forall>j < n. read8 (s_mmu s') (stack_top s' + of_nat j) = Inr (f j))"
proof -
  let ?t = "stack_top s - of_nat n"
  let ?s = "s\<lparr>s_emu := (s_emu s)\<lparr>e_stack_top := ?t\<rparr>\<rparr>"
  have q: "quiet_wf ?s" using room by (simp add: stack_room_def quiet_wf_def untraced_def)
  have le: "n \<le> unat (stack_top s)" using room by (simp add: stack_room_def)
  have op: "open_byte (s_mmu ?s) (?t + of_nat j)" if "0 \<le> j" "j < 0 + n" for j
    using room_open [OF room] that by simp
  from guest_bytes.wr_loop_run [where i = 0 and n = n and a = ?t and m = ?s and f = f, OF q op] n
  obtain s' where
    s': "for_loop 0 n (\<lambda>j. write8 (?t + of_nat j) (f j)) ?s = (Inr (), s')" "quiet_wf s'"
      "open_byte (s_mmu s') = open_byte (s_mmu s)" "outside_memory s' = outside_memory ?s"
      "read8 (s_mmu s') = (\<lambda>x. let j = unat (x - ?t) in if 0 \<le> j \<and> j < 0 + n then Inr (f j)
          else read8 (s_mmu s) x)" by (auto simp: Let_def cong: if_cong)
  have top: "stack_top s' = ?t" using outside_memory_eqD [OF s'(4)] by simp
  have u: "unat ?t = unat (stack_top s) - n" using le by (rule unat_below)
  have "read8 (s_mmu s') x = read8 (s_mmu s) x" if "unat (stack_top s) \<le> unat x" for x
  proof -
    have "unat (x - ?t) = unat x - unat ?t" using that u by (intro unat_sub_u64) (simp add: u64_order)
    then have "\<not> unat (x - ?t) < n" using that u le by simp
    then show ?thesis by (simp add: s'(5) Let_def)
  qed
  moreover have "read8 (s_mmu s') (?t + of_nat j) = Inr (f j)" if "j < n" for j
    using that n of_nat_unat_u64 [of j] by (simp add: s'(5) Let_def)
  ultimately show ?thesis using s' top u le by (intro exI [of _ s']) (simp add: pushed_def)
qed

lemma push_bytes_run:
  assumes "stack_room s (length bs + k)" and "length bs < 18446744073709551616"
  shows "\<exists>s'. push_bytes bs s = (Inr (stack_top s'), s') \<and> pushed (length bs) s s' \<and>
    bytes_at s' (stack_top s') bs"
  using push_loop [OF assms, of "\<lambda>i. bs ! i"] assms u64_bound [of "stack_top s"]
  by (auto simp: push_bytes_def copy_to_guest_def monad_defs bytes_at_def pushed_def stack_room_def)

lemma emu_push64_run:
  assumes "stack_room s (8 + k)"
  shows "\<exists>s'. emu_push64 v s = (Inr (), s') \<and> pushed 8 s s' \<and> stack_top s' = stack_top s - 8 \<and>
    word_at s' (stack_top s') v"
  using push_loop [OF assms, of "word_byte v"]
  by (auto simp: emu_push64_def write64_def monad_defs word_at_def word_byte_def)

section \<open>The strings and the table\<close>

definition strings_size :: "string list \<Rightarrow> nat" where
  "strings_size vs = sum_list (map (\<lambda>v. length v + 1) vs)"

lemma length_string_bytes [simp]: "length (string_bytes v) = length v + 1"
  by (simp add: string_bytes_def)

lemma room_small: "stack_room s n \<Longrightarrow> n < 18446744073709551616"
  using u64_bound [of "stack_top s"] by (simp add: stack_room_def)

lemma room_add_small: "stack_room s (n + k) \<Longrightarrow> n < 18446744073709551616"
  using room_small [of s "n + k"] by simp

lemma push_strings_run:
  assumes "stack_room s (strings_size vs + k)"
  shows "\<exists>as s'. push_strings vs s = (Inr as, s') \<and> pushed (strings_size vs) s s' \<and>
    length as = length vs \<and> (\<forall>i < length vs. bytes_at s' (as ! i) (string_bytes (vs ! i)))"
  using assms
proof (induction vs arbitrary: k)
  case Nil
  then show ?case
    by (intro exI [of _ "[]"] exI [of _ s]) (simp add: return_def strings_size_def pushed_def stack_room_def)
next
  case (Cons v vs)
  have "stack_room s (strings_size vs + (length (string_bytes v) + k))"
    using Cons.prems by (simp add: strings_size_def ac_simps)
  from Cons.IH [OF this] room_pushed [OF this] obtain as s1 where
    s1: "push_strings vs s = (Inr as, s1)" "pushed (strings_size vs) s s1" "length as = length vs"
      "\<forall>i < length vs. bytes_at s1 (as ! i) (string_bytes (vs ! i))"
      "stack_room s1 (length (string_bytes v) + k)" by blast
  from push_bytes_run [OF s1(5) room_add_small [OF s1(5)]] obtain s2 where
    s2: "push_string v s1 = (Inr (stack_top s2), s2)" "pushed (length (string_bytes v)) s1 s2"
      "bytes_at s2 (stack_top s2) (string_bytes v)" by (auto simp: push_string_def)
  have "bytes_at s2 ((stack_top s2 # as) ! i) (string_bytes ((v # vs) ! i))" if "i < length (v # vs)" for i
    using that s1(4) s2(3) bytes_at_pushed [OF _ s2(2)] by (cases i) auto
  moreover have "pushed (strings_size (v # vs)) s s2"
    using pushed_trans [OF s1(2) s2(2)] by (simp add: strings_size_def ac_simps)
  ultimately show ?case using s1 s2(1)
    by (intro exI [of _ "stack_top s2 # as"] exI [of _ s2]) (simp add: bind_def return_def)
qed

lemma word_at_pushed:
  assumes "word_at s a v" "pushed n s s'" "unat (stack_top s) \<le> unat a" "unat a + 8 \<le> 18446744073709551616"
  shows "word_at s' a v"
  using assms unat_above [of a] by (auto simp: word_at_def pushed_def)

lemma push_words_run:
  assumes "stack_room s (8 * length ws + k)"
  shows "\<exists>s'. push_words ws s = (Inr (), s') \<and> pushed (8 * length ws) s s' \<and>
    stack_top s' = stack_top s - 8 * of_nat (length ws) \<and>
    (\<forall>i < length ws. word_at s' (stack_top s' + 8 * of_nat i) (ws ! i))"
  using assms
proof (induction ws arbitrary: k)
  case Nil
  then show ?case by (intro exI [of _ s]) (simp add: return_def pushed_def stack_room_def)
next
  case (Cons w ws)
  have "stack_room s (8 * length ws + (8 + k))" using Cons.prems by (simp add: ac_simps)
  from Cons.IH [OF this] room_pushed [OF this] obtain s1 where
    s1: "push_words ws s = (Inr (), s1)" "pushed (8 * length ws) s s1"
      "stack_top s1 = stack_top s - 8 * of_nat (length ws)"
      "\<forall>i < length ws. word_at s1 (stack_top s1 + 8 * of_nat i) (ws ! i)" "stack_room s1 (8 + k)"
    by blast
  from emu_push64_run [OF s1(5)] obtain s2 where
    s2: "emu_push64 w s1 = (Inr (), s2)" "pushed 8 s1 s2" "stack_top s2 = stack_top s1 - 8"
      "word_at s2 (stack_top s2) w" by blast
  have keep: "word_at s2 (stack_top s1 + 8 * of_nat i) (ws ! i)" if "i < length ws" for i
  proof (rule word_at_pushed [OF _ s2(2)])
    have "unat (stack_top s1) + 8 * i + 8 \<le> unat (stack_top s)"
      using s1(2) that by (simp add: pushed_def)
    moreover from this have "unat (stack_top s1 + of_nat (8 * i)) = unat (stack_top s1) + 8 * i"
      using u64_bound [of "stack_top s"] by (intro unat_above) simp
    ultimately show "unat (stack_top s1) \<le> unat (stack_top s1 + 8 * of_nat i)"
      "unat (stack_top s1 + 8 * of_nat i) + 8 \<le> 18446744073709551616"
      using u64_bound [of "stack_top s"] by simp_all
  qed (use s1(4) that in blast)
  have "word_at s2 (stack_top s2 + 8 * of_nat i) ((w # ws) ! i)" if "i < length (w # ws)" for i
  proof (cases i)
    case (Suc j)
    have "stack_top s2 + 8 * of_nat (Suc j) = stack_top s1 + 8 * of_nat j"
      by (simp add: s2(3) algebra_simps)
    moreover have "word_at s2 (stack_top s1 + 8 * of_nat j) (ws ! j)" using keep [of j] that Suc by simp
    ultimately show ?thesis unfolding Suc by (simp only: nth_Cons_Suc)
  qed (use s2(4) in simp)
  moreover have "pushed (8 * length (w # ws)) s s2"
    using pushed_trans [OF s1(2) s2(2)] by (simp add: ac_simps)
  moreover have "push_words (w # ws) s = (Inr (), s2)"
    by (simp add: seq_def bind_def s1(1) s2(1))
  moreover have "stack_top s2 = stack_top s - 8 * of_nat (length (w # ws))"
    by (simp add: s1(3) s2(3) algebra_simps)
  ultimately show ?case by blast
qed

lemma push_words_append: "push_words (xs @ ys) = seq (push_words ys) (push_words xs)"
  by (induction xs) (simp_all add: seq_assoc)

lemma push_words_table:
  "seq (push_words aux) (seq (emu_push64 0) (seq (push_words envp) (seq (emu_push64 0)
     (seq (push_words argv) (emu_push64 argc))))) =
   push_words (argc # argv @ 0 # envp @ 0 # aux)"
  by (simp add: push_words_append seq_assoc)

lemma aligned_minus_words:
  assumes "8 * m < 18446744073709551616"
  shows "unat ((x AND NOT (0xf :: u64)) - 8 * of_nat m) mod 16 = (if odd m then 8 else 0)"
proof -
  let ?t = "x AND NOT (0xf :: u64)"
  have m4: "(0xf :: u64) = mask 4" by (simp add: mask_eq_exp_minus_1)
  have "take_bit 4 ?t = 0" unfolding m4 by (rule bit_eqI) (auto simp: bit_simps)
  then have "take_bit 4 (unat ?t) = 0" by (metis unsigned_take_bit_eq unsigned_0)
  then obtain q where q: "unat ?t = 16 * q" by (auto simp: take_bit_eq_mod)
  have "unat (of_nat (8 * m) :: u64) = 8 * m" using assms by (rule of_nat_unat_u64)
  then have b: "unat (8 * of_nat m :: u64) = 8 * m" by simp
  obtain K where K: "(18446744073709551616 :: nat) = 16 * K" by (rule that [of 1152921504606846976]) simp
  have lt: "8 * m < 16 * K" using assms unfolding K .
  have mod16: "(16 * c - 8 * m) mod 16 = (if odd m then 8 else 0)" if "8 * m \<le> 16 * c" for c :: nat
  proof (cases "odd m")
    case True
    then obtain h where "m = 2 * h + 1" by (rule oddE)
    then have "16 * c - 8 * m = 16 * (c - h - 1) + 8" using that by simp
    then show ?thesis using True by simp
  next
    case False
    then obtain h where "m = 2 * h" by (auto elim: evenE)
    then have "16 * c - 8 * m = 16 * (c - h)" using that by simp
    then show ?thesis using False by simp
  qed
  show ?thesis
  proof (cases "8 * m \<le> 16 * q")
    case True
    then have "unat (?t - 8 * of_nat m) = 16 * q - 8 * m"
      using unat_sub_u64 [of "8 * of_nat m" ?t] q b by (simp add: u64_order)
    then show ?thesis using mod16 [OF True] by simp
  next
    case False
    then have "?t < 8 * of_nat m" using q b by (simp add: u64_order)
    from unat_sub_wrap [OF this] have "unat (?t - 8 * of_nat m) = 16 * (q + K) - 8 * m"
      unfolding q b K by simp
    then show ?thesis using mod16 [of "q + K"] lt by simp
  qed
qed

text \<open>The words from the stack pointer up: argc, argv, 0, envp, 0, and the auxiliary vector.\<close>

definition initial_table :: "u64 list \<Rightarrow> u64 list \<Rightarrow> (u64 \<times> u64) list \<Rightarrow> u64 list" where
  "initial_table argv envp auxv =
     of_nat (length argv) # argv @ 0 # envp @ 0 # concat (map (\<lambda>(tag, v). [tag, v]) auxv)"

definition initial_stack_size :: "string \<Rightarrow> string list \<Rightarrow> string list \<Rightarrow> host_info \<Rightarrow> nat" where
  "initial_stack_size path args env h =
     strings_size args + strings_size env + length path + 8 + length (h_random h) + 15 +
     8 * (length args + length env + 41)"

lemma length_table:
  "length (initial_table argv envp (auxiliary_vector prog h platform random execfn)) =
     length argv + length envp + 41"
  by (simp add: initial_table_def auxiliary_vector_def)

lemma align_stack:
  assumes "stack_room s (15 + k)"
  shows "\<exists>n. pushed n s (s\<lparr>s_emu := (s_emu s)\<lparr>e_stack_top := stack_top s AND NOT 0xf\<rparr>\<rparr>) \<and> n \<le> 15"
proof -
  let ?t = "stack_top s"
  have m4: "(0xf :: u64) = mask 4" by (simp add: mask_eq_exp_minus_1)
  have "(?t AND NOT 0xf) + (?t AND 0xf) = ?t"
    by (subst disjunctive_add_eq_or; rule bit_eqI) (auto simp: bit_simps)
  moreover have low: "unat (?t AND 0xf) = unat ?t mod 16"
    unfolding m4 take_bit_eq_mask [symmetric] unsigned_take_bit_eq by (simp add: take_bit_eq_mod)
  moreover have "?t AND NOT 0xf = ?t - (?t AND 0xf)" using calculation(1) by (simp add: eq_diff_eq)
  ultimately have "unat (?t AND NOT 0xf) = unat ?t - unat ?t mod 16"
    using unat_sub_u64 [of "?t AND 0xf" ?t] by (simp add: u64_order)
  then have "unat (?t AND NOT 0xf) + unat ?t mod 16 = unat ?t" by simp
  moreover have "unat ?t mod 16 \<le> 15" using mod_less_divisor [of 16 "unat ?t"] by linarith
  ultimately show ?thesis
    using assms by (intro exI [of _ "unat ?t mod 16"])
      (simp add: pushed_def stack_room_def quiet_wf_def untraced_def)
qed

lemma room_less: "stack_room s n \<Longrightarrow> k \<le> n \<Longrightarrow> stack_room s k"
  by (auto simp: stack_room_def)

text \<open>
  C19. The initial stack: with the tracer off and room for it, \<^verbatim>\<open>setup_stack\<close> succeeds. The
  words from the stack pointer upwards are then argc, one pointer per argument, a null pointer, one
  pointer per environment string, a null pointer, and the auxiliary vector from AT_PHDR to AT_NULL;
  every pointer leads to its string with the terminating zero. The stack pointer is a multiple of
  16, as the ABI asks, only when the number of arguments and environment strings together is odd;
  otherwise it is 8 off.
\<close>

theorem initial_stack:
  assumes "stack_room s (initial_stack_size path args env h)"
  shows "\<exists>s' argv envp platform random execfn.
    setup_stack path args env prog h s = (Inr (), s') \<and>
    length argv = length args \<and> length envp = length env \<and>
    (\<forall>i < length args. bytes_at s' (argv ! i) (string_bytes (args ! i))) \<and>
    (\<forall>i < length env. bytes_at s' (envp ! i) (string_bytes (env ! i))) \<and>
    bytes_at s' execfn (string_bytes path) \<and> bytes_at s' platform (string_bytes ''x86_64'') \<and>
    bytes_at s' random (h_random h) \<and>
    (let table = initial_table argv envp (auxiliary_vector prog h platform random execfn);
         top = e_stack_top (s_emu s') in
     (\<forall>i < length table. read64 (s_mmu s') (top + 8 * of_nat i) = Inr (table ! i)) \<and>
     unat top mod 16 = (if odd (length args + length env) then 0 else 8))"
proof -
  let ?n = "length args + length env + 41"
  have "stack_room s (strings_size args + (strings_size env + (length (string_bytes path) +
      (length (string_bytes ''x86_64'') + (length (h_random h) + (15 + 8 * ?n))))))"
    using assms by (rule room_less) (simp add: initial_stack_size_def)
  from push_strings_run [OF this] room_pushed [OF this] obtain argv s1 where
    s1: "push_strings args s = (Inr argv, s1)" "length argv = length args"
      "\<forall>i < length args. bytes_at s1 (argv ! i) (string_bytes (args ! i))"
      "stack_room s1 (strings_size env + (length (string_bytes path) +
      (length (string_bytes ''x86_64'') + (length (h_random h) + (15 + 8 * ?n)))))" by blast
  from push_strings_run [OF s1(4)] room_pushed [OF s1(4)] obtain envp s2 where
    s2: "push_strings env s1 = (Inr envp, s2)" "pushed (strings_size env) s1 s2" "length envp = length env"
      "\<forall>i < length env. bytes_at s2 (envp ! i) (string_bytes (env ! i))"
      "stack_room s2 (length (string_bytes path) +
      (length (string_bytes ''x86_64'') + (length (h_random h) + (15 + 8 * ?n))))" by blast
  from push_bytes_run [OF s2(5) room_add_small [OF s2(5)]] room_pushed [OF s2(5)] obtain s3 where
    s3: "push_string path s2 = (Inr (stack_top s3), s3)" "pushed (length (string_bytes path)) s2 s3"
      "bytes_at s3 (stack_top s3) (string_bytes path)"
      "stack_room s3 (length (string_bytes ''x86_64'') + (length (h_random h) + (15 + 8 * ?n)))"
    unfolding push_string_def by blast
  from push_bytes_run [OF s3(4) room_add_small [OF s3(4)]] room_pushed [OF s3(4)] obtain s4 where
    s4: "push_string ''x86_64'' s3 = (Inr (stack_top s4), s4)"
      "pushed (length (string_bytes ''x86_64'')) s3 s4"
      "bytes_at s4 (stack_top s4) (string_bytes ''x86_64'')"
      "stack_room s4 (length (h_random h) + (15 + 8 * ?n))" unfolding push_string_def by blast
  from push_bytes_run [OF s4(4) room_add_small [OF s4(4)]] room_pushed [OF s4(4)] obtain s5 where
    s5: "push_bytes (h_random h) s4 = (Inr (stack_top s5), s5)" "pushed (length (h_random h)) s4 s5"
      "bytes_at s5 (stack_top s5) (h_random h)" "stack_room s5 (15 + 8 * ?n)" by blast
  let ?s6 = "s5\<lparr>s_emu := (s_emu s5)\<lparr>e_stack_top := stack_top s5 AND NOT 0xf\<rparr>\<rparr>"
  let ?table = "initial_table argv envp (auxiliary_vector prog h (stack_top s4) (stack_top s5) (stack_top s3))"
  have len: "length ?table = ?n" by (simp add: length_table s1(2) s2(3))
  from align_stack [OF s5(4)] obtain m where m: "pushed m s5 ?s6" "m \<le> 15" by blast
  have "stack_room s5 (m + 8 * ?n)" using s5(4) by (rule room_less) (use m(2) in simp)
  from room_pushed [OF this m(1)] have r6: "stack_room ?s6 (8 * length ?table + 0)" by (simp add: len)
  from push_words_run [OF r6] obtain s' where
    s': "push_words ?table ?s6 = (Inr (), s')" "pushed (8 * length ?table) ?s6 s'"
      "stack_top s' = stack_top ?s6 - 8 * of_nat (length ?table)"
      "\<forall>i < length ?table. word_at s' (stack_top s' + 8 * of_nat i) (?table ! i)" by blast
  note p5 = pushed_trans [OF m(1) s'(2)]
  note p4 = pushed_trans [OF s5(2) p5]
  note p3 = pushed_trans [OF s4(2) p4]
  note p2 = pushed_trans [OF s3(2) p3]
  note p1 = pushed_trans [OF s2(2) p2]
  have run: "setup_stack path args env prog h s = (Inr (), s')"
    unfolding setup_stack_def push_words_table
    using s1(1) s2(1) s3(1) s4(1) s5(1) s'(1)
    by (simp add: bind_def seq_def upd_emu_def modify_def initial_table_def)
  have "8 * length ?table < 18446744073709551616"
    using room_add_small [OF r6] by simp
  moreover have "stack_top ?s6 = stack_top s5 AND NOT 0xf" by simp
  ultimately have "unat (stack_top s') mod 16 = (if odd (length ?table) then 8 else 0)"
    unfolding s'(3) by (simp only: aligned_minus_words)
  moreover have "odd (length ?table) \<longleftrightarrow> even (length args + length env)" by (simp add: len)
  ultimately show ?thesis
    using run s1(2,3) s2(3,4) s3(3) s4(3) s5(3) s'(4) word_at_read64
      bytes_at_pushed [OF _ p5] bytes_at_pushed [OF _ p4] bytes_at_pushed [OF _ p3]
      bytes_at_pushed [OF _ p2] bytes_at_pushed [OF _ p1]
    by (intro exI [of _ s'] exI [of _ argv] exI [of _ envp] exI [of _ "stack_top s4"]
        exI [of _ "stack_top s5"] exI [of _ "stack_top s3"]) (simp add: Let_def)
qed

definition small_stack :: machine where
  "small_stack = quiet_machine\<lparr>s_emu := (s_emu quiet_machine)\<lparr>e_stack_top := 0x13000\<rparr>\<rparr>"

definition some_host :: host_info where
  "some_host = \<lparr>h_uid = 1000, h_euid = 1000, h_gid = 1000, h_egid = 1000, h_clk_tck = 100,
     h_random = replicate 16 7\<rparr>"

theorem initial_stack_witness:
  "\<forall>prog. \<exists>s'. setup_stack ''a'' [''a'', ''b''] [] prog some_host small_stack = (Inr (), s') \<and>
     read64 (s_mmu s') (e_stack_top (s_emu s')) = Inr 2 \<and>
     unat (e_stack_top (s_emu s')) mod 16 = 8"
proof
  fix prog
  have "open_byte (s_mmu small_stack) x" if "0x10000 \<le> unat x" "unat x < 0x13000" for x
    using quiet_machine_open that by (simp add: small_stack_def in_pages_def pages_eval)
  then have "stack_room small_stack (initial_stack_size ''a'' [''a'', ''b''] [] some_host)"
    using quiet_machine_wf
    by (simp add: stack_room_def initial_stack_size_def strings_size_def some_host_def
        small_stack_def quiet_wf_def untraced_def)
  from initial_stack [OF this, of prog] obtain s' argv envp platform random execfn where
    s': "setup_stack ''a'' [''a'', ''b''] [] prog some_host small_stack = (Inr (), s')"
      "length argv = 2" "unat (stack_top s') mod 16 = 8" and
    tab: "\<forall>i < length (initial_table argv envp (auxiliary_vector prog some_host platform random execfn)).
      read64 (s_mmu s') (stack_top s' + 8 * of_nat i) =
        Inr (initial_table argv envp (auxiliary_vector prog some_host platform random execfn) ! i)"
    by (auto simp: Let_def numeral_2_eq_2)
  from tab [rule_format, of 0] s'(2) have "read64 (s_mmu s') (stack_top s') = Inr 2"
    by (simp add: length_table) (simp add: initial_table_def)
  with s' show "\<exists>s'. setup_stack ''a'' [''a'', ''b''] [] prog some_host small_stack = (Inr (), s') \<and>
     read64 (s_mmu s') (e_stack_top (s_emu s')) = Inr 2 \<and>
     unat (e_stack_top (s_emu s')) mod 16 = 8" by blast
qed

end
