(* ===== verification/Tracer_Laws.thy ===== *)
theory Tracer_Laws
  imports GuestMemory MMU_Laws
begin

text \<open>
  The properties of the malloc tracer (\<^verbatim>\<open>src/MallocTracer.cpp\<close>): the maps of live and
  freed blocks stay ordered and disjoint, lookups find the block that contains an address, and the
  leak report's reachable set is the least set closed under the pointers in memory.
\<close>

section \<open>The ordered maps\<close>

abbreviation ordered :: "alloc_map \<Rightarrow> bool" where
  "ordered m \<equiv> sorted_wrt (<) (map fst m)"

abbreviation keys :: "alloc_map \<Rightarrow> u64 set" where
  "keys m \<equiv> fst ` set m"

lemma set_amap_insert:
  "ordered m \<Longrightarrow> set (amap_insert k r m) = insert (k, r) {e \<in> set m. fst e \<noteq> k}"
  by (induction k r m rule: amap_insert.induct) auto

lemma keys_amap_insert [simp]: "keys (amap_insert k r m) = insert k (keys m)"
  by (induction k r m rule: amap_insert.induct) auto

lemma ordered_amap_insert: "ordered m \<Longrightarrow> ordered (amap_insert k r m)"
proof (induction k r m rule: amap_insert.induct)
  case (2 k r l q m)
  then have "\<forall>x \<in> set (map fst (amap_insert k r m)). l < x" if "\<not> k < l" "k \<noteq> l"
    using that keys_amap_insert [of k r m] by auto
  with 2 show ?case by auto
qed simp

lemma set_amap_erase: "set (amap_erase k m) = {e \<in> set m. fst e \<noteq> k}"
  by (auto simp: amap_erase_def)

lemma ordered_amap_erase: "ordered m \<Longrightarrow> ordered (amap_erase k m)"
  by (auto simp: amap_erase_def sorted_wrt_map intro: sorted_wrt_filter)

lemma map_fst_adjust [simp]: "map fst (amap_adjust k f m) = map fst m"
  by (simp add: amap_adjust_def case_prod_beta comp_def)

lemma set_amap_adjust: "set (amap_adjust k f m) = (\<lambda>(l, r). (l, if l = k then f r else r)) ` set m"
  by (simp add: amap_adjust_def)

lemma ordered_distinct: "ordered m \<Longrightarrow> distinct (map fst m)"
  by (simp add: strict_sorted_iff)

lemma ordered_map_of: "ordered m \<Longrightarrow> map_of m k = Some r \<longleftrightarrow> (k, r) \<in> set m"
  by (metis ordered_distinct map_of_eq_Some_iff)

section \<open>The tracer's invariant\<close>

definition live_record :: "u64 \<times> allocation_record \<Rightarrow> bool" where
  "live_record = (\<lambda>(k, r). ar_ptr r = k \<and> \<not> ar_freed r \<and>
     (ar_initialized r = [] \<or> length (ar_initialized r) = unat (ar_size r)))"

definition freed_record :: "u64 \<times> allocation_record \<Rightarrow> bool" where
  "freed_record = (\<lambda>(k, r). ar_ptr r = k \<and> ar_freed r)"

definition tracer_wf :: "tracer \<Rightarrow> bool" where
  "tracer_wf t \<longleftrightarrow> ordered (t_allocations t) \<and> ordered (t_freed t) \<and>
     keys (t_allocations t) \<inter> keys (t_freed t) = {} \<and>
     (\<forall>e \<in> set (t_allocations t). live_record e) \<and> (\<forall>e \<in> set (t_freed t). freed_record e)"

lemma tracer_wf_cong:
  "t_allocations t' = t_allocations t \<Longrightarrow> t_freed t' = t_freed t \<Longrightarrow> tracer_wf t' = tracer_wf t"
  by (simp add: tracer_wf_def)

lemma tracer_wf_record:
  assumes "tracer_wf t" and "live_record (p, r)"
  shows "tracer_wf (t\<lparr>t_allocations := amap_insert p r (t_allocations t),
                      t_freed := amap_erase p (t_freed t)\<rparr>)"
  using assms unfolding tracer_wf_def
  by (auto simp: ordered_amap_insert ordered_amap_erase set_amap_insert set_amap_erase)

lemma tracer_wf_free:
  assumes "tracer_wf t" and "map_of (t_allocations t) p = Some r"
  shows "tracer_wf (t\<lparr>t_allocations := amap_erase p (t_allocations t),
                      t_freed := amap_insert p (r\<lparr>ar_freed := True\<rparr>) (t_freed t)\<rparr>)"
proof -
  have "(p, r) \<in> set (t_allocations t)" using assms(2) by (rule map_of_SomeD)
  then have "ar_ptr r = p" using assms(1) by (force simp: tracer_wf_def live_record_def)
  with assms(1) show ?thesis unfolding tracer_wf_def
    by (auto simp: ordered_amap_insert ordered_amap_erase set_amap_insert set_amap_erase freed_record_def)
qed

lemma tracer_wf_adjust:
  assumes "tracer_wf t"
    and "\<And>r. ar_ptr (f r) = ar_ptr r \<and> ar_freed (f r) = ar_freed r \<and> ar_size (f r) = ar_size r \<and>
      length (ar_initialized (f r)) = length (ar_initialized r)"
  shows "tracer_wf (t\<lparr>t_allocations := amap_adjust k f (t_allocations t)\<rparr>)"
proof -
  have len: "ar_initialized (f r) = [] \<longleftrightarrow> ar_initialized r = []" for r
    using assms(2) [of r] by (metis length_0_conv)
  have "live_record (l, if l = k then f r else r)" if "live_record (l, r)" for l r
    using that assms(2) [of r] len [of r] by (auto simp: live_record_def)
  moreover have "keys (amap_adjust k f m) = keys m" for m
    by (metis map_fst_adjust set_map)
  ultimately show ?thesis using assms(1) unfolding tracer_wf_def
    by (auto simp: set_amap_adjust)
qed

lemma mark_byte_keeps:
  "ar_ptr (mark_byte_initialized a r) = ar_ptr r" "ar_freed (mark_byte_initialized a r) = ar_freed r"
  "ar_size (mark_byte_initialized a r) = ar_size r"
  "length (ar_initialized (mark_byte_initialized a r)) = length (ar_initialized r)"
  by (simp_all add: mark_byte_initialized_def Let_def)

lemma mark_preserved_keeps:
  "ar_ptr (mark_preserved a n r) = ar_ptr r \<and> ar_freed (mark_preserved a n r) = ar_freed r \<and>
   ar_size (mark_preserved a n r) = ar_size r \<and>
   length (ar_initialized (mark_preserved a n r)) = length (ar_initialized r)"
proof -
  have "ar_ptr (fold (\<lambda>i. mark_byte_initialized (a + of_nat i)) ns r) = ar_ptr r \<and>
      ar_freed (fold (\<lambda>i. mark_byte_initialized (a + of_nat i)) ns r) = ar_freed r \<and>
      ar_size (fold (\<lambda>i. mark_byte_initialized (a + of_nat i)) ns r) = ar_size r \<and>
      length (ar_initialized (fold (\<lambda>i. mark_byte_initialized (a + of_nat i)) ns r)) =
        length (ar_initialized r)" for ns
    by (induction ns arbitrary: r) (simp_all add: mark_byte_keeps)
  then show ?thesis by (simp add: mark_preserved_def)
qed

section \<open>Every tracer operation keeps the invariant\<close>

abbreviation wf_tracer :: "machine \<Rightarrow> bool" where
  "wf_tracer s \<equiv> tracer_wf (s_tracer s)"

lemma wf_upd_tracer:
  "(\<And>t. tracer_wf t \<Longrightarrow> tracer_wf (f t)) \<Longrightarrow> preserves wf_tracer (upd_tracer f)"
  by (simp add: preserves_def upd_tracer_def modify_def)

lemma wf_machine_ops:
  "preserves wf_tracer (print_err msg)" "preserves wf_tracer (on_mmu g)"
  "preserves J (get_cpu f1)" "preserves J (get_tracer f2)" "preserves J (get_emu f3)"
  by (auto simp: preserves_def monad_defs split: prod.split)

lemma wf_trace_message: "preserves wf_tracer (trace_message msg)"
  unfolding trace_message_def by (intro pres wf_machine_ops)

lemma wf_report_once: "preserves wf_tracer (report_once key msg)"
  unfolding report_once_def
  by (intro pres wf_machine_ops wf_upd_tracer) (simp_all add: tracer_wf_def)

lemma wf_reports:
  "preserves wf_tracer (report_heap_overflow a p r)"
  "preserves wf_tracer (report_use_after_free a p r)"
  "preserves wf_tracer (report_use_after_free_read a p r)"
  "preserves wf_tracer (report_uninitialized_read a p r)"
  "preserves wf_tracer (report_double_free p r)" "preserves wf_tracer (report_invalid_free p)"
  "preserves wf_tracer (report_realloc_error p ro)"
  unfolding report_heap_overflow_def report_use_after_free_def report_use_after_free_read_def
    report_uninitialized_read_def report_double_free_def report_invalid_free_def
    report_realloc_error_def
  by (intro pres wf_machine_ops wf_report_once)+

lemma wf_observers:
  "preserves wf_tracer (on_memory_write a)" "preserves wf_tracer (on_memory_read a)"
  unfolding on_memory_write_def on_memory_read_def
  by (intro pres wf_machine_ops wf_reports wf_upd_tracer tracer_wf_adjust; simp add: mark_byte_keeps)+

lemma wf_record_allocation: "preserves wf_tracer (record_allocation p sz b)"
  unfolding record_allocation_def
  by (intro pres wf_machine_ops wf_upd_tracer tracer_wf_record) (simp_all add: live_record_def)

lemma wf_move_to_freed: "preserves wf_tracer (move_to_freed p)"
proof (rule preservesI)
  fix s assume s: "wf_tracer s"
  show "wf_tracer (snd (move_to_freed p s))"
  proof (cases "map_of (t_allocations (s_tracer s)) p")
    case None
    then show ?thesis using s by (simp add: move_to_freed_def monad_defs)
  next
    case (Some r)
    let ?t = "(s_tracer s)\<lparr>t_allocations := amap_erase p (t_allocations (s_tracer s)),
        t_freed := amap_insert p (r\<lparr>ar_freed := True\<rparr>) (t_freed (s_tracer s))\<rparr>"
    have "move_to_freed p s = trace_message (TraceFree p) (s\<lparr>s_tracer := ?t\<rparr>)"
      by (simp add: move_to_freed_def monad_defs Some)
    moreover have "tracer_wf ?t" using tracer_wf_free [OF s Some] .
    ultimately show ?thesis using preservesD [OF wf_trace_message, of "s\<lparr>s_tracer := ?t\<rparr>"] by simp
  qed
qed

lemma wf_enter_leave:
  "preserves wf_tracer (on_malloc_leave r)" "preserves wf_tracer (on_free_enter p)"
  "preserves wf_tracer on_free_leave" "preserves wf_tracer (on_realloc_leave r)"
  "preserves wf_tracer (on_calloc_leave r)"
  unfolding on_malloc_leave_def on_free_enter_def on_free_leave_def on_realloc_leave_def
    on_calloc_leave_def
  by (intro pres wf_machine_ops wf_reports wf_record_allocation wf_move_to_freed wf_trace_message
      wf_upd_tracer tracer_wf_adjust; simp add: tracer_wf_def mark_preserved_keeps)+

lemma wf_function_leave: "preserves wf_tracer on_function_leave"
  unfolding on_function_leave_def
  by (intro preserves_bind wf_machine_ops) (auto intro: wf_enter_leave pres split: alloc_function.split)

text \<open>
  C21. The tracer's maps: every tracer step and every audited access keeps the live and the freed
  blocks ordered by address, no address a key of both, each record at its own key with the right
  freed flag, and each initialisation map empty or as long as its block.
\<close>

theorem tracer_invariant:
  assumes "tracer_wf (s_tracer s)"
  shows "tracer_wf (s_tracer (snd (tracer_step s))) \<and>
    tracer_wf (s_tracer (snd (on_memory_write a s))) \<and>
    tracer_wf (s_tracer (snd (on_memory_read a s)))"
proof -
  have "preserves wf_tracer (on_function_enter f)" for f
    unfolding on_function_enter_def
    by (intro pres wf_machine_ops wf_enter_leave wf_upd_tracer) (simp_all add: tracer_wf_def)
  then have "preserves wf_tracer tracer_step"
    unfolding tracer_step_def
    by (intro pres wf_machine_ops wf_function_leave wf_upd_tracer) (simp_all add: tracer_wf_def)
  from preservesD [OF this assms] show ?thesis
    using preservesD [OF wf_observers(1) assms] preservesD [OF wf_observers(2) assms] by blast
qed

theorem tracer_invariant_witness:
  "tracer_wf (s_tracer (snd (tracer_step (initial_machine
     \<lparr>opt_trace = False, opt_trace_syscalls = False, opt_backtrace_on_exit = False,
      opt_malloc_trace = True\<rparr> (\<lambda>_. 0)))))"
  using tracer_invariant [of "initial_machine
     \<lparr>opt_trace = False, opt_trace_syscalls = False, opt_backtrace_on_exit = False,
      opt_malloc_trace = True\<rparr> (\<lambda>_. 0)" 0]
  by (simp add: tracer_wf_def initial_machine_def initial_tracer_def)

section \<open>Looking up an address\<close>

lemma floor_entry_spec:
  assumes "ordered m"
  shows "floor_entry m a = Some (l, r) \<longleftrightarrow>
    (l, r) \<in> set m \<and> l \<le> a \<and> (\<forall>k \<in> keys m. k \<le> a \<longrightarrow> k \<le> l)"
  using assms
proof (induction m rule: rev_induct)
  case (snoc e m)
  obtain k q where e: "e = (k, q)" by fastforce
  have ord: "ordered m" "\<And>x. x \<in> keys m \<Longrightarrow> x < k"
    using snoc.prems by (auto simp: e sorted_wrt_append)
  have step: "floor_entry (m @ [e]) a = (if k \<le> a then Some (k, q) else floor_entry m a)"
    by (simp add: floor_entry_def e)
  show ?case
  proof (cases "k \<le> a")
    case True
    have "(l, r) \<in> set m \<Longrightarrow> l < k" using ord(2) [of l] by force
    then show ?thesis using True step ord(2) by (auto simp: e less_imp_le) force+
  next
    case False
    have "(k, r) \<notin> set m" using ord(2) [of k] by force
    then show ?thesis using False step snoc.IH [OF ord(1)] by (auto simp: e)
  qed
qed (simp add: floor_entry_def)

text \<open>
  Lookup of a block: with the invariant, the search by \<^verbatim>\<open>upper_bound\<close> finds exactly
  the block with the greatest start at or below the address, provided the address lies in it.
\<close>

lemma live_lookup:
  assumes "tracer_wf t"
  shows "live_allocation_containing t a = Some (p, r) \<longleftrightarrow>
    (p, r) \<in> set (t_allocations t) \<and> p \<le> a \<and> a < p + ar_size r \<and>
    (\<forall>q \<in> keys (t_allocations t). q \<le> a \<longrightarrow> q \<le> p)"
proof -
  have "ordered (t_allocations t)" using assms by (simp add: tracer_wf_def)
  note floor = floor_entry_spec [OF this, of a p r]
  have "live_allocation_containing t a = Some (p, r) \<longleftrightarrow>
      floor_entry (t_allocations t) a = Some (p, r) \<and> p \<le> a \<and> a < p + ar_size r"
    by (auto simp: live_allocation_containing_def allocation_containing_def split: option.splits if_splits)
  then show ?thesis unfolding floor by blast
qed

definition block :: "u64 \<Rightarrow> u64 \<Rightarrow> bool \<Rightarrow> allocation_record" where
  "block p n freed = \<lparr>ar_ptr = p, ar_size = n, ar_backtrace = [], ar_freed = freed, ar_initialized = []\<rparr>"

definition two_blocks :: tracer where
  "two_blocks = initial_tracer\<lparr>t_enabled := True,
     t_allocations := [(0x1000, block 0x1000 0x40 False), (0x2000, block 0x2000 0x10 False)],
     t_freed := [(0x1010, block 0x1010 0x10 True)]\<rparr>"

lemma two_blocks_wf: "tracer_wf two_blocks"
  by (simp add: tracer_wf_def two_blocks_def block_def live_record_def freed_record_def)

lemma live_lookup_witness:
  "live_allocation_containing two_blocks 0x1018 = Some (0x1000, block 0x1000 0x40 False)"
  by (subst live_lookup [OF two_blocks_wf]) (auto simp: two_blocks_def block_def)

section \<open>Use after free\<close>

lemma containing_erase_other:
  assumes "ordered m" and "allocation_containing m a = Some (q, f)" and "p \<noteq> q"
  shows "allocation_containing (amap_erase p m) a = Some (q, f)"
proof -
  from assms(2) have fl: "floor_entry m a = Some (q, f)" and a: "q \<le> a" "a < q + ar_size f"
    by (auto simp: allocation_containing_def split: option.splits if_splits)
  have "floor_entry (amap_erase p m) a = Some (q, f)"
    using fl assms(3) unfolding floor_entry_spec [OF assms(1)]
      floor_entry_spec [OF ordered_amap_erase [OF assms(1)]]
    by (auto simp: set_amap_erase)
  then show ?thesis using a by (simp add: allocation_containing_def)
qed

lemma write_freed_report:
  assumes "t_enabled (s_tracer s)" "audited s" "KeyUseAfterFree a \<notin> t_reported (s_tracer s)"
    and "freed_allocation_containing (s_tracer s) a = Some (q, f)" "raw_backtrace s = Inr bt"
  shows "s_stderr (snd (on_memory_write a s)) =
    s_stderr s @ [ReportUseAfterFree a (ar_ptr f) (ar_size f) (ar_backtrace f), ReportAccessBacktrace bt]"
proof -
  have au: "audited (s\<lparr>s_tracer := (s_tracer s)\<lparr>t_allocations := m\<rparr>\<rparr>)" for m
    using assms(2) by (simp add: audited_def)
  have bt: "raw_backtrace (s\<lparr>s_tracer := t\<rparr>) = Inr bt"
    "raw_backtrace (s\<lparr>s_tracer := t, s_stderr := msgs\<rparr>) = Inr bt" for t msgs
    using assms(5) by (simp_all add: raw_backtrace_def)
  show ?thesis
    using assms(1-4) au bt
    by (cases "live_allocation_containing (s_tracer s) a")
      (auto simp: on_memory_write_def monad_defs report_use_after_free_def report_once_def
        freed_allocation_containing_def)
qed

text \<open>
  C22. A false report: recording a new block forgets the freed block with the same start, but not
  freed blocks it overlaps. So when the allocator has merged freed memory into a larger block, a
  write by the guest to a byte of its own live block that belonged to an older, freed one is
  reported as a use after free.
\<close>

theorem stale_freed_block_report:
  assumes "tracer_wf (s_tracer s)" and "t_enabled (s_tracer s)" and "audited s"
    and "freed_allocation_containing (s_tracer s) a = Some (q, f)" and "p \<noteq> q"
    and "p \<le> a" "a < p + n" "\<forall>k \<in> keys (t_allocations (s_tracer s)). k \<le> a \<longrightarrow> k \<le> p"
    and "KeyUseAfterFree a \<notin> t_reported (s_tracer s)"
    and "raw_backtrace (snd (record_allocation p n b s)) = Inr bt"
  shows "let s' = snd (record_allocation p n b s) in
    (\<exists>r. live_allocation_containing (s_tracer s') a = Some (p, r) \<and> ar_size r = n) \<and>
    s_stderr (snd (on_memory_write a s')) =
      s_stderr s @ [ReportUseAfterFree a q (ar_size f) (ar_backtrace f), ReportAccessBacktrace bt]"
proof -
  let ?s' = "snd (record_allocation p n b s)"
  let ?r = "\<lparr>ar_ptr = p, ar_size = n, ar_backtrace = t_entry_backtrace (s_tracer s), ar_freed = False,
      ar_initialized = (if n \<le> max_tracked_init_bytes then replicate (unat n) b else [])\<rparr>"
  have s': "s_tracer ?s' = (s_tracer s)\<lparr>t_allocations := amap_insert p ?r (t_allocations (s_tracer s)),
        t_freed := amap_erase p (t_freed (s_tracer s))\<rparr>"
      "s_cpu ?s' = s_cpu s" "s_emu ?s' = s_emu s" "s_stderr ?s' = s_stderr s"
    by (auto simp: record_allocation_def monad_defs split: prod.splits sum.splits exn.splits)
  have wf': "tracer_wf (s_tracer ?s')"
    unfolding s'(1) using assms(1) by (rule tracer_wf_record) (simp add: live_record_def)
  have ord: "ordered (t_allocations (s_tracer s))" "ordered (t_freed (s_tracer s))"
    using assms(1) by (auto simp: tracer_wf_def)
  have "live_allocation_containing (s_tracer ?s') a = Some (p, ?r)"
    using assms(6-8) ord(1) unfolding live_lookup [OF wf'] by (simp add: s'(1) set_amap_insert)
  moreover have "freed_allocation_containing (s_tracer ?s') a = Some (q, f)"
    using containing_erase_other [OF ord(2) _ assms(5)] assms(4)
    by (simp add: freed_allocation_containing_def s'(1))
  moreover have "ar_ptr f = q"
    using assms(1,4) allocation_containing_mem
    by (force simp: freed_allocation_containing_def tracer_wf_def freed_record_def)
  ultimately show ?thesis
    using write_freed_report [of ?s' a q f bt] assms(2,3,9,10) s' by (simp add: audited_def Let_def)
qed

theorem stale_freed_block_report_witness:
  "let s = (initial_machine \<lparr>opt_trace = False, opt_trace_syscalls = False,
         opt_backtrace_on_exit = False, opt_malloc_trace = True\<rparr> (\<lambda>_. 0))\<lparr>s_tracer := two_blocks\<rparr> in
   s_stderr (snd (on_memory_write 0x1018 (snd (record_allocation 0x1000 0x40 False s)))) =
     [ReportUseAfterFree 0x1018 0x1010 0x10 [], ReportAccessBacktrace [0]]"
proof -
  let ?s = "(initial_machine \<lparr>opt_trace = False, opt_trace_syscalls = False,
         opt_backtrace_on_exit = False, opt_malloc_trace = True\<rparr> (\<lambda>_. 0))\<lparr>s_tracer := two_blocks\<rparr>"
  have "s_cpu (snd (record_allocation 0x1000 0x40 False ?s)) = s_cpu ?s"
    by (auto simp: record_allocation_def monad_defs split: prod.splits sum.splits exn.splits)
  then have bt: "raw_backtrace (snd (record_allocation 0x1000 0x40 False ?s)) = Inr [0]"
    by (simp add: raw_backtrace_def initial_machine_def initial_cpu_def numeral_eq_Suc)
  have "freed_allocation_containing (s_tracer ?s) 0x1018 = Some (0x1010, block 0x1010 0x10 True)"
    by (simp add: freed_allocation_containing_def allocation_containing_def floor_entry_def
        two_blocks_def block_def)
  then show ?thesis
    using stale_freed_block_report [of ?s "0x1018" "0x1010" "block 0x1010 0x10 True" "0x1000" "0x40"
        False "[0]"] two_blocks_wf bt
    by (simp add: Let_def two_blocks_def block_def audited_def initial_machine_def initial_emulator_def
        initial_tracer_def is_internal_def is_in_libc_def is_in_loader_def is_kind_def image_containing_def)
qed

section \<open>Reachable blocks\<close>

text \<open>The specification: blocks reached from root values through the words stored in blocks.\<close>

definition block_words :: "alloc_map \<Rightarrow> mmu \<Rightarrow> u64 \<Rightarrow> u64 set" where
  "block_words m mem b = {v. \<exists>r. map_of m b = Some r \<and>
     (\<exists>off \<in> set (word_offsets (ar_size r)). read64 mem (b + of_nat off) = Inr v)}"

inductive heap_reachable :: "alloc_map \<Rightarrow> mmu \<Rightarrow> u64 set \<Rightarrow> u64 \<Rightarrow> bool" for m mem roots where
  root: "v \<in> roots \<Longrightarrow> allocation_base m v \<noteq> 0 \<Longrightarrow> heap_reachable m mem roots (allocation_base m v)"
| edge: "heap_reachable m mem roots b \<Longrightarrow> v \<in> block_words m mem b \<Longrightarrow> allocation_base m v \<noteq> 0 \<Longrightarrow>
     heap_reachable m mem roots (allocation_base m v)"

text \<open>The roots: the registers, and the words of writable memory outside every live block.\<close>

definition root_words :: "machine \<Rightarrow> u64 set" where
  "root_words s = set (gpr_values (s_cpu s)) \<union>
     {v. \<exists>r \<in> set (m_regions (s_mmu s)). writable r \<and> 8 \<le> r_size r \<and>
        (\<exists>off \<in> set (word_offsets (r_size r)).
           allocation_base (t_allocations (s_tracer s)) (r_base r + of_nat off) = 0 \<and>
           region_word r off = Inr v)}"

definition bases :: "alloc_map \<Rightarrow> u64 set \<Rightarrow> u64 set" where
  "bases m vs = allocation_base m ` vs - {0}"

definition adds :: "alloc_map \<Rightarrow> u64 set \<Rightarrow> u64 set \<times> u64 list \<Rightarrow> u64 set \<times> u64 list \<Rightarrow> bool" where
  "adds m vs acc acc' \<longleftrightarrow> fst acc' = fst acc \<union> bases m vs \<and>
     set (snd acc') = set (snd acc) \<union> (fst acc' - fst acc)"

lemma bases_Un: "bases m (vs \<union> ws) = bases m vs \<union> bases m ws"
  by (auto simp: bases_def)

lemma adds_refl: "adds m {} acc acc"
  by (simp add: adds_def bases_def)

lemma adds_trans: "adds m vs a b \<Longrightarrow> adds m ws b c \<Longrightarrow> adds m (vs \<union> ws) a c"
  by (auto simp: adds_def bases_Un)

lemma adds_consider: "adds m {v} acc (consider_value m v acc)"
  by (cases acc) (auto simp: adds_def consider_value_def bases_def Let_def)

lemma adds_fold: "adds m (set vs) acc (fold (consider_value m) vs acc)"
proof (induction vs arbitrary: acc)
  case (Cons v vs)
  from adds_trans [OF adds_consider Cons] show ?case by simp
qed (simp add: adds_refl)

lemma adds_scan_block:
  "scan_block m mem b offs acc = Inr acc' \<Longrightarrow>
     adds m {v. \<exists>off \<in> set offs. read64 mem (b + of_nat off) = Inr v} acc acc'"
proof (induction offs arbitrary: acc)
  case (Cons off offs)
  then obtain v where v: "read64 mem (b + of_nat off) = Inr v"
    "scan_block m mem b offs (consider_value m v acc) = Inr acc'" by (auto simp: sbind_eq_Inr)
  have "{v. \<exists>x \<in> set (off # offs). read64 mem (b + of_nat x) = Inr v} =
      {v} \<union> {v. \<exists>x \<in> set offs. read64 mem (b + of_nat x) = Inr v}" using v(1) by auto
  then show ?case using adds_trans [OF adds_consider Cons.IH [OF v(2)]] by simp
qed (simp add: adds_refl)

lemma adds_scan_region:
  "scan_region_words m r offs acc = Inr acc' \<Longrightarrow>
     adds m {v. \<exists>off \<in> set offs. allocation_base m (r_base r + of_nat off) = 0 \<and> region_word r off = Inr v}
       acc acc'"
proof (induction offs arbitrary: acc)
  case (Cons off offs)
  let ?V = "\<lambda>os. {v. \<exists>x \<in> set os. allocation_base m (r_base r + of_nat x) = 0 \<and> region_word r x = Inr v}"
  show ?case
  proof (cases "allocation_base m (r_base r + of_nat off) = 0")
    case True
    then obtain v where v: "region_word r off = Inr v"
      "scan_region_words m r offs (consider_value m v acc) = Inr acc'"
      using Cons.prems by (auto simp: sbind_eq_Inr)
    have "?V (off # offs) = {v} \<union> ?V offs" using v(1) True by auto
    then show ?thesis using adds_trans [OF adds_consider Cons.IH [OF v(2)]] by simp
  next
    case False
    then have "?V (off # offs) = ?V offs" by auto
    then show ?thesis using Cons False by simp
  qed
qed (simp add: adds_refl)

lemma adds_scan_regions:
  "scan_regions m rs acc = Inr acc' \<Longrightarrow>
     adds m {v. \<exists>r \<in> set rs. writable r \<and> 8 \<le> r_size r \<and> (\<exists>off \<in> set (word_offsets (r_size r)).
        allocation_base m (r_base r + of_nat off) = 0 \<and> region_word r off = Inr v)} acc acc'"
proof (induction rs arbitrary: acc)
  case (Cons r rs)
  let ?W = "\<lambda>r v. writable r \<and> 8 \<le> r_size r \<and> (\<exists>off \<in> set (word_offsets (r_size r)).
        allocation_base m (r_base r + of_nat off) = 0 \<and> region_word r off = Inr v)"
  show ?case
  proof (cases "\<not> writable r \<or> r_size r < 8")
    case True
    then have "{v. \<exists>q \<in> set (r # rs). ?W q v} = {v. \<exists>q \<in> set rs. ?W q v}" by auto
    then show ?thesis using Cons True by simp
  next
    case False
    then obtain acc1 where a: "scan_region_words m r (word_offsets (r_size r)) acc = Inr acc1"
      "scan_regions m rs acc1 = Inr acc'" using Cons.prems by (auto simp: sbind_eq_Inr)
    have "{v. \<exists>q \<in> set (r # rs). ?W q v} = {v. \<exists>off \<in> set (word_offsets (r_size r)).
        allocation_base m (r_base r + of_nat off) = 0 \<and> region_word r off = Inr v} \<union>
        {v. \<exists>q \<in> set rs. ?W q v}" using False by auto
    then show ?thesis using adds_trans [OF adds_scan_region [OF a(1)] Cons.IH [OF a(2)]] by simp
  qed
qed (simp add: adds_refl)

lemma reach_loop_closed:
  assumes step: "\<And>b v. P b \<Longrightarrow> v \<in> block_words m mem b \<Longrightarrow> allocation_base m v \<noteq> 0 \<Longrightarrow>
      P (allocation_base m v)"
    and "reach_loop m mem (reached, worklist) = Inr R" and "set worklist \<subseteq> reached"
    and "\<And>b. b \<in> reached \<Longrightarrow> b \<notin> set worklist \<Longrightarrow> bases m (block_words m mem b) \<subseteq> reached"
    and "\<And>b. b \<in> reached \<Longrightarrow> P b"
  shows "reached \<subseteq> R \<and> (\<forall>b \<in> R. P b \<and> bases m (block_words m mem b) \<subseteq> R)"
  using assms
proof (induction m mem "(reached, worklist)" arbitrary: reached worklist rule: reach_loop.induct)
  case (1 m mem reached)
  then show ?case by auto
next
  case (2 m mem reached b worklist)
  show ?case
  proof (cases "map_of m b")
    case None
    then have "bases m (block_words m mem b) = {}" by (simp add: block_words_def bases_def)
    then have closed: "bases m (block_words m mem c) \<subseteq> reached" if "c \<in> reached" "c \<notin> set worklist" for c
      using that 2(6) [of c] by (cases "c = b") auto
    show ?thesis
      by (rule 2(1) [OF None]) (use 2(3-5,7) None closed in auto)
  next
    case (Some r)
    then obtain reached' worklist' where
      scan: "scan_block m mem b (word_offsets (ar_size r)) (reached, worklist) = Inr (reached', worklist')"
      and rest: "reach_loop m mem (reached', worklist') = Inr R"
      using 2(4) by (auto split: sum.splits)
    have words: "{v. \<exists>off \<in> set (word_offsets (ar_size r)). read64 mem (b + of_nat off) = Inr v} =
        block_words m mem b" using Some by (auto simp: block_words_def)
    have R': "reached' = reached \<union> bases m (block_words m mem b)"
      and W': "set worklist' = set worklist \<union> (reached' - reached)"
      using adds_scan_block [OF scan] by (auto simp: adds_def words)
    have P': "P x" if "x \<in> reached'" for x
      using that 2(7) 2(3) [of b] 2(5) unfolding R' bases_def by auto
    have "reached' \<subseteq> R \<and> (\<forall>b \<in> R. P b \<and> bases m (block_words m mem b) \<subseteq> R)"
    proof (rule 2(2) [OF Some scan _ rest])
      show "set worklist' \<subseteq> reached'" using 2(5) unfolding W' R' by auto
      show "bases m (block_words m mem c) \<subseteq> reached'" if "c \<in> reached'" "c \<notin> set worklist'" for c
        using that 2(6) [of c] unfolding W' R' by (cases "c = b") auto
    qed (use P' 2(3) in auto)
    then show ?thesis unfolding R' by blast
  qed
qed

lemma reachable_from_roots:
  assumes run: "compute_reachable_allocations s = Inr R"
  shows "R = {b. heap_reachable (t_allocations (s_tracer s)) (s_mmu s) (root_words s) b}"
proof (cases "t_allocations (s_tracer s) = []")
  case True
  have "\<not> heap_reachable [] (s_mmu s) (root_words s) b" for b
    by (auto simp: allocation_base_def allocation_containing_def floor_entry_def elim: heap_reachable.cases)
  then show ?thesis using run True by (simp add: compute_reachable_allocations_def)
next
  case False
  define m where "m = t_allocations (s_tracer s)"
  let ?H = "heap_reachable m (s_mmu s) (root_words s)"
  obtain reached worklist where
    regs: "scan_regions m (m_regions (s_mmu s)) (fold (consider_value m) (gpr_values (s_cpu s)) ({}, [])) =
       Inr (reached, worklist)"
    and loop: "reach_loop m (s_mmu s) (reached, worklist) = Inr R"
    using run False by (auto simp: compute_reachable_allocations_def m_def Let_def sbind_eq_Inr)
  have add: "adds m (root_words s) ({}, []) (reached, worklist)"
    using adds_trans [OF adds_fold adds_scan_regions [OF regs]] unfolding root_words_def m_def by simp
  then have start: "reached = bases m (root_words s)" and todo: "set worklist = reached"
    by (auto simp: adds_def)
  have found: "reached \<subseteq> R \<and> (\<forall>b \<in> R. ?H b \<and> bases m (block_words m (s_mmu s) b) \<subseteq> R)"
    by (rule reach_loop_closed [OF _ loop])
      (auto simp: todo start bases_def intro: heap_reachable.intros)
  have "b \<in> R" if "?H b" for b
    using that
  proof induction
    case (root v)
    then show ?case using found start by (auto simp: bases_def)
  next
    case (edge b v)
    then show ?case using found by (fastforce simp: bases_def)
  qed
  then show ?thesis using found by (auto simp: m_def)
qed

text \<open>The search returns when every word of every block can be read.\<close>

definition words_readable :: "alloc_map \<Rightarrow> mmu \<Rightarrow> bool" where
  "words_readable m mem \<longleftrightarrow>
     (\<forall>(b, r) \<in> set m. \<forall>off \<in> set (word_offsets (ar_size r)). \<exists>v. read64 mem (b + of_nat off) = Inr v)"

lemma scan_block_total:
  "(\<And>off. off \<in> set offs \<Longrightarrow> \<exists>v. read64 mem (b + of_nat off) = Inr v) \<Longrightarrow>
     \<exists>acc'. scan_block m mem b offs acc = Inr acc'"
proof (induction offs arbitrary: acc)
  case (Cons off offs)
  then obtain v where "read64 mem (b + of_nat off) = Inr v" by fastforce
  then show ?case using Cons by simp
qed simp

lemma reach_loop_total:
  "words_readable m mem \<Longrightarrow> \<exists>R. reach_loop m mem acc = Inr R"
proof (induction m mem acc rule: reach_loop.induct)
  case (2 m mem reached b worklist)
  show ?case
  proof (cases "map_of m b")
    case (Some r)
    then have "(b, r) \<in> set m" by (rule map_of_SomeD)
    then obtain acc where "scan_block m mem b (word_offsets (ar_size r)) (reached, worklist) = Inr acc"
      using scan_block_total [of "word_offsets (ar_size r)" mem b] 2(3)
      unfolding words_readable_def by blast
    then show ?thesis using 2(2) [OF Some] 2(3) Some by auto
  qed (use 2 in auto)
qed simp

lemma region_word_total:
  assumes "region_wf r" and "off \<in> set (word_offsets (r_size r))"
  shows "\<exists>v. region_word r off = Inr v"
proof -
  have "off + 8 \<le> unat (r_size r)" using assms(2) by (auto simp: word_offsets_def)
  then have "\<exists>v. read_offset r (of_nat (off + j)) = Inr v" if "j < 8" for j
    using that assms(1) by (simp add: read_offset_def region_wf_def unat_of_nat take_bit_nat_eq_self
        del: of_nat_add)
  then have total: "\<exists>v. fold (\<lambda>b acc. sbind acc (\<lambda>v. sbind (read_offset r (of_nat (off + b))) (\<lambda>byte.
      Inr (v OR push_bit (b * 8) (ucast byte))))) js (Inr x) = Inr (v :: u64)"
    if "\<forall>j \<in> set js. j < 8" for js x
    using that
  proof (induction js arbitrary: x)
    case (Cons j js)
    then obtain y where "read_offset r (of_nat (off + j)) = Inr y" by fastforce
    then show ?case using Cons by simp
  qed simp
  show ?thesis unfolding region_word_def by (rule total) simp
qed

lemma scan_region_total:
  "region_wf r \<Longrightarrow> set offs \<subseteq> set (word_offsets (r_size r)) \<Longrightarrow>
     \<exists>acc'. scan_region_words m r offs acc = Inr acc'"
proof (induction offs arbitrary: acc)
  case (Cons off offs)
  then obtain v where "region_word r off = Inr v" using region_word_total by fastforce
  then show ?case using Cons by simp
qed simp

lemma scan_regions_total:
  "\<forall>r \<in> set rs. region_wf r \<Longrightarrow> \<exists>acc'. scan_regions m rs acc = Inr acc'"
proof (induction rs arbitrary: acc)
  case (Cons r rs)
  then obtain acc' where "scan_region_words m r (word_offsets (r_size r)) acc = Inr acc'"
    using scan_region_total [of r "word_offsets (r_size r)"] by (metis list.set_intros(1) subset_refl)
  then show ?case using Cons by simp
qed simp

text \<open>
  C20. The leak report's search returns, and the set it returns is exactly the blocks that a chain
  of pointers leads to: from a register or a word of writable memory outside every block, through
  the words stored in the blocks. The hypothesis is that the words of every block can be read.
\<close>

theorem reachable_blocks:
  assumes "mmu_wf (s_mmu s)" and "words_readable (t_allocations (s_tracer s)) (s_mmu s)"
  shows "compute_reachable_allocations s =
    Inr {b. heap_reachable (t_allocations (s_tracer s)) (s_mmu s) (root_words s) b}"
proof -
  have "\<exists>R. compute_reachable_allocations s = Inr R"
  proof (cases "t_allocations (s_tracer s) = []")
    case False
    obtain acc where "scan_regions (t_allocations (s_tracer s)) (m_regions (s_mmu s))
        (fold (consider_value (t_allocations (s_tracer s))) (gpr_values (s_cpu s)) ({}, [])) = Inr acc"
      using scan_regions_total assms(1) unfolding mmu_wf_def regions_wf_def by blast
    with reach_loop_total [OF assms(2)] show ?thesis
      by (simp add: compute_reachable_allocations_def Let_def False)
  qed (simp add: compute_reachable_allocations_def)
  then show ?thesis using reachable_from_roots by blast
qed

definition leak_machine :: machine where
  "leak_machine = (let s = initial_machine
     \<lparr>opt_trace = False, opt_trace_syscalls = False, opt_backtrace_on_exit = False,
      opt_malloc_trace = True\<rparr> (\<lambda>_. 0) in
     s\<lparr>s_mmu := three_pages, s_cpu := (s_cpu s)\<lparr>c_gpr := (\<lambda>_. 0)(3 := 0x10008)\<rparr>,
       s_tracer := (s_tracer s)\<lparr>t_allocations :=
         [(0x10000, block 0x10000 0x10 False), (0x11000, block 0x11000 0x10 False)]\<rparr>\<rparr>)"

lemma leak_machine_parts:
  "s_mmu leak_machine = three_pages" "c_gpr (s_cpu leak_machine) = (\<lambda>_. 0)(3 := 0x10008)"
  "t_allocations (s_tracer leak_machine) =
     [(0x10000, block 0x10000 0x10 False), (0x11000, block 0x11000 0x10 False)]"
  by (simp_all add: leak_machine_def Let_def)

lemma zero_region_word:
  assumes "\<forall>b \<in> set (r_bytes r). b = 0" and "region_word r off = Inr v"
  shows "v = 0"
proof -
  have stuck: "fold (\<lambda>b acc. sbind acc (\<lambda>v. sbind (read_offset r (of_nat (off + b))) (\<lambda>byte.
      Inr (v OR push_bit (b * 8) (ucast byte))))) js (Inl e) = (Inl e :: exn + u64)" for js e
    by (induction js) simp_all
  have "v = 0" if "fold (\<lambda>b acc. sbind acc (\<lambda>v. sbind (read_offset r (of_nat (off + b))) (\<lambda>byte.
      Inr (v OR push_bit (b * 8) (ucast byte))))) js (Inr 0) = Inr (v :: u64)" for js v
    using that
  proof (induction js)
    case (Cons j js)
    show ?case
    proof (cases "read_offset r (of_nat (off + j))")
      case (Inr b)
      then have "b = 0" using assms(1) by (auto simp: read_offset_def split: if_splits)
      then show ?thesis using Cons Inr by simp
    qed (use Cons.prems stuck in simp)
  qed simp
  then show ?thesis using assms(2) unfolding region_word_def by blast
qed

theorem reachable_blocks_witness:
  "compute_reachable_allocations leak_machine = Inr {0x10000}"
proof -
  let ?m = "[(0x10000, block 0x10000 0x10 False), (0x11000, block 0x11000 0x10 False)]"
  have zero: "read64 three_pages (b + of_nat off) = Inr 0"
    if "b = 0x10000 \<or> b = 0x11000" "off = 0 \<or> off = 8" for b off
  proof (rule read64_bytes)
    fix j :: nat
    assume "j < 8"
    then have "in_pages 0x10000 0x3000 (b + of_nat off + of_nat j)"
      using that of_nat_unat_u64 [of j] unat_add_u64 [of "b + of_nat off" "of_nat j"]
      by (auto simp: in_pages_def pages_eval)
    then show "read8 three_pages (b + of_nat off + of_nat j) = Inr (word_byte 0 j)"
      using three_pages_wf
      by (simp add: read8_cell mmu_wf_def three_pages_cells cell_allows_def ProtRead_def word_byte_def)
  qed
  have offs: "word_offsets 0x10 = [0, 8]" by (simp add: word_offsets_def upt_rec)
  have base: "allocation_base ?m 0 = 0" "allocation_base ?m 0x10008 = 0x10000"
    by (simp_all add: allocation_base_def allocation_containing_def floor_entry_def block_def)
  have readable: "words_readable ?m three_pages"
    using zero by (simp add: words_readable_def block_def offs)
  have words: "v = 0" if "v \<in> block_words ?m three_pages b" for v b
    using that zero by (auto simp: block_words_def block_def offs split: if_splits)
  have "\<forall>b \<in> set (r_bytes (new_simple_region 0x10000 0x3000 3 ''a'')). b = 0"
    by (simp add: new_simple_region_def)
  then have roots: "v = 0 \<or> v = 0x10008" if "v \<in> root_words leak_machine" for v
    using that zero_region_word
    by (auto simp: root_words_def leak_machine_parts three_pages_regions gpr_values_def split: if_splits)
  have "heap_reachable ?m three_pages (root_words leak_machine) b \<Longrightarrow> b = 0x10000" for b
    by (induction rule: heap_reachable.induct) (use roots words base in auto)
  moreover have "0x10008 \<in> root_words leak_machine"
    by (simp add: root_words_def leak_machine_parts gpr_values_def image_iff)
      (rule disjI1, rule exI [of _ 3], simp)
  then have "heap_reachable ?m three_pages (root_words leak_machine) 0x10000"
    using heap_reachable.root [of "0x10008" _ ?m three_pages] base by simp
  ultimately show ?thesis
    using reachable_blocks [of leak_machine] readable three_pages_wf by (auto simp: leak_machine_parts)
qed

end
