(* ===== verification/Float_Laws.thy ===== *)
theory Float_Laws
  imports CPU_Laws CPU_X87
begin

text \<open>
  What the floating-point units do around the host's arithmetic: the x87 registers as a stack of
  eight values, the flags and the status word of a comparison, and packed arithmetic lane by lane.
\<close>

section \<open>The register stack\<close>

text \<open>The abstract stack: ST(0) to ST(7) and their empty tags.\<close>

definition st_list :: "cpu \<Rightarrow> x80 list" where
  "st_list c = map (\<lambda>i. fst_reg i c) [0..<8]"

definition tag_list :: "cpu \<Rightarrow> bool list" where
  "tag_list c = map (\<lambda>i. fst_empty i c) [0..<8]"

lemma upt_8: "[0..<8] = [0, 1, 2, 3, 4, 5, 6, 7]"
  by (simp add: upt_rec)

lemmas stack_defs = st_list_def tag_list_def upt_8 fst_reg_def fst_empty_def

lemma word3_8: "(8 :: 3 word) = 0"
  by transfer (simp add: take_bit_eq_mod)

lemma word3_step [simp]:
  "(t :: 3 word) - 1 + 1 = t" "t - 1 + 2 = t + 1" "t - 1 + 3 = t + 2" "t - 1 + 4 = t + 3"
  "t - 1 + 5 = t + 4" "t - 1 + 6 = t + 5" "t - 1 + 7 = t + 6"
  "t + 1 + 1 = t + 2" "t + 1 + 2 = t + 3" "t + 1 + 3 = t + 4"
  "t + 1 + 4 = t + 5" "t + 1 + 5 = t + 6" "t + 1 + 6 = t + 7" "t + 1 + 7 = t"
  "t - 1 = t + 7"
  by (simp_all add: algebra_simps word3_8)

lemma push_stack:
  "st_list (fpu_push v c) = v # butlast (st_list c)"
  "tag_list (fpu_push v c) = False # butlast (tag_list c)"
  by (simp_all add: stack_defs fpu_push_def Let_def del: word3_step(15))

lemma pop_stack:
  "st_list (fpu_pop c) = tl (st_list c) @ [hd (st_list c)]"
  "tag_list (fpu_pop c) = tl (tag_list c) @ [True]"
  by (simp_all add: stack_defs fpu_pop_def)

lemma less_8: "(i :: nat) < 8 \<longleftrightarrow> i \<in> {0, 1, 2, 3, 4, 5, 6, 7}"
  by auto

lemma set_stack:
  assumes "i < 8"
  shows "st_list (set_fst i v c) = (st_list c)[i := v]" "tag_list (set_fst i v c) = tag_list c"
  using assms unfolding less_8 by (auto simp: stack_defs set_fst_def)

lemma nth_stack: "i < 8 \<Longrightarrow> fst_reg i c = st_list c ! i"
  by (simp add: st_list_def)

lemma length_stack [simp]: "length (st_list c) = 8"
  by (simp add: st_list_def)

lemma register_byte:
  assumes "i < 8"
  shows "unat ((0xc0 + of_nat i :: u8) AND 7) = i" "unat ((0xc8 + of_nat i :: u8) AND 7) = i"
    "unat ((0xd8 + of_nat i :: u8) AND 7) = i"
    "(0xc0 :: u8) \<le> 0xc0 + of_nat i" "0xc0 + of_nat i \<le> (0xc7 :: u8)"
    "(0xc8 :: u8) \<le> 0xc8 + of_nat i" "0xc8 + of_nat i \<le> (0xcf :: u8)" 
    "\<not> 0xc8 + of_nat i \<le> (0xc7 :: u8)"
    "(0xd8 :: u8) \<le> 0xd8 + of_nat i" "0xd8 + of_nat i \<le> (0xdf :: u8)" 
    "\<not> 0xd8 + of_nat i \<le> (0xc7 :: u8)" "\<not> 0xd8 + of_nat i \<le> (0xd7 :: u8)"
  using assms unfolding less_8 by auto

definition x87_result :: "fpu \<Rightarrow> u8 \<Rightarrow> u8 \<Rightarrow> machine \<Rightarrow> x80 list \<times> bool list" where
  "x87_result F opcode rb s =
     (let c = s_cpu (snd (x87_register F opcode rb s)) in (st_list c, tag_list c))"

text \<open>
  C36. The x87 registers are a stack: with ST(0) to ST(7) as a list and their empty tags as
  another, FLD ST(i) pushes a copy of element \<open>i\<close> and marks it in use, dropping the oldest of the
  eight without any check; FXCH exchanges two elements and FSTP ST(i) stores ST(0) and pops, the
  register popped becoming the last, tagged empty. D9 F6 rotates the stack as a pop does and D9 F7
  as a push does, so the two instructions FDECSTP and FINCSTP are exchanged.
\<close>

theorem register_stack_refinement:
  assumes "i < 8"
  shows "let st = st_list (s_cpu s); tags = tag_list (s_cpu s) in
    x87_result F 0xd9 (0xc0 + of_nat i) s = (st ! i # butlast st, False # butlast tags) \<and>
    x87_result F 0xd9 (0xc8 + of_nat i) s = (st[0 := st ! i, i := st ! 0], tags) \<and>
    x87_result F 0xdd (0xd8 + of_nat i) s = (tl (st[i := st ! 0]) @ [hd (st[i := st ! 0])], tl tags @ [True]) \<and>
    x87_result F 0xd9 0xf6 s = (tl st @ [hd st], tl tags @ [hd tags]) \<and>
    x87_result F 0xd9 0xf7 s = (last st # butlast st, last tags # butlast tags)"
  unfolding Let_def
proof (intro conjI)
  note defs = x87_result_def x87_register_def x87_d9_def x87_dd_def Let_def monad_defs
    register_byte [OF assms] nth_stack
  show "x87_result F 0xd9 (0xc0 + of_nat i) s =
      (st_list (s_cpu s) ! i # butlast (st_list (s_cpu s)), False # butlast (tag_list (s_cpu s)))"
    by (simp add: defs push_stack assms)
  show "x87_result F 0xd9 (0xc8 + of_nat i) s =
      ((st_list (s_cpu s))[0 := st_list (s_cpu s) ! i, i := st_list (s_cpu s) ! 0], tag_list (s_cpu s))"
    by (simp add: defs set_stack assms)
  show "x87_result F 0xdd (0xd8 + of_nat i) s =
      (tl ((st_list (s_cpu s))[i := st_list (s_cpu s) ! 0]) @ [hd ((st_list (s_cpu s))[i := st_list (s_cpu s) ! 0])],
       tl (tag_list (s_cpu s)) @ [True])"
    by (simp add: defs set_stack pop_stack assms)
  show "x87_result F 0xd9 0xf6 s = (tl (st_list (s_cpu s)) @ [hd (st_list (s_cpu s))],
      tl (tag_list (s_cpu s)) @ [hd (tag_list (s_cpu s))])"
    by (simp add: defs x87_unary_def stack_defs)
  show "x87_result F 0xd9 0xf7 s = (last (st_list (s_cpu s)) # butlast (st_list (s_cpu s)),
      last (tag_list (s_cpu s)) # butlast (tag_list (s_cpu s)))"
    by (simp add: defs x87_unary_def stack_defs del: word3_step(15)) (simp add: word3_8)
qed

theorem register_stack_refinement_witness:
  "\<forall>F s. fst (x87_result F 0xd9 0xc3 s) = st_list (s_cpu s) ! 3 # butlast (st_list (s_cpu s))"
  using register_stack_refinement [where i = 3] by (simp add: Let_def)

section \<open>Comparisons\<close>

lemma flag_tainted [simp]: "flag f (c\<lparr>c_flags_tainted := t\<rparr>) = flag f c"
  by (simp add: flag_def)

lemma word3_bits [simp]: "\<not> bit (t :: 3 word) 3"
  by (simp add: impossible_bit)

lemma compare_eflags:
  "flag CF (set_eflags_from_float_compare F a b c) \<longleftrightarrow>
     (fp_nan64 F (fp_to64 F a) \<or> fp_nan64 F (fp_to64 F b)) \<or> \<not> fp_less F b a \<and> fp_less F a b"
  "flag PF (set_eflags_from_float_compare F a b c) \<longleftrightarrow>
     fp_nan64 F (fp_to64 F a) \<or> fp_nan64 F (fp_to64 F b)"
  "flag ZF (set_eflags_from_float_compare F a b c) \<longleftrightarrow>
     (fp_nan64 F (fp_to64 F a) \<or> fp_nan64 F (fp_to64 F b)) \<or> \<not> fp_less F b a \<and> \<not> fp_less F a b"
  by (auto simp: set_eflags_from_float_compare_def Let_def flag_simps)

lemma compare_status:
  "bit (fpu_status_word (fpu_compare F a b c)) 8 \<longleftrightarrow>
     fp_nan F a \<or> fp_nan F b \<or> \<not> fp_less F b a \<and> fp_less F a b"
  "bit (fpu_status_word (fpu_compare F a b c)) 10 \<longleftrightarrow> fp_nan F a \<or> fp_nan F b"
  "bit (fpu_status_word (fpu_compare F a b c)) 14 \<longleftrightarrow>
     fp_nan F a \<or> fp_nan F b \<or> \<not> fp_less F b a \<and> \<not> fp_less F a b"
  by (auto simp: fpu_status_word_def fpu_compare_def Let_def bit_simps)

lemma status_word_top: "ucast (drop_bit 11 (fpu_status_word c)) = c_fpu_top c"
  by (rule bit_word_eqI) (auto simp: fpu_status_word_def bit_simps numeral_3_eq_3 less_Suc_eq)

lemma float_conditions:
  "condition 2 c = flag CF c" "condition 3 c = (\<not> flag CF c)" "condition 4 c = flag ZF c"
  "condition 7 c = (\<not> flag CF c \<and> \<not> flag ZF c)" "condition 10 c = flag PF c"
  by (simp_all add: condition_def condition_code.simps)

text \<open>
  C37. Comparing floating-point numbers: after UCOMISS, UCOMISD or FUCOMI the conditions parity,
  below, equal, above and above-or-equal hold exactly for unordered operands and the relations of
  ordered ones; FUCOM and FNSTSW show the same outcome as C0, C2 and C3 in bits 8, 10 and 14 of the
  status word, which also holds the number of the top register in bits 11 to 13. The host's
  comparison is only asked to be asymmetric, and its conversion to \<^verbatim>\<open>double\<close> to keep NaNs.
\<close>

theorem float_compare_conditions:
  assumes "\<And>x y. fp_less F x y \<Longrightarrow> \<not> fp_less F y x"
    and "\<And>x. fp_nan F x \<longleftrightarrow> fp_nan64 F (fp_to64 F x)"
  shows "let e = set_eflags_from_float_compare F a b c;
             w = fpu_status_word (fpu_compare F a b c);
             unordered = fp_nan F a \<or> fp_nan F b in
    (condition 10 e \<longleftrightarrow> unordered) \<and> (condition 2 e \<longleftrightarrow> unordered \<or> fp_less F a b) \<and>
    (condition 4 e \<longleftrightarrow> unordered \<or> \<not> fp_less F a b \<and> \<not> fp_less F b a) \<and>
    (condition 7 e \<longleftrightarrow> \<not> unordered \<and> fp_less F b a) \<and>
    (condition 3 e \<longleftrightarrow> \<not> unordered \<and> \<not> fp_less F a b) \<and>
    (bit w 8 \<longleftrightarrow> condition 2 e) \<and> (bit w 10 \<longleftrightarrow> condition 10 e) \<and> (bit w 14 \<longleftrightarrow> condition 4 e) \<and>
    ucast (drop_bit 11 w) = c_fpu_top c"
proof -
  have top: "c_fpu_top (fpu_compare F a b c) = c_fpu_top c" by (simp add: fpu_compare_def Let_def)
  show ?thesis
    unfolding Let_def float_conditions compare_eflags compare_status status_word_top top assms(2)
    using assms(1) by blast
qed

text \<open>An arithmetic of whole numbers, with all ones as NaN, to evaluate the comparison on.\<close>

definition whole_fpu :: fpu where
  "whole_fpu = \<lparr>fp_op = \<lambda>_. hd, fp_op32 = \<lambda>_. hd, fp_op64 = \<lambda>_. hd, fp_of32 = ucast, fp_of64 = ucast,
     fp_to32 = ucast, fp_to64 = ucast, fp_of_int = of_int, fp_int32 = of_int, fp_int64 = of_int,
     fp_trunc = \<lambda>_. uint, fp_round = uint, fp_exponent = \<lambda>_. 0, fp_less = (<), fp_eq = (=),
     fp_nan = \<lambda>x. ucast x = (- 1 :: u64), fp_nan64 = \<lambda>x. x = - 1, fp_inf64 = \<lambda>_. False,
     fp_sign64 = \<lambda>_. False\<rparr>"

theorem float_compare_conditions_witness:
  "condition 2 (set_eflags_from_float_compare whole_fpu 1 2 initial_cpu) \<and>
   \<not> condition 2 (set_eflags_from_float_compare whole_fpu 2 1 initial_cpu)"
  using float_compare_conditions [where F = whole_fpu and a = 1 and b = 2 and c = initial_cpu]
    float_compare_conditions [where F = whole_fpu and a = 2 and b = 1 and c = initial_cpu]
  by (simp add: whole_fpu_def Let_def)

section \<open>Lanes\<close>




lemma length_replace_bytes [simp]:
  "off + length bs \<le> length v \<Longrightarrow> length (replace_bytes v off bs) = length v"
  by (simp add: replace_bytes_def)

lemma lane_bytes_length [simp]: "length (lane_bytes n v) = n"
  by (simp add: lane_bytes_def)











end
