(* ===== verification/ELF_Laws.thy ===== *)
theory ELF_Laws
  imports ELF MMU_Laws
begin

text \<open>
  The loader against the format: a program that loads is in memory as its file describes it, and
  loading never touches what is already mapped.
\<close>

section \<open>Adding to memory\<close>

definition memory_extends :: "mmu \<Rightarrow> mmu \<Rightarrow> bool" where
  "memory_extends m m' \<longleftrightarrow> mmu_wf m' \<and> (\<forall>a c. cell_at m a = Some c \<longrightarrow> cell_at m' a = Some c)"

lemma memory_extends_refl: "mmu_wf m \<Longrightarrow> memory_extends m m"
  by (simp add: memory_extends_def)

lemma memory_extends_trans:
  "memory_extends m m' \<Longrightarrow> memory_extends m' m'' \<Longrightarrow> memory_extends m m''"
  by (simp add: memory_extends_def)

text \<open>The bytes of one program header: the file's bytes, then zeros.\<close>

definition segment_loaded :: "u8 list \<Rightarrow> u64 \<Rightarrow> phdr \<Rightarrow> mmu \<Rightarrow> bool" where
  "segment_loaded data load_base ph m \<longleftrightarrow>
     (\<forall>i < unat (p_memsz ph). cell_at m (load_base + p_vaddr ph + of_nat i) =
        Some (Cell (if i < unat (p_filesz ph) then data ! (unat (p_offset ph) + i) else 0) True
               (flags_to_prot (p_flags ph))))"

lemma segment_loaded_extends:
  "segment_loaded data load_base ph m \<Longrightarrow> memory_extends m m' \<Longrightarrow> segment_loaded data load_base ph m'"
  by (simp add: segment_loaded_def memory_extends_def)

text \<open>What a segment does not change of the result.\<close>

definition same_place :: "loaded_object \<Rightarrow> loaded_object \<Rightarrow> bool" where
  "same_place o' ob \<longleftrightarrow> lo_load_base o' = lo_load_base ob \<and> lo_entry o' = lo_entry ob"

section \<open>One segment\<close>

lemma segment_pages:
  fixes start sz :: u64
  assumes fit: "pages_fit (page_align_down start) (page_align_up (start - page_align_down start + sz))"
    and sz: "sz < 0xFFFFFFFFFFFFE000" and i: "i < unat sz"
  shows "in_pages (page_align_down start) (page_align_up (start - page_align_down start + sz)) (start + of_nat i)"
    and "unat (start + of_nat i - page_align_down start) = unat (start - page_align_down start) + i"
proof -
  let ?d = "page_align_down start" and ?off = "start - page_align_down start"
  have off: "unat ?off < 4096" "unat start = unat ?d + unat ?off"
    using page_align_down_le [of start] by (auto simp: unat_sub_u64 u64_order unat_page_align_down)
  have szn: "unat sz < 18446744073709543424" using sz by (simp add: u64_order)
  have sum: "unat (?off + sz) = unat ?off + unat sz" using off szn by (simp add: unat_add_u64)
  have "?off + sz \<le> page_align_up (?off + sz)" using sum off szn by (intro page_align_up_ge) simp
  then have up: "unat ?off + unat sz \<le> unat (page_align_up (?off + sz))" using sum by (simp add: u64_order)
  have fit': "unat ?d + unat (page_align_up (?off + sz)) < 18446744073709551616"
    using fit by (simp add: pages_fit_def page_align_down_aligned page_align_up_aligned)
  have in_: "unat (of_nat i :: u64) = i" using i szn by (simp add: unat_of_nat take_bit_nat_eq_self)
  have a: "unat (start + of_nat i) = unat ?d + unat ?off + i"
    using off(2) in_ i up fit' by (simp add: unat_add_u64)
  show "in_pages ?d (page_align_up (?off + sz)) (start + of_nat i)"
    using a i up by (simp add: in_pages_def page_align_down_aligned page_align_up_aligned)
  have "?d \<le> start + of_nat i" using a by (simp add: u64_order)
  then show "unat (start + of_nat i - ?d) = unat ?off + i" using a by (simp add: unat_sub_u64)
qed

lemma load_segment_run:
  assumes m: "mmu_wf m" and run: "load_segment data path h ph object m = (res, m')"
  shows "memory_extends m m' \<and>
    (\<forall>object'. res = Inr object' \<longrightarrow> same_place object' object \<and>
       (p_memsz ph < 0xFFFFFFFFFFFFE000 \<longrightarrow> segment_loaded data (lo_load_base object) ph m'))"
proof -
  let ?start = "lo_load_base object + p_vaddr ph"
  let ?d = "page_align_down ?start"
  let ?z = "page_align_up (?start - ?d + p_memsz ph)"
  let ?src = "take (unat (p_filesz ph)) (drop (unat (p_offset ph)) data)"
  let ?map = "map_bytes ?d ?z (flags_to_prot (p_flags ph)) ?src (?start - ?d) path"
  consider (rejected) "m' = m" "\<exists>e. res = Inl e"
    | (mapped) r where "?map m = (r, m')" "p_filesz ph \<le> p_memsz ph"
        "unat (p_offset ph) + unat (p_filesz ph) \<le> length data"
        "case r of Inl e \<Rightarrow> res = Inl e
         | Inr _ \<Rightarrow> (\<exists>object'. res = Inr object' \<and> same_place object' object)"
    using run
    by (cases "?map m") (auto simp: load_segment_def Let_def monad_defs reject_if_def bad_elf_def
        same_place_def split: if_splits sum.splits)
  then show ?thesis
  proof cases
    case rejected
    then show ?thesis using memory_extends_refl [OF m] by auto
  next
    case (mapped r)
    from map_bytes_run [OF m mapped(1)] show ?thesis
    proof (cases r)
      case (Inl e)
      then show ?thesis
        using map_bytes_run [OF m mapped(1)] mapped(4) memory_extends_refl [OF m] by auto
    next
      case (Inr u)
      with map_bytes_run [OF m mapped(1)]
      have R: "maps_range ?d ?z (\<lambda>a. Cell (image_byte ?d ?src (?start - ?d) a) True (flags_to_prot (p_flags ph))) m m'"
        by simp
      then have ext: "memory_extends m m'"
        by (auto simp: maps_range_def memory_extends_def)
      have loaded: "segment_loaded data (lo_load_base object) ph m'"
        if small: "p_memsz ph < 0xFFFFFFFFFFFFE000"
        unfolding segment_loaded_def
      proof (intro allI impI)
        fix i assume i: "i < unat (p_memsz ph)"
        have fit: "pages_fit ?d ?z" using R by (simp add: maps_range_def)
        note P = segment_pages [OF fit small i]
        have "image_byte ?d ?src (?start - ?d) (?start + of_nat i) =
            (if i < unat (p_filesz ph) then data ! (unat (p_offset ph) + i) else 0)"
          using P(2) mapped(3) by (auto simp: image_byte_def Let_def page_align_down_aligned)
        then show "cell_at m' (?start + of_nat i) = Some (Cell (if i < unat (p_filesz ph)
            then data ! (unat (p_offset ph) + i) else 0) True (flags_to_prot (p_flags ph)))"
          using R P(1) by (simp add: maps_range_def)
      qed
      show ?thesis using ext loaded mapped(4) Inr by auto
    qed
  qed
qed

section \<open>All program headers\<close>

lemma load_header_run:
  assumes m: "mmu_wf m" and run: "load_header data path h object ph m = (res, m')"
  shows "memory_extends m m' \<and>
    (\<forall>object'. res = Inr object' \<longrightarrow> same_place object' object \<and>
       (p_type ph = 1 \<and> p_memsz ph < 0xFFFFFFFFFFFFE000 \<longrightarrow>
          segment_loaded data (lo_load_base object) ph m'))"
proof (cases "p_type ph = 1")
  case True
  then show ?thesis using load_segment_run [OF m] run by (simp add: load_header_def)
next
  case False
  then have "m' = m \<and> (\<forall>object'. res = Inr object' \<longrightarrow> same_place object' object)"
    using run by (auto simp: load_header_def monad_defs same_place_def split: if_splits)
  then show ?thesis using memory_extends_refl [OF m] False by auto
qed

lemma load_headers_run:
  assumes "mmu_wf m" and "load_headers data path h i n object m = (res, m')"
  shows "memory_extends m m' \<and>
    (\<forall>object'. res = Inr object' \<longrightarrow> same_place object' object \<and>
       (\<forall>k < n. \<exists>ph. phdr_at data (e_phoff h + of_nat (i + k) * ucast (e_phentsize h)) = Inr ph \<and>
          (p_type ph = 1 \<and> p_memsz ph < 0xFFFFFFFFFFFFE000 \<longrightarrow>
             segment_loaded data (lo_load_base object) ph m')))"
  using assms
proof (induction n arbitrary: i object m)
  case 0
  then show ?case using memory_extends_refl by (auto simp: monad_defs same_place_def)
next
  case (Suc n)
  show ?case
  proof (cases "phdr_at data (e_phoff h + of_nat i * ucast (e_phentsize h))")
    case (Inl e)
    then show ?thesis using Suc.prems memory_extends_refl by (auto simp: monad_defs)
  next
    case (Inr ph)
    obtain r m1 where H: "load_header data path h object ph m = (r, m1)" by fastforce
    note step = load_header_run [OF Suc.prems(1) H]
    show ?thesis
    proof (cases r)
      case (Inl e)
      then have "res = Inl e" "m' = m1"
        using Suc.prems(2) \<open>phdr_at data _ = Inr ph\<close> H by (auto simp: monad_defs)
      then show ?thesis using step by auto
    next
      case r: (Inr object1)
      have run: "load_headers data path h (Suc i) n object1 m1 = (res, m')"
        using Suc.prems(2) Inr H r by (simp add: monad_defs)
      have m1: "mmu_wf m1" using step by (simp add: memory_extends_def)
      note IH = Suc.IH [OF m1 run]
      have base: "same_place object1 object" using step r by simp
      have ext: "memory_extends m m'" using step IH memory_extends_trans by blast
      show ?thesis
      proof (intro conjI allI impI)
        show "memory_extends m m'" by (rule ext)
        fix object' assume res: "res = Inr object'"
        show "same_place object' object" using IH res base by (simp add: same_place_def)
        fix k assume k: "k < Suc n"
        show "\<exists>ph. phdr_at data (e_phoff h + of_nat (i + k) * ucast (e_phentsize h)) = Inr ph \<and>
            (p_type ph = 1 \<and> p_memsz ph < 0xFFFFFFFFFFFFE000 \<longrightarrow>
               segment_loaded data (lo_load_base object) ph m')"
        proof (cases k)
          case 0
          have "p_type ph = 1 \<and> p_memsz ph < 0xFFFFFFFFFFFFE000 \<longrightarrow>
              segment_loaded data (lo_load_base object) ph m'"
            using step r IH segment_loaded_extends by blast
          then show ?thesis using Inr 0 by simp
        next
          case (Suc k')
          have "\<exists>ph. phdr_at data (e_phoff h + of_nat (Suc i + k') * ucast (e_phentsize h)) = Inr ph \<and>
            (p_type ph = 1 \<and> p_memsz ph < 0xFFFFFFFFFFFFE000 \<longrightarrow>
               segment_loaded data (lo_load_base object1) ph m')"
            using IH res k Suc by auto
          then show ?thesis using base Suc by (simp add: same_place_def)
        qed
      qed
    qed
  qed
qed

section \<open>One file\<close>

text \<open>
  C11. Loading an ELF file: whether it succeeds or not, everything mapped before stays as it is. If
  it succeeds, the file has the magic bytes, the 64-bit class and the little-endian encoding, and is an
  executable or shared object for this machine, placed at address 0 or at the base given, with its
  entry relative to that; all its program headers are inside the file, and each loadable one is in
  memory: its bytes of the file, then zeros, initialised, with the protection of its flags. The last
  is for sizes in memory below 2 to the 64 minus 8192: beyond, the size rounded to pages
  can wrap round, and less be mapped.
\<close>

theorem elf_image:
  assumes "mmu_wf m" and "load_object fs path dyn_base m = (res, m')"
  shows "mmu_wf m' \<and> (\<forall>a c. cell_at m a = Some c \<longrightarrow> cell_at m' a = Some c) \<and>
    (case res of Inl _ \<Rightarrow> True | Inr object \<Rightarrow>
       \<exists>data h. fs path = Some data \<and> ehdr_at data 0 = Inr h \<and> elf_magic h \<and> e_ident h ! 4 = 2 \<and> e_ident h ! 5 = 1 \<and>
         e_machine h = 62 \<and> (e_type h = 2 \<or> e_type h = 3) \<and>
         lo_load_base object = (if e_type h = 3 then dyn_base else 0) \<and>
         lo_entry object = lo_load_base object + e_entry h \<and>
         (\<forall>k < unat (e_phnum h). \<exists>ph. phdr_at data (e_phoff h + of_nat k * ucast (e_phentsize h)) = Inr ph \<and>
            (p_type ph = 1 \<and> p_memsz ph < 0xFFFFFFFFFFFFE000 \<longrightarrow>
               (\<forall>i < unat (p_memsz ph). cell_at m' (lo_load_base object + p_vaddr ph + of_nat i) =
                  Some (Cell (if i < unat (p_filesz ph) then data ! (unat (p_offset ph) + i) else 0) True
                         (flags_to_prot (p_flags ph)))))))"
proof -
  let ?start = "\<lambda>h. \<lparr>lo_entry = (if e_type h = 3 then dyn_base else 0) + e_entry h,
      lo_load_base = (if e_type h = 3 then dyn_base else 0), lo_phdr = 0, lo_phent = e_phentsize h,
      lo_phnum = e_phnum h, lo_brk_start = 0, lo_interpreter = []\<rparr>"
  consider (rejected) e where "res = Inl e" "m' = m"
    | (headers) data h r where "fs path = Some data" "ehdr_at data 0 = Inr h" "check_ehdr data h = Inr ()"
        "load_headers data path h 0 (unat (e_phnum h)) (?start h) m = (r, m')"
        "\<forall>object. res = Inr object \<longrightarrow> (\<exists>object0. r = Inr object0 \<and> same_place object object0)"
  proof (cases "\<exists>data h. read_file fs path = Inr data \<and> \<not> length data < 64 \<and> ehdr_at data 0 = Inr h \<and>
      check_ehdr data h = Inr ()")
    case True
    then obtain data h where ok: "read_file fs path = Inr data" "\<not> length data < 64"
      "ehdr_at data 0 = Inr h" "check_ehdr data h = Inr ()" by blast
    obtain r m1 where run: "load_headers data path h 0 (unat (e_phnum h)) (?start h) m = (r, m1)"
      by fastforce
    have "m1 = m' \<and> (\<forall>object. res = Inr object \<longrightarrow> (\<exists>object0. r = Inr object0 \<and> same_place object object0))"
      using assms(2) ok run
      by (cases r) (auto simp: load_object_def Let_def monad_defs reject_if_def same_place_def
          split: if_splits)
    then show ?thesis
      using headers [of data h r] ok run by (auto simp: read_file_def split: option.splits)
  next
    case False
    then show ?thesis
      using assms(2) rejected
      by (auto simp: load_object_def monad_defs reject_if_def bad_elf_def split: sum.splits if_splits)
  qed
  then show ?thesis
  proof cases
    case rejected
    then show ?thesis using assms(1) by simp
  next
    case (headers data h r)
    note H = load_headers_run [OF assms(1) headers(4)]
    have check: "elf_magic h \<and> e_ident h ! 4 = 2 \<and> e_ident h ! 5 = 1 \<and> e_machine h = 62 \<and> (e_type h = 2 \<or> e_type h = 3)"
      using headers(3)
      by (auto simp: check_ehdr_def sbind_def reject_if_def bad_elf_def split: if_splits)
    show ?thesis
    proof (cases res)
      case (Inl e)
      then show ?thesis using H by (simp add: memory_extends_def)
    next
      case (Inr object)
      then obtain object0 where "r = Inr object0" "same_place object object0" using headers(5) by blast
      then show ?thesis
        using H check headers(1,2) Inr
        by (auto simp: memory_extends_def same_place_def segment_loaded_def)
    qed
  qed
qed

text \<open>The smallest program: one segment of four bytes and four zeros at 0x400000.\<close>

definition tiny_elf :: "u8 list" where
  "tiny_elf =
     [0x7f, 0x45, 0x4c, 0x46, 2, 1, 1, 0, 0, 0, 0, 0, 0, 0, 0, 0, 2, 0, 0x3e, 0, 1, 0, 0, 0,
      1, 0, 0x40, 0, 0, 0, 0, 0, 0x40, 0, 0, 0, 0, 0, 0, 0, 0, 0, 0, 0, 0, 0, 0, 0,
      0, 0, 0, 0, 0x40, 0, 0x38, 0, 1, 0, 0, 0, 0, 0, 0, 0,
      1, 0, 0, 0, 5, 0, 0, 0, 0, 0, 0, 0, 0, 0, 0, 0, 0, 0, 0x40, 0, 0, 0, 0, 0,
      0, 0, 0x40, 0, 0, 0, 0, 0, 4, 0, 0, 0, 0, 0, 0, 0, 8, 0, 0, 0, 0, 0, 0, 0,
      0, 0x10, 0, 0, 0, 0, 0, 0]"

lemma tiny_ehdr: "ehdr_at tiny_elf 0 = Inr
   \<lparr>e_ident = [0x7f, 0x45, 0x4c, 0x46, 2, 1, 1, 0, 0, 0, 0, 0, 0, 0, 0, 0], e_type = 2, e_machine = 62,
    e_entry = 0x400001, e_phoff = 64, e_shoff = 0, e_phentsize = 56, e_phnum = 1, e_shentsize = 0,
    e_shnum = 0\<rparr>"
  by (simp add: ehdr_at_def object_at_def field_def tiny_elf_def sbind_def)

lemma tiny_phdr: "phdr_at tiny_elf 64 = Inr
   \<lparr>p_type = 1, p_flags = 5, p_offset = 0, p_vaddr = 0x400000, p_filesz = 4, p_memsz = 8\<rparr>"
  by (simp add: phdr_at_def object_at_def field_def tiny_elf_def sbind_def)

lemma tiny_length: "length tiny_elf = 120" "take 4 tiny_elf = [0x7f, 0x45, 0x4c, 0x46]"
  by (simp_all add: tiny_elf_def)

lemma tiny_pages:
  "page_align_down 0x400000 = 0x400000" "page_align_up 0x400008 = 0x401000"
  "page_align_up 8 = 0x1000" "page_align_up 0x1000 = 0x1000"
  by (simp_all add: page_align_down_def page_align_up_def page_size_def)

lemma tiny_loads: "\<exists>object. fst (load_object (\<lambda>_. Some tiny_elf) ''a'' 0 initial_mmu) = Inr object"
  by (simp add: load_object_def load_header_def load_segment_def read_file_def
      tiny_ehdr tiny_phdr tiny_length check_ehdr_def elf_magic_def reject_if_def sbind_def monad_defs
      Let_def map_bytes_def tiny_pages ensure_no_overlap_def initial_mmu_def
      new_simple_region_bytes_def)

theorem elf_image_witness:
  "\<exists>object m'. load_object (\<lambda>_. Some tiny_elf) ''a'' 0 initial_mmu = (Inr object, m') \<and>
     lo_entry object = 0x400001 \<and> cell_at m' 0x400003 = Some (Cell 0x46 True 5) \<and>
     cell_at m' 0x400007 = Some (Cell 0 True 5)"
proof -
  obtain object m' where run: "load_object (\<lambda>_. Some tiny_elf) ''a'' 0 initial_mmu = (Inr object, m')"
    using tiny_loads by (metis prod.collapse)
  have prot: "flags_to_prot 5 = 5"
    by (simp add: flags_to_prot_def ProtRead_def ProtWrite_def ProtExecute_def)
  note E = elf_image [OF initial_mmu_wf run, unfolded sum.simps tiny_ehdr, simplified]
  have e: "lo_entry object = 0x400001" "lo_load_base object = 0" using E tiny_ehdr by auto
  have seg: "\<forall>i < 8. cell_at m' (0x400000 + of_nat i) =
      Some (Cell (if i < 4 then tiny_elf ! i else 0) True 5)"
    using E tiny_ehdr tiny_phdr prot e by auto
  have "tiny_elf ! 3 = 0x46" by (simp add: tiny_elf_def)
  then show ?thesis using run e(1) spec [OF seg, of 3] spec [OF seg, of 7] by simp
qed

end
