(* ===== verification/Program.thy ===== *)
theory Program
  imports Exec
begin

text \<open>
  \<^verbatim>\<open>src/main.cpp\<close>: the options, the search for the executable, and the run. What the host
  says of a path (\<^verbatim>\<open>access(path, X_OK)\<close>) and the environment are arguments.
\<close>

section \<open>Finding the executable\<close>

text \<open>
  The entries that repeated \<^verbatim>\<open>std::getline\<close> with a colon yields: what follows the last colon
  is an entry only if it is not empty.
\<close>

function path_entries :: "string \<Rightarrow> string list" where
  "path_entries s =
     (if s = [] then []
      else takeWhile (\<lambda>c. c \<noteq> CHR '':'') s # path_entries (drop 1 (dropWhile (\<lambda>c. c \<noteq> CHR '':'') s)))"
  by pat_completeness auto
termination
  by (relation "measure length")
    (auto simp: Suc_le_eq intro: le_less_trans [OF diff_le_mono [OF length_dropWhile_le]])

declare path_entries.simps [simp del]

definition find_executable :: "string option \<Rightarrow> (string \<Rightarrow> bool) \<Rightarrow> string \<Rightarrow> string" where
  "find_executable path_env can_run command =
     (if CHR ''/'' \<in> set command then command
      else case path_env of
        None \<Rightarrow> []
      | Some path \<Rightarrow>
          (case find can_run
                  (map (\<lambda>directory. (if directory = [] then ''.'' else directory) @ ''/'' @ command)
                    (path_entries path)) of
             None \<Rightarrow> [] | Some candidate \<Rightarrow> candidate))"

section \<open>Options\<close>

definition no_options :: emulator_options where
  "no_options = \<lparr>opt_trace = False, opt_trace_syscalls = False, opt_backtrace_on_exit = False,
     opt_malloc_trace = False\<rparr>"

text \<open>The options before the guest's program and its arguments; nothing if help is asked for.\<close>

fun parse_arguments :: "emulator_options \<Rightarrow> string list \<Rightarrow> (emulator_options \<times> string list) option" where
  "parse_arguments options [] = Some (options, [])"
| "parse_arguments options (a # rest) =
     (if a = ''-h'' \<or> a = ''--help'' then None
      else if a = ''--trace'' then parse_arguments (options\<lparr>opt_trace := True\<rparr>) rest
      else if a = ''--trace-syscalls'' then parse_arguments (options\<lparr>opt_trace_syscalls := True\<rparr>) rest
      else if a = ''--backtrace-on-exit'' then parse_arguments (options\<lparr>opt_backtrace_on_exit := True\<rparr>) rest
      else if a = ''--malloc-trace'' then parse_arguments (options\<lparr>opt_malloc_trace := True\<rparr>) rest
      else Some (options, a # rest))"

definition usage_text :: "string \<Rightarrow> string" where
  "usage_text argv0 =
     ''Usage: '' @ argv0 @ '' [options] <program> [args...]'' @ newline @ newline @
     ''Options:'' @ newline @
     ''  -h, --help             Show this help text and exit'' @ newline @
     ''      --trace            Print every guest instruction and registers'' @ newline @
     ''      --trace-syscalls   Print guest Linux syscalls'' @ newline @
     ''      --malloc-trace     Track guest malloc/free/realloc/calloc diagnostics'' @ newline @
     ''      --backtrace-on-exit'' @ newline @
     ''                         Print a symbolic guest backtrace on normal exit'' @ newline"

section \<open>The program\<close>

text \<open>What \<^verbatim>\<open>main\<close> decides before it makes the emulator: an exit status and what it prints, or
  the executable, the guest's arguments and the options.\<close>

datatype main_start =
    MainExit int string
  | MainRun string "string list" emulator_options

definition start_main :: "string option \<Rightarrow> (string \<Rightarrow> bool) \<Rightarrow> string list \<Rightarrow> main_start" where
  "start_main path_env can_run argv =
     (case parse_arguments no_options (tl argv) of
        None \<Rightarrow> MainExit 0 (usage_text (hd argv))
      | Some (options, []) \<Rightarrow> MainExit 1 (usage_text (hd argv))
      | Some (options, program # arguments) \<Rightarrow>
          let path = find_executable path_env can_run program in
          if path = []
          then MainExit 1 (''LinuxUserspaceEmulator: cannot find executable: '' @ program @ newline)
          else MainRun path (program # arguments) options)"

text \<open>
  The exit status and what was printed on \<^verbatim>\<open>std::cerr\<close>. An exception that leaves
  \<^verbatim>\<open>exec\<close> ends the process; it is kept as it is.
\<close>

definition run_main ::
  "fpu \<Rightarrow> os \<Rightarrow> arrivals \<Rightarrow> files \<Rightarrow> host_info \<Rightarrow> (nat \<Rightarrow> u64) \<Rightarrow> string option \<Rightarrow>
   (string \<Rightarrow> bool) \<Rightarrow> string list \<Rightarrow> string list \<Rightarrow> ((exn + int) \<times> message list) option" where
  "run_main F h arrivals fs info clock path_env can_run argv envp =
     (case start_main path_env can_run argv of
        MainExit status text \<Rightarrow> Some (Inr status, [PrintText text])
      | MainRun path arguments options \<Rightarrow>
          map_option (\<lambda>(r, s). (r, s_stderr s))
            (emulator_exec (emulator_load fs path arguments envp info) (guest_units F h)
               arrivals (initial_machine options clock)))"

section \<open>The search and the options\<close>

lemma path_entries_append:
  assumes "CHR '':'' \<notin> set d"
  shows "path_entries (d @ CHR '':'' # s) = d # path_entries s"
proof -
  have "takeWhile (\<lambda>c. c \<noteq> CHR '':'') d = d" "dropWhile (\<lambda>c. c \<noteq> CHR '':'') d = []"
    using assms by auto
  then show ?thesis
    using assms by (subst path_entries.simps) (simp add: takeWhile_append dropWhile_append)
qed

text \<open>
  A colon at the end of the path adds no entry: the current directory, which an empty entry means,
  is not searched for it.
\<close>

lemma path_entries_trailing:
  "\<forall>d \<in> set ds. CHR '':'' \<notin> set d \<Longrightarrow>
     path_entries (concat (map (\<lambda>d. d @ '':'') ds)) = ds"
proof (induction ds)
  case Nil
  then show ?case by (simp add: path_entries.simps)
next
  case (Cons d ds)
  then show ?case using path_entries_append [of d "concat (map (\<lambda>d. d @ '':'') ds)"] by simp
qed

text \<open>The search answers with the first entry of the path whose file can be run.\<close>

lemma find_executable_first:
  assumes "CHR ''/'' \<notin> set command"
    and "find_executable (Some path) can_run command = file" and "file \<noteq> []"
  shows "can_run file \<and> (\<exists>pre d post. path_entries path = pre @ d # post \<and>
    file = (if d = [] then ''.'' else d) @ ''/'' @ command \<and>
    (\<forall>e \<in> set pre. \<not> can_run ((if e = [] then ''.'' else e) @ ''/'' @ command)))"
proof -
  define f where "f = (\<lambda>d. (if d = [] then ''.'' else d) @ ''/'' @ command)"
  have "find can_run (map f (path_entries path)) = Some file"
    using assms by (simp add: find_executable_def f_def split: option.splits)
  then obtain i where i: "i < length (path_entries path)" "can_run (f (path_entries path ! i))"
    "file = f (path_entries path ! i)" "\<forall>j < i. \<not> can_run (f (path_entries path ! j))"
    by (auto simp: find_Some_iff)
  then have "path_entries path = take i (path_entries path) @ path_entries path ! i # drop (Suc i) (path_entries path)"
    by (simp add: id_take_nth_drop)
  moreover have "\<forall>e \<in> set (take i (path_entries path)). \<not> can_run (f e)"
    using i(1,4) by (auto simp: in_set_conv_nth)
  ultimately show ?thesis using i(2,3) unfolding f_def by metis
qed

text \<open>What follows the guest's program belongs to the guest, options included.\<close>

lemma parse_arguments_program:
  assumes "set given \<subseteq> {''--trace'', ''--trace-syscalls'', ''--backtrace-on-exit'', ''--malloc-trace''}"
    and "program \<notin> {''-h'', ''--help'', ''--trace'', ''--trace-syscalls'', ''--backtrace-on-exit'', ''--malloc-trace''}"
  shows "parse_arguments options (given @ program # rest) =
    Some (options\<lparr>opt_trace := opt_trace options \<or> ''--trace'' \<in> set given,
      opt_trace_syscalls := opt_trace_syscalls options \<or> ''--trace-syscalls'' \<in> set given,
      opt_backtrace_on_exit := opt_backtrace_on_exit options \<or> ''--backtrace-on-exit'' \<in> set given,
      opt_malloc_trace := opt_malloc_trace options \<or> ''--malloc-trace'' \<in> set given\<rparr>, program # rest)"
  using assms(1)
proof (induction given arbitrary: options)
  case Nil
  then show ?case using assms(2) by simp
next
  case (Cons a given)
  then show ?case by auto
qed

end
