(* ===== verification/Spec2Isabelle.thy ===== *)
theory Spec2Isabelle
  imports Exec_Laws Syscall_Laws Shadow_Laws Muldiv_Laws String_Laws Stack_Laws Tracer_Laws
    Float_Laws Disassembler_Laws ELF_Laws Program
begin

text \<open>
  LinuxUserspaceEmulator runs an x86-64 Linux program in a process of its own: an interpreter of the
  instruction set over a software memory with one initialisation bit per byte, which forwards the
  program's system calls to the host and can watch its heap. This library models the program and
  proves what its parts promise.

  \<^bold>\<open>The program and its model.\<close> One machine state (\<open>Machine\<close>: the record \<open>machine\<close>) holds what
  the classes hold together: the memory (\<^verbatim>\<open>SoftMMU\<close>), the processor (\<^verbatim>\<open>SoftCPU64\<close>), the tracer
  (\<^verbatim>\<open>MallocTracer\<close>) and the emulator's own fields (\<^verbatim>\<open>Emulator\<close>), with the log of what the host was
  asked. Every method is a state function with an exception (\<open>smon\<close>, in \<open>Prelude\<close>): a C++
  \<^verbatim>\<open>throw\<close> is \<open>Inl\<close>, and the state reached before it is kept. Theories follow the sources:

  \<^item> \<open>Prelude\<close>, \<open>Types\<close>, \<open>Shadow\<close>: the monad, words, page rounding, little-endian access
    (\<^verbatim>\<open>Types.h\<close>) and values with a shadow (\<^verbatim>\<open>ValueWithShadow.h\<close>).
  \<^item> \<open>SoftMMU\<close>: the sorted region list, mapping, unmapping, protection, the search for a free
    slot, access to a byte (\<^verbatim>\<open>SoftMMU.cpp\<close>); \<open>GuestMemory\<close>: the accesses that report to the
    tracer, and all wider ones.
  \<^item> \<open>Tracer\<close>: allocation records, redzones, freed blocks, the leak search (\<^verbatim>\<open>MallocTracer.cpp\<close>).
  \<^item> \<open>CPU_Core\<close>, \<open>CPU_ALU\<close>, \<open>CPU_SSE\<close>, \<open>CPU_Float\<close>, \<open>CPU_X87\<close>, \<open>CPU_0F\<close>, \<open>CPU_Step\<close>: prefixes,
    operands and flags; arithmetic; integer vectors; SSE floating point; the x87 unit; the two opcode
    maps; one instruction (\<^verbatim>\<open>SoftCPU64.cpp\<close>, \<^verbatim>\<open>SoftCPU64.h\<close>).
  \<^item> \<open>Disassembler\<close>, \<open>Dump\<close>: the text of an instruction, register dumps, symbolised backtraces
    (\<^verbatim>\<open>SoftCPU64.cpp\<close>, \<^verbatim>\<open>Emulator.cpp\<close>).
  \<^item> \<open>ELF\<close>: the loader and the symbol reader (\<^verbatim>\<open>ELFLoader.cpp\<close>, \<^verbatim>\<open>ELFSymbols.cpp\<close>,
    \<^verbatim>\<open>ELFCommon.h\<close>).
  \<^item> \<open>Emulator\<close>, \<open>Exec\<close>: the initial stack, the break, signals, images and backtraces; the main
    loop (\<^verbatim>\<open>Emulator.cpp\<close>). \<open>Program\<close>: options and the search for the executable
    (\<^verbatim>\<open>main.cpp\<close>).
  \<^item> \<open>Host\<close>, \<open>Sys_Base\<close>, \<open>Sys_Files\<close>, \<open>Sys_Events\<close>, \<open>Sys_Sockets\<close>, \<open>Syscalls\<close>: the system
    calls (\<^verbatim>\<open>LinuxSyscalls.cpp\<close>).

  \<^bold>\<open>Parameters.\<close> The host's kernel is a function from the calls made so far to an answer
  (\<open>Host\<close>), so its answers are arbitrary but each call's arguments are the code's. The host's
  floating point and \<^verbatim>\<open>libm\<close> are the record \<open>fpu\<close> of functions on bit patterns. The files
  the loader reads at the start are a map from paths to bytes; an image read later, when a call maps
  it, has the contents its path has after the calls made so far, which include the guest's writes.
  Signals of the host arrive between two instructions: as steps of their own (\<open>emulator_step\<close>), and
  for a whole run as the list of those of each iteration (\<open>arrivals\<close>).

  \<^bold>\<open>Interfaces.\<close> The judgement \<open>sound\<close> (\<open>Sound\<close>) says of an operation that it keeps an invariant
  and throws nothing that a correct emulator never sees. \<open>Memory_Invariant\<close> states as a locale what
  a property of memory must survive (the store of one byte and the tracer's mark) for every
  instruction, signal and report to be sound for it, and that the vector registers keep their
  sixteen bytes (\<open>CPU_Type\<close>), which the bounds of their lanes rest on; \<open>Mapping_Invariant\<close> extends the locale by the mapping operations, and
  every system call, the loader and every reachable state follow. They are interpreted for the
  well-formedness of the region list and for the frame of one instruction.

  \<^bold>\<open>What the lemmas show.\<close> \<open>MMU_Spec\<close>, \<open>MMU_Access\<close>, \<open>MMU_Laws\<close>: the region list implements a
  partial map from addresses to cells, and every operation is specified on that map. \<open>Guest_Laws\<close>,
  \<open>Shadow_Laws\<close>: wide accesses, with and without the initialisation bits, across page boundaries and
  the end of the address space. \<open>Machine_Laws\<close>: memory
  safety of each instruction and the invariant of reachable states. \<open>Exec_Laws\<close>: the exceptions a
  run can meet, what a report at the end can throw, how the main loop ends and with what status.
  \<open>CPU_Laws\<close>, \<open>Register_Laws\<close>, \<open>Muldiv_Laws\<close>, \<open>String_Laws\<close>, \<open>Float_Laws\<close>,
  \<open>Decode_Laws\<close>: arithmetic, conditions, registers, division, string moves, the x87 stack, comparisons, lanes and prefixes. \<open>Disassembler_Laws\<close>: the disassembler ends, and lists
  the bytes it read. \<open>ELF_Laws\<close>: a loaded file is in memory as its headers say. \<open>Signal_Laws\<close>,
  \<open>Stack_Laws\<close>: signal frames, masks, dispatch, the break and the initial stack. \<open>Tracer_Laws\<close>: the
  two allocation maps and the leak search against reachability. \<open>Syscall_Laws\<close>: what the calls do to
  memory, the bytes they copy, descriptors and errors.

  \<^bold>\<open>Loops.\<close> Three loops of the sources have no evident bound: the scans of prefixes by the
  processor and by the disassembler, and the search for a free slot. They are partial functions
  whose missing result is the exception \<open>Diverges\<close>;
  all are proved to end in every well-formed memory. The leak search is a total function, by the
  number of blocks not yet reached and the length of its work list. The main loop is a step relation
  and, with the signals that arrive given, a partial function whose missing result is a guest that
  runs for ever. Out-of-range indices and
  undefined shifts, over-reads and null pointers of the sources are the exceptions \<open>OutOfRange\<close> and
  \<open>UndefinedBehaviour\<close>. The one undefined operation with a value is the negation of the smallest
  64-bit immediate in the disassembler's text, which wraps as the compilers have it.

  \<^bold>\<open>Not modelled.\<close> The wording of the tracer's reports and of errors, which are values of a
  message type and of an error type. The installation of the emulator's own signal handlers.
  Exhaustion of the emulator's own memory. The value of a floating-point operation. The guest programs and
  scripts of the tests and the build description.
\<close>

end
